(* ===== verification/Prelude.thy ===== *)
theory Prelude
  imports Main "HOL-Library.Word" "HOL-Library.List_Lexorder" "HOL-Library.Char_ord"
begin

section \<open>Shared vocabulary\<close>

text \<open>
  The types, the Rust standard-library operations on strings, machine integers and
  \<open>Result\<close> values that the component theories share, and the lemma collections that carry
  their proofs.

  A Rust \<open>String\<close> or \<open>&str\<close> is the list of its UTF-8 bytes, a HOL \<open>string\<close> (a HOL
  \<open>char\<close> is exactly one byte), so that \<open>as_bytes\<close> is the identity and the order of two
  strings is the lexicographic order of their bytes, as in Rust. A \<open>Vec<u8>\<close> and a \<open>[u8; n]\<close>
  are byte lists too. Unsigned integers keep their width as words; an \<open>i64\<close> is an \<open>int\<close> with
  the two's-complement wrap-around of release builds written out.
\<close>

type_synonym str = string
type_synonym bytes = string
type_synonym u8 = "8 word"
type_synonym u16 = "16 word"
type_synonym u32 = "32 word"
type_synonym u64 = "64 word"
type_synonym u128 = "128 word"

named_theorems res_simps \<open>inversion of Result chains\<close>
named_theorems str_simps \<open>strings\<close>

subsection \<open>Result values\<close>

text \<open>The \<open>?\<close> operator: \<open>Inl\<close> is an error and stops the chain.\<close>

fun rbind :: "'e + 'a \<Rightarrow> ('a \<Rightarrow> 'e + 'b) \<Rightarrow> 'e + 'b" where
  "rbind (Inl e) f = Inl e"
| "rbind (Inr x) f = f x"

fun ok_or :: "'a option \<Rightarrow> 'e \<Rightarrow> 'e + 'a" where
  "ok_or None e = Inl e"
| "ok_or (Some x) e = Inr x"

definition ensure :: "bool \<Rightarrow> 'e \<Rightarrow> 'e + unit" where
  "ensure c e = (if c then Inr () else Inl e)"

fun map_err :: "('e \<Rightarrow> 'f) \<Rightarrow> 'e + 'a \<Rightarrow> 'f + 'a" where
  "map_err f (Inl e) = Inl (f e)"
| "map_err f (Inr x) = Inr x"

fun res_ok :: "'e + 'a \<Rightarrow> 'a option" where
  "res_ok (Inl e) = None"
| "res_ok (Inr x) = Some x"

fun rmap :: "('a \<Rightarrow> 'e + 'b) \<Rightarrow> 'a list \<Rightarrow> 'e + 'b list" where
  "rmap f [] = Inr []"
| "rmap f (x # xs) = rbind (f x) (\<lambda>y. rbind (rmap f xs) (\<lambda>ys. Inr (y # ys)))"

lemma rbind_Inr_iff [res_simps]: "rbind m f = Inr y \<longleftrightarrow> (\<exists>x. m = Inr x \<and> f x = Inr y)"
  by (cases m) auto

lemma rbind_Inl_iff: "rbind m f = Inl e \<longleftrightarrow> m = Inl e \<or> (\<exists>x. m = Inr x \<and> f x = Inl e)"
  by (cases m) auto

lemma ok_or_Inr_iff [res_simps]: "ok_or v e = Inr x \<longleftrightarrow> v = Some x"
  by (cases v) auto

lemma ensure_Inr_iff [res_simps]: "ensure c e = Inr u \<longleftrightarrow> c"
  by (simp add: ensure_def)

lemma ensure_simps [simp]: "ensure True e = Inr ()" "ensure False e = Inl e"
  by (simp_all add: ensure_def)

lemma map_err_Inr_iff [res_simps]: "map_err f m = Inr x \<longleftrightarrow> m = Inr x"
  by (cases m) auto

lemma res_ok_Some_iff [res_simps]: "res_ok m = Some x \<longleftrightarrow> m = Inr x"
  by (cases m) auto

lemma rmap_Inr: "(\<And>x. x \<in> set xs \<Longrightarrow> f x = Inr (g x)) \<Longrightarrow> rmap f xs = Inr (map g xs)"
  by (induction xs) auto

lemma rmap_Inr_iff [res_simps]: "rmap f xs = Inr ys \<longleftrightarrow> list_all2 (\<lambda>x y. f x = Inr y) xs ys"
  by (induction xs arbitrary: ys) (auto simp: rbind_Inr_iff list_all2_Cons1)

subsection \<open>Machine integers\<close>

definition sat_sub :: "'a::len word \<Rightarrow> 'a word \<Rightarrow> 'a word" where
  "sat_sub a b = (if a < b then 0 else a - b)"

definition sat_add :: "'a::len word \<Rightarrow> 'a word \<Rightarrow> 'a word" where
  "sat_add a b = (if uint a + uint b < 2 ^ LENGTH('a) then a + b else - 1)"

definition sat_mul :: "'a::len word \<Rightarrow> 'a word \<Rightarrow> 'a word" where
  "sat_mul a b = (if uint a * uint b < 2 ^ LENGTH('a) then a * b else - 1)"

lemma unat_max_word: "unat (- 1 :: 'a::len word) = 2 ^ LENGTH('a) - 1"
  by (simp add: unsigned_minus_1_eq_mask mask_eq_exp_minus_1)

lemma unat_u64: "unat (w :: u64) < 2 ^ 64"
  using unsigned_less[of w, where ?'a = nat] by simp

lemma unat_exp: "k < LENGTH('a) \<Longrightarrow> unat (2 ^ k :: 'a::len word) = 2 ^ k"
proof -
  assume "k < LENGTH('a)"
  then have "(2::nat) ^ k < 2 ^ LENGTH('a)" by (simp add: power_strict_increasing)
  then have "unat (word_of_nat (2 ^ k) :: 'a word) = 2 ^ k"
    by (simp only: unsigned_of_nat take_bit_nat_eq_self of_nat_id)
  then show ?thesis by (simp only: of_nat_power of_nat_numeral)
qed

lemma unat_sat_sub: "unat (sat_sub a b) = unat a - unat b"
  by (auto simp: sat_sub_def unat_sub_if' word_less_nat_alt)

lemma uint_as_unat: "uint a = int (unat a)"
  by simp

lemma unat_sat_add:
  fixes a b :: "'a::len word"
  shows "unat (sat_add a b) = min (unat a + unat b) (2 ^ LENGTH('a) - 1)"
proof -
  have "uint a + uint b < 2 ^ LENGTH('a) \<longleftrightarrow> unat a + unat b < 2 ^ LENGTH('a)"
    unfolding uint_as_unat by (metis of_nat_add of_nat_less_iff of_nat_numeral of_nat_power)
  then show ?thesis
    by (auto simp: sat_add_def unat_word_ariths unat_max_word)
qed

lemma unat_sat_mul:
  fixes a b :: "'a::len word"
  shows "unat (sat_mul a b) = min (unat a * unat b) (2 ^ LENGTH('a) - 1)"
proof -
  have "uint a * uint b < 2 ^ LENGTH('a) \<longleftrightarrow> unat a * unat b < 2 ^ LENGTH('a)"
    unfolding uint_as_unat by (metis of_nat_mult of_nat_less_iff of_nat_numeral of_nat_power)
  then show ?thesis
    by (auto simp: sat_mul_def unat_word_ariths unat_max_word)
qed

lemma unat_min: "unat (min a b) = min (unat a) (unat b)"
  by (simp add: min_def word_le_nat_alt)

lemma unat_max: "unat (max a b) = max (unat a) (unat b)"
  by (simp add: max_def word_le_nat_alt)

text \<open>\<open>i64\<close>: addition wraps modulo \<open>2 ^ 64\<close> into the signed range.\<close>

definition wrap_i64 :: "int \<Rightarrow> int" where
  "wrap_i64 x = (x + 2 ^ 63) mod 2 ^ 64 - 2 ^ 63"

definition in_i64 :: "int \<Rightarrow> bool" where
  "in_i64 x \<longleftrightarrow> - (2 ^ 63) \<le> x \<and> x < 2 ^ 63"

definition i64_add :: "int \<Rightarrow> int \<Rightarrow> int" where
  "i64_add x y = wrap_i64 (x + y)"

lemma wrap_i64_id: "in_i64 x \<Longrightarrow> wrap_i64 x = x"
  by (simp add: wrap_i64_def in_i64_def)

lemma in_i64_wrap: "in_i64 (wrap_i64 x)"
proof -
  have "0 \<le> (x + 2 ^ 63) mod 2 ^ 64" "(x + 2 ^ 63) mod 2 ^ 64 < (2::int) ^ 64"
    by simp_all
  then show ?thesis by (simp add: wrap_i64_def in_i64_def)
qed

lemma wrap_i64_add_left: "wrap_i64 (wrap_i64 x + y) = wrap_i64 (x + y)"
proof -
  have "((x + 2 ^ 63) mod 2 ^ 64 - 2 ^ 63 + y + 2 ^ 63) mod (2::int) ^ 64
      = ((x + 2 ^ 63) mod 2 ^ 64 + y) mod 2 ^ 64"
    by simp
  also have "\<dots> = (x + 2 ^ 63 + y) mod 2 ^ 64"
    by (rule mod_add_left_eq)
  finally show ?thesis by (simp add: wrap_i64_def algebra_simps)
qed

subsection \<open>Strings\<close>

definition starts_with :: "str \<Rightarrow> str \<Rightarrow> bool" where
  "starts_with p s \<longleftrightarrow> take (length p) s = p"

definition strip_prefix :: "str \<Rightarrow> str \<Rightarrow> str option" where
  "strip_prefix p s = (if starts_with p s then Some (drop (length p) s) else None)"

definition strip_suffix :: "str \<Rightarrow> str \<Rightarrow> str option" where
  "strip_suffix p s = map_option rev (strip_prefix (rev p) (rev s))"

lemma starts_with_append [simp]: "starts_with p (p @ s)"
  by (simp add: starts_with_def)

lemma strip_prefix_append [simp]: "strip_prefix p (p @ s) = Some s"
  by (simp add: strip_prefix_def)

lemma strip_prefix_Some_iff: "strip_prefix p s = Some t \<longleftrightarrow> s = p @ t"
  by (auto simp: strip_prefix_def starts_with_def dest: sym[of "take _ _"]) (metis append_take_drop_id)

lemma starts_with_iff: "starts_with p s \<longleftrightarrow> (\<exists>t. s = p @ t)"
  by (metis starts_with_append strip_prefix_Some_iff strip_prefix_def)

lemma strip_suffix_append [simp]: "strip_suffix p (s @ p) = Some s"
  by (simp add: strip_suffix_def)

text \<open>Repeatedly removes a leading member of \<open>cs\<close>.\<close>

definition lead :: "str list \<Rightarrow> str \<Rightarrow> nat" where
  "lead cs s = (case find (\<lambda>c. starts_with c s) cs of None \<Rightarrow> 0 | Some c \<Rightarrow> length c)"

function strip_lead :: "str list \<Rightarrow> str \<Rightarrow> str" where
  "strip_lead cs s = (if s = [] \<or> lead cs s = 0 then s else strip_lead cs (drop (lead cs s) s))"
  by pat_completeness auto
termination
  by (relation "measure (\<lambda>(cs, s). length s)") auto

declare strip_lead.simps [simp del]

text \<open>
  \<open>str::trim\<close> removes the characters with the Unicode property White\_Space, here by their
  UTF-8 encodings.
\<close>

definition ws_codes :: "str list" where
  "ws_codes =
     [[CHR 0x20], [CHR 0x09], [CHR 0x0A], [CHR 0x0B], [CHR 0x0C], [CHR 0x0D],
      [CHR 0xC2, CHR 0x85], [CHR 0xC2, CHR 0xA0], [CHR 0xE1, CHR 0x9A, CHR 0x80],
      [CHR 0xE2, CHR 0x80, CHR 0x80], [CHR 0xE2, CHR 0x80, CHR 0x81],
      [CHR 0xE2, CHR 0x80, CHR 0x82], [CHR 0xE2, CHR 0x80, CHR 0x83],
      [CHR 0xE2, CHR 0x80, CHR 0x84], [CHR 0xE2, CHR 0x80, CHR 0x85],
      [CHR 0xE2, CHR 0x80, CHR 0x86], [CHR 0xE2, CHR 0x80, CHR 0x87],
      [CHR 0xE2, CHR 0x80, CHR 0x88], [CHR 0xE2, CHR 0x80, CHR 0x89],
      [CHR 0xE2, CHR 0x80, CHR 0x8A], [CHR 0xE2, CHR 0x80, CHR 0xA8],
      [CHR 0xE2, CHR 0x80, CHR 0xA9], [CHR 0xE2, CHR 0x80, CHR 0xAF],
      [CHR 0xE2, CHR 0x81, CHR 0x9F], [CHR 0xE3, CHR 0x80, CHR 0x80]]"

definition trim_start :: "str \<Rightarrow> str" where
  "trim_start s = strip_lead ws_codes s"

definition trim_end :: "str \<Rightarrow> str" where
  "trim_end s = rev (strip_lead (map rev ws_codes) (rev s))"

definition trim :: "str \<Rightarrow> str" where
  "trim s = trim_end (trim_start s)"

definition trim_end_matches :: "str \<Rightarrow> str \<Rightarrow> str" where
  "trim_end_matches p s = rev (strip_lead [rev p] (rev s))"

definition trim_start_matches :: "str \<Rightarrow> str \<Rightarrow> str" where
  "trim_start_matches p s = strip_lead [p] s"

definition ascii_lower :: "char \<Rightarrow> char" where
  "ascii_lower c = (if CHR ''A'' \<le> c \<and> c \<le> CHR ''Z'' then char_of (of_char c + 32 :: nat) else c)"

definition ascii_upper :: "char \<Rightarrow> char" where
  "ascii_upper c = (if CHR ''a'' \<le> c \<and> c \<le> CHR ''z'' then char_of (of_char c - 32 :: nat) else c)"

abbreviation to_ascii_lowercase :: "str \<Rightarrow> str" where
  "to_ascii_lowercase \<equiv> map ascii_lower"

abbreviation to_ascii_uppercase :: "str \<Rightarrow> str" where
  "to_ascii_uppercase \<equiv> map ascii_upper"

definition eq_ignore_ascii_case :: "str \<Rightarrow> str \<Rightarrow> bool" where
  "eq_ignore_ascii_case a b \<longleftrightarrow> to_ascii_lowercase a = to_ascii_lowercase b"

definition replace_char :: "char \<Rightarrow> str \<Rightarrow> str \<Rightarrow> str" where
  "replace_char c r s = concat (map (\<lambda>x. if x = c then r else [x]) s)"

fun split_on :: "char \<Rightarrow> str \<Rightarrow> str list" where
  "split_on c [] = [[]]"
| "split_on c (x # xs) =
     (if x = c then [] # split_on c xs
      else (case split_on c xs of [] \<Rightarrow> [[x]] | y # ys \<Rightarrow> (x # y) # ys))"

fun split_once :: "char \<Rightarrow> str \<Rightarrow> (str \<times> str) option" where
  "split_once c [] = None"
| "split_once c (x # xs) =
     (if x = c then Some ([], xs) else map_option (\<lambda>(a, b). (x # a, b)) (split_once c xs))"

fun join :: "str \<Rightarrow> str list \<Rightarrow> str" where
  "join sep [] = []"
| "join sep [x] = x"
| "join sep (x # xs) = x @ sep @ join sep xs"

text \<open>\<open>Option::unwrap_or\<close>.\<close>

definition opt_or :: "'a option \<Rightarrow> 'a \<Rightarrow> 'a" where
  "opt_or v d = (case v of None \<Rightarrow> d | Some x \<Rightarrow> x)"

text \<open>\<open>str::lines\<close>: split at line feeds, no empty last line, one trailing carriage return dropped.\<close>

definition strip_cr :: "str \<Rightarrow> str" where
  "strip_cr l = (case strip_suffix [CHR 0x0D] l of None \<Rightarrow> l | Some t \<Rightarrow> t)"

definition lines :: "str \<Rightarrow> str list" where
  "lines s = (let ls = split_on (CHR 0x0A) s
              in map strip_cr (if last ls = [] then butlast ls else ls))"

text \<open>Decimal rendering of an unsigned integer.\<close>

function show_digits :: "int \<Rightarrow> str" where
  "show_digits n = (if n < 10 then [char_of (48 + n)] else show_digits (n div 10) @ [char_of (48 + n mod 10)])"
  by pat_completeness auto
termination
  by (relation "measure nat") auto

declare show_digits.simps [simp del]

definition show_int :: "int \<Rightarrow> str" where
  "show_int i = (if i < 0 then ''-'' @ show_digits (- i) else show_digits i)"

definition show_nat :: "nat \<Rightarrow> str" where
  "show_nat n = show_int (int n)"

text \<open>
  \<open>str::parse\<close> and \<open>from_str_radix\<close> of an unsigned integer below \<open>limit\<close>: one optional plus sign,
  at least one digit, no overflow. The value is an \<open>int\<close>.
\<close>

definition digit_val :: "char \<Rightarrow> int option" where
  "digit_val c = (let n = of_char c in
     if 48 \<le> n \<and> n \<le> 57 then Some (n - 48)
     else if 97 \<le> n \<and> n \<le> 122 then Some (n - 87)
     else if 65 \<le> n \<and> n \<le> 90 then Some (n - 55) else None)"

fun parse_digits :: "int \<Rightarrow> int \<Rightarrow> int \<Rightarrow> str \<Rightarrow> int option" where
  "parse_digits base limit acc [] = Some acc"
| "parse_digits base limit acc (c # cs) =
     (case digit_val c of
        None \<Rightarrow> None
      | Some d \<Rightarrow> if d < base \<and> acc * base + d < limit then parse_digits base limit (acc * base + d) cs else None)"

definition parse_uint :: "int \<Rightarrow> int \<Rightarrow> str \<Rightarrow> int option" where
  "parse_uint base limit s =
     (let ds = (case s of c # cs \<Rightarrow> if c = CHR ''+'' then cs else s | [] \<Rightarrow> s)
      in if ds = [] then None else parse_digits base limit 0 ds)"

definition parse_u64 :: "str \<Rightarrow> u64 option" where
  "parse_u64 s = map_option word_of_int (parse_uint 10 (2 ^ 64) s)"

definition parse_u32 :: "str \<Rightarrow> u32 option" where
  "parse_u32 s = map_option word_of_int (parse_uint 10 (2 ^ 32) s)"

definition parse_u16 :: "str \<Rightarrow> u16 option" where
  "parse_u16 s = map_option word_of_int (parse_uint 10 (2 ^ 16) s)"

definition show_u64 :: "u64 \<Rightarrow> str" where
  "show_u64 n = show_int (uint n)"

definition show_u32 :: "u32 \<Rightarrow> str" where
  "show_u32 n = show_int (uint n)"

end
