(* ===== verification/Containers.thy ===== *)
theory Containers
  imports Prelude "HOL-Library.Multiset"
begin

section \<open>Maps and sorting of the Rust standard library\<close>

text \<open>
  A \<open>BTreeMap\<close> is an association list with strictly increasing keys: its iteration order, which
  the rendered documents expose, is the list order. A \<open>HashMap\<close> is the same list, because the
  modelled code never observes a hash map's iteration order. \<open>slice::sort_by\<close> is a stable
  insertion sort over a Rust comparator.

  The interface of a map is the locale \<open>ordered_map\<close>, the interface of a comparator the locale
  \<open>total_cmp\<close>; both are interpreted on the definitions below.
\<close>

subsection \<open>Ordered maps\<close>

abbreviation bt_get :: "('k \<times> 'v) list \<Rightarrow> 'k \<Rightarrow> 'v option" where
  "bt_get \<equiv> map_of"

abbreviation bt_keys :: "('k \<times> 'v) list \<Rightarrow> 'k list" where
  "bt_keys m \<equiv> map fst m"

fun bt_insert :: "'k::linorder \<Rightarrow> 'v \<Rightarrow> ('k \<times> 'v) list \<Rightarrow> ('k \<times> 'v) list" where
  "bt_insert k v [] = [(k, v)]"
| "bt_insert k v ((k', v') # m) =
     (if k < k' then (k, v) # (k', v') # m
      else if k = k' then (k, v) # m
      else (k', v') # bt_insert k v m)"

definition bt_ok :: "('k::linorder \<times> 'v) list \<Rightarrow> bool" where
  "bt_ok m \<longleftrightarrow> sorted_wrt (<) (bt_keys m)"

text \<open>\<open>entry(k).or_insert(v)\<close>, \<open>extend\<close> and \<open>retain\<close>.\<close>

definition bt_or_insert :: "'k::linorder \<Rightarrow> 'v \<Rightarrow> ('k \<times> 'v) list \<Rightarrow> ('k \<times> 'v) list" where
  "bt_or_insert k v m = (case bt_get m k of None \<Rightarrow> bt_insert k v m | Some _ \<Rightarrow> m)"

definition bt_of_list :: "('k::linorder \<times> 'v) list \<Rightarrow> ('k \<times> 'v) list" where
  "bt_of_list kvs = fold (\<lambda>(k, v). bt_insert k v) kvs []"

definition bt_extend :: "('k::linorder \<times> 'v) list \<Rightarrow> ('k \<times> 'v) list \<Rightarrow> ('k \<times> 'v) list" where
  "bt_extend m kvs = fold (\<lambda>(k, v). bt_insert k v) kvs m"

definition bt_retain :: "('k \<Rightarrow> 'v \<Rightarrow> bool) \<Rightarrow> ('k \<times> 'v) list \<Rightarrow> ('k \<times> 'v) list" where
  "bt_retain p m = filter (\<lambda>(k, v). p k v) m"

text \<open>\<open>*entry(k).or_default() += n\<close> on counters, with the addition of the counter's type.\<close>

definition bt_add :: "('v \<Rightarrow> 'v \<Rightarrow> 'v) \<Rightarrow> 'v::zero \<Rightarrow> 'k::linorder \<Rightarrow> ('k \<times> 'v) list \<Rightarrow> ('k \<times> 'v) list" where
  "bt_add f n k m = bt_insert k (f (case bt_get m k of None \<Rightarrow> 0 | Some c \<Rightarrow> c) n) m"

locale ordered_map =
  fixes get :: "'m \<Rightarrow> 'k \<Rightarrow> 'v option"
    and put :: "'k \<Rightarrow> 'v \<Rightarrow> 'm \<Rightarrow> 'm"
    and ok :: "'m \<Rightarrow> bool"
  assumes get_put: "get (put k v m) = (get m)(k \<mapsto> v)"
    and ok_put: "ok m \<Longrightarrow> ok (put k v m)"
begin

lemma get_put_same: "get (put k v m) k = Some v"
  by (simp add: get_put)

lemma get_put_other: "k \<noteq> k' \<Longrightarrow> get (put k v m) k' = get m k'"
  by (simp add: get_put)

lemma ok_fold_put: "ok m \<Longrightarrow> ok (fold (\<lambda>(k, v). put k v) kvs m)"
  by (induction kvs arbitrary: m) (auto intro: ok_put)

lemma get_fold_put_notin:
  "k \<notin> fst ` set kvs \<Longrightarrow> get (fold (\<lambda>(k, v). put k v) kvs m) k = get m k"
  by (induction kvs arbitrary: m) (auto simp: get_put)

text \<open>Counting the elements of a list into the map.\<close>

lemma get_fold_count:
  "get (fold (\<lambda>x. if P x then (\<lambda>m. put (f x) (g (get m (f x)) x) m) else id) xs m) k
   = fold (\<lambda>x v. Some (g v x)) (filter (\<lambda>x. P x \<and> f x = k) xs) (get m k)"
  by (induction xs arbitrary: m) (auto simp: get_put)

lemma ok_fold_count:
  "ok m \<Longrightarrow> ok (fold (\<lambda>x. if P x then (\<lambda>m. put (f x) (g (get m (f x)) x) m) else id) xs m)"
  by (induction xs arbitrary: m) (auto intro: ok_put)

end

lemma bt_get_insert: "bt_get (bt_insert k v m) = (bt_get m)(k \<mapsto> v)"
  by (induction m) auto

lemma bt_keys_insert: "set (bt_keys (bt_insert k v m)) = insert k (set (bt_keys m))"
proof -
  have "dom (bt_get (bt_insert k v m)) = insert k (dom (bt_get m))"
    by (simp add: bt_get_insert)
  then show ?thesis by (simp add: dom_map_of_conv_image_fst)
qed

lemma bt_ok_insert: "bt_ok m \<Longrightarrow> bt_ok (bt_insert k v m)"
proof (induction m)
  case Nil
  show ?case by (simp add: bt_ok_def)
next
  case (Cons a m)
  then show ?case
    using bt_keys_insert[of k v m] by (cases a) (auto simp: bt_ok_def)
qed

interpretation bt: ordered_map bt_get bt_insert bt_ok
  by unfold_locales (simp_all add: bt_get_insert bt_ok_insert)

lemma bt_ok_Nil [simp]: "bt_ok []"
  by (simp add: bt_ok_def)

lemma bt_ok_distinct: "bt_ok m \<Longrightarrow> distinct (bt_keys m)"
  by (simp add: bt_ok_def strict_sorted_iff)

lemma bt_get_or_insert:
  "bt_get (bt_or_insert k v m) = (case bt_get m k of None \<Rightarrow> (bt_get m)(k \<mapsto> v) | Some _ \<Rightarrow> bt_get m)"
  by (simp add: bt_or_insert_def bt_get_insert split: option.split)

lemma bt_ok_or_insert: "bt_ok m \<Longrightarrow> bt_ok (bt_or_insert k v m)"
  by (simp add: bt_or_insert_def bt_ok_insert split: option.split)

lemma bt_get_retain: "bt_ok m \<Longrightarrow> bt_get (bt_retain p m) k =
    (case bt_get m k of None \<Rightarrow> None | Some v \<Rightarrow> if p k v then Some v else None)"
proof (induction m)
  case Nil
  show ?case by (simp add: bt_retain_def)
next
  case (Cons a m)
  obtain k' v' where a: "a = (k', v')" by force
  have ok: "bt_ok m" and notin: "bt_get m k' = None"
    using bt_ok_distinct[OF Cons.prems] Cons.prems a by (auto simp: bt_ok_def map_of_eq_None_iff)
  from Cons.IH[OF ok] show ?case
    using notin a by (auto simp: bt_retain_def split: option.splits)
qed

lemma bt_ok_retain: "bt_ok m \<Longrightarrow> bt_ok (bt_retain p m)"
  by (induction m) (auto simp: bt_ok_def bt_retain_def split: if_splits)

lemma bt_get_extend: "bt_get (bt_extend m kvs) = bt_get m ++ map_of (rev kvs)"
  unfolding bt_extend_def
  by (induction kvs arbitrary: m) (auto simp: bt_get_insert map_add_def fun_eq_iff split: option.splits)

lemma bt_of_list_extend: "bt_of_list kvs = bt_extend [] kvs"
  by (simp add: bt_of_list_def bt_extend_def)

lemma map_of_rev_ok: "bt_ok m \<Longrightarrow> map_of (rev m) = map_of m"
  by (rule map_of_inject_set[THEN iffD2]) (simp_all add: bt_ok_distinct rev_map[symmetric])

lemma list_all_bt_insert: "P (k, v) \<Longrightarrow> list_all P m \<Longrightarrow> list_all P (bt_insert k v m)"
  by (induction m) auto

lemma list_all_bt_retain: "list_all P m \<Longrightarrow> list_all P (bt_retain p m)"
  by (simp add: bt_retain_def list_all_iff)

lemma list_all_bt_get: "list_all (\<lambda>(k, e). P e) m \<Longrightarrow> bt_get m k = Some e \<Longrightarrow> P e"
  by (auto simp: list_all_iff dest: map_of_SomeD)

subsection \<open>Comparators and \<open>sort_by\<close>\<close>

datatype ordering = Less | Equal | Greater

instantiation ordering :: linorder
begin

fun rank_ordering :: "ordering \<Rightarrow> nat" where
  "rank_ordering Less = 0"
| "rank_ordering Equal = 1"
| "rank_ordering Greater = 2"

definition less_eq_ordering :: "ordering \<Rightarrow> ordering \<Rightarrow> bool" where
  "less_eq_ordering a b \<longleftrightarrow> rank_ordering a \<le> rank_ordering b"

definition less_ordering :: "ordering \<Rightarrow> ordering \<Rightarrow> bool" where
  "less_ordering a b \<longleftrightarrow> rank_ordering a < rank_ordering b"

instance
proof
  fix a b c :: ordering
  show "a < b \<longleftrightarrow> a \<le> b \<and> \<not> b \<le> a" "a \<le> a" "a \<le> b \<or> b \<le> a"
    by (auto simp: less_eq_ordering_def less_ordering_def)
  show "a \<le> b \<Longrightarrow> b \<le> c \<Longrightarrow> a \<le> c"
    by (auto simp: less_eq_ordering_def)
  show "a \<le> b \<Longrightarrow> b \<le> a \<Longrightarrow> a = b"
    by (cases a; cases b) (auto simp: less_eq_ordering_def)
qed

end

definition cmp_of :: "'a::linorder \<Rightarrow> 'a \<Rightarrow> ordering" where
  "cmp_of a b = (if a < b then Less else if a = b then Equal else Greater)"

fun then_with :: "ordering \<Rightarrow> ordering \<Rightarrow> ordering" where
  "then_with Equal o2 = o2"
| "then_with o1 o2 = o1"

fun insert_by :: "('a \<Rightarrow> 'a \<Rightarrow> ordering) \<Rightarrow> 'a \<Rightarrow> 'a list \<Rightarrow> 'a list" where
  "insert_by cmp x [] = [x]"
| "insert_by cmp x (y # ys) = (if cmp x y = Greater then y # insert_by cmp x ys else x # y # ys)"

definition sort_by :: "('a \<Rightarrow> 'a \<Rightarrow> ordering) \<Rightarrow> 'a list \<Rightarrow> 'a list" where
  "sort_by cmp xs = foldr (insert_by cmp) xs []"

locale total_cmp =
  fixes cmp :: "'a \<Rightarrow> 'a \<Rightarrow> ordering"
  assumes cmp_swap: "cmp x y = Greater \<longleftrightarrow> cmp y x = Less"
    and cmp_trans: "cmp x y \<noteq> Greater \<Longrightarrow> cmp y z \<noteq> Greater \<Longrightarrow> cmp x z \<noteq> Greater"
begin

lemma cmp_refl: "cmp x x = Equal"
  using cmp_swap[of x x] by (cases "cmp x x") auto

lemma set_insert_by: "set (insert_by cmp x ys) = insert x (set ys)"
  by (induction ys) auto

lemma sorted_insert_by:
  "sorted_wrt (\<lambda>a b. cmp a b \<noteq> Greater) ys \<Longrightarrow> sorted_wrt (\<lambda>a b. cmp a b \<noteq> Greater) (insert_by cmp x ys)"
proof (induction ys)
  case Nil
  show ?case by simp
next
  case (Cons y ys)
  show ?case
  proof (cases "cmp x y = Greater")
    case True
    then have "cmp y x \<noteq> Greater" using cmp_swap[of x y] cmp_swap[of y x] by auto
    with True Cons show ?thesis by (auto simp: set_insert_by)
  next
    case False
    with Cons.prems show ?thesis using cmp_trans[OF False] by auto
  qed
qed

lemma sorted_sort_by: "sorted_wrt (\<lambda>a b. cmp a b \<noteq> Greater) (sort_by cmp xs)"
  by (induction xs) (simp_all add: sort_by_def sorted_insert_by)

lemma filter_insert_by:
  "P x \<Longrightarrow> (\<And>y. y \<in> set ys \<Longrightarrow> P y \<Longrightarrow> cmp x y \<noteq> Greater) \<Longrightarrow>
   filter P (insert_by cmp x ys) = x # filter P ys"
  by (induction ys) auto

lemma filter_insert_by_other: "\<not> P x \<Longrightarrow> filter P (insert_by cmp x ys) = filter P ys"
  by (induction ys) auto

text \<open>Stability: elements that compare equal to a given one keep their order.\<close>

lemma stable_sort_by: "filter (\<lambda>y. cmp x y = Equal) (sort_by cmp xs) = filter (\<lambda>y. cmp x y = Equal) xs"
proof (induction xs)
  case Nil
  show ?case by (simp add: sort_by_def)
next
  case (Cons a xs)
  show ?case
  proof (cases "cmp x a = Equal")
    case True
    then have ax: "cmp a x \<noteq> Greater" using cmp_swap[of a x] by auto
    have "cmp a y \<noteq> Greater" if "cmp x y = Equal" for y
      using that by (intro cmp_trans[OF ax]) simp
    with True Cons show ?thesis
      by (simp add: sort_by_def filter_insert_by)
  next
    case False
    with Cons show ?thesis by (simp add: sort_by_def filter_insert_by_other)
  qed
qed

end

lemma mset_insert_by: "mset (insert_by cmp x ys) = add_mset x (mset ys)"
  by (induction ys) auto

lemma mset_sort_by [simp]: "mset (sort_by cmp xs) = mset xs"
  by (induction xs) (simp_all add: sort_by_def mset_insert_by)

lemma set_sort_by [simp]: "set (sort_by cmp xs) = set xs"
  by (metis mset_sort_by set_mset_mset)

lemma length_sort_by [simp]: "length (sort_by cmp xs) = length xs"
  by (metis mset_sort_by size_mset)

text \<open>The comparators the code builds: a key of a linear order, its reverse, and \<open>then_with\<close>.\<close>

lemma cmp_of_simps [simp]:
  "cmp_of a b = Less \<longleftrightarrow> a < b" "cmp_of a b = Equal \<longleftrightarrow> a = b" "cmp_of a b = Greater \<longleftrightarrow> b < a"
  by (auto simp: cmp_of_def)

lemma total_cmp_key: "total_cmp (\<lambda>a b. cmp_of (f a) (f b))"
  by unfold_locales auto

lemma total_cmp_key_rev: "total_cmp (\<lambda>a b. cmp_of (f b) (f a))"
  by unfold_locales auto

lemma then_with_simps [simp]:
  "then_with o1 o2 = Greater \<longleftrightarrow> o1 = Greater \<or> (o1 = Equal \<and> o2 = Greater)"
  "then_with o1 o2 = Less \<longleftrightarrow> o1 = Less \<or> (o1 = Equal \<and> o2 = Less)"
  "then_with o1 o2 = Equal \<longleftrightarrow> o1 = Equal \<and> o2 = Equal"
  by (cases o1; simp)+

lemma total_cmp_then:
  assumes "total_cmp c1" "total_cmp c2"
  shows "total_cmp (\<lambda>a b. then_with (c1 a b) (c2 a b))"
proof
  fix x y z
  have eq: "c1 a b = Equal \<longleftrightarrow> c1 b a = Equal" for a b
    using total_cmp.cmp_swap[OF assms(1), of a b] total_cmp.cmp_swap[OF assms(1), of b a]
    by (cases "c1 a b"; cases "c1 b a"; simp)
  show "then_with (c1 x y) (c2 x y) = Greater \<longleftrightarrow> then_with (c1 y x) (c2 y x) = Less"
    using total_cmp.cmp_swap[OF assms(1)] total_cmp.cmp_swap[OF assms(2)] eq by auto
  assume 1: "then_with (c1 x y) (c2 x y) \<noteq> Greater" and 2: "then_with (c1 y z) (c2 y z) \<noteq> Greater"
  have xz: "c1 x z \<noteq> Greater" using 1 2 total_cmp.cmp_trans[OF assms(1), of x y z] by auto
  have "c2 x z \<noteq> Greater" if e: "c1 x z = Equal"
  proof -
    have "c1 z x \<noteq> Greater" using e eq[of x z] by simp
    then have "c1 y x \<noteq> Greater" "c1 z y \<noteq> Greater"
      using 1 2 total_cmp.cmp_trans[OF assms(1)] by (metis then_with_simps(1))+
    then have "c1 x y = Equal" "c1 y z = Equal"
      using 1 2 total_cmp.cmp_swap[OF assms(1)] by (metis ordering.exhaust then_with_simps(1))+
    with 1 2 show ?thesis using total_cmp.cmp_trans[OF assms(2), of x y z] by auto
  qed
  with xz show "then_with (c1 x z) (c2 x z) \<noteq> Greater" by auto
qed

end
