(* ===== verification/External.thy ===== *)
theory External
  imports Containers
begin

section \<open>What the program uses and does not define\<close>

text \<open>
  Third-party code is a parameter: the record \<open>lib\<close> holds the functions of the crates \<open>sha2\<close>,
  \<open>hex\<close>, \<open>base64\<close>, \<open>serde_json\<close>, \<open>ed25519_dalek\<close>, \<open>http\<close> and \<open>unified-quote\<close> that the sources call, and
  every definition that uses one takes the record as an argument. Component theories extend it
  with the functions only they use. Properties that rely on the behaviour of such code state it
  as a named predicate on the record (\<open>hex_law\<close>, \<open>b64_law\<close>, \<open>sig_law\<close>), which a reference
  instance, \<open>ref_lib\<close>, satisfies.

  \<open>serde_json::Value\<close>, \<open>unified_quote::quote::Platform\<close> and \<open>unified_quote::eat::EatToken\<close> are
  data the sources build and take apart: they are datatypes and records with the constructors and
  fields the sources name. The file system is a small world the standard library's \<open>std::fs\<close> calls
  act on.
\<close>

subsection \<open>JSON values\<close>

datatype json =
    JNull
  | JBool bool
  | JInt int
  | JFloat str
  | JStr str
  | JArr "json list"
  | JObj "(str \<times> json) list"

fun as_str :: "json \<Rightarrow> str option" where
  "as_str (JStr s) = Some s"
| "as_str _ = None"

fun as_bool :: "json \<Rightarrow> bool option" where
  "as_bool (JBool b) = Some b"
| "as_bool _ = None"

fun as_array :: "json \<Rightarrow> json list option" where
  "as_array (JArr xs) = Some xs"
| "as_array _ = None"

fun as_object :: "json \<Rightarrow> (str \<times> json) list option" where
  "as_object (JObj m) = Some m"
| "as_object _ = None"

fun as_i64 :: "json \<Rightarrow> int option" where
  "as_i64 (JInt n) = (if in_i64 n then Some n else None)"
| "as_i64 _ = None"

fun as_u64 :: "json \<Rightarrow> nat option" where
  "as_u64 (JInt n) = (if 0 \<le> n \<and> n < 2 ^ 64 then Some (nat n) else None)"
| "as_u64 _ = None"

text \<open>\<open>v.get(k)\<close> and \<open>v[k]\<close> with a string key; indexing yields \<open>Null\<close> where the key is absent.\<close>

fun jget :: "json \<Rightarrow> str \<Rightarrow> json option" where
  "jget (JObj m) k = bt_get m k"
| "jget _ k = None"

definition jidx :: "json \<Rightarrow> str \<Rightarrow> json" where
  "jidx v k = (case jget v k of None \<Rightarrow> JNull | Some x \<Rightarrow> x)"

definition str_or :: "json \<Rightarrow> str \<Rightarrow> str \<Rightarrow> str" where
  "str_or v k d = (case as_str (jidx v k) of None \<Rightarrow> d | Some s \<Rightarrow> s)"

text \<open>\<open>json!({ ... })\<close>: the object is an ordered map, a later duplicate key wins.\<close>

definition jobj :: "(str \<times> json) list \<Rightarrow> json" where
  "jobj kvs = JObj (bt_of_list kvs)"

lemma jget_jobj: "jget (jobj kvs) k = map_of (rev kvs) k"
  by (simp add: jobj_def bt_of_list_extend bt_get_extend)

lemma jidx_jobj: "jidx (jobj kvs) k = (case map_of (rev kvs) k of None \<Rightarrow> JNull | Some v \<Rightarrow> v)"
  by (simp add: jidx_def jget_jobj)

lemma str_or_jobj: "str_or (jobj kvs) k d = opt_or (Option.bind (map_of (rev kvs) k) as_str) d"
  by (simp add: str_or_def jidx_jobj opt_or_def split: option.splits)

subsection \<open>Attestation tokens and quotes\<close>

datatype platform = Nitro | SevSnp | Tdx

record eat_token =
  eat_value_x :: bytes
  eat_platform :: u8
  eat_source_hash :: bytes
  eat_artifact_hash :: bytes
  platform_quote :: bytes
  platform_measurement :: bytes
  tls_spki_hash :: bytes
  previous_attestation :: bytes

subsection \<open>Parameters\<close>

record lib =
  sha256 :: "bytes \<Rightarrow> bytes"
  sha384 :: "bytes \<Rightarrow> bytes"
  hex_encode :: "bytes \<Rightarrow> str"
  hex_decode :: "str \<Rightarrow> bytes option"
  b64_encode :: "bytes \<Rightarrow> str"
  b64_decode :: "str \<Rightarrow> bytes option"
  b64url_encode :: "bytes \<Rightarrow> str"
  b64url_decode :: "str \<Rightarrow> str + bytes"
  json_parse :: "bytes \<Rightarrow> json option"
  json_pretty :: "json \<Rightarrow> bytes option"
  json_compact :: "json \<Rightarrow> str"
  ed_verify :: "bytes \<Rightarrow> bytes \<Rightarrow> bytes \<Rightarrow> bool"
  ed_sign :: "bytes \<Rightarrow> bytes \<Rightarrow> bytes"
  ed_public :: "bytes \<Rightarrow> bytes"
  ed_valid_key :: "bytes \<Rightarrow> bool"
  eat_from_cbor :: "bytes \<Rightarrow> str + eat_token"
  eat_to_cbor :: "eat_token \<Rightarrow> bytes option"
  eat_platform_enum :: "eat_token \<Rightarrow> platform option"
  eat_binding :: "eat_token \<Rightarrow> bytes"
  eat_decode_previous :: "eat_token \<Rightarrow> str + eat_token option"
  header_name_ok :: "str \<Rightarrow> bool"
  header_value_ok :: "str \<Rightarrow> bool"
  header_to_str :: "bytes \<Rightarrow> str option"
  verify_platform_quote :: "platform \<Rightarrow> bytes \<Rightarrow> bytes \<Rightarrow> str + (str \<times> bytes) list"

definition hex_law :: "('m) lib_scheme \<Rightarrow> bool" where
  "hex_law L \<longleftrightarrow> (\<forall>b. hex_decode L (hex_encode L b) = Some b)"

definition b64_law :: "('m) lib_scheme \<Rightarrow> bool" where
  "b64_law L \<longleftrightarrow> (\<forall>b. b64_decode L (b64_encode L b) = Some b
       \<and> list_all (\<lambda>c. c \<in> set ''ABCDEFGHIJKLMNOPQRSTUVWXYZabcdefghijklmnopqrstuvwxyz0123456789+/='')
           (b64_encode L b)
       \<and> (b64_encode L b = [] \<longleftrightarrow> b = []))"

text \<open>
  Ed25519: a 64-byte signature made with a secret key verifies under its public key, which is a
  valid 32-byte key; URL-safe base64 decodes what it encodes.
\<close>

definition sig_law :: "('m) lib_scheme \<Rightarrow> bool" where
  "sig_law L \<longleftrightarrow> (\<forall>sk m. ed_verify L (ed_public L sk) m (ed_sign L sk m)
       \<and> length (ed_sign L sk m) = 64 \<and> length (ed_public L sk) = 32
       \<and> ed_valid_key L (ed_public L sk))
     \<and> (\<forall>b. b64url_decode L (b64url_encode L b) = Inr b)"

definition sha256_prefixed :: "('m) lib_scheme \<Rightarrow> bytes \<Rightarrow> str" where
  "sha256_prefixed L b = ''sha256:'' @ hex_encode L (sha256 L b)"

subsection \<open>Files\<close>

text \<open>
  \<open>files\<close> are the contents by path; \<open>faulty p\<close> says that I/O on the path fails (permissions, a
  full disk), which the sources turn into an error.
\<close>

record fs =
  files :: "(str \<times> bytes) list"
  faulty :: "str \<Rightarrow> bool"

datatype io_error = IoFailed str | NotFound str

definition fs_exists :: "fs \<Rightarrow> str \<Rightarrow> bool" where
  "fs_exists w p \<longleftrightarrow> bt_get (files w) p \<noteq> None"

definition fs_read :: "fs \<Rightarrow> str \<Rightarrow> io_error + bytes" where
  "fs_read w p = (if faulty w p then Inl (IoFailed p) else ok_or (bt_get (files w) p) (NotFound p))"

definition fs_write :: "str \<Rightarrow> bytes \<Rightarrow> fs \<Rightarrow> io_error + fs" where
  "fs_write p b w = (if faulty w p then Inl (IoFailed p) else Inr (w\<lparr>files := bt_insert p b (files w)\<rparr>))"

definition fs_append :: "str \<Rightarrow> bytes \<Rightarrow> fs \<Rightarrow> io_error + fs" where
  "fs_append p b w =
     (if faulty w p then Inl (IoFailed p)
      else Inr (w\<lparr>files := bt_insert p ((case bt_get (files w) p of None \<Rightarrow> [] | Some c \<Rightarrow> c) @ b) (files w)\<rparr>))"

definition fs_remove :: "str \<Rightarrow> fs \<Rightarrow> fs" where
  "fs_remove p w = (if faulty w p then w else w\<lparr>files := bt_retain (\<lambda>k _. k \<noteq> p) (files w)\<rparr>)"

text \<open>\<open>Path::parent\<close>: everything before the last separator.\<close>

definition path_parent :: "str \<Rightarrow> str" where
  "path_parent p = rev (drop 1 (dropWhile (\<lambda>c. c \<noteq> CHR ''/'') (rev p)))"

text \<open>\<open>PathBuf::join\<close>: an absolute second path replaces the first.\<close>

definition path_join :: "str \<Rightarrow> str \<Rightarrow> str" where
  "path_join a b =
     (if starts_with ''/'' b \<or> a = [] then b
      else if last a = CHR ''/'' then a @ b else a @ ''/'' @ b)"

text \<open>\<open>create_dir_all\<close> of a file's directory, skipped for a bare file name.\<close>

definition ensure_parent :: "str \<Rightarrow> fs \<Rightarrow> io_error + unit" where
  "ensure_parent p w = (let d = path_parent p in ensure (d = [] \<or> \<not> faulty w d) (IoFailed d))"

lemma fs_read_write: "fs_write p b w = Inr w' \<Longrightarrow> fs_read w' p = Inr b"
  by (auto simp: fs_write_def fs_read_def bt_get_insert split: if_splits)

lemma fs_write_faulty: "fs_write p b w = Inr w' \<Longrightarrow> faulty w' = faulty w"
  by (auto simp: fs_write_def split: if_splits)

lemma fs_write_other: "fs_write p b w = Inr w' \<Longrightarrow> q \<noteq> p \<Longrightarrow> bt_get (files w') q = bt_get (files w) q"
  by (auto simp: fs_write_def bt_get_insert split: if_splits)

subsection \<open>A reference instance of the parameters\<close>

text \<open>
  Used by witnesses: real hexadecimal and a prefix-free stand-in for base64, a keyed tag as the
  signature, and identity hashes padded to their lengths. It satisfies the laws above, so no
  property rests on an unsatisfiable assumption.
\<close>

definition hex_digit :: "nat \<Rightarrow> char" where
  "hex_digit n = ''0123456789abcdef'' ! n"

definition hex_val :: "char \<Rightarrow> nat option" where
  "hex_val c = (let n = of_char c in
     if 48 \<le> n \<and> n \<le> 57 then Some (n - 48)
     else if 97 \<le> n \<and> n \<le> 102 then Some (n - 87)
     else if 65 \<le> n \<and> n \<le> 70 then Some (n - 55) else None)"

fun ref_hex :: "bytes \<Rightarrow> str" where
  "ref_hex [] = []"
| "ref_hex (c # cs) = hex_digit (of_char c div 16) # hex_digit (of_char c mod 16) # ref_hex cs"

fun ref_unhex :: "str \<Rightarrow> bytes option" where
  "ref_unhex [] = Some []"
| "ref_unhex [_] = None"
| "ref_unhex (a # b # cs) =
     (case (hex_val a, hex_val b, ref_unhex cs) of
        (Some h, Some l, Some r) \<Rightarrow> Some (char_of (16 * h + l) # r)
      | _ \<Rightarrow> None)"

lemma hex_val_digit: "n < 16 \<Longrightarrow> hex_val (hex_digit n) = Some n"
proof -
  have "list_all (\<lambda>n. hex_val (hex_digit n) = Some n) [0..<16]" by code_simp
  then show "n < 16 \<Longrightarrow> hex_val (hex_digit n) = Some n" by (simp add: list_all_iff)
qed

lemma of_char_div_16: "of_char c div 16 < (16::nat)"
  using nat_of_char_less_256[of c] by linarith

lemma ref_unhex_hex: "ref_unhex (ref_hex b) = Some b"
proof (induction b)
  case Nil
  show ?case by simp
next
  case (Cons c b)
  with of_char_div_16[of c] show ?case by (simp add: hex_val_digit)
qed

definition pad :: "nat \<Rightarrow> bytes \<Rightarrow> bytes" where
  "pad n b = take n (b @ replicate n (CHR ''0''))"

definition ref_lib :: lib where
  "ref_lib =
     \<lparr>sha256 = pad 32, sha384 = pad 48, hex_encode = ref_hex, hex_decode = ref_unhex,
      b64_encode = ref_hex, b64_decode = ref_unhex,
      b64url_encode = ref_hex, b64url_decode = (\<lambda>s. ok_or (ref_unhex s) ''Invalid byte''),
      json_parse = (\<lambda>_. None), json_pretty = (\<lambda>_. Some ''{}''), json_compact = (\<lambda>_. ''{}''),
      ed_verify = (\<lambda>k m s. s = pad 64 (''sig'' @ k @ m)),
      ed_sign = (\<lambda>k m. pad 64 (''sig'' @ pad 32 k @ m)),
      ed_public = pad 32, ed_valid_key = (\<lambda>k. length k = 32),
      eat_from_cbor = (\<lambda>_. Inl ''bad''), eat_to_cbor = (\<lambda>_. Some []),
      eat_platform_enum = (\<lambda>t. if eat_platform t = 0 then Some Nitro
         else if eat_platform t = 1 then Some SevSnp
         else if eat_platform t = 2 then Some Tdx else None),
      eat_binding = (\<lambda>t. pad 32 (eat_value_x t)),
      eat_decode_previous = (\<lambda>_. Inr None),
      header_name_ok = (\<lambda>_. True), header_value_ok = (\<lambda>_. True), header_to_str = Some,
      verify_platform_quote = (\<lambda>p q b. if q = b then Inr [] else Inl ''quote'')\<rparr>"

lemma length_pad [simp]: "length (pad n b) = n"
  by (simp add: pad_def)

lemma ref_lib_hex_law: "hex_law ref_lib"
  by (simp add: hex_law_def ref_lib_def ref_unhex_hex)

lemma ref_lib_sig_law: "sig_law ref_lib"
  by (simp add: sig_law_def ref_lib_def ref_unhex_hex)

lemma hex_digit_in:
  assumes "n < 16"
  shows "hex_digit n \<in> set ''ABCDEFGHIJKLMNOPQRSTUVWXYZabcdefghijklmnopqrstuvwxyz0123456789+/=''"
proof -
  have "hex_digit n \<in> set ''0123456789abcdef''"
    unfolding hex_digit_def using assms by (intro nth_mem) simp
  moreover have "set ''0123456789abcdef'' \<subseteq> set ''ABCDEFGHIJKLMNOPQRSTUVWXYZabcdefghijklmnopqrstuvwxyz0123456789+/=''"
    by code_simp
  ultimately show ?thesis by (rule rev_subsetD)
qed

lemma ref_hex_in:
  "list_all (\<lambda>c. c \<in> set ''ABCDEFGHIJKLMNOPQRSTUVWXYZabcdefghijklmnopqrstuvwxyz0123456789+/='') (ref_hex b)"
proof (induction b)
  case Nil
  show ?case by simp
next
  case (Cons c b)
  with of_char_div_16[of c] show ?case using hex_digit_in[of "of_char c div 16"] hex_digit_in[of "of_char c mod 16"]
    by (simp del: list.set)
qed

lemma ref_lib_b64_law: "b64_law ref_lib"
proof -
  have "ref_hex b = [] \<longleftrightarrow> b = []" for b by (cases b) auto
  then show ?thesis using ref_hex_in by (simp add: b64_law_def ref_lib_def ref_unhex_hex)
qed

end
