(* ===== verification/Llm_Attested_Net.thy ===== *)
theory Llm_Attested_Net
  imports External
begin

section \<open>The service rate limiter (\<open>src/llm_attested_net.rs\<close>)\<close>

text \<open>
  \<open>ServiceRateLimiter\<close>: one governor bucket per session key, an exponential backoff on top of it
  and a state file that carries the backoff over a restart. The crate \<open>governor\<close> and the derived
  JSON codec of the state file are the record \<open>net_env\<close>. A call runs under the limiter's mutex,
  so it is one atomic step on the limiter and the file system; the wall clock \<open>now\<close> and the
  governor's clock \<open>inst\<close> are arguments. A call that fails keeps the state it reached.
\<close>

subsection \<open>Data\<close>

record rate_limit_policy =
  capacity :: u32
  refill_per_minute :: u32
  base_backoff_ms :: u64
  max_backoff_ms :: u64

record rate_limit_decision =
  allowed :: bool
  retry_after_ms :: u64
  remaining :: u32
  limit :: u32

record persisted_session =
  ps_blocked_until_ms :: u64
  ps_violations :: u32
  ps_last_seen_ms :: u64

record persisted_limiter_state =
  p_sessions :: "(str \<times> persisted_session) list"
  p_last_saved_ms :: u64

record 'g limiter_entry =
  le_policy :: rate_limit_policy
  le_limiter :: 'g
  blocked_until_ms :: u64
  violations :: u32
  last_seen_ms :: u64

record 'g service_rate_limiter =
  lim_path :: str
  max_sessions :: int
  idle_ttl_ms :: u64
  save_interval_ms :: u64
  sessions :: "(str \<times> 'g limiter_entry) list"
  dirty :: bool
  last_saved_ms :: u64

text \<open>
  The governor is created from a replenish rate and a burst; a check either takes a cell or
  answers the wait in milliseconds. \<open>net_encode\<close> and \<open>net_decode\<close> are the derived codec.
\<close>

record 'g net_env =
  gov_direct :: "u32 \<Rightarrow> u32 \<Rightarrow> 'g"
  gov_check :: "nat \<Rightarrow> 'g \<Rightarrow> u128 option \<times> 'g"
  net_encode :: "persisted_limiter_state \<Rightarrow> bytes option"
  net_decode :: "bytes \<Rightarrow> persisted_limiter_state option"

datatype net_error =
    ReadState str | DecodeState str | CreateDir str | EncodeState | WriteState str | QuotaPanic

definition codec_law :: "'g net_env \<Rightarrow> bool" where
  "codec_law G \<longleftrightarrow> (\<forall>s b. net_encode G s = Some b \<longrightarrow> net_decode G b = Some s)"

subsection \<open>Policies\<close>

definition per_minute :: "u32 \<Rightarrow> u32 \<Rightarrow> rate_limit_policy" where
  "per_minute refill burst =
     \<lparr>capacity = max burst 1, refill_per_minute = max refill 1,
      base_backoff_ms = 1000, max_backoff_ms = 60000\<rparr>"

definition with_backoff :: "u64 \<Rightarrow> u64 \<Rightarrow> rate_limit_policy \<Rightarrow> rate_limit_policy" where
  "with_backoff base mx p =
     (let p1 = p\<lparr>base_backoff_ms := max base 1\<rparr>
      in p1\<lparr>max_backoff_ms := max mx (base_backoff_ms p1)\<rparr>)"

definition exponential_backoff_ms :: "rate_limit_policy \<Rightarrow> u32 \<Rightarrow> u64" where
  "exponential_backoff_ms p v =
     (let shift = min (sat_sub v 1) 16
      in min (sat_mul (base_backoff_ms p) (push_bit (unat shift) 1)) (max_backoff_ms p))"

text \<open>\<open>quota\<close> panics on a zero rate or burst; \<open>None\<close> is the panic.\<close>

definition quota :: "rate_limit_policy \<Rightarrow> (u32 \<times> u32) option" where
  "quota p = (if refill_per_minute p = 0 then None
              else if capacity p = 0 then None
              else Some (refill_per_minute p, capacity p))"

definition new_limiter :: "'g net_env \<Rightarrow> rate_limit_policy \<Rightarrow> net_error + 'g" where
  "new_limiter G p = (case quota p of None \<Rightarrow> Inl QuotaPanic | Some (r, b) \<Rightarrow> Inr (gov_direct G r b))"

definition prune_sessions :: "u64 \<Rightarrow> u64 \<Rightarrow> (str \<times> 'g limiter_entry) list \<Rightarrow> (str \<times> 'g limiter_entry) list" where
  "prune_sessions now ttl m = bt_retain (\<lambda>_ s. sat_sub now (last_seen_ms s) \<le> ttl) m"

definition retry_after_secs :: "u64 \<Rightarrow> u64" where
  "retry_after_secs ms = max (word_of_int ((uint ms + 999) div 1000)) 1"

subsection \<open>The state file\<close>

definition persist :: "'g service_rate_limiter \<Rightarrow> u64 \<Rightarrow> persisted_limiter_state" where
  "persist l now =
     \<lparr>p_sessions = map (\<lambda>(k, s). (k, \<lparr>ps_blocked_until_ms = blocked_until_ms s,
         ps_violations = violations s, ps_last_seen_ms = last_seen_ms s\<rparr>)) (sessions l),
      p_last_saved_ms = now\<rparr>"

definition save_locked ::
    "'g net_env \<Rightarrow> u64 \<Rightarrow> 'g service_rate_limiter \<times> fs \<Rightarrow> (net_error + unit) \<times> 'g service_rate_limiter \<times> fs" where
  "save_locked G now = (\<lambda>(l, w).
     case ensure_parent (lim_path l) w of
       Inl _ \<Rightarrow> (Inl (CreateDir (lim_path l)), l, w)
     | Inr _ \<Rightarrow>
        (case net_encode G (persist l now) of
           None \<Rightarrow> (Inl EncodeState, l, w)
         | Some body \<Rightarrow>
            (case fs_write (lim_path l) body w of
               Inl _ \<Rightarrow> (Inl (WriteState (lim_path l)), l, w)
             | Inr w' \<Rightarrow> (Inr (), l\<lparr>dirty := False, last_saved_ms := now\<rparr>, w'))))"

definition save_if_due ::
    "'g net_env \<Rightarrow> u64 \<Rightarrow> 'g service_rate_limiter \<times> fs \<Rightarrow> (net_error + unit) \<times> 'g service_rate_limiter \<times> fs" where
  "save_if_due G now = (\<lambda>(l, w).
     if dirty l \<and> save_interval_ms l \<le> sat_sub now (last_saved_ms l) then save_locked G now (l, w)
     else (Inr (), l, w))"

definition flush :: "'g net_env \<Rightarrow> u64 \<Rightarrow> 'g service_rate_limiter \<times> fs \<Rightarrow> (net_error + unit) \<times> 'g service_rate_limiter \<times> fs" where
  "flush G now lw = save_locked G now lw"

definition lim_load :: "'g net_env \<Rightarrow> u64 \<Rightarrow> str \<Rightarrow> int \<Rightarrow> fs \<Rightarrow> net_error + 'g service_rate_limiter" where
  "lim_load G now path maxs w =
     rbind (if fs_exists w path
            then rbind (map_err (\<lambda>_. ReadState path) (fs_read w path)) (\<lambda>body.
                   ok_or (net_decode G body) (DecodeState path))
            else Inr \<lparr>p_sessions = [], p_last_saved_ms = 0\<rparr>) (\<lambda>persisted.
     let default_policy = per_minute 1 1 in
     rbind (rmap (\<lambda>(k, s). rbind (new_limiter G default_policy) (\<lambda>g.
              Inr (k, \<lparr>le_policy = default_policy, le_limiter = g,
                       blocked_until_ms = ps_blocked_until_ms s, violations = ps_violations s,
                       last_seen_ms = ps_last_seen_ms s\<rparr>))) (p_sessions persisted)) (\<lambda>ss.
     Inr \<lparr>lim_path = path, max_sessions = max maxs 1, idle_ttl_ms = 24 * 60 * 60 * 1000,
          save_interval_ms = 5000, sessions = ss, dirty = False, last_saved_ms = now\<rparr>))"

subsection \<open>The check\<close>

text \<open>
  The entry the check works on: the session's own or a fresh one, and a fresh bucket that keeps
  the backoff when the policy changed.
\<close>

definition lim_entry ::
    "'g net_env \<Rightarrow> u64 \<Rightarrow> rate_limit_policy \<Rightarrow> 'g limiter_entry option \<Rightarrow> net_error + 'g limiter_entry" where
  "lim_entry G now p old =
     rbind (case old of
              None \<Rightarrow> rbind (new_limiter G p) (\<lambda>g. Inr \<lparr>le_policy = p, le_limiter = g,
                        blocked_until_ms = 0, violations = 0, last_seen_ms = now\<rparr>)
            | Some e \<Rightarrow> Inr e) (\<lambda>e.
     rbind (if le_policy e \<noteq> p
            then rbind (new_limiter G p) (\<lambda>g. Inr \<lparr>le_policy = p, le_limiter = g,
                   blocked_until_ms = blocked_until_ms e, violations = violations e, last_seen_ms = now\<rparr>)
            else Inr e) (\<lambda>e.
     Inr (e\<lparr>last_seen_ms := now\<rparr>)))"

text \<open>The decision on an entry: the decision, the entry after it, and whether the state became dirty.\<close>

definition lim_decide ::
    "'g net_env \<Rightarrow> u64 \<Rightarrow> nat \<Rightarrow> rate_limit_policy \<Rightarrow> 'g limiter_entry
       \<Rightarrow> rate_limit_decision \<times> 'g limiter_entry \<times> bool" where
  "lim_decide G now inst p e =
     (if now < blocked_until_ms e
      then (\<lparr>allowed = False, retry_after_ms = sat_sub (blocked_until_ms e) now, remaining = 0,
             limit = capacity p\<rparr>, e, False)
      else (case gov_check G inst (le_limiter e) of
          (None, g) \<Rightarrow>
            (\<lparr>allowed = True, retry_after_ms = 0, remaining = sat_sub (capacity p) 1, limit = capacity p\<rparr>,
             (if 0 < violations e then e\<lparr>le_limiter := g, violations := violations e - 1\<rparr>
              else e\<lparr>le_limiter := g\<rparr>),
             0 < violations e)
        | (Some wait, g) \<Rightarrow>
            (let v = min (sat_add (violations e) 1) 20;
                 retry = max (ucast (min wait (ucast (- 1 :: u64)))) (exponential_backoff_ms p v)
             in (\<lparr>allowed = False, retry_after_ms = retry, remaining = 0, limit = capacity p\<rparr>,
                 e\<lparr>le_limiter := g, violations := v, blocked_until_ms := sat_add now retry\<rparr>, True))))"

definition lim_prune :: "u64 \<Rightarrow> 'g service_rate_limiter \<Rightarrow> 'g service_rate_limiter" where
  "lim_prune now l =
     (if max_sessions l < int (length (sessions l))
      then l\<lparr>sessions := prune_sessions now (idle_ttl_ms l) (sessions l), dirty := True\<rparr> else l)"

definition lim_check ::
    "'g net_env \<Rightarrow> u64 \<Rightarrow> nat \<Rightarrow> str \<Rightarrow> rate_limit_policy \<Rightarrow> 'g service_rate_limiter \<times> fs
       \<Rightarrow> (net_error + rate_limit_decision) \<times> 'g service_rate_limiter \<times> fs" where
  "lim_check G now inst key p = (\<lambda>(l0, w).
     let l = lim_prune now l0 in
     case lim_entry G now p (bt_get (sessions l) key) of
       Inl e \<Rightarrow> (Inl e, l, w)
     | Inr e \<Rightarrow>
        (case lim_decide G now inst p e of (d, e', dirt) \<Rightarrow>
          let l' = l\<lparr>sessions := bt_insert key e' (sessions l), dirty := (dirty l \<or> dirt)\<rparr> in
          case (if allowed d then save_if_due G now (l', w) else save_locked G now (l', w)) of
            (Inl err, lw) \<Rightarrow> (Inl err, lw)
          | (Inr _, lw) \<Rightarrow> (Inr d, lw)))"

text \<open>A history of checks: wall clock, governor clock, key and policy of each.\<close>

type_synonym lim_event = "u64 \<times> nat \<times> str \<times> rate_limit_policy"

definition lim_run ::
    "'g net_env \<Rightarrow> lim_event list \<Rightarrow> 'g service_rate_limiter \<times> fs \<Rightarrow> 'g service_rate_limiter \<times> fs" where
  "lim_run G evs lw = fold (\<lambda>(now, inst, k, p) lw. snd (lim_check G now inst k p lw)) evs lw"

subsection \<open>Backoff arithmetic\<close>

text \<open>The backoff as a natural number: the doubling never wraps, it saturates and is capped.\<close>

lemma unat_exponential_backoff:
  "unat (exponential_backoff_ms p v)
   = min (unat (base_backoff_ms p) * 2 ^ min (unat v - 1) 16) (unat (max_backoff_ms p))"
proof -
  let ?s = "min (unat v - 1) 16"
  have "unat (min (sat_sub v 1) 16) = ?s"
    by (simp add: unat_min unat_sat_sub)
  then have "exponential_backoff_ms p v = min (sat_mul (base_backoff_ms p) (2 ^ ?s)) (max_backoff_ms p)"
    by (simp add: exponential_backoff_ms_def Let_def push_bit_eq_mult)
  moreover have "unat (2 ^ ?s :: u64) = 2 ^ ?s"
    by (rule unat_exp) simp
  moreover have "unat (max_backoff_ms p) \<le> 2 ^ 64 - 1"
    using unat_u64[of "max_backoff_ms p"] by simp
  ultimately show ?thesis
    by (simp add: unat_min unat_sat_mul min.assoc min.absorb2)
qed

lemma quota_per_minute [simp]:
  "quota (per_minute r b) = Some (max r 1, max b 1)"
  "quota (with_backoff base mx p) = quota p"
  by (auto simp: quota_def per_minute_def with_backoff_def Let_def max_def)

lemma new_limiter_ok: "quota p = Some (r, b) \<Longrightarrow> new_limiter G p = Inr (gov_direct G r b)"
  by (simp add: new_limiter_def)

subsection \<open>What one check does\<close>

lemma save_locked_cases:
  obtains (failed) e where "save_locked G now (l, w) = (Inl e, l, w)"
  | (saved) body w' where "save_locked G now (l, w) = (Inr (), l\<lparr>dirty := False, last_saved_ms := now\<rparr>, w')"
      "net_encode G (persist l now) = Some body" "fs_write (lim_path l) body w = Inr w'"
  by (cases "ensure_parent (lim_path l) w"; cases "net_encode G (persist l now)";
      cases "fs_write (lim_path l) (the (net_encode G (persist l now))) w")
     (auto simp: save_locked_def)

definition same_lim :: "'g service_rate_limiter \<Rightarrow> 'g service_rate_limiter \<Rightarrow> bool" where
  "same_lim l' l \<longleftrightarrow> sessions l' = sessions l \<and> idle_ttl_ms l' = idle_ttl_ms l
     \<and> lim_path l' = lim_path l \<and> max_sessions l' = max_sessions l"

lemma save_keeps: "save_locked G now (l, w) = (r, l', w') \<Longrightarrow> same_lim l' l"
  by (rule save_locked_cases[of G now l w]) (auto simp: same_lim_def)

lemma save_if_due_keeps: "save_if_due G now (l, w) = (r, l', w') \<Longrightarrow> same_lim l' l"
  by (cases "dirty l \<and> save_interval_ms l \<le> sat_sub now (last_saved_ms l)")
     (auto simp: save_if_due_def save_keeps, auto simp: same_lim_def)

lemma lim_prune_keeps [simp]:
  "idle_ttl_ms (lim_prune now l) = idle_ttl_ms l" "lim_path (lim_prune now l) = lim_path l"
  "max_sessions (lim_prune now l) = max_sessions l"
  by (simp_all add: lim_prune_def)

lemma lim_prune_ok: "bt_ok (sessions l) \<Longrightarrow> bt_ok (sessions (lim_prune now l))"
  by (simp add: lim_prune_def prune_sessions_def bt_ok_retain)

lemma lim_prune_fresh:
  assumes "bt_ok (sessions l)" "bt_get (sessions l) k = Some e" "sat_sub now (last_seen_ms e) \<le> idle_ttl_ms l"
  shows "bt_get (sessions (lim_prune now l)) k = Some e"
  using assms by (simp add: lim_prune_def prune_sessions_def bt_get_retain)

lemma lim_check_error_or_step:
  assumes "lim_check G now inst key p (l, w) = (r, l', w')"
  obtains (panicked) err where "r = Inl err" "l' = lim_prune now l" "w' = w"
      "lim_entry G now p (bt_get (sessions (lim_prune now l)) key) = Inl err"
  | (step) e d e' dirt where
      "lim_entry G now p (bt_get (sessions (lim_prune now l)) key) = Inr e"
      "lim_decide G now inst p e = (d, e', dirt)"
      "sessions l' = bt_insert key e' (sessions (lim_prune now l))"
      "idle_ttl_ms l' = idle_ttl_ms l" "lim_path l' = lim_path l" "max_sessions l' = max_sessions l"
      "r = Inr d \<or> (\<exists>err. r = Inl err)"
proof (cases "lim_entry G now p (bt_get (sessions (lim_prune now l)) key)")
  case (Inl err)
  then have "r = Inl err" "l' = lim_prune now l" "w' = w"
    using assms by (simp_all add: lim_check_def Let_def)
  then show thesis using panicked Inl by blast
next
  case (Inr e)
  obtain d e' dirt where dec: "lim_decide G now inst p e = (d, e', dirt)" by (metis prod_cases3)
  define l1 where "l1 = (lim_prune now l)\<lparr>sessions := bt_insert key e' (sessions (lim_prune now l)),
      dirty := (dirty (lim_prune now l) \<or> dirt)\<rparr>"
  obtain r2 l2 w2 where sv: "(if allowed d then save_if_due G now (l1, w) else save_locked G now (l1, w)) = (r2, l2, w2)"
    by (metis prod_cases3)
  have "r = (case r2 of Inl err \<Rightarrow> Inl err | Inr _ \<Rightarrow> Inr d)" "l' = l2"
    using assms by (simp_all add: lim_check_def Let_def Inr dec sv[unfolded l1_def] split: sum.splits)
  moreover have "same_lim l2 l1"
    using sv save_keeps[of G now l1 w] save_if_due_keeps[of G now l1 w] by (simp split: if_splits)
  ultimately show thesis
    by (intro step[OF Inr dec]) (auto simp: l1_def same_lim_def split: sum.splits)
qed

lemma lim_entry_Some:
  "lim_entry G now p (Some e) = Inr e' \<Longrightarrow>
   blocked_until_ms e' = blocked_until_ms e \<and> violations e' = violations e \<and> last_seen_ms e' = now
   \<and> le_policy e' = p"
  by (auto simp: lim_entry_def res_simps split: if_splits)

lemma lim_entry_None:
  "lim_entry G now p None = Inr e' \<Longrightarrow>
   blocked_until_ms e' = 0 \<and> violations e' = 0 \<and> last_seen_ms e' = now \<and> le_policy e' = p"
  by (cases "new_limiter G p") (auto simp: lim_entry_def)

lemma lim_entry_total: "quota p \<noteq> None \<Longrightarrow> \<exists>e. lim_entry G now p old = Inr e"
  by (auto simp: lim_entry_def new_limiter_ok split: option.splits)

lemma lim_decide_blocked:
  "now < blocked_until_ms e \<Longrightarrow> lim_decide G now inst p e =
     (\<lparr>allowed = False, retry_after_ms = sat_sub (blocked_until_ms e) now, remaining = 0,
       limit = capacity p\<rparr>, e, False)"
  by (simp add: lim_decide_def)

lemma sat_add_sub: "now < (b :: u64) \<Longrightarrow> sat_add now (sat_sub b now) = b"
  using unat_u64[of b]
  by (simp add: word_unat_eq_iff unat_sat_add unat_sat_sub word_less_nat_alt)

text \<open>A refusal leaves the entry blocked until exactly the time it told the caller.\<close>

lemma lim_decide_refused:
  assumes "lim_decide G now inst p e = (d, e', dirt)" "\<not> allowed d"
  shows "blocked_until_ms e' = sat_add now (retry_after_ms d)" "last_seen_ms e' = last_seen_ms e"
    "remaining d = 0"
  using assms sat_add_sub[of now "blocked_until_ms e"]
  by (auto simp: lim_decide_def Let_def split: if_splits prod.splits option.splits)

lemma save_locked_disk:
  "save_locked G now (l, w) = (r, l', w') \<Longrightarrow> q \<noteq> lim_path l \<Longrightarrow> bt_get (files w') q = bt_get (files w) q"
  by (rule save_locked_cases[of G now l w]) (auto simp: fs_write_other)

lemma save_if_due_disk:
  "save_if_due G now (l, w) = (r, l', w') \<Longrightarrow> q \<noteq> lim_path l \<Longrightarrow> bt_get (files w') q = bt_get (files w) q"
  by (auto simp: save_if_due_def save_locked_disk split: if_splits)

text \<open>A check touches no file but the limiter's own.\<close>

lemma lim_check_disk:
  assumes c: "lim_check G now inst key p (l, w) = (r, l', w')" and q: "q \<noteq> lim_path l"
  shows "bt_get (files w') q = bt_get (files w) q \<and> lim_path l' = lim_path l"
proof (cases "lim_entry G now p (bt_get (sessions (lim_prune now l)) key)")
  case (Inl err)
  then show ?thesis using c by (auto simp: lim_check_def Let_def)
next
  case (Inr e)
  obtain d e' dirt where dec: "lim_decide G now inst p e = (d, e', dirt)" by (metis prod_cases3)
  let ?l1 = "(lim_prune now l)\<lparr>sessions := bt_insert key e' (sessions (lim_prune now l)),
      dirty := (dirty (lim_prune now l) \<or> dirt)\<rparr>"
  have l1: "lim_path ?l1 = lim_path l" by simp
  obtain r2 where sv: "(if allowed d then save_if_due G now (?l1, w) else save_locked G now (?l1, w)) = (r2, l', w')"
    using c by (auto simp: lim_check_def Let_def Inr dec split: sum.splits prod.splits)
  then have "same_lim l' ?l1" using save_keeps save_if_due_keeps by (metis (full_types))
  moreover have "bt_get (files w') q = bt_get (files w) q"
    using sv q save_if_due_disk[of G now ?l1 w r2 l' w' q] save_locked_disk[of G now ?l1 w r2 l' w' q]
    by (simp split: if_splits)
  ultimately show ?thesis using l1 by (simp add: same_lim_def)
qed

lemma lim_check_ok:
  assumes "lim_check G now inst key p (l, w) = (r, l', w')" "bt_ok (sessions l)"
  shows "bt_ok (sessions l')"
  using lim_check_error_or_step[OF assms(1)] lim_prune_ok[OF assms(2)] bt_ok_insert by metis

subsection \<open>A backoff outlives any traffic\<close>

text \<open>
  \<open>holds_until key t0 b l\<close>: the session is blocked until \<open>b\<close> and was last seen since \<open>t0\<close>, and
  the interval is no longer than the idle time after which sessions are dropped.
\<close>

definition holds_until :: "str \<Rightarrow> u64 \<Rightarrow> u64 \<Rightarrow> 'g service_rate_limiter \<Rightarrow> bool" where
  "holds_until key t0 b l \<longleftrightarrow> bt_ok (sessions l) \<and> sat_sub b t0 \<le> idle_ttl_ms l
     \<and> (\<exists>e. bt_get (sessions l) key = Some e \<and> blocked_until_ms e = b \<and> t0 \<le> last_seen_ms e)"

lemma sat_sub_within:
  assumes "now < (b :: u64)" "t0 \<le> s" "sat_sub b t0 \<le> ttl"
  shows "sat_sub now s \<le> ttl"
proof -
  have "unat now - unat s \<le> unat b - unat t0"
    using assms by (simp add: word_le_nat_alt word_less_nat_alt)
  moreover have "unat b - unat t0 \<le> unat ttl"
    using assms(3) by (simp add: word_le_nat_alt unat_sat_sub)
  ultimately show ?thesis by (simp add: word_le_nat_alt unat_sat_sub)
qed

lemma holds_until_prune:
  assumes "holds_until key t0 b l" "now < b"
  obtains e where "bt_get (sessions (lim_prune now l)) key = Some e" "blocked_until_ms e = b" "t0 \<le> last_seen_ms e"
  using assms sat_sub_within[of now b t0] lim_prune_fresh[of l key _ now]
  by (auto simp: holds_until_def)

lemma holds_until_check:
  assumes h: "holds_until key t0 b l" and t: "t0 \<le> now" "now < b"
    and c: "lim_check G now inst k p (l, w) = (r, l', w')"
  shows "holds_until key t0 b l' \<and> (k = key \<longrightarrow>
    (\<forall>d. r = Inr d \<longrightarrow> \<not> allowed d \<and> retry_after_ms d = sat_sub b now))"
proof -
  obtain e0 where e0: "bt_get (sessions (lim_prune now l)) key = Some e0" "blocked_until_ms e0 = b" "t0 \<le> last_seen_ms e0"
    using holds_until_prune[OF h t(2)] by blast
  have base: "bt_ok (sessions (lim_prune now l))" "sat_sub b t0 \<le> idle_ttl_ms l" "bt_ok (sessions l')"
    using h lim_prune_ok lim_check_ok[OF c] by (auto simp: holds_until_def)
  from c show ?thesis
  proof (cases rule: lim_check_error_or_step)
    case (panicked err)
    then show ?thesis using e0 base by (auto simp: holds_until_def)
  next
    case (step e d e' dirt)
    show ?thesis
    proof (cases "k = key")
      case True
      have e: "blocked_until_ms e = b" "last_seen_ms e = now"
        using lim_entry_Some[of G now p e0 e] step(1) e0 True by auto
      then have "e' = e" "\<not> allowed d" "retry_after_ms d = sat_sub b now"
        using step(2) lim_decide_blocked[of now e G inst p] t(2) by auto
      then show ?thesis using True e step base t(1) by (auto simp: holds_until_def bt_get_insert)
    next
      case False
      then show ?thesis using e0 base step by (auto simp: holds_until_def bt_get_insert)
    qed
  qed
qed

lemma holds_until_run:
  assumes "holds_until key t0 b l" "list_all (\<lambda>(now, inst, k, p). t0 \<le> now \<and> now < b) evs"
  shows "holds_until key t0 b (fst (lim_run G evs (l, w)))"
  using assms
proof (induction evs arbitrary: l w)
  case Nil
  then show ?case by (simp add: lim_run_def)
next
  case (Cons ev evs)
  obtain now inst k p where ev: "ev = (now, inst, k, p)" by (metis prod_cases4)
  obtain r l' w' where c: "lim_check G now inst k p (l, w) = (r, l', w')" by (metis prod_cases3)
  have "holds_until key t0 b l'"
    using holds_until_check[OF Cons.prems(1) _ _ c] Cons.prems(2) ev by simp
  then show ?case
    using Cons.IH[of l' w'] Cons.prems(2) ev c by (simp add: lim_run_def)
qed

lemma holds_until_refuses:
  assumes "holds_until key t0 b l" "list_all (\<lambda>(now, inst, k, p). t0 \<le> now \<and> now < b) evs"
    and "t0 \<le> now'" "now' < b" "fst (lim_check G now' inst' key p' (lim_run G evs (l, w))) = Inr d'"
  shows "\<not> allowed d' \<and> retry_after_ms d' = sat_sub b now'"
proof -
  obtain l2 w2 where r: "lim_run G evs (l, w) = (l2, w2)" by (rule prod.exhaust)
  obtain l3 w3 where c: "lim_check G now' inst' key p' (l2, w2) = (Inr d', l3, w3)"
    using assms(5) unfolding r by (cases "lim_check G now' inst' key p' (l2, w2)") simp
  have "holds_until key t0 b l2"
    using holds_until_run[OF assms(1,2), of G w] unfolding r by simp
  from holds_until_check[OF this assms(3,4) c] show ?thesis by simp
qed

lemma refused_holds_until:
  assumes c: "lim_check G now inst key p (l, w) = (Inr d, l', w')" and "\<not> allowed d"
    and "bt_ok (sessions l)" "retry_after_ms d \<le> idle_ttl_ms l"
  shows "holds_until key now (sat_add now (retry_after_ms d)) l'"
  using c
proof (cases rule: lim_check_error_or_step)
  case (panicked err)
  then show ?thesis by simp
next
  case (step e d0 e' dirt)
  have d0: "d0 = d" using step by auto
  have seen: "last_seen_ms e = now"
    using lim_entry_Some lim_entry_None step(1) by (cases "bt_get (sessions (lim_prune now l)) key") fastforce+
  have sub: "sat_sub (sat_add now (retry_after_ms d)) now \<le> retry_after_ms d"
    by (simp add: word_le_nat_alt unat_sat_sub unat_sat_add)
  show ?thesis
    using lim_decide_refused[of G now inst p e d e' dirt] step d0 seen assms(2,4) lim_check_ok[OF c assms(3)]
      order.trans[OF sub]
    by (auto simp: holds_until_def bt_get_insert)
qed

subsection \<open>Restart\<close>

lemma save_locked_Inr:
  assumes "save_locked G now (l, w) = (Inr u, l', w')" "codec_law G"
  obtains body where "fs_read w' (lim_path l) = Inr body" "net_decode G body = Some (persist l now)"
    "l' = l\<lparr>dirty := False, last_saved_ms := now\<rparr>"
  using assms fs_read_write unfolding codec_law_def
  by (cases rule: save_locked_cases[of G now l w]) auto

lemma refused_saved:
  assumes "lim_check G now inst key p (l, w) = (Inr d, l', w')" "\<not> allowed d"
  obtains l1 where "save_locked G now (l1, w) = (Inr (), l', w')" "lim_path l1 = lim_path l"
proof (cases "lim_entry G now p (bt_get (sessions (lim_prune now l)) key)")
  case (Inl err)
  then show thesis using assms by (simp add: lim_check_def Let_def)
next
  case (Inr e)
  obtain d0 e' dirt where dec: "lim_decide G now inst p e = (d0, e', dirt)" by (metis prod_cases3)
  let ?l1 = "(lim_prune now l)\<lparr>sessions := bt_insert key e' (sessions (lim_prune now l)),
      dirty := (dirty (lim_prune now l) \<or> dirt)\<rparr>"
  have "d0 = d" "save_locked G now (?l1, w) = (Inr (), l', w')"
    using assms by (auto simp: lim_check_def Let_def Inr dec split: if_splits sum.splits prod.splits)
  then show thesis by (intro that[of ?l1]) simp_all
qed

lemma lim_load_restores:
  assumes "fs_read w path = Inr body" "net_decode G body = Some ps"
  obtains l where "lim_load G now path maxs w = Inr l" "idle_ttl_ms l = 86400000"
    "bt_keys (sessions l) = bt_keys (p_sessions ps)"
    "\<And>k. map_option (\<lambda>e. (blocked_until_ms e, violations e, last_seen_ms e)) (bt_get (sessions l) k)
       = map_option (\<lambda>s. (ps_blocked_until_ms s, ps_violations s, ps_last_seen_ms s)) (bt_get (p_sessions ps) k)"
proof -
  obtain g where g: "new_limiter G (per_minute 1 1) = Inr g" by (simp add: new_limiter_ok)
  let ?e = "\<lambda>s. \<lparr>le_policy = per_minute 1 1, le_limiter = g, blocked_until_ms = ps_blocked_until_ms s,
      violations = ps_violations s, last_seen_ms = ps_last_seen_ms s\<rparr>"
  have "fs_exists w path"
    using assms(1) by (auto simp: fs_exists_def fs_read_def res_simps split: if_splits)
  moreover have "rmap (\<lambda>(k, s). rbind (new_limiter G (per_minute 1 1)) (\<lambda>g. Inr (k, \<lparr>le_policy = per_minute 1 1,
      le_limiter = g, blocked_until_ms = ps_blocked_until_ms s, violations = ps_violations s,
      last_seen_ms = ps_last_seen_ms s\<rparr>))) (p_sessions ps) = Inr (map (\<lambda>(k, s). (k, ?e s)) (p_sessions ps))"
    by (rule rmap_Inr) (auto simp: g)
  ultimately show thesis
    by (intro that) (auto simp: lim_load_def Let_def assms comp_def map_of_map option.map_comp split: prod.split)
qed

lemma holds_until_restart:
  assumes h: "holds_until key t0 b l" and s: "save_locked G now (l, w) = (Inr u, l', w')"
    and G: "codec_law G" and day: "sat_sub b t0 \<le> 86400000"
  obtains l2 where "lim_load G now2 (lim_path l) maxs w' = Inr l2" "holds_until key t0 b l2"
proof -
  obtain body where rd: "fs_read w' (lim_path l) = Inr body" "net_decode G body = Some (persist l now)"
    using save_locked_Inr[OF s G] .
  obtain l2 where l2: "lim_load G now2 (lim_path l) maxs w' = Inr l2" "idle_ttl_ms l2 = 86400000"
      "bt_keys (sessions l2) = bt_keys (p_sessions (persist l now))"
      "\<And>k. map_option (\<lambda>e. (blocked_until_ms e, violations e, last_seen_ms e)) (bt_get (sessions l2) k)
       = map_option (\<lambda>s. (ps_blocked_until_ms s, ps_violations s, ps_last_seen_ms s))
           (bt_get (p_sessions (persist l now)) k)"
    by (rule lim_load_restores[OF rd, where now = now2 and maxs = maxs]) blast
  have keys: "bt_keys (sessions l2) = bt_keys (sessions l)"
    using l2(3) by (simp add: persist_def case_prod_unfold comp_def)
  have "map_option (\<lambda>e. (blocked_until_ms e, violations e, last_seen_ms e)) (bt_get (sessions l2) key)
      = map_option (\<lambda>e. (blocked_until_ms e, violations e, last_seen_ms e)) (bt_get (sessions l) key)"
    using l2(4)[of key] by (simp add: persist_def map_of_map option.map_comp comp_def)
  then have "holds_until key t0 b l2"
    using h day keys l2(2) by (auto simp: holds_until_def bt_ok_def)
  with l2(1) show thesis by (rule that)
qed

subsection \<open>Invariant\<close>

definition limiter_inv :: "'g service_rate_limiter \<Rightarrow> bool" where
  "limiter_inv l \<longleftrightarrow> bt_ok (sessions l) \<and> 0 < max_sessions l
     \<and> list_all (\<lambda>(k, e). violations e \<le> 20 \<and> quota (le_policy e) \<noteq> None) (sessions l)"

lemma lim_entry_inv:
  assumes "lim_entry G now p old = Inr e" "\<And>e0. old = Some e0 \<Longrightarrow> violations e0 \<le> 20"
  shows "violations e \<le> 20 \<and> quota (le_policy e) = quota p"
  using assms lim_entry_Some[of G now p _ e] lim_entry_None[of G now p e] by (cases old) auto

lemma lim_decide_inv:
  assumes "lim_decide G now inst p e = (d, e', dirt)" "violations e \<le> 20"
  shows "violations e' \<le> 20 \<and> le_policy e' = le_policy e"
proof -
  have "v - 1 \<le> 20" if "0 < v" "v \<le> 20" for v :: u32
    using that by (simp add: word_le_nat_alt word_less_nat_alt unat_sub_if')
  with assms show ?thesis
    by (auto simp: lim_decide_def Let_def split: if_splits prod.splits option.splits)
qed

lemma limiter_inv_check:
  assumes c: "lim_check G now inst key p (l, w) = (r, l', w')" and i: "limiter_inv l" and q: "quota p \<noteq> None"
  shows "limiter_inv l' \<and> r \<noteq> Inl QuotaPanic"
proof -
  have pr: "limiter_inv (lim_prune now l)"
    using i by (simp add: limiter_inv_def lim_prune_def prune_sessions_def bt_ok_retain list_all_bt_retain)
  obtain e where e: "lim_entry G now p (bt_get (sessions (lim_prune now l)) key) = Inr e"
    using lim_entry_total[OF q] by blast
  have nq: "r \<noteq> Inl QuotaPanic"
  proof -
    have "fst (save_locked G now lw) \<noteq> Inl QuotaPanic" for lw :: "'a service_rate_limiter \<times> fs"
      by (auto simp: save_locked_def split: prod.splits sum.splits option.splits)
    moreover from this have "fst (save_if_due G now lw) \<noteq> Inl QuotaPanic" for lw :: "'a service_rate_limiter \<times> fs"
      by (auto simp: save_if_due_def split: prod.splits)
    ultimately show ?thesis
      using c e by (auto simp: lim_check_def Let_def split: prod.splits sum.splits if_splits) (metis fst_conv)+
  qed
  from c show ?thesis
  proof (cases rule: lim_check_error_or_step)
    case (panicked err)
    then show ?thesis using e by simp
  next
    case (step e1 d e' dirt)
    have "violations e1 \<le> 20 \<and> quota (le_policy e1) = quota p"
    proof (rule lim_entry_inv[OF step(1)])
      show "violations e0 \<le> 20" if "bt_get (sessions (lim_prune now l)) key = Some e0" for e0
        using list_all_bt_get[OF _ that, of "\<lambda>e. violations e \<le> 20 \<and> quota (le_policy e) \<noteq> None"] pr
        by (simp add: limiter_inv_def)
    qed
    then have "violations e' \<le> 20 \<and> quota (le_policy e') \<noteq> None"
      using lim_decide_inv[OF step(2)] q by auto
    then show ?thesis
      using pr step nq bt_ok_insert by (auto simp: limiter_inv_def intro!: list_all_bt_insert)
  qed
qed

lemma limiter_inv_run:
  assumes "limiter_inv l" "list_all (\<lambda>(now, inst, k, p). quota p \<noteq> None) evs"
  shows "limiter_inv (fst (lim_run G evs (l, w)))"
  using assms
proof (induction evs arbitrary: l w)
  case Nil
  then show ?case by (simp add: lim_run_def)
next
  case (Cons ev evs)
  obtain now inst k p where ev: "ev = (now, inst, k, p)" by (metis prod_cases4)
  obtain r l' w' where c: "lim_check G now inst k p (l, w) = (r, l', w')" by (metis prod_cases3)
  have "limiter_inv l'"
    using limiter_inv_check[OF c Cons.prems(1)] Cons.prems(2) ev by simp
  then show ?case
    using Cons.IH[of l' w'] Cons.prems(2) ev c by (simp add: lim_run_def)
qed

subsection \<open>Properties\<close>

text \<open>
  A reference governor for the witnesses: a counter of cells, and a codec that knows the one state
  it is given.
\<close>

definition ref_net :: "persisted_limiter_state \<Rightarrow> nat net_env" where
  "ref_net s0 =
     \<lparr>gov_direct = (\<lambda>r b. unat b),
      gov_check = (\<lambda>inst g. if 0 < g then (None, g - 1) else (Some 1000, 0)),
      net_encode = (\<lambda>s. if s = s0 then Some ''state'' else None),
      net_decode = (\<lambda>b. if b = ''state'' then Some s0 else None)\<rparr>"

definition ref_net_any :: "nat net_env" where
  "ref_net_any = (ref_net \<lparr>p_sessions = [], p_last_saved_ms = 0\<rparr>)\<lparr>net_encode := (\<lambda>_. Some ''state'')\<rparr>"

definition ref_fs :: fs where
  "ref_fs = \<lparr>files = [], faulty = (\<lambda>_. False)\<rparr>"

definition ref_limiter :: "(str \<times> nat limiter_entry) list \<Rightarrow> nat service_rate_limiter" where
  "ref_limiter ss = \<lparr>lim_path = ''rate.json'', max_sessions = 64, idle_ttl_ms = 86400000,
     save_interval_ms = 5000, sessions = ss, dirty = False, last_saved_ms = 0\<rparr>"

definition ref_policy :: rate_limit_policy where
  "ref_policy = with_backoff 250 1000 (per_minute 60 1)"

definition ref_spent :: "nat service_rate_limiter" where
  "ref_spent = ref_limiter [(''ip'', \<lparr>le_policy = ref_policy, le_limiter = 0, blocked_until_ms = 0,
     violations = 0, last_seen_ms = 90\<rparr>)]"

text \<open>
  C13: once a caller is refused with a retry time, every later request under the same key is refused
  until that time has passed, with the remaining wait as its retry time, whatever other requests
  (of any key, under any policy, failing or not) the limiter served in between.
\<close>

theorem backoff_outlives_traffic:
  assumes "fst (lim_check G now inst key p (l, w)) = Inr d" "\<not> allowed d"
    and "bt_ok (sessions l)" "retry_after_ms d \<le> idle_ttl_ms l"
    and "list_all (\<lambda>(t, i, k, q). now \<le> t \<and> t < sat_add now (retry_after_ms d)) evs"
    and "now \<le> now'" "now' < sat_add now (retry_after_ms d)"
    and "fst (lim_check G now' inst' key p' (lim_run G evs (snd (lim_check G now inst key p (l, w))))) = Inr d'"
  shows "\<not> allowed d' \<and> retry_after_ms d' = sat_sub (sat_add now (retry_after_ms d)) now'"
proof -
  obtain l1 w1 where c: "lim_check G now inst key p (l, w) = (Inr d, l1, w1)"
    using assms(1) by (cases "lim_check G now inst key p (l, w)") simp
  have "fst (lim_check G now' inst' key p' (lim_run G evs (l1, w1))) = Inr d'"
    using assms(8) unfolding c by simp
  with refused_holds_until[OF c assms(2-4)] assms(5-7) show ?thesis
    by (rule holds_until_refuses)
qed

theorem backoff_outlives_traffic_witness:
  "fst (lim_check ref_net_any 300 2 ''ip'' (per_minute 5 7) (lim_run ref_net_any
      [(200, 1, ''team'', ref_policy)] (snd (lim_check ref_net_any 100 0 ''ip'' ref_policy (ref_spent, ref_fs)))))
     = Inr \<lparr>allowed = False, retry_after_ms = 800, remaining = 0, limit = 7\<rparr>
   \<and> (800 :: u64) = sat_sub (sat_add 100 1000) 300"
proof -
  have 1: "fst (lim_check ref_net_any 100 0 ''ip'' ref_policy (ref_spent, ref_fs))
      = Inr \<lparr>allowed = False, retry_after_ms = 1000, remaining = 0, limit = 1\<rparr>"
    by code_simp
  have 2: "fst (lim_check ref_net_any 300 2 ''ip'' (per_minute 5 7) (lim_run ref_net_any
      [(200, 1, ''team'', ref_policy)] (snd (lim_check ref_net_any 100 0 ''ip'' ref_policy (ref_spent, ref_fs)))))
     = Inr \<lparr>allowed = False, retry_after_ms = 800, remaining = 0, limit = 7\<rparr>"
    by code_simp
  show ?thesis
    using backoff_outlives_traffic[OF 1 _ _ _ _ _ _ 2] 2
    by (simp add: ref_spent_def ref_limiter_def bt_ok_def sat_add_def)
qed

text \<open>
  C36: a refusal that was reported is on disk: a limiter loaded from the state file refuses the
  caller until the same time, whatever traffic it serves first.
\<close>

theorem backoff_survives_restart:
  assumes "codec_law G" "fst (lim_check G now inst key p (l, w)) = Inr d" "\<not> allowed d"
    and "bt_ok (sessions l)" "retry_after_ms d \<le> idle_ttl_ms l" "retry_after_ms d \<le> 86400000"
  shows "\<exists>l2. lim_load G now2 (lim_path l) maxs (snd (snd (lim_check G now inst key p (l, w)))) = Inr l2 \<and>
    (\<forall>evs now' inst' p' w' d'.
       list_all (\<lambda>(t, i, k, q). now \<le> t \<and> t < sat_add now (retry_after_ms d)) evs \<and>
       now \<le> now' \<and> now' < sat_add now (retry_after_ms d) \<and>
       fst (lim_check G now' inst' key p' (lim_run G evs (l2, w'))) = Inr d' \<longrightarrow>
       \<not> allowed d' \<and> retry_after_ms d' = sat_sub (sat_add now (retry_after_ms d)) now')"
    (is "\<exists>l2. _ \<and> ?refuses l2")
proof -
  let ?b = "sat_add now (retry_after_ms d)"
  obtain l1 w1 where c: "lim_check G now inst key p (l, w) = (Inr d, l1, w1)"
    using assms(2) by (cases "lim_check G now inst key p (l, w)") simp
  have h: "holds_until key now ?b l1" by (rule refused_holds_until[OF c assms(3-5)])
  obtain l0 where s: "save_locked G now (l0, w) = (Inr (), l1, w1)" "lim_path l0 = lim_path l"
    using refused_saved[OF c assms(3)] .
  have "sessions l0 = sessions l1" "idle_ttl_ms l0 = idle_ttl_ms l1"
    using save_keeps[OF s(1)] by (simp_all add: same_lim_def)
  with h have h0: "holds_until key now ?b l0" by (simp add: holds_until_def)
  have "sat_sub ?b now \<le> retry_after_ms d"
    by (simp add: word_le_nat_alt unat_sat_sub unat_sat_add)
  then have "sat_sub ?b now \<le> 86400000" using assms(6) by (rule order.trans)
  then obtain l2 where l2: "lim_load G now2 (lim_path l) maxs w1 = Inr l2" "holds_until key now ?b l2"
    unfolding s(2)[symmetric] by (rule holds_until_restart[OF h0 s(1) assms(1)])
  have "?refuses l2"
    using holds_until_refuses[OF l2(2)] by blast
  moreover have "lim_load G now2 (lim_path l) maxs (snd (snd (lim_check G now inst key p (l, w)))) = Inr l2"
    using l2(1) unfolding c by simp
  ultimately show ?thesis by (intro exI conjI)
qed

definition ref_saved :: persisted_limiter_state where
  "ref_saved = \<lparr>p_sessions = [(''ip'', \<lparr>ps_blocked_until_ms = 1100, ps_violations = 1, ps_last_seen_ms = 100\<rparr>)],
     p_last_saved_ms = 100\<rparr>"

theorem backoff_survives_restart_witness:
  "\<exists>l2. lim_load (ref_net ref_saved) 500 ''rate.json'' 8
     (snd (snd (lim_check (ref_net ref_saved) 100 0 ''ip'' ref_policy (ref_spent, ref_fs)))) = Inr l2"
proof -
  have 1: "fst (lim_check (ref_net ref_saved) 100 0 ''ip'' ref_policy (ref_spent, ref_fs))
      = Inr \<lparr>allowed = False, retry_after_ms = 1000, remaining = 0, limit = 1\<rparr>"
    by code_simp
  have "codec_law (ref_net ref_saved)"
    by (simp add: codec_law_def ref_net_def)
  from backoff_survives_restart[OF this 1, of 500 8] show ?thesis
    by (simp add: ref_spent_def ref_limiter_def bt_ok_def) blast
qed

text \<open>
  C40: the backoff schedule. The backoff lies between the base (or the cap, where that is smaller)
  and the cap, grows with the number of violations, and doubles with each of the first
  sixteen further violations until it reaches the cap; the doubling never wraps around.
\<close>

theorem backoff_schedule:
  "min (base_backoff_ms p) (max_backoff_ms p) \<le> exponential_backoff_ms p v
   \<and> exponential_backoff_ms p v \<le> max_backoff_ms p
   \<and> (v \<le> v' \<longrightarrow> exponential_backoff_ms p v \<le> exponential_backoff_ms p v')
   \<and> (1 \<le> v \<and> v < 17 \<longrightarrow> unat (exponential_backoff_ms p (v + 1))
         = min (2 * unat (exponential_backoff_ms p v)) (unat (max_backoff_ms p)))"
proof (intro conjI impI)
  let ?base = "unat (base_backoff_ms p)" and ?cap = "unat (max_backoff_ms p)"
  show "min (base_backoff_ms p) (max_backoff_ms p) \<le> exponential_backoff_ms p v"
    by (simp add: word_le_nat_alt unat_exponential_backoff unat_min min.coboundedI1)
  show "exponential_backoff_ms p v \<le> max_backoff_ms p"
    by (simp add: word_le_nat_alt unat_exponential_backoff)
  show "exponential_backoff_ms p v \<le> exponential_backoff_ms p v'" if "v \<le> v'"
  proof -
    have "min (unat v - 1) 16 \<le> min (unat v' - 1) 16"
      using that diff_le_mono[of "unat v" "unat v'" 1] by (simp add: word_le_nat_alt min_le_iff_disj)
    then have "?base * 2 ^ min (unat v - 1) 16 \<le> ?base * 2 ^ min (unat v' - 1) 16"
      by (intro mult_le_mono2 power_increasing) simp_all
    then show ?thesis
      by (simp add: word_le_nat_alt unat_exponential_backoff min_le_iff_disj)
  qed
  show "unat (exponential_backoff_ms p (v + 1)) = min (2 * unat (exponential_backoff_ms p v)) ?cap"
    if "1 \<le> v \<and> v < 17"
  proof -
    from that have "1 \<le> unat v" "unat v < 17"
      by (simp_all add: word_le_nat_alt word_less_nat_alt)
    moreover from this have "unat (v + 1) = unat v + 1"
      by (simp add: unat_word_ariths)
    ultimately have "2 ^ min (unat (v + 1) - 1) 16 = 2 * (2::nat) ^ min (unat v - 1) 16"
      by (cases "unat v") (simp_all add: min_def)
    then show ?thesis
      by (simp add: unat_exponential_backoff min_mult_distrib_left mult.left_commute min.assoc)
         (simp add: min_def)
  qed
qed

theorem backoff_schedule_witness:
  "unat (exponential_backoff_ms ref_policy 2) = min (2 * unat (exponential_backoff_ms ref_policy 1))
     (unat (max_backoff_ms ref_policy)) \<and> exponential_backoff_ms ref_policy 1 \<le> exponential_backoff_ms ref_policy 3"
  using backoff_schedule[of ref_policy 1 3] by simp

text \<open>
  From an empty limiter, whatever requests it serves under policies made by \<open>per_minute\<close>
  and \<open>with_backoff\<close>, no session counts more than twenty violations, sessions stay keyed uniquely
  in order, and no call panics in \<open>quota\<close>.
\<close>

theorem limiter_run_invariant:
  assumes "limiter_inv l" "list_all (\<lambda>(now, inst, k, p). quota p \<noteq> None) evs"
  shows "limiter_inv (fst (lim_run G evs (l, w))) \<and>
    fst (lim_check G now inst key (with_backoff b m (per_minute r c)) (lim_run G evs (l, w))) \<noteq> Inl QuotaPanic"
proof -
  obtain l1 w1 where r: "lim_run G evs (l, w) = (l1, w1)" by (rule prod.exhaust)
  obtain r2 l2 w2 where c: "lim_check G now inst key (with_backoff b m (per_minute r c)) (l1, w1) = (r2, l2, w2)"
    by (metis prod_cases3)
  have "limiter_inv l1" using limiter_inv_run[OF assms, of G w] r by simp
  from limiter_inv_check[OF c this] this show ?thesis by (simp add: r c)
qed

end
