(* ===== verification/Http_Service.thy ===== *)
theory Http_Service
  imports Llm_Attested_Net
begin

section \<open>The HTTP service layer (\<open>src/http_service.rs\<close>)\<close>

text \<open>
  What the binaries share around their handlers: collecting a request within the size limit,
  turning handler results into responses, and the rate-limit reply. Hyper, Rustls and Tokio are
  third-party: a request arrives as \<open>raw_request\<close>, with what collecting its body gave, and header
  validity is decided by fields of \<open>lib\<close>. The accept loop, TLS set-up and connection
  permits are in \<open>Http_Server\<close>.

  A handler is a function from a request and the service state to a result and the new state: the
  state keeps what a failing handler did before it failed.
\<close>

subsection \<open>Data\<close>

record http_request =
  req_method :: str
  req_path :: str
  req_headers :: "(str \<times> str) list"
  req_body :: bytes

record http_response =
  status :: nat
  content_type :: str
  resp_headers :: "(str \<times> str) list"
  resp_body :: bytes

record cors_headers =
  allow_headers :: str
  expose_headers :: "str option"

datatype body_outcome = TimedOut | BodyError str | Body bytes

record raw_request =
  raw_method :: str
  raw_path_and_query :: "str option"
  raw_headers :: "(str \<times> bytes) list"
  raw_body :: body_outcome

datatype http_error =
    HTooLarge
  | HTimedOut
  | HBody str

text \<open>The message a handler fails with; only the log sees it.\<close>

datatype 'e handler_error = EncodeJson | Limiter net_error | Failed 'e

subsection \<open>Requests\<close>

definition content_length :: "('m) lib_scheme \<Rightarrow> raw_request \<Rightarrow> u64 option" where
  "content_length L r = map_option (\<lambda>v.
     case Option.bind (header_to_str L v) parse_u64 of None \<Rightarrow> 0 | Some n \<Rightarrow> n)
     (map_of (raw_headers r) ''content-length'')"

text \<open>\<open>Limited\<close> fails once more than the limit has been read.\<close>

definition collect_body :: "int \<Rightarrow> body_outcome \<Rightarrow> http_error + bytes" where
  "collect_body lim b =
     (case b of TimedOut \<Rightarrow> Inl HTimedOut
      | BodyError e \<Rightarrow> Inl (HBody e)
      | Body bs \<Rightarrow> if int (length bs) \<le> lim then Inr bs else Inl (HBody ''length limit exceeded''))"

definition collect_headers :: "('m) lib_scheme \<Rightarrow> (str \<times> bytes) list \<Rightarrow> (str \<times> str) list" where
  "collect_headers L hs = bt_of_list (List.map_filter (\<lambda>(n, v).
     map_option (\<lambda>s. (to_ascii_lowercase n, s)) (header_to_str L v)) hs)"

definition request_from_hyper :: "('m) lib_scheme \<Rightarrow> int \<Rightarrow> raw_request \<Rightarrow> http_error + http_request" where
  "request_from_hyper L lim r =
     rbind (case content_length L r of
              Some n \<Rightarrow> ensure (\<not> lim < uint n) HTooLarge
            | None \<Rightarrow> Inr ()) (\<lambda>_.
     rbind (collect_body lim (raw_body r)) (\<lambda>body.
     Inr \<lparr>req_method = raw_method r,
          req_path = (case raw_path_and_query r of None \<Rightarrow> ''/'' | Some p \<Rightarrow> p),
          req_headers = collect_headers L (raw_headers r), req_body = body\<rparr>))"

subsection \<open>Responses\<close>

definition write_response_with_headers :: "nat \<Rightarrow> str \<Rightarrow> (str \<times> str) list \<Rightarrow> bytes \<Rightarrow> http_response" where
  "write_response_with_headers st ct hs b = \<lparr>status = st, content_type = ct, resp_headers = hs, resp_body = b\<rparr>"

definition write_response :: "nat \<Rightarrow> str \<Rightarrow> bytes \<Rightarrow> http_response" where
  "write_response st ct b = write_response_with_headers st ct [] b"

definition write_json_with_headers ::
    "('m) lib_scheme \<Rightarrow> nat \<Rightarrow> (str \<times> str) list \<Rightarrow> json \<Rightarrow> 'e handler_error + http_response" where
  "write_json_with_headers L st hs v =
     (case json_pretty L v of
        None \<Rightarrow> Inl EncodeJson
      | Some b \<Rightarrow> Inr (write_response_with_headers st ''application/json'' hs b))"

definition write_json :: "('m) lib_scheme \<Rightarrow> nat \<Rightarrow> json \<Rightarrow> 'e handler_error + http_response" where
  "write_json L st v = write_json_with_headers L st [] v"

lemma write_json_status: "write_json L st v = Inr resp \<Longrightarrow> status resp = st"
  by (auto simp: write_json_def write_json_with_headers_def write_response_with_headers_def split: option.splits)

definition write_rate_limited :: "('m) lib_scheme \<Rightarrow> rate_limit_decision \<Rightarrow> 'e handler_error + http_response" where
  "write_rate_limited L d =
     write_json_with_headers L 429
       [(''Retry-After'', show_u64 (retry_after_secs (retry_after_ms d))),
        (''x-ratelimit-limit'', show_u32 (limit d)),
        (''x-ratelimit-remaining'', show_u32 (remaining d))]
       (jobj [(''error'', JStr ''rate limited''), (''retry_after_ms'', JInt (uint (retry_after_ms d)))])"

text \<open>\<open>StatusCode::from_u16\<close> accepts 100 to 999; an unusable status becomes 200.\<close>

definition hyper_response :: "('m) lib_scheme \<Rightarrow> http_response \<Rightarrow> cors_headers \<Rightarrow> http_response" where
  "hyper_response L r cors =
     (let fixed = [(''content-type'', content_type r), (''access-control-allow-origin'', ''*''),
                   (''access-control-allow-headers'', allow_headers cors)]
                  @ (case expose_headers cors of None \<Rightarrow> []
                     | Some e \<Rightarrow> [(''access-control-expose-headers'', e)]);
          st = (if 100 \<le> status r \<and> status r < 1000 then status r else 200)
      in if list_all (\<lambda>(n, v). header_name_ok L n \<and> header_value_ok L v) fixed
         then \<lparr>status = st, content_type = content_type r,
               resp_headers = fixed @ filter (\<lambda>(n, v). header_name_ok L n \<and> header_value_ok L v) (resp_headers r),
               resp_body = resp_body r\<rparr>
         else \<lparr>status = 200, content_type = [], resp_headers = [], resp_body = []\<rparr>)"

definition into_hyper_response :: "('m) lib_scheme \<Rightarrow> http_response option \<Rightarrow> cors_headers \<Rightarrow> http_response" where
  "into_hyper_response L b cors =
     hyper_response L (case b of None \<Rightarrow> \<lparr>status = 204, content_type = ''text/plain'', resp_headers = [], resp_body = []\<rparr>
                       | Some r \<Rightarrow> r) cors"

definition error_response :: "('m) lib_scheme \<Rightarrow> nat \<Rightarrow> bytes \<Rightarrow> cors_headers \<Rightarrow> http_response" where
  "error_response L st b cors =
     hyper_response L \<lparr>status = st, content_type = ''application/json'', resp_headers = [], resp_body = b\<rparr> cors"

fun http_error_message :: "http_error \<Rightarrow> str" where
  "http_error_message HTooLarge = ''request body too large''"
| "http_error_message HTimedOut = ''request timed out''"
| "http_error_message (HBody e) = ''read request body: '' @ e"

definition hyper_request ::
    "('m) lib_scheme \<Rightarrow> int \<Rightarrow> cors_headers \<Rightarrow>
     (http_request \<Rightarrow> 's \<Rightarrow> ('e handler_error + http_response) \<times> 's) \<Rightarrow> raw_request \<Rightarrow> 's \<Rightarrow> http_response \<times> 's" where
  "hyper_request L lim cors handler r s =
     (case request_from_hyper L lim r of
        Inl e \<Rightarrow> (error_response L 400 (json_compact L (jobj [(''error'', JStr (http_error_message e))])) cors, s)
      | Inr req \<Rightarrow>
         (case handler req s of
            (Inr resp, s') \<Rightarrow> (into_hyper_response L (Some resp) cors, s')
          | (Inl _, s') \<Rightarrow>
              (error_response L 500 (json_compact L (jobj [(''error'', JStr ''internal server error'')])) cors, s')))"

text \<open>
  A certificate and key come together or not at all; \<open>load\<close> reads and parses the files.
\<close>

datatype tls_error = TlsPair | TlsLoad str

definition rustls_acceptor_from_paths ::
    "(str \<Rightarrow> str \<Rightarrow> str option \<Rightarrow> str + 'a) \<Rightarrow> str option \<Rightarrow> str option \<Rightarrow> str option \<Rightarrow> tls_error + 'a option" where
  "rustls_acceptor_from_paths load cert key client_ca =
     (case (cert, key) of
        (None, None) \<Rightarrow> Inr None
      | (Some c, Some k) \<Rightarrow> rbind (map_err TlsLoad (load c k client_ca)) (\<lambda>a. Inr (Some a))
      | _ \<Rightarrow> Inl TlsPair)"

subsection \<open>Rate-limited services\<close>

text \<open>
  What the rate-limited services share of their state: the limiter and the file system. Each
  extends the record with its own fields, which are \<open>service_base.more\<close>. \<open>limited\<close> is the check the
  handlers open with: a refusal is answered at once, a limiter failure fails the request.
\<close>

record 'g service_base =
  limiter :: "'g service_rate_limiter"
  disk :: fs

definition limited ::
    "('m) lib_scheme \<Rightarrow> 'g net_env \<Rightarrow> u64 \<Rightarrow> nat \<Rightarrow> str \<Rightarrow> rate_limit_policy
      \<Rightarrow> (('g, 'n) service_base_scheme \<Rightarrow> ('e handler_error + http_response) \<times> ('g, 'n) service_base_scheme)
      \<Rightarrow> ('g, 'n) service_base_scheme \<Rightarrow> ('e handler_error + http_response) \<times> ('g, 'n) service_base_scheme" where
  "limited L G now inst key p k s =
     (case lim_check G now inst key p (limiter s, disk s) of
        (Inl e, l, w) \<Rightarrow> (Inl (Limiter e), s\<lparr>limiter := l, disk := w\<rparr>)
      | (Inr d, l, w) \<Rightarrow>
         if allowed d then k (s\<lparr>limiter := l, disk := w\<rparr>)
         else (write_rate_limited L d, s\<lparr>limiter := l, disk := w\<rparr>))"

text \<open>
  The contract of a service that rate-limits before anything else: its handler is \<open>limited\<close> under
  a key and a policy of the request. What follows holds of every such service.
\<close>

locale rate_limited_service =
  fixes L :: "('m) lib_scheme"
    and G :: "'g net_env"
    and now :: "'q \<Rightarrow> u64" and inst :: "'q \<Rightarrow> nat" and key :: "'q \<Rightarrow> str"
    and policy :: "'q \<Rightarrow> ('g, 'n) service_base_scheme \<Rightarrow> rate_limit_policy"
    and inner :: "'q \<Rightarrow> ('g, 'n) service_base_scheme \<Rightarrow> ('e handler_error + http_response) \<times> ('g, 'n) service_base_scheme"
    and handle :: "'q \<Rightarrow> ('g, 'n) service_base_scheme \<Rightarrow> ('e handler_error + http_response) \<times> ('g, 'n) service_base_scheme"
  assumes handle_limited: "handle q s = limited L G (now q) (inst q) (key q) (policy q s) (inner q) s"
begin

lemma refused_unchanged:
  assumes "fst (lim_check G (now q) (inst q) (key q) (policy q s) (limiter s, disk s)) = Inr d" "\<not> allowed d"
  shows "service_base.more (snd (handle q s)) = service_base.more s
    \<and> fst (handle q s) = write_rate_limited L d"
  using assms
  by (cases "lim_check G (now q) (inst q) (key q) (policy q s) (limiter s, disk s)")
     (auto simp: handle_limited limited_def)

lemma refused_status:
  assumes "fst (lim_check G (now q) (inst q) (key q) (policy q s) (limiter s, disk s)) = Inr d" "\<not> allowed d"
    and "fst (handle q s) = Inr resp"
  shows "status resp = 429 \<and> map_of (resp_headers resp) ''Retry-After'' = Some (show_u64 (retry_after_secs (retry_after_ms d)))"
  using refused_unchanged[OF assms(1,2)] assms(3)
  by (auto simp: write_rate_limited_def write_json_with_headers_def write_response_with_headers_def split: option.splits)

lemma limiter_failure_unchanged:
  assumes "fst (lim_check G (now q) (inst q) (key q) (policy q s) (limiter s, disk s)) = Inl e"
  shows "service_base.more (snd (handle q s)) = service_base.more s \<and> fst (handle q s) = Inl (Limiter e)"
  using assms
  by (cases "lim_check G (now q) (inst q) (key q) (policy q s) (limiter s, disk s)")
     (auto simp: handle_limited limited_def)

end

text \<open>Ceiling of the wait in seconds, at least one.\<close>

lemma unat_retry_after_secs: "unat (retry_after_secs ms) = max ((unat ms + 999) div 1000) 1"
proof -
  have "(uint ms + 999) div 1000 = int ((unat ms + 999) div 1000)"
    by (simp add: zdiv_int)
  moreover have "(unat ms + 999) div 1000 < 2 ^ 64"
    using unat_u64[of ms] by simp
  ultimately have "unat (word_of_int ((uint ms + 999) div 1000) :: u64) = (unat ms + 999) div 1000"
    by (simp add: unat_of_nat take_bit_nat_eq_self unsigned_of_nat)
  then show ?thesis by (simp add: retry_after_secs_def unat_max)
qed

subsection \<open>Properties\<close>

text \<open>
  The service layer keeps a handler to what it may see and show. A request that is too large,
  times out or cannot be read never reaches the handler; the handler is only given a body within
  the limit; and when it fails, the client gets a fixed 500 body whatever the failure said.
\<close>

lemma hyper_request_confines:
  "let (resp, s') = hyper_request L lim cors h r s in
   (\<exists>e. s' = s \<and> resp = error_response L 400 (json_compact L (jobj [(''error'', JStr (http_error_message e))])) cors)
   \<or> (\<exists>req. int (length (req_body req)) \<le> lim \<and> s' = snd (h req s) \<and>
        resp = (case fst (h req s) of
                  Inl _ \<Rightarrow> error_response L 500 (json_compact L (jobj [(''error'', JStr ''internal server error'')])) cors
                | Inr x \<Rightarrow> into_hyper_response L (Some x) cors))"
proof (cases "request_from_hyper L lim r")
  case (Inl e)
  then show ?thesis by (auto simp: hyper_request_def)
next
  case (Inr req)
  have "int (length (req_body req)) \<le> lim"
    using Inr by (auto simp: request_from_hyper_def collect_body_def res_simps split: body_outcome.splits if_splits option.splits)
  with Inr show ?thesis
    by (cases "h req s"; cases "fst (h req s)") (auto simp: hyper_request_def Let_def)
qed

end
