(* ===== verification/Http_Server.thy ===== *)
theory Http_Server
  imports Http_Service "HOL-Library.AList"
begin

section \<open>The server around the handlers (\<open>src/http_service.rs\<close>)\<close>

text \<open>
  \<open>serve_hyper\<close>, \<open>serve_connection\<close> and \<open>load_rustls_server_config\<close>: the accept loop with its
  connection permits, the TLS handshake, and requests of many connections served at once over one
  shared state.

  A handler is an \<open>async\<close> function over \<open>Arc<S>\<close>: between two \<open>await\<close>s it holds the locks it takes,
  and other handlers run in between. It is a \<open>task\<close>: a sequence of sections, each of which reads and
  changes the shared state at once, and an answer. Where a handler awaits somebody outside the service
  between two sections (a provider, a fetched document, the event sink), the task has an \<open>Await\<close>: it goes on only with
  the event \<open>Arrive\<close>, which may never come, so that a handler can hang, with its connection and its permit;
  what then arrives is an input of the call. \<open>run_task\<close> runs a task with nothing in between and
  everything arriving; the server runs the sections of all connections in any order.

  Hyper, Tokio and Rustls are third-party: which connections arrive, what a peer sends and when it
  goes away are the events of the run, and PEM parsing, certificate checks and the handshake are
  fields of \<open>tls_lib\<close>. The read timeout decides which bodies arrive as \<open>TimedOut\<close>. When a peer goes
  away while its handler is waiting, the rest of the handler is dropped. Tokio's semaphore holds at
  most \<open>2 ^ 61 - 1\<close> permits and panics when it is asked for more; such configurations do not start and
  are left aside.
\<close>

subsection \<open>TLS set-up\<close>

record server_tls =
  tls_certs :: "bytes list"
  tls_key :: bytes
  tls_client_roots :: "bytes list option"
  tls_alpn :: "bytes list"

record 'c tls_lib =
  pem_certs :: "bytes \<Rightarrow> str + bytes list"
  pem_private_key :: "bytes \<Rightarrow> str + bytes option"
  root_add :: "bytes \<Rightarrow> str + bytes"
  build_verifier :: "bytes list \<Rightarrow> str + unit"
  single_cert :: "bytes list \<Rightarrow> bytes \<Rightarrow> str + unit"
  tls_accept :: "server_tls \<Rightarrow> 'c \<Rightarrow> bool"

definition load_client_roots :: "'c tls_lib \<Rightarrow> fs \<Rightarrow> str \<Rightarrow> str + bytes list" where
  "load_client_roots T w ca =
     rbind (map_err (\<lambda>_. ''read TLS client CA '' @ ca) (fs_read w ca)) (\<lambda>ca_pem.
     rbind (pem_certs T ca_pem) (\<lambda>ca_certs.
     rbind (ensure (ca_certs \<noteq> []) ''TLS client CA file contains no certificates'') (\<lambda>_.
     rbind (map_err (\<lambda>_. ''add TLS client CA certificate'') (rmap (root_add T) ca_certs)) (\<lambda>roots.
     rbind (map_err (\<lambda>_. ''build TLS client CA verifier'') (build_verifier T roots)) (\<lambda>_.
     Inr roots)))))"

definition load_rustls_server_config :: "'c tls_lib \<Rightarrow> fs \<Rightarrow> str \<Rightarrow> str \<Rightarrow> str option \<Rightarrow> str + server_tls" where
  "load_rustls_server_config T w cert_path key_path client_ca_path =
     rbind (map_err (\<lambda>_. ''read TLS cert '' @ cert_path) (fs_read w cert_path)) (\<lambda>cert_pem.
     rbind (map_err (\<lambda>_. ''read TLS key '' @ key_path) (fs_read w key_path)) (\<lambda>key_pem.
     rbind (pem_certs T cert_pem) (\<lambda>certs.
     rbind (ensure (certs \<noteq> []) ''TLS cert file contains no certificates'') (\<lambda>_.
     rbind (pem_private_key T key_pem) (\<lambda>found.
     rbind (ok_or found ''TLS key file contains no private key'') (\<lambda>key.
     rbind (case client_ca_path of
              None \<Rightarrow> Inr None
            | Some ca \<Rightarrow> rbind (load_client_roots T w ca) (\<lambda>roots. Inr (Some roots))) (\<lambda>roots.
     rbind (single_cert T certs key) (\<lambda>_.
     Inr \<lparr>tls_certs = certs, tls_key = key, tls_client_roots = roots, tls_alpn = [''http/1.1'']\<rparr>))))))))"

subsection \<open>Handlers in sections\<close>

datatype ('s, 'r) task =
    Return 'r
  | Section "'s \<Rightarrow> ('s, 'r) task" "'s \<Rightarrow> 's"
  | Await "('s, 'r) task"

primrec run_task :: "('s, 'r) task \<Rightarrow> 's \<Rightarrow> 'r \<times> 's" where
  "run_task (Return r) s = (r, s)"
| "run_task (Section nxt eff) s = run_task (nxt s) (eff s)"
| "run_task (Await t) s = run_task t s"

text \<open>A piece of a handler that holds its lock throughout.\<close>

definition atomically :: "('s \<Rightarrow> 'r \<times> 's) \<Rightarrow> ('s, 'r) task" where
  "atomically f = Section (\<lambda>s. Return (fst (f s))) (\<lambda>s. snd (f s))"

text \<open>The limiter check the handlers open with, as a section of its own: the limiter has its own lock.\<close>

definition limited_task ::
    "('m) lib_scheme \<Rightarrow> 'g net_env \<Rightarrow> u64 \<Rightarrow> nat \<Rightarrow> str \<Rightarrow> (('g, 'n) service_base_scheme \<Rightarrow> rate_limit_policy)
      \<Rightarrow> (('g, 'n) service_base_scheme, 'e handler_error + http_response) task
      \<Rightarrow> (('g, 'n) service_base_scheme, 'e handler_error + http_response) task" where
  "limited_task L G now inst key p k =
     Section
       (\<lambda>s. case fst (lim_check G now inst key (p s) (limiter s, disk s)) of
              Inl e \<Rightarrow> Return (Inl (Limiter e))
            | Inr d \<Rightarrow> if allowed d then k else Return (write_rate_limited L d))
       (\<lambda>s. let (l, w) = snd (lim_check G now inst key (p s) (limiter s, disk s)) in s\<lparr>limiter := l, disk := w\<rparr>)"

lemma run_atomically [simp]: "run_task (atomically f) = f"
  by (simp add: fun_eq_iff atomically_def)

lemma run_limited_task: "run_task (limited_task L G now inst key p k) s = limited L G now inst key (p s) (run_task k) s"
  by (auto simp: limited_task_def limited_def split: sum.split prod.split)

subsection \<open>The accept loop and its connections\<close>

record http_server_config =
  service_name :: str
  listen :: str
  max_connections :: u64
  read_timeout_ms :: u64
  body_limit_bytes :: int
  cors :: cors_headers
  tls_acceptor :: "server_tls option"

datatype loop_phase = Acquiring | Accepting | Stopped

datatype ('s, 'e) conn_phase =
    Handshaking
  | Waiting
  | Handling "('s, 'e handler_error + http_response) task"

record ('s, 'e) conn =
  conn_peer :: str
  conn_phase :: "('s, 'e) conn_phase"

text \<open>
  The loop's phase, the free permits, the connections by the number they were accepted under, and
  the shared state; \<open>sv_calls\<close> and \<open>sv_sent\<close> keep the handler calls and the answers of the run.
\<close>

record ('i, 's, 'e) server =
  sv_loop :: loop_phase
  sv_permits :: nat
  sv_conns :: "(nat \<times> ('s, 'e) conn) list"
  sv_accepted :: nat
  sv_state :: 's
  sv_calls :: "('i \<times> str \<times> http_request) list"
  sv_sent :: "(nat \<times> http_response) list"

type_synonym ('i, 's, 'e) handler = "'i \<Rightarrow> str \<Rightarrow> http_request \<Rightarrow> ('s, 'e handler_error + http_response) task"

datatype ('i, 'c) server_event =
    Acquire
  | Accept str
  | AcceptError
  | Hello nat 'c
  | Receive nat 'i raw_request
  | RunSection nat
  | Arrive nat
  | Respond nat
  | Hangup nat

definition permits_of :: "http_server_config \<Rightarrow> nat" where
  "permits_of cfg = unat (max (max_connections cfg) 1)"

definition serve_hyper ::
    "(str \<Rightarrow> str + unit) \<Rightarrow> http_server_config \<Rightarrow> 's \<Rightarrow> str + ('i, 's, 'e) server" where
  "serve_hyper bind cfg s =
     rbind (map_err (\<lambda>_. ''bind '' @ listen cfg) (bind (listen cfg))) (\<lambda>_.
     Inr \<lparr>sv_loop = Acquiring, sv_permits = permits_of cfg, sv_conns = [], sv_accepted = 0,
          sv_state = s, sv_calls = [], sv_sent = []\<rparr>)"

text \<open>A connection ends: its permit is free again.\<close>

definition end_conn :: "nat \<Rightarrow> ('i, 's, 'e) server \<Rightarrow> ('i, 's, 'e) server" where
  "end_conn i sv = sv\<lparr>sv_conns := AList.delete i (sv_conns sv), sv_permits := sv_permits sv + 1\<rparr>"

definition set_phase :: "nat \<Rightarrow> ('s, 'e) conn_phase \<Rightarrow> ('i, 's, 'e) server \<Rightarrow> ('i, 's, 'e) server" where
  "set_phase i p sv = sv\<lparr>sv_conns := AList.map_entry i (\<lambda>c. c\<lparr>conn_phase := p\<rparr>) (sv_conns sv)\<rparr>"

definition bad_request :: "('m) lib_scheme \<Rightarrow> http_server_config \<Rightarrow> http_error \<Rightarrow> http_response" where
  "bad_request L cfg e =
     error_response L 400 (json_compact L (jobj [(''error'', JStr (http_error_message e))])) (cors cfg)"

definition handler_answer ::
    "('m) lib_scheme \<Rightarrow> http_server_config \<Rightarrow> 'e handler_error + http_response \<Rightarrow> http_response" where
  "handler_answer L cfg r =
     (case r of
        Inr resp \<Rightarrow> into_hyper_response L (Some resp) (cors cfg)
      | Inl _ \<Rightarrow>
          error_response L 500 (json_compact L (jobj [(''error'', JStr ''internal server error'')])) (cors cfg))"

text \<open>The loop: a permit first, then a connection; an \<open>accept\<close> that fails ends it.\<close>

fun loop_step :: "http_server_config \<Rightarrow> ('i, 'c) server_event \<Rightarrow> ('i, 's, 'e) server \<Rightarrow> ('i, 's, 'e) server option" where
  "loop_step cfg Acquire sv =
     (if sv_loop sv = Acquiring \<and> 0 < sv_permits sv
      then Some (sv\<lparr>sv_loop := Accepting, sv_permits := sv_permits sv - 1\<rparr>) else None)"
| "loop_step cfg (Accept peer) sv =
     (if sv_loop sv = Accepting
      then Some (sv\<lparr>sv_loop := Acquiring, sv_accepted := sv_accepted sv + 1,
             sv_conns := (sv_accepted sv,
               \<lparr>conn_peer = peer, conn_phase = (if tls_acceptor cfg = None then Waiting else Handshaking)\<rparr>) # sv_conns sv\<rparr>)
      else None)"
| "loop_step cfg AcceptError sv =
     (if sv_loop sv = Accepting then Some (sv\<lparr>sv_loop := Stopped, sv_permits := sv_permits sv + 1\<rparr>) else None)"
| "loop_step cfg _ sv = None"

text \<open>One connection: the handshake where TLS is configured, then requests one after the other.\<close>

fun conn_step ::
    "('m) lib_scheme \<Rightarrow> 'c tls_lib \<Rightarrow> http_server_config \<Rightarrow> ('i, 's, 'e) handler \<Rightarrow> ('i, 'c) server_event
      \<Rightarrow> nat \<Rightarrow> ('s, 'e) conn \<Rightarrow> ('i, 's, 'e) server \<Rightarrow> ('i, 's, 'e) server option" where
  "conn_step L T cfg h (Hello _ c) i co sv =
     (case (conn_phase co, tls_acceptor cfg) of
        (Handshaking, Some a) \<Rightarrow> Some (if tls_accept T a c then set_phase i Waiting sv else end_conn i sv)
      | _ \<Rightarrow> None)"
| "conn_step L T cfg h (Receive _ inp r) i co sv =
     (case conn_phase co of
        Waiting \<Rightarrow>
          Some (case request_from_hyper L (body_limit_bytes cfg) r of
                  Inl e \<Rightarrow> sv\<lparr>sv_sent := sv_sent sv @ [(i, bad_request L cfg e)]\<rparr>
                | Inr req \<Rightarrow>
                    (set_phase i (Handling (h inp (conn_peer co) req)) sv)\<lparr>sv_calls := sv_calls sv @ [(inp, conn_peer co, req)]\<rparr>)
      | _ \<Rightarrow> None)"
| "conn_step L T cfg h (RunSection _) i co sv =
     (case conn_phase co of
        Handling (Section nxt eff) \<Rightarrow>
          Some ((set_phase i (Handling (nxt (sv_state sv))) sv)\<lparr>sv_state := eff (sv_state sv)\<rparr>)
      | _ \<Rightarrow> None)"
| "conn_step L T cfg h (Arrive _) i co sv =
     (case conn_phase co of Handling (Await t) \<Rightarrow> Some (set_phase i (Handling t) sv) | _ \<Rightarrow> None)"
| "conn_step L T cfg h (Respond _) i co sv =
     (case conn_phase co of
        Handling (Return r) \<Rightarrow>
          Some ((set_phase i Waiting sv)\<lparr>sv_sent := sv_sent sv @ [(i, handler_answer L cfg r)]\<rparr>)
      | _ \<Rightarrow> None)"
| "conn_step L T cfg h (Hangup _) i co sv = Some (end_conn i sv)"
| "conn_step L T cfg h _ i co sv = None"

fun event_conn :: "('i, 'c) server_event \<Rightarrow> nat option" where
  "event_conn (Hello i _) = Some i"
| "event_conn (Receive i _ _) = Some i"
| "event_conn (RunSection i) = Some i"
| "event_conn (Arrive i) = Some i"
| "event_conn (Respond i) = Some i"
| "event_conn (Hangup i) = Some i"
| "event_conn _ = None"

definition server_step ::
    "('m) lib_scheme \<Rightarrow> 'c tls_lib \<Rightarrow> http_server_config \<Rightarrow> ('i, 's, 'e) handler \<Rightarrow> ('i, 'c) server_event
      \<Rightarrow> ('i, 's, 'e) server \<Rightarrow> ('i, 's, 'e) server option" where
  "server_step L T cfg h ev sv =
     (case event_conn ev of
        None \<Rightarrow> loop_step cfg ev sv
      | Some i \<Rightarrow> Option.bind (map_of (sv_conns sv) i) (\<lambda>co. conn_step L T cfg h ev i co sv))"

text \<open>The runs of a server, and running a list of events.\<close>

inductive serves ::
    "('m) lib_scheme \<Rightarrow> 'c tls_lib \<Rightarrow> http_server_config \<Rightarrow> ('i, 's, 'e) handler \<Rightarrow> ('i, 's, 'e) server
      \<Rightarrow> ('i, 'c) server_event list \<Rightarrow> ('i, 's, 'e) server \<Rightarrow> bool"
  for L T cfg h sv0 where
  start: "serves L T cfg h sv0 [] sv0"
| step: "serves L T cfg h sv0 evs sv \<Longrightarrow> server_step L T cfg h ev sv = Some sv' \<Longrightarrow> serves L T cfg h sv0 (evs @ [ev]) sv'"

fun server_run ::
    "('m) lib_scheme \<Rightarrow> 'c tls_lib \<Rightarrow> http_server_config \<Rightarrow> ('i, 's, 'e) handler \<Rightarrow> ('i, 'c) server_event list
      \<Rightarrow> ('i, 's, 'e) server \<Rightarrow> ('i, 's, 'e) server option" where
  "server_run L T cfg h [] sv = Some sv"
| "server_run L T cfg h (ev # evs) sv = Option.bind (server_step L T cfg h ev sv) (server_run L T cfg h evs)"

subsection \<open>Permits\<close>

text \<open>
  Every permit is free, held by the loop while it waits for a connection, or held by one connection,
  and connections have distinct numbers below the next one.
\<close>

definition server_ok :: "http_server_config \<Rightarrow> ('i, 's, 'e) server \<Rightarrow> bool" where
  "server_ok cfg sv \<longleftrightarrow>
     distinct (map fst (sv_conns sv)) \<and> list_all (\<lambda>(i, _). i < sv_accepted sv) (sv_conns sv)
     \<and> sv_permits sv + length (sv_conns sv) + (if sv_loop sv = Accepting then 1 else 0) = permits_of cfg"

lemma permits_of_pos [simp]: "0 < permits_of cfg"
  by (simp add: permits_of_def unat_max)

lemma length_delete: "distinct (map fst m) \<Longrightarrow> map_of m i = Some c \<Longrightarrow> Suc (length (AList.delete i m)) = length m"
proof (induction m)
  case (Cons a m)
  show ?case
  proof (cases "fst a = i")
    case True
    then have "i \<notin> fst ` set m" using Cons.prems(1) by auto
    then show ?thesis using True by (cases a) (simp add: delete_idem)
  next
    case False
    then show ?thesis using Cons by (cases a) auto
  qed
qed simp

lemma fst_map_entry: "map fst (AList.map_entry i f m) = map fst m"
  by (induction m) auto

lemma length_map_entry [simp]: "length (AList.map_entry i f m) = length m"
  using arg_cong[OF fst_map_entry, of length i f m] by simp

lemma list_all_keys: "list_all (\<lambda>(i, _). P i) m \<longleftrightarrow> list_all P (map fst m)"
  by (induction m) auto

lemma server_ok_set_phase [simp]: "server_ok cfg (set_phase i p sv) = server_ok cfg sv"
  by (simp add: server_ok_def set_phase_def fst_map_entry list_all_keys)

lemma server_ok_end_conn:
  assumes "server_ok cfg sv" "map_of (sv_conns sv) i = Some co"
  shows "server_ok cfg (end_conn i sv)"
proof -
  have "Suc (length (AList.delete i (sv_conns sv))) = length (sv_conns sv)"
    using assms by (simp add: server_ok_def length_delete)
  moreover have "list_all (\<lambda>(i, _). i < sv_accepted sv) (AList.delete i (sv_conns sv))"
    using assms(1) by (auto simp: server_ok_def list_all_iff AList.delete_eq)
  ultimately show ?thesis using assms(1) by (simp add: server_ok_def end_conn_def distinct_delete)
qed

text \<open>A change to what the permits do not depend on keeps them.\<close>

lemma server_ok_frame [simp]:
  "server_ok cfg (sv\<lparr>sv_state := s\<rparr>) = server_ok cfg sv"
  "server_ok cfg (sv\<lparr>sv_calls := qs\<rparr>) = server_ok cfg sv"
  "server_ok cfg (sv\<lparr>sv_sent := xs\<rparr>) = server_ok cfg sv"
  by (simp_all add: server_ok_def)

lemma loop_step_ok: "server_ok cfg sv \<Longrightarrow> loop_step cfg ev sv = Some sv' \<Longrightarrow> server_ok cfg sv'"
  by (cases ev) (fastforce simp: server_ok_def list_all_iff less_Suc_eq split: if_splits)+

lemma conn_step_ok:
  assumes "server_ok cfg sv" "map_of (sv_conns sv) i = Some co" "conn_step L T cfg h ev i co sv = Some sv'"
  shows "server_ok cfg sv'"
  using assms server_ok_end_conn[OF assms(1,2)]
  by (cases ev) (auto split: conn_phase.splits option.splits sum.splits task.splits if_splits)

lemma server_step_ok: "server_ok cfg sv \<Longrightarrow> server_step L T cfg h ev sv = Some sv' \<Longrightarrow> server_ok cfg sv'"
  using loop_step_ok conn_step_ok
  by (fastforce simp: server_step_def bind_eq_Some_conv split: option.splits)

lemma serve_hyper_ok: "serve_hyper bind cfg s = Inr sv \<Longrightarrow> server_ok cfg sv"
  by (auto simp: serve_hyper_def server_ok_def res_simps)

lemma serves_ok: "serves L T cfg h sv0 evs sv \<Longrightarrow> server_ok cfg sv0 \<Longrightarrow> server_ok cfg sv"
  by (induction rule: serves.induct) (auto dest: server_step_ok)

lemma serves_run: "server_run L T cfg h evs sv = Some sv' \<Longrightarrow> serves L T cfg h sv0 pre sv \<Longrightarrow> serves L T cfg h sv0 (pre @ evs) sv'"
proof (induction evs arbitrary: sv pre)
  case (Cons ev evs)
  then obtain sv1 where "server_step L T cfg h ev sv = Some sv1" "server_run L T cfg h evs sv1 = Some sv'"
    by (auto simp: bind_eq_Some_conv)
  then show ?case using Cons.IH[of sv1 "pre @ [ev]"] serves.step[OF Cons.prems(2)] by simp
qed simp

subsection \<open>Sections under interference\<close>

text \<open>
  \<open>sections_ok le J t a\<close>: whatever the other tasks do between the sections of \<open>t\<close>, as long as they
  keep \<open>J\<close> and only let the record \<open>a\<close> of the run grow along \<open>le\<close>, each section of \<open>t\<close> does so too.
\<close>

primrec sections_ok :: "('a \<Rightarrow> 'a \<Rightarrow> bool) \<Rightarrow> ('a \<Rightarrow> 's \<Rightarrow> bool) \<Rightarrow> ('s, 'r) task \<Rightarrow> 'a \<Rightarrow> bool" where
  "sections_ok le J (Return r) a \<longleftrightarrow> True"
| "sections_ok le J (Section nxt eff) a \<longleftrightarrow>
     (\<forall>a' s. le a a' \<longrightarrow> J a' s \<longrightarrow> (\<exists>a2. le a' a2 \<and> J a2 (eff s) \<and> sections_ok le J (nxt s) a2))"
| "sections_ok le J (Await t) a \<longleftrightarrow> sections_ok le J t a"

lemma sections_atomically:
  "sections_ok le J (atomically f) a \<longleftrightarrow> (\<forall>a' s. le a a' \<longrightarrow> J a' s \<longrightarrow> (\<exists>b. le a' b \<and> J b (snd (f s))))"
  by (simp add: atomically_def)

lemma sections_limited:
  assumes lim: "\<And>a s. J a s \<Longrightarrow> J a (snd (limited L G now inst key (p s) (\<lambda>s. (Inl EncodeJson :: 'e handler_error + http_response, s)) s))"
    and refl: "\<And>a. le a a" and k: "\<And>a. sections_ok le J k a"
  shows "sections_ok le J (limited_task L G now inst key p k) a"
proof -
  have eff: "(let (l, w) = snd (lim_check G now inst key (p s) (limiter s, disk s)) in s\<lparr>limiter := l, disk := w\<rparr>)
      = snd (limited L G now inst key (p s) (\<lambda>s. (Inl EncodeJson :: 'e handler_error + http_response, s)) s)" for s
    by (auto simp: limited_def split: sum.split prod.split)
  show ?thesis
    unfolding limited_task_def sections_ok.simps eff
    using lim refl k by (auto split: sum.split)
qed

text \<open>The connections whose handler is under way.\<close>

fun pending :: "('a \<Rightarrow> 'a \<Rightarrow> bool) \<Rightarrow> ('a \<Rightarrow> 's \<Rightarrow> bool) \<Rightarrow> 'a \<Rightarrow> ('s, 'e) conn_phase \<Rightarrow> bool" where
  "pending le J a (Handling t) = sections_ok le J t a"
| "pending le J a _ = True"

definition all_pending :: "('a \<Rightarrow> 'a \<Rightarrow> bool) \<Rightarrow> ('a \<Rightarrow> 's \<Rightarrow> bool) \<Rightarrow> 'a \<Rightarrow> ('i, 's, 'e) server \<Rightarrow> bool" where
  "all_pending le J a sv \<longleftrightarrow> (\<forall>(i, co) \<in> set (sv_conns sv). pending le J a (conn_phase co))"

lemma set_map_entry_cases:
  "(j, c) \<in> set (AList.map_entry i f m) \<Longrightarrow> (j, c) \<in> set m \<or> (j = i \<and> (\<exists>d. c = f d))"
  by (induction m) (auto split: if_splits)

lemma all_pending_set_phase:
  assumes "all_pending le J a sv" "pending le J a p"
  shows "all_pending le J a (set_phase i p sv)"
  using assms by (auto simp: all_pending_def set_phase_def dest!: set_map_entry_cases)

lemma all_pending_end_conn: "all_pending le J a sv \<Longrightarrow> all_pending le J a (end_conn i sv)"
  by (auto simp: all_pending_def end_conn_def AList.delete_eq)

lemma all_pending_frame [simp]:
  "all_pending le J a (sv\<lparr>sv_state := s\<rparr>) = all_pending le J a sv"
  "all_pending le J a (sv\<lparr>sv_calls := qs\<rparr>) = all_pending le J a sv"
  "all_pending le J a (sv\<lparr>sv_sent := xs\<rparr>) = all_pending le J a sv"
  by (simp_all add: all_pending_def)

lemma state_frame [simp]:
  "sv_state (set_phase i p sv) = sv_state sv" "sv_calls (set_phase i p sv) = sv_calls sv"
  "sv_sent (set_phase i p sv) = sv_sent sv"
  "sv_state (end_conn i sv) = sv_state sv" "sv_calls (end_conn i sv) = sv_calls sv"
  by (simp_all add: set_phase_def end_conn_def)

lemma conn_step_calls: "conn_step L T cfg h ev i co sv = Some sv' \<Longrightarrow> \<exists>qs. sv_calls sv' = sv_calls sv @ qs"
  by (cases ev; cases "conn_phase co") (auto split: option.splits sum.splits task.splits if_splits)

lemma loop_step_calls: "loop_step cfg ev sv = Some sv' \<Longrightarrow> sv_calls sv' = sv_calls sv"
  by (cases ev) (auto split: if_splits)

lemma server_step_calls: "server_step L T cfg h ev sv = Some sv' \<Longrightarrow> \<exists>qs. sv_calls sv' = sv_calls sv @ qs"
  using conn_step_calls loop_step_calls
  by (fastforce simp: server_step_def bind_eq_Some_conv split: option.splits)

text \<open>
  The contract of a service whose handler keeps \<open>J\<close> section by section, for the requests \<open>ok\<close>
  admits; then the server keeps it however the connections interleave and whenever peers go away.
\<close>

locale sectioned_service =
  fixes le :: "'a \<Rightarrow> 'a \<Rightarrow> bool" and J :: "'a \<Rightarrow> 's \<Rightarrow> bool"
    and handle :: "'i \<Rightarrow> str \<Rightarrow> http_request \<Rightarrow> ('s, 'e handler_error + http_response) task"
    and ok :: "'i \<times> str \<times> http_request \<Rightarrow> bool"
  assumes le_refl: "le a a"
    and le_trans: "le a b \<Longrightarrow> le b c \<Longrightarrow> le a c"
    and handle_ok: "ok (inp, peer, req) \<Longrightarrow> sections_ok le J (handle inp peer req) a"
begin

lemma sections_mono: "sections_ok le J t a \<Longrightarrow> le a b \<Longrightarrow> sections_ok le J t b"
  using le_trans by (induction t) (simp, force, simp)

lemma all_pending_mono: "all_pending le J a sv \<Longrightarrow> le a b \<Longrightarrow> all_pending le J b sv"
  unfolding all_pending_def
  by (fastforce intro: sections_mono elim!: pending.elims)

lemma conn_step_keeps:
  assumes "J a (sv_state sv)" "all_pending le J a sv" "map_of (sv_conns sv) i = Some co"
    and "conn_step L T cfg handle ev i co sv = Some sv'" "list_all ok (sv_calls sv')"
  shows "\<exists>b. le a b \<and> J b (sv_state sv') \<and> all_pending le J b sv'"
proof (cases "\<exists>nxt eff. conn_phase co = Handling (Section nxt eff) \<and> (\<exists>j. ev = RunSection j)")
  case True
  then obtain nxt eff j where p: "conn_phase co = Handling (Section nxt eff)" and ev: "ev = RunSection j" by blast
  have "sections_ok le J (Section nxt eff) a"
    using assms(2) map_of_SomeD[OF assms(3)] p by (force simp: all_pending_def)
  then obtain b where b: "le a b" "J b (eff (sv_state sv))" "sections_ok le J (nxt (sv_state sv)) b"
    using assms(1) le_refl[of a] unfolding sections_ok.simps by blast
  have "sv' = (set_phase i (Handling (nxt (sv_state sv))) sv)\<lparr>sv_state := eff (sv_state sv)\<rparr>"
    using assms(4) p ev by simp
  then show ?thesis
    using b all_pending_set_phase[OF all_pending_mono[OF assms(2) b(1)]] by (intro exI[of _ b]) simp
next
  case False
  have pend: "pending le J a (conn_phase co)"
    using assms(2) map_of_SomeD[OF assms(3)] by (force simp: all_pending_def)
  have "sv_state sv' = sv_state sv \<and> all_pending le J a sv'"
    using assms False pend all_pending_end_conn[OF assms(2)] all_pending_set_phase[OF assms(2)] handle_ok
    by (cases ev) (auto split: conn_phase.splits option.splits sum.splits task.splits if_splits)
  then show ?thesis using assms(1) le_refl by auto
qed

lemma server_step_keeps:
  assumes "J a (sv_state sv)" "all_pending le J a sv"
    and "server_step L T cfg handle ev sv = Some sv'" "list_all ok (sv_calls sv')"
  shows "\<exists>b. le a b \<and> J b (sv_state sv') \<and> all_pending le J b sv'"
proof (cases "event_conn ev")
  case None
  then have "loop_step cfg ev sv = Some sv'" using assms(3) by (simp add: server_step_def)
  then have "sv_state sv' = sv_state sv \<and> all_pending le J a sv'"
    using assms(2) by (cases ev) (auto simp: all_pending_def split: if_splits)
  then show ?thesis using assms(1) le_refl by auto
next
  case (Some i)
  then show ?thesis
    using assms conn_step_keeps[OF assms(1,2)] by (auto simp: server_step_def bind_eq_Some_conv)
qed

lemma server_keeps:
  assumes "serves L T cfg handle sv0 evs sv" "J a (sv_state sv0)" "sv_conns sv0 = []" "list_all ok (sv_calls sv)"
  shows "\<exists>b. le a b \<and> J b (sv_state sv)"
proof -
  have "\<exists>b. le a b \<and> J b (sv_state sv) \<and> all_pending le J b sv"
    using assms(1,4)
  proof (induction rule: serves.induct)
    case start
    then show ?case using assms(2,3) le_refl by (auto simp: all_pending_def)
  next
    case (step evs sv ev sv')
    have "list_all ok (sv_calls sv)" using step.prems server_step_calls[OF step.hyps(2)] by auto
    then obtain b where "le a b" "J b (sv_state sv)" "all_pending le J b sv" using step.IH by blast
    then show ?case using server_step_keeps[OF _ _ step.hyps(2) step.prems] le_trans by blast
  qed
  then show ?thesis by blast
qed

end

subsection \<open>The handshake comes first\<close>

text \<open>With TLS, a connection past its handshake was accepted by the TLS library.\<close>

definition greeted :: "'c tls_lib \<Rightarrow> server_tls \<Rightarrow> ('i, 'c) server_event list \<Rightarrow> nat \<Rightarrow> bool" where
  "greeted T a evs i \<longleftrightarrow> (\<exists>c. Hello i c \<in> set evs \<and> tls_accept T a c)"

definition past_handshake :: "'c tls_lib \<Rightarrow> server_tls \<Rightarrow> ('i, 'c) server_event list \<Rightarrow> ('i, 's, 'e) server \<Rightarrow> bool" where
  "past_handshake T a evs sv \<longleftrightarrow>
     (\<forall>(i, co) \<in> set (sv_conns sv). conn_phase co = Handshaking \<or> greeted T a evs i)"

lemma greeted_mono: "greeted T a evs i \<Longrightarrow> greeted T a (evs @ new) i"
  by (auto simp: greeted_def)

lemma past_handshake_mono: "past_handshake T a evs sv \<Longrightarrow> past_handshake T a (evs @ new) sv"
  using greeted_mono unfolding past_handshake_def by fastforce

lemma past_handshake_set_phase:
  assumes "past_handshake T a evs sv" "greeted T a evs i"
  shows "past_handshake T a evs (set_phase i p sv)"
  using assms by (auto simp: past_handshake_def set_phase_def dest!: set_map_entry_cases)

lemma past_handshake_frame [simp]:
  "past_handshake T a evs (sv\<lparr>sv_state := s\<rparr>) = past_handshake T a evs sv"
  "past_handshake T a evs (sv\<lparr>sv_calls := qs\<rparr>) = past_handshake T a evs sv"
  "past_handshake T a evs (sv\<lparr>sv_sent := xs\<rparr>) = past_handshake T a evs sv"
  by (simp_all add: past_handshake_def)

lemma past_handshake_end_conn: "past_handshake T a evs sv \<Longrightarrow> past_handshake T a evs (end_conn i sv)"
  by (auto simp: past_handshake_def end_conn_def AList.delete_eq)

lemma loop_step_past:
  assumes "tls_acceptor cfg = Some a" "past_handshake T a evs sv" "loop_step cfg ev sv = Some sv'"
  shows "past_handshake T a evs sv'"
  using assms by (cases ev) (auto simp: past_handshake_def split: if_splits)

lemma conn_step_past:
  assumes "tls_acceptor cfg = Some a" "past_handshake T a evs sv" "map_of (sv_conns sv) i = Some co"
    and "event_conn ev = Some i" "conn_step L T cfg h ev i co sv = Some sv'"
  shows "past_handshake T a (evs @ [ev]) sv'"
proof -
  have past: "past_handshake T a (evs @ [ev]) sv" by (rule past_handshake_mono[OF assms(2)])
  note keep = past_handshake_set_phase[OF past] past_handshake_end_conn[OF past, of i]
  have "greeted T a evs i" if "conn_phase co \<noteq> Handshaking"
    using assms(2) map_of_SomeD[OF assms(3)] that by (auto simp: past_handshake_def)
  then have g: "greeted T a (evs @ [ev]) i" if "conn_phase co \<noteq> Handshaking" using that greeted_mono by blast
  show ?thesis
  proof (cases "conn_phase co")
    case Handshaking
    then show ?thesis using assms keep past by (cases ev) (auto simp: greeted_def split: if_splits)
  next
    case Waiting
    then show ?thesis using assms keep past g by (cases ev) (auto split: sum.splits if_splits)
  next
    case (Handling t)
    then show ?thesis using assms keep past g by (cases ev; cases t) auto
  qed
qed

lemma server_step_past:
  assumes "tls_acceptor cfg = Some a" "past_handshake T a evs sv" "server_step L T cfg h ev sv = Some sv'"
  shows "past_handshake T a (evs @ [ev]) sv'"
proof (cases "event_conn ev")
  case None
  then show ?thesis
    using loop_step_past[OF assms(1,2)] assms(3) past_handshake_mono by (fastforce simp: server_step_def)
next
  case (Some i)
  then show ?thesis using conn_step_past[OF assms(1,2)] assms(3) by (auto simp: server_step_def bind_eq_Some_conv)
qed

lemma serves_past:
  "serves L T cfg h sv0 evs sv \<Longrightarrow> tls_acceptor cfg = Some a \<Longrightarrow> sv_conns sv0 = [] \<Longrightarrow> past_handshake T a evs sv"
  by (induction rule: serves.induct) (simp add: past_handshake_def, blast intro: server_step_past)

lemma serves_prefix:
  assumes "serves L T cfg h sv0 evs sv" "evs = pre @ ev # post"
  shows "\<exists>sv1 sv2. serves L T cfg h sv0 pre sv1 \<and> server_step L T cfg h ev sv1 = Some sv2"
  using assms
proof (induction arbitrary: post rule: serves.induct)
  case (step evs sv ev' sv')
  show ?case
  proof (cases post rule: rev_cases)
    case Nil
    then show ?thesis using step by auto
  next
    case (snoc post' x)
    then show ?thesis using step by auto
  qed
qed simp

lemma received_after_hello:
  assumes "serves L T cfg h sv0 (pre @ Receive i inp r # post) sv" "tls_acceptor cfg = Some a" "sv_conns sv0 = []"
  shows "greeted T a pre i"
proof -
  obtain sv1 sv2 where sv1: "serves L T cfg h sv0 pre sv1" "server_step L T cfg h (Receive i inp r) sv1 = Some sv2"
    using serves_prefix[OF assms(1) refl] by blast
  obtain co where co: "map_of (sv_conns sv1) i = Some co" "conn_step L T cfg h (Receive i inp r) i co sv1 = Some sv2"
    using sv1(2) by (auto simp: server_step_def bind_eq_Some_conv)
  then have "conn_phase co = Waiting" by (cases "conn_phase co") auto
  then show ?thesis
    using serves_past[OF sv1(1) assms(2,3)] map_of_SomeD[OF co(1)] by (force simp: past_handshake_def)
qed

lemma serve_hyper_start: "serve_hyper bind cfg s = Inr sv \<Longrightarrow>
    sv_loop sv = Acquiring \<and> sv_permits sv = permits_of cfg \<and> sv_conns sv = [] \<and> sv_accepted sv = 0
    \<and> sv_state sv = s \<and> sv_calls sv = [] \<and> sv_sent sv = []"
  by (auto simp: serve_hyper_def res_simps)

lemma load_config_roots:
  "load_rustls_server_config T w cert key (Some ca) = Inr a \<Longrightarrow>
   \<exists>roots. tls_client_roots a = Some roots \<and> load_client_roots T w ca = Inr roots"
  by (auto simp: load_rustls_server_config_def res_simps)

subsection \<open>A request without interference\<close>

text \<open>
  With nothing in between and everything arriving, what the server answers is what \<open>hyper_request\<close> answers
  with the handler run as one piece.
\<close>

lemma hyper_request_task:
  "hyper_request L lim (cors cfg) (\<lambda>req. run_task (f req)) r s =
     (case request_from_hyper L lim r of
        Inl e \<Rightarrow> (bad_request L cfg e, s)
      | Inr req \<Rightarrow> (handler_answer L cfg (fst (run_task (f req) s)), snd (run_task (f req) s)))"
  by (auto simp: hyper_request_def bad_request_def handler_answer_def split: sum.split prod.split)

subsection \<open>Silent peers\<close>

text \<open>\<open>n\<close> peers that connect and send nothing.\<close>

fun silent_peers :: "nat \<Rightarrow> ('i, 'c) server_event list" where
  "silent_peers 0 = []"
| "silent_peers (Suc n) = silent_peers n @ [Acquire, Accept ''192.0.2.1'']"

lemma server_run_append:
  "server_run L T cfg h (xs @ ys) sv = Option.bind (server_run L T cfg h xs sv) (server_run L T cfg h ys)"
  by (induction xs arbitrary: sv) (auto simp: bind_assoc split: bind_splits)

lemma run_silent_peers:
  assumes "sv_loop sv = Acquiring" "n \<le> sv_permits sv" "sv_conns sv = []" "tls_acceptor cfg = Some a"
  shows "\<exists>sv'. server_run L T cfg h (silent_peers n) sv = Some sv' \<and> sv_loop sv' = Acquiring
     \<and> sv_permits sv' = sv_permits sv - n \<and> length (sv_conns sv') = n
     \<and> list_all (\<lambda>(i, co). conn_phase co = Handshaking) (sv_conns sv')"
  using assms
proof (induction n)
  case (Suc n)
  then obtain sv' where "server_run L T cfg h (silent_peers n) sv = Some sv'" "sv_loop sv' = Acquiring"
      "sv_permits sv' = sv_permits sv - n" "length (sv_conns sv') = n"
      "list_all (\<lambda>(i, co). conn_phase co = Handshaking) (sv_conns sv')"
    by auto
  then show ?case using Suc.prems by (simp add: server_run_append server_step_def)
qed simp

lemma stalled_step:
  assumes "sv_loop sv = Acquiring" "sv_permits sv = 0" "list_all (\<lambda>(i, co). conn_phase co = Handshaking) (sv_conns sv)"
    and "server_step L T cfg h ev sv = Some sv'"
  shows "\<exists>i co. (i, co) \<in> set (sv_conns sv) \<and> ((\<exists>c. ev = Hello i c) \<or> ev = Hangup i)"
proof (cases "event_conn ev")
  case None
  then show ?thesis using assms by (cases ev) (auto simp: server_step_def)
next
  case (Some i)
  then obtain co where co: "map_of (sv_conns sv) i = Some co" "conn_step L T cfg h ev i co sv = Some sv'"
    using assms(4) by (auto simp: server_step_def bind_eq_Some_conv)
  have "conn_phase co = Handshaking" using assms(3) map_of_SomeD[OF co(1)] by (auto simp: list_all_iff)
  then show ?thesis using Some co map_of_SomeD[OF co(1)] by (cases ev) auto
qed

subsection \<open>Reference instances\<close>

text \<open>
  A TLS library that reads one certificate or key per file and accepts the peers that present one of
  the roots, a server with two permits and client certificates, and a handler that counts.
\<close>

definition ref_tls_lib :: "bytes tls_lib" where
  "ref_tls_lib = \<lparr>pem_certs = \<lambda>b. Inr (if b = [] then [] else [b]), pem_private_key = \<lambda>b. Inr (Some b),
     root_add = Inr, build_verifier = \<lambda>_. Inr (), single_cert = \<lambda>_ _. Inr (),
     tls_accept = \<lambda>a c. case tls_client_roots a of None \<Rightarrow> True | Some rs \<Rightarrow> c \<in> set rs\<rparr>"

definition ref_tls_files :: fs where
  "ref_tls_files = \<lparr>files = [(''ca.pem'', ''CA''), (''cert.pem'', ''CERT''), (''key.pem'', ''KEY'')], faulty = (\<lambda>_. False)\<rparr>"

definition ref_tls :: server_tls where
  "ref_tls = \<lparr>tls_certs = [''CERT''], tls_key = ''KEY'', tls_client_roots = Some [''CA''], tls_alpn = [''http/1.1'']\<rparr>"

definition ref_server_config :: http_server_config where
  "ref_server_config = \<lparr>service_name = ''event-service'', listen = ''127.0.0.1:8080'', max_connections = 2,
     read_timeout_ms = 5000, body_limit_bytes = 1024,
     cors = \<lparr>allow_headers = ''content-type'', expose_headers = None\<rparr>, tls_acceptor = Some ref_tls\<rparr>"

definition ref_counter :: "(unit, nat, unit) handler" where
  "ref_counter = (\<lambda>_ _ _. Section (\<lambda>n. atomically (\<lambda>m. (Inr (write_response 200 ''text/plain'' []), m + n))) Suc)"

definition ref_get :: raw_request where
  "ref_get = \<lparr>raw_method = ''GET'', raw_path_and_query = None, raw_headers = [], raw_body = Body []\<rparr>"

definition ref_server :: "(unit, nat, unit) server" where
  "ref_server = \<lparr>sv_loop = Acquiring, sv_permits = 2, sv_conns = [], sv_accepted = 0, sv_state = 0, sv_calls = [], sv_sent = []\<rparr>"

lemma ref_load_tls: "rustls_acceptor_from_paths (load_rustls_server_config ref_tls_lib ref_tls_files) (Some ''cert.pem'')
    (Some ''key.pem'') (Some ''ca.pem'') = Inr (Some ref_tls)"
  by (simp add: rustls_acceptor_from_paths_def load_rustls_server_config_def load_client_roots_def ref_tls_lib_def
      ref_tls_files_def ref_tls_def fs_read_def ensure_def)

lemma ref_server_starts: "serve_hyper (\<lambda>_. Inr ()) ref_server_config 0 = Inr ref_server"
  by (simp add: serve_hyper_def ref_server_config_def ref_server_def permits_of_def)

lemmas ref_server_simps = server_step_def ref_server_def ref_server_config_def ref_tls_def ref_tls_lib_def set_phase_def
  end_conn_def permits_of_def

lemma ref_server_run:
  "server_run ref_lib ref_tls_lib ref_server_config ref_counter
     [Acquire, Accept ''10.0.0.1'', Acquire, Accept ''10.0.0.2'', Hello 0 ''CA'', Hello 1 ''other''] ref_server
   = Some (ref_server\<lparr>sv_permits := 1, sv_accepted := 2,
       sv_conns := [(0, \<lparr>conn_peer = ''10.0.0.1'', conn_phase = Waiting\<rparr>)]\<rparr>)"
  by (simp add: ref_server_simps)

subsection \<open>Properties\<close>

text \<open>
  C20: the connection bound holds in every state the server can reach, whatever the peers do: at most
  \<open>max(1, max_connections)\<close> connections are open at once. Each permit is free, held by the loop or by
  one connection, so no permit is lost when handshakes fail, handlers fail or peers go away, and none
  is released twice.
\<close>

theorem connections_bounded:
  assumes "serve_hyper bind cfg s = Inr sv0" "serves L T cfg h sv0 evs sv"
  shows "length (sv_conns sv) \<le> max 1 (unat (max_connections cfg)) \<and> distinct (map fst (sv_conns sv))
    \<and> sv_permits sv + length (sv_conns sv) + (if sv_loop sv = Accepting then 1 else 0) = max 1 (unat (max_connections cfg))"
  using serves_ok[OF assms(2) serve_hyper_ok[OF assms(1)]]
  by (auto simp: server_ok_def permits_of_def unat_max max.commute split: if_splits)

theorem connections_bounded_witness:
  "\<exists>sv. serves ref_lib ref_tls_lib ref_server_config ref_counter ref_server
     [Acquire, Accept ''10.0.0.1'', Acquire, Accept ''10.0.0.2'', Hello 0 ''CA'', Hello 1 ''other''] sv
     \<and> sv_permits sv + length (sv_conns sv) + (if sv_loop sv = Accepting then 1 else 0) = max 1 (unat (max_connections ref_server_config))
     \<and> length (sv_conns sv) = 1"
proof -
  note r = serves_run[OF ref_server_run serves.start, simplified]
  show ?thesis using connections_bounded[OF ref_server_starts r] r by (intro exI conjI) auto
qed

text \<open>
  C21: with a client CA configured, a request reaches the handler only on a connection whose TLS
  handshake was accepted before, by an acceptor that verifies client certificates against the
  certificates of that CA file.
\<close>

theorem handler_behind_client_ca:
  assumes "rustls_acceptor_from_paths (load_rustls_server_config T w) (Some cert) (Some key) (Some ca) = Inr (tls_acceptor cfg)"
    and "serve_hyper bind cfg s = Inr sv0" "serves L T cfg h sv0 (pre @ Receive i inp r # post) sv"
  shows "\<exists>a roots c. tls_acceptor cfg = Some a \<and> load_client_roots T w ca = Inr roots \<and> tls_client_roots a = Some roots
    \<and> Hello i c \<in> set pre \<and> tls_accept T a c"
proof -
  obtain a where a: "tls_acceptor cfg = Some a" "load_rustls_server_config T w cert key (Some ca) = Inr a"
    using assms(1) by (fastforce simp: rustls_acceptor_from_paths_def res_simps dest: sym)
  have "greeted T a pre i"
    using received_after_hello[OF assms(3) a(1)] serve_hyper_start[OF assms(2)] by blast
  then show ?thesis using a load_config_roots[OF a(2)] by (auto simp: greeted_def)
qed

theorem handler_behind_client_ca_witness:
  "\<exists>a roots c. tls_acceptor ref_server_config = Some a \<and> load_client_roots ref_tls_lib ref_tls_files ''ca.pem'' = Inr roots
    \<and> tls_client_roots a = Some roots
    \<and> Hello 0 c \<in> set ([Acquire, Accept ''10.0.0.1'', Hello 0 ''CA''] :: (unit, bytes) server_event list) \<and> tls_accept ref_tls_lib a c"
proof -
  have run: "server_run ref_lib ref_tls_lib ref_server_config ref_counter
      ([Acquire, Accept ''10.0.0.1'', Hello 0 ''CA''] @ [Receive 0 () ref_get]) ref_server \<noteq> None"
    by (simp add: ref_server_simps ref_get_def request_from_hyper_def content_length_def collect_body_def)
  then obtain sv where "serves ref_lib ref_tls_lib ref_server_config ref_counter ref_server
      ([Acquire, Accept ''10.0.0.1'', Hello 0 ''CA''] @ Receive 0 () ref_get # []) sv"
    using serves_run[OF _ serves.start] by fastforce
  from handler_behind_client_ca[OF _ ref_server_starts this] ref_load_tls
  show ?thesis by (simp add: ref_server_config_def)
qed

text \<open>
  C34: with TLS, the server can be stopped by peers that connect and say nothing. The read timeout
  starts with the body of a request; the handshake is under none. Once \<open>max(1, max_connections)\<close> such
  peers hold the permits, the only things that can happen are that one of them speaks or leaves: no
  connection is accepted and no request is served until then.
\<close>

theorem silent_peers_stall_server:
  fixes h :: "('i, 's, 'e) handler" and T :: "'c tls_lib"
  assumes "serve_hyper bind cfg s = Inr sv0" "tls_acceptor cfg = Some a"
  shows "\<exists>evs sv. serves L T cfg h sv0 evs sv \<and> length (sv_conns sv) = max 1 (unat (max_connections cfg))
    \<and> (\<forall>ev sv'. server_step L T cfg h ev sv = Some sv' \<longrightarrow>
         (\<exists>i. i \<in> fst ` set (sv_conns sv) \<and> ((\<exists>c. ev = Hello i c) \<or> ev = Hangup i)))"
proof -
  note st = serve_hyper_start[OF assms(1)]
  obtain sv where sv: "server_run L T cfg h (silent_peers (permits_of cfg)) sv0 = Some sv" "sv_loop sv = Acquiring"
      "sv_permits sv = 0" "length (sv_conns sv) = permits_of cfg"
      "list_all (\<lambda>(i, co). conn_phase co = Handshaking) (sv_conns sv)"
    using run_silent_peers[of sv0 "permits_of cfg" cfg a L T h] st assms(2) by auto
  have "serves L T cfg h sv0 (silent_peers (permits_of cfg)) sv"
    using serves_run[OF sv(1) serves.start] by simp
  then show ?thesis
    using sv(4) stalled_step[OF sv(2,3,5)]
    by (intro exI[of _ "silent_peers (permits_of cfg)"] exI[of _ sv])
       (force simp: permits_of_def unat_max max.commute)
qed

theorem silent_peers_stall_server_witness:
  "\<exists>evs sv. serves ref_lib ref_tls_lib ref_server_config ref_counter ref_server evs sv \<and> length (sv_conns sv) = 2
    \<and> server_step ref_lib ref_tls_lib ref_server_config ref_counter Acquire sv = None"
proof -
  have two: "max 1 (unat (max_connections ref_server_config)) = 2" by (simp add: ref_server_config_def)
  obtain evs sv where "serves ref_lib ref_tls_lib ref_server_config ref_counter ref_server evs sv" "length (sv_conns sv) = 2"
      "\<forall>ev sv'. server_step ref_lib ref_tls_lib ref_server_config ref_counter ev sv = Some sv' \<longrightarrow>
         (\<exists>i. i \<in> fst ` set (sv_conns sv) \<and> ((\<exists>c. ev = Hello i c) \<or> ev = Hangup i))"
    using silent_peers_stall_server[OF ref_server_starts, of ref_tls ref_lib ref_tls_lib ref_counter, unfolded two]
    by (auto simp: ref_server_config_def)
  moreover have "event_conn (Acquire :: (unit, bytes) server_event) = None" by simp
  ultimately show ?thesis by (metis event_conn.simps(1,6) not_Some_eq option.distinct(1))
qed

end
