(* ===== verification/Text_Codec.thy ===== *)
theory Text_Codec
  imports External
begin

section \<open>Text encodings (\<open>src/bin/llm-event-service.rs\<close>)\<close>

text \<open>
  The escapes and URL encodings the event service renders and parses with, and the parts of
  \<open>std::str\<close> they rest on: UTF-8 validity, \<open>String::from_utf8_lossy\<close>, \<open>chars\<close> and \<open>replace\<close>.
\<close>

subsection \<open>UTF-8\<close>

text \<open>
  The ranges of the continuation bytes that may follow a lead byte: one list entry per byte, none
  for ASCII, \<open>None\<close> for a byte that starts no character.
\<close>

definition utf8_ranges :: "char \<Rightarrow> (int \<times> int) list option" where
  "utf8_ranges c = (let b = (of_char c :: int) in
     if b < 0x80 then Some []
     else if b < 0xC2 then None
     else if b < 0xE0 then Some [(0x80, 0xBF)]
     else if b = 0xE0 then Some [(0xA0, 0xBF), (0x80, 0xBF)]
     else if b = 0xED then Some [(0x80, 0x9F), (0x80, 0xBF)]
     else if b < 0xF0 then Some [(0x80, 0xBF), (0x80, 0xBF)]
     else if b = 0xF0 then Some [(0x90, 0xBF), (0x80, 0xBF), (0x80, 0xBF)]
     else if b < 0xF4 then Some [(0x80, 0xBF), (0x80, 0xBF), (0x80, 0xBF)]
     else if b = 0xF4 then Some [(0x80, 0x8F), (0x80, 0xBF), (0x80, 0xBF)]
     else None)"

text \<open>The continuation bytes taken, what is left, and whether the character is complete.\<close>

fun utf8_tail :: "(int \<times> int) list \<Rightarrow> bytes \<Rightarrow> bytes \<times> bytes \<times> bool" where
  "utf8_tail [] bs = ([], bs, True)"
| "utf8_tail (r # rs) [] = ([], [], False)"
| "utf8_tail (r # rs) (c # cs) =
     (if fst r \<le> of_char c \<and> of_char c \<le> snd r
      then (case utf8_tail rs cs of (t, rest, ok) \<Rightarrow> (c # t, rest, ok))
      else ([], c # cs, False))"

lemma utf8_tail_length: "utf8_tail rs bs = (t, rest, ok) \<Longrightarrow> length rest \<le> length bs"
  by (induction rs bs arbitrary: t rest ok rule: utf8_tail.induct) (fastforce split: if_splits prod.splits)+

definition REPLACEMENT :: str where
  "REPLACEMENT = [CHR 0xEF, CHR 0xBF, CHR 0xBD]"

function utf8_lossy :: "bytes \<Rightarrow> str" where
  "utf8_lossy [] = []"
| "utf8_lossy (c # cs) =
     (case utf8_ranges c of
        None \<Rightarrow> REPLACEMENT @ utf8_lossy cs
      | Some rs \<Rightarrow>
         (case utf8_tail rs cs of (t, rest, ok) \<Rightarrow> (if ok then c # t else REPLACEMENT) @ utf8_lossy rest))"
  by pat_completeness auto
termination
  by (relation "measure length") (auto dest: utf8_tail_length[OF sym] simp: le_imp_less_Suc)

function utf8_valid :: "bytes \<Rightarrow> bool" where
  "utf8_valid [] = True"
| "utf8_valid (c # cs) =
     (case utf8_ranges c of
        None \<Rightarrow> False
      | Some rs \<Rightarrow> (case utf8_tail rs cs of (t, rest, ok) \<Rightarrow> ok \<and> utf8_valid rest))"
  by pat_completeness auto
termination
  by (relation "measure length") (auto dest: utf8_tail_length[OF sym] simp: le_imp_less_Suc)

text \<open>\<open>chars().take(n)\<close> and \<open>chars().count()\<close> of valid text: a character starts at every byte that is no continuation.\<close>

definition utf8_continues :: "char \<Rightarrow> bool" where
  "utf8_continues c \<longleftrightarrow> 0x80 \<le> (of_char c :: int) \<and> (of_char c :: int) < 0xC0"

definition chars_count :: "str \<Rightarrow> nat" where
  "chars_count s = length (filter (\<lambda>c. \<not> utf8_continues c) s)"

fun chars_take :: "nat \<Rightarrow> str \<Rightarrow> str" where
  "chars_take n [] = []"
| "chars_take n (c # cs) =
     (if utf8_continues c then c # chars_take n cs
      else case n of 0 \<Rightarrow> [] | Suc m \<Rightarrow> c # chars_take m cs)"

text \<open>\<open>str::replace\<close> with a non-empty pattern: leftmost matches, not rescanned.\<close>

function replace_str :: "str \<Rightarrow> str \<Rightarrow> str \<Rightarrow> str" where
  "replace_str p r s =
     (if s = [] \<or> p = [] then s
      else if starts_with p s then r @ replace_str p r (drop (length p) s)
      else hd s # replace_str p r (tl s))"
  by pat_completeness auto
termination
  by (relation "measure (\<lambda>(p, r, s). length s)") (auto simp: length_greater_0_conv)

declare replace_str.simps [simp del]

text \<open>\<open>std::fs::read_to_string\<close>: the contents must be valid UTF-8.\<close>

definition read_to_string :: "fs \<Rightarrow> str \<Rightarrow> str option" where
  "read_to_string w p = (case fs_read w p of Inl _ \<Rightarrow> None | Inr b \<Rightarrow> if utf8_valid b then Some b else None)"

subsection \<open>Escapes\<close>

definition html_escape :: "str \<Rightarrow> str" where
  "html_escape v =
     replace_char (CHR 0x22) ''&quot;'' (replace_char (CHR ''>'') ''&gt;''
       (replace_char (CHR ''<'') ''&lt;'' (replace_char (CHR ''&'') ''&amp;'' v)))"

definition xml_escape :: "str \<Rightarrow> str" where
  "xml_escape v = replace_char (CHR 0x27) ''&apos;'' (html_escape v)"

definition script_escape :: "str \<Rightarrow> str" where
  "script_escape v =
     replace_str [CHR 0xE2, CHR 0x80, CHR 0xA9] (CHR 0x5C # ''u2029'')
       (replace_str [CHR 0xE2, CHR 0x80, CHR 0xA8] (CHR 0x5C # ''u2028'')
         (replace_str ''<!--'' (''<'' @ CHR 0x5C # ''!--'')
           (replace_str ''</'' (''<'' @ CHR 0x5C # ''/'') v)))"

definition truncate_text :: "str \<Rightarrow> nat \<Rightarrow> str" where
  "truncate_text v lim = (if chars_count v \<le> lim then v else chars_take (lim - 3) v @ ''...'')"

subsection \<open>URLs\<close>

definition url_unreserved :: "char \<Rightarrow> bool" where
  "url_unreserved c \<longleftrightarrow> CHR ''A'' \<le> c \<and> c \<le> CHR ''Z'' \<or> CHR ''a'' \<le> c \<and> c \<le> CHR ''z''
     \<or> CHR ''0'' \<le> c \<and> c \<le> CHR ''9'' \<or> c \<in> {CHR ''-'', CHR ''_'', CHR ''.'', CHR ''~''}"

definition upper_hex :: "int \<Rightarrow> char" where
  "upper_hex n = char_of (if n < 10 then 48 + n else 55 + n)"

definition url_encode_component :: "str \<Rightarrow> str" where
  "url_encode_component v =
     concat (map (\<lambda>c. if url_unreserved c then [c]
                      else [CHR ''%'', upper_hex (of_char c div 16), upper_hex (of_char c mod 16)]) v)"

fun percent_bytes :: "bytes \<Rightarrow> bytes" where
  "percent_bytes [] = []"
| "percent_bytes (c # cs) =
     (if c = CHR ''+'' then CHR '' '' # percent_bytes cs
      else if c = CHR ''%''
      then (case cs of
              a # b # rest \<Rightarrow>
                (case parse_uint 16 256 [a, b] of
                   Some n \<Rightarrow> char_of n # percent_bytes rest
                 | None \<Rightarrow> c # percent_bytes cs)
            | _ \<Rightarrow> c # percent_bytes cs)
      else c # percent_bytes cs)"

definition percent_decode :: "str \<Rightarrow> str" where
  "percent_decode v = utf8_lossy (percent_bytes v)"

definition query_param :: "str \<Rightarrow> str \<Rightarrow> str option" where
  "query_param path name =
     Option.bind (split_once (CHR ''?'') path) (\<lambda>(_, query).
       map_option (\<lambda>pair. percent_decode (case split_once (CHR ''='') pair of None \<Rightarrow> [] | Some (_, v) \<Rightarrow> v))
         (find (\<lambda>pair. percent_decode (case split_once (CHR ''='') pair of None \<Rightarrow> pair | Some (k, _) \<Rightarrow> k) = name)
           (split_on (CHR ''&'') query)))"

subsection \<open>UTF-8 text\<close>

lemma utf8_tail_split: "utf8_tail rs bs = (t, rest, ok) \<Longrightarrow> t @ rest = bs"
  by (induction rs bs arbitrary: t rest ok rule: utf8_tail.induct) (fastforce split: if_splits prod.splits)+

lemma utf8_tail_extend: "utf8_tail rs bs = (t, rest, True) \<Longrightarrow> utf8_tail rs (t @ x) = (t, x, True)"
  by (induction rs bs arbitrary: t rest rule: utf8_tail.induct) (fastforce split: if_splits prod.splits)+

lemma utf8_lossy_valid: "utf8_valid s \<Longrightarrow> utf8_lossy s = s"
  by (induction s rule: utf8_valid.induct) (auto split: option.splits prod.splits dest: utf8_tail_split)

lemma utf8_valid_append: "utf8_valid a \<Longrightarrow> utf8_valid (a @ b) = utf8_valid b"
proof (induction a rule: utf8_valid.induct)
  case (2 c cs)
  obtain rs where rs: "utf8_ranges c = Some rs" using 2(2) by (auto split: option.splits)
  obtain t rest ok where t: "utf8_tail rs cs = (t, rest, ok)" by (metis prod_cases3)
  with 2(2) rs have ok: ok "utf8_valid rest" by auto
  have "utf8_tail rs (cs @ b) = (t, rest @ b, True)"
    using utf8_tail_extend[of rs cs t rest "rest @ b"] utf8_tail_split[OF t] t ok(1) by auto
  then show ?case using 2(1)[OF rs t[symmetric] refl ok(2)] rs by simp
qed simp

lemma utf8_valid_REPLACEMENT: "utf8_valid REPLACEMENT"
  by code_simp

lemma utf8_valid_lossy: "utf8_valid (utf8_lossy bs)"
proof (induction bs rule: utf8_lossy.induct)
  case (2 c cs)
  show ?case
  proof (cases "utf8_ranges c")
    case None
    then show ?thesis using 2(1) by (simp add: utf8_valid_append utf8_valid_REPLACEMENT)
  next
    case (Some rs)
    obtain t rest ok where t: "utf8_tail rs cs = (t, rest, ok)" by (metis prod_cases3)
    have v: "utf8_valid (utf8_lossy rest)" using 2(2)[OF Some t[symmetric] refl] .
    show ?thesis
    proof (cases ok)
      case True
      with t have "utf8_tail rs (t @ utf8_lossy rest) = (t, utf8_lossy rest, True)"
        by (auto intro: utf8_tail_extend)
      with v True Some t show ?thesis by simp
    next
      case False
      with v Some t show ?thesis by (simp add: utf8_valid_append utf8_valid_REPLACEMENT)
    qed
  qed
qed simp

definition is_ascii :: "str \<Rightarrow> bool" where
  "is_ascii s \<longleftrightarrow> list_all (\<lambda>c. (of_char c :: int) < 128) s"

lemma utf8_valid_ascii: "is_ascii s \<Longrightarrow> utf8_valid s"
  by (induction s) (auto simp: is_ascii_def utf8_ranges_def Let_def)

lemma chars_count_take: "chars_count (chars_take n s) \<le> n"
  by (induction n s rule: chars_take.induct) (auto simp: chars_count_def split: nat.splits)

lemma chars_count_append [simp]: "chars_count (a @ b) = chars_count a + chars_count b"
  by (simp add: chars_count_def)

subsection \<open>URL encoding\<close>

lemma upper_hex_of_char: "0 \<le> n \<Longrightarrow> n < 16 \<Longrightarrow> (of_char (upper_hex n) :: int) = (if n < 10 then 48 + n else 55 + n)"
  by (simp add: upper_hex_def of_char_of)

lemma upper_hex_val: "0 \<le> n \<Longrightarrow> n < 16 \<Longrightarrow> digit_val (upper_hex n) = Some n"
  by (simp add: digit_val_def upper_hex_of_char Let_def)

lemma upper_hex_not:
  assumes "0 \<le> n" "n < 16" "(of_char c :: int) \<notin> {48..57}" "(of_char c :: int) \<notin> {65..70}"
  shows "upper_hex n \<noteq> c"
  using upper_hex_of_char[OF assms(1,2)] assms by (auto split: if_splits)

lemma of_char_range: "0 \<le> (of_char c :: int)" "(of_char c :: int) < 256"
  by (cases c; simp add: of_char_def)+

lemma char_le_int: "c \<le> d \<longleftrightarrow> (of_char c :: int) \<le> of_char d"
proof -
  have "int (of_char x :: nat) = of_char x" for x :: char by (cases x) (simp add: of_char_def)
  then show ?thesis by (metis less_eq_char_def of_nat_le_iff)
qed

lemma parse_hex_pair: "parse_uint 16 256 [upper_hex (of_char c div 16), upper_hex (of_char c mod 16)] = Some (of_char c)"
proof -
  let ?n = "of_char c :: int"
  have r: "0 \<le> ?n div 16" "?n div 16 < 16" "0 \<le> ?n mod 16" "?n mod 16 < 16" using of_char_range[of c] by auto
  have "upper_hex (?n div 16) \<noteq> CHR ''+''" by (rule upper_hex_not[OF r(1,2)]) simp_all
  moreover have "?n div 16 * 16 + ?n mod 16 = ?n" by simp
  ultimately show ?thesis
    using r of_char_range[of c] by (simp add: parse_uint_def Let_def upper_hex_val)
qed

lemma percent_bytes_encode: "percent_bytes (url_encode_component v @ w) = v @ percent_bytes w"
proof (induction v)
  case Nil
  then show ?case by (simp add: url_encode_component_def)
next
  case (Cons c v)
  show ?case
  proof (cases "url_unreserved c")
    case True
    then have "c \<noteq> CHR ''+''" "c \<noteq> CHR ''%''" by (auto simp: url_unreserved_def)
    with True Cons show ?thesis by (simp add: url_encode_component_def)
  next
    case False
    with Cons show ?thesis by (simp add: url_encode_component_def parse_hex_pair)
  qed
qed

lemma percent_decode_encode: "percent_decode (url_encode_component v) = utf8_lossy v"
  using percent_bytes_encode[of v "[]"] by (simp add: percent_decode_def)

lemma url_encode_chars: "c \<in> set (url_encode_component v) \<Longrightarrow> url_unreserved c \<or> c = CHR ''%''"
proof -
  have "url_unreserved (upper_hex n)" if "0 \<le> n" "n < 16" for n
    using upper_hex_of_char[OF that] that
    by (auto simp: url_unreserved_def char_le_int split: if_splits)
  then have "url_unreserved (upper_hex (of_char d div 16))" "url_unreserved (upper_hex (of_char d mod 16))" for d :: char
    using of_char_range[of d] by auto
  then show "c \<in> set (url_encode_component v) \<Longrightarrow> url_unreserved c \<or> c = CHR ''%''"
    by (auto simp: url_encode_component_def split: if_splits)
qed

lemma split_once_at: "c \<notin> set a \<Longrightarrow> split_once c (a @ c # b) = Some (a, b)"
  by (induction a) auto

lemma split_on_single: "c \<notin> set s \<Longrightarrow> split_on c s = [s]"
  by (induction s) auto

lemma percent_decode_unreserved: "list_all url_unreserved n \<Longrightarrow> percent_decode n = n"
proof -
  assume n: "list_all url_unreserved n"
  then have "url_encode_component n = n"
    by (induction n) (auto simp: url_encode_component_def)
  moreover have "is_ascii n"
    using n unfolding is_ascii_def by (rule list.pred_mono_strong) (auto simp: url_unreserved_def char_le_int)
  ultimately show ?thesis
    using percent_decode_encode[of n] by (simp add: utf8_lossy_valid utf8_valid_ascii)
qed

subsection \<open>Markup\<close>

text \<open>What a browser reads back from escaped text.\<close>

definition entities :: "(str \<times> char) list" where
  "entities = [(''&amp;'', CHR ''&''), (''&lt;'', CHR ''<''), (''&gt;'', CHR ''>''), (''&quot;'', CHR 0x22), (''&apos;'', CHR 0x27)]"

function unescape :: "str \<Rightarrow> str" where
  "unescape [] = []"
| "unescape (c # cs) =
     (case find (\<lambda>(e, _). starts_with e (c # cs)) entities of
        Some (e, x) \<Rightarrow> x # unescape (drop (length e - 1) cs)
      | None \<Rightarrow> c # unescape cs)"
  by pat_completeness auto
termination
  by (relation "measure length") auto

lemma replace_char_append: "replace_char c r (a @ b) = replace_char c r a @ replace_char c r b"
  by (simp add: replace_char_def)

lemma html_escape_append: "html_escape (a @ b) = html_escape a @ html_escape b"
  by (simp add: html_escape_def replace_char_append)

lemma xml_escape_append: "xml_escape (a @ b) = xml_escape a @ xml_escape b"
  by (simp add: xml_escape_def replace_char_append html_escape_append)

lemma html_escape_char:
  "html_escape [c] = (if c = CHR ''&'' then ''&amp;'' else if c = CHR ''<'' then ''&lt;''
     else if c = CHR ''>'' then ''&gt;'' else if c = CHR 0x22 then ''&quot;'' else [c])"
  by (simp add: html_escape_def replace_char_def)

lemma xml_escape_char: "xml_escape [c] = (if c = CHR 0x27 then ''&apos;'' else html_escape [c])"
  by (simp add: xml_escape_def html_escape_char) (simp add: replace_char_def)

lemma unescape_entity:
  "unescape (''&amp;'' @ s) = CHR ''&'' # unescape s" "unescape (''&lt;'' @ s) = CHR ''<'' # unescape s"
  "unescape (''&gt;'' @ s) = CHR ''>'' # unescape s" "unescape (''&quot;'' @ s) = CHR 0x22 # unescape s"
  "unescape (''&apos;'' @ s) = CHR 0x27 # unescape s"
  by (simp_all add: entities_def starts_with_def)

lemma unescape_plain: "c \<noteq> CHR ''&'' \<Longrightarrow> unescape (c # s) = c # unescape s"
  by (simp add: entities_def starts_with_def)

lemma unescape_html: "unescape (html_escape v) = v"
proof (induction v)
  case Nil
  then show ?case by (simp add: html_escape_def replace_char_def)
next
  case (Cons c v)
  have "html_escape (c # v) = html_escape [c] @ html_escape v" using html_escape_append[of "[c]" v] by simp
  with Cons show ?case
    by (simp add: html_escape_char unescape_entity[simplified append_Cons append_Nil] unescape_plain del: unescape.simps)
qed

lemma unescape_xml: "unescape (xml_escape v) = v"
proof (induction v)
  case Nil
  then show ?case by (simp add: xml_escape_def html_escape_def replace_char_def)
next
  case (Cons c v)
  have "xml_escape (c # v) = xml_escape [c] @ xml_escape v" using xml_escape_append[of "[c]" v] by simp
  with Cons show ?case
    by (simp add: xml_escape_char html_escape_char unescape_entity[simplified append_Cons append_Nil] unescape_plain del: unescape.simps)
qed

lemma set_html_escape: "set (html_escape v) \<inter> {CHR ''<'', CHR ''>'', CHR 0x22} = {}"
  by (auto simp: html_escape_def replace_char_def split: if_splits)

lemma set_xml_escape: "set (xml_escape v) \<inter> {CHR ''<'', CHR ''>'', CHR 0x22, CHR 0x27} = {}"
  using set_html_escape[of v] by (auto simp: xml_escape_def replace_char_def split: if_splits)

subsection \<open>Script text\<close>

fun occurs :: "str \<Rightarrow> str \<Rightarrow> bool" where
  "occurs p [] = (p = [])"
| "occurs p (c # cs) = (starts_with p (c # cs) \<or> occurs p cs)"

lemma starts_with_Cons: "starts_with (a # w) (c # s) \<longleftrightarrow> a = c \<and> starts_with w s"
  by (auto simp: starts_with_def)

lemma starts_with_Nil: "starts_with w [] \<longleftrightarrow> w = []" "starts_with [] s"
  by (auto simp: starts_with_def)

lemma replace_str_starts:
  "r \<noteq> [] \<Longrightarrow> hd r \<notin> set w \<Longrightarrow> starts_with w (replace_str q r s) \<Longrightarrow> starts_with w s"
proof (induction w arbitrary: s)
  case (Cons c w)
  show ?case
  proof (cases "s = [] \<or> q = []")
    case True
    with Cons.prems show ?thesis by (simp add: replace_str.simps)
  next
    case ne: False
    show ?thesis
    proof (cases "starts_with q s")
      case True
      with ne have "replace_str q r s = r @ replace_str q r (drop (length q) s)" by (simp add: replace_str.simps[of q r s])
      with Cons.prems show ?thesis by (cases r) (simp_all add: starts_with_Cons)
    next
      case False
      with ne have "replace_str q r s = hd s # replace_str q r (tl s)" by (simp add: replace_str.simps[of q r s])
      with Cons ne show ?thesis by (cases s) (auto simp: starts_with_Cons)
    qed
  qed
qed (simp add: starts_with_Nil)

lemma occurs_drop: "occurs p (drop n s) \<Longrightarrow> p \<noteq> [] \<Longrightarrow> occurs p s"
  by (induction s arbitrary: n) (auto simp: drop_Cons split: nat.splits)

lemma replace_str_avoids:
  assumes r: "\<And>X. \<not> occurs (a # w) X \<Longrightarrow> \<not> occurs (a # w) (r @ X)" "r \<noteq> []" "hd r \<notin> set w"
    and q: "q = a # w \<or> q \<noteq> [] \<and> \<not> occurs (a # w) s"
  shows "\<not> occurs (a # w) (replace_str q r s)"
  using q
proof (induction "length s" arbitrary: s rule: less_induct)
  case less
  show ?case
  proof (cases s)
    case Nil
    then show ?thesis by (simp add: replace_str.simps)
  next
    case (Cons c cs)
    show ?thesis
    proof (cases "starts_with q s")
      case True
      then have "replace_str q r s = r @ replace_str q r (drop (length q) s)"
        using Cons less.prems by (subst replace_str.simps) auto
      moreover have "\<not> occurs (a # w) (replace_str q r (drop (length q) s))"
        using Cons less.prems occurs_drop[of "a # w" "length q" s] by (intro less.hyps) auto
      ultimately show ?thesis using r(1) by simp
    next
      case False
      then have e: "replace_str q r s = c # replace_str q r cs"
        using Cons less.prems by (subst replace_str.simps) auto
      have "\<not> occurs (a # w) (replace_str q r cs)" using Cons less.prems by (intro less.hyps) auto
      moreover have "\<not> starts_with (a # w) (c # replace_str q r cs)"
        using replace_str_starts[OF r(2,3), of q cs] False less.prems Cons by (auto simp: starts_with_Cons)
      ultimately show ?thesis using e by simp
    qed
  qed
qed

lemma script_escape_avoids: "\<not> occurs ''</'' (script_escape v)" "\<not> occurs ''<!--'' (script_escape v)"
proof -
  let ?v1 = "replace_str ''</'' (''<'' @ CHR 0x5C # ''/'') v"
  let ?v2 = "replace_str ''<!--'' (''<'' @ CHR 0x5C # ''!--'') ?v1"
  let ?v3 = "replace_str [CHR 0xE2, CHR 0x80, CHR 0xA8] (CHR 0x5C # ''u2028'') ?v2"
  have "\<not> occurs ''</'' ?v1" by (rule replace_str_avoids) (auto simp: starts_with_Cons)
  then have "\<not> occurs ''</'' ?v2" by (intro replace_str_avoids) (auto simp: starts_with_Cons)
  then have 1: "\<not> occurs ''</'' ?v3" by (intro replace_str_avoids) (auto simp: starts_with_Cons)
  have "\<not> occurs ''<!--'' ?v2" by (rule replace_str_avoids) (auto simp: starts_with_Cons)
  then have 2: "\<not> occurs ''<!--'' ?v3" by (intro replace_str_avoids) (auto simp: starts_with_Cons)
  show "\<not> occurs ''</'' (script_escape v)" "\<not> occurs ''<!--'' (script_escape v)"
    unfolding script_escape_def using 1 2 by (intro replace_str_avoids; auto simp: starts_with_Cons)+
qed

subsection \<open>Query parameters\<close>

lemma query_param_encoded:
  assumes "utf8_valid v" "CHR ''?'' \<notin> set path" "list_all url_unreserved name"
  shows "query_param (path @ ''?'' @ name @ ''='' @ url_encode_component v) name = Some v"
proof -
  have n: "c \<notin> set name" "c \<notin> set (url_encode_component v)"
    if "c \<in> {CHR ''='', CHR ''&''}" for c
    using that assms(3) url_encode_chars[of c v] by (auto simp: list_all_iff url_unreserved_def)
  let ?q = "name @ CHR ''='' # url_encode_component v"
  have "split_once (CHR ''?'') (path @ ''?'' @ name @ ''='' @ url_encode_component v) = Some (path, ?q)"
    using split_once_at[OF assms(2)] by simp
  moreover have "split_on (CHR ''&'') ?q = [?q]"
    using n by (intro split_on_single) auto
  moreover have "split_once (CHR ''='') ?q = Some (name, url_encode_component v)"
    using n by (intro split_once_at) auto
  ultimately show ?thesis
    using assms by (simp add: query_param_def percent_decode_unreserved percent_decode_encode utf8_lossy_valid)
qed

subsection \<open>Properties\<close>

text \<open>
  A value put into a link with \<open>url_encode_component\<close> is the value \<open>query_param\<close> reads back:
  no byte of it can end the parameter early, start another one or be decoded to something else.
\<close>

theorem query_param_round_trip:
  assumes "utf8_valid v" "CHR ''?'' \<notin> set path" "list_all url_unreserved name"
  shows "query_param (path @ ''?'' @ name @ ''='' @ url_encode_component v) name = Some v"
  by (rule query_param_encoded[OF assms])

text \<open>
  Whatever a caller puts into a query, the decoded parameter is well-formed text, so it is a
  Rust string; and text that came from the encoder decodes to itself up to the replacement of
  malformed bytes.
\<close>

lemma percent_decode_is_text:
  "utf8_valid (percent_decode v) \<and> percent_decode (url_encode_component v) = utf8_lossy v
   \<and> list_all (\<lambda>c. url_unreserved c \<or> c = CHR ''%'') (url_encode_component v)"
  using url_encode_chars by (auto simp: percent_decode_def[of v] utf8_valid_lossy percent_decode_encode list_all_iff)

text \<open>
  Escaped text cannot act as markup and is not altered. It holds none of the characters that
  open a tag or end an attribute, a browser that resolves its entities gets back exactly the
  original text, and text escaped for a script element can neither close it nor open a comment.
\<close>

lemma escapes_confine_text:
  "set (html_escape v) \<inter> {CHR ''<'', CHR ''>'', CHR 0x22} = {} \<and> unescape (html_escape v) = v
   \<and> set (xml_escape v) \<inter> {CHR ''<'', CHR ''>'', CHR 0x22, CHR 0x27} = {} \<and> unescape (xml_escape v) = v
   \<and> \<not> occurs ''</'' (script_escape v) \<and> \<not> occurs ''<!--'' (script_escape v)"
  using set_html_escape set_xml_escape by (simp add: unescape_html unescape_xml script_escape_avoids)

end
