(* ===== verification/Llm_Attested.thy ===== *)
theory Llm_Attested
  imports External
begin

section \<open>Contest manifests, events, capture claims and scores (\<open>src/llm_attested.rs\<close>)\<close>

text \<open>
  The data the LLM Attested services exchange: the manifest that commits to a contest, the signed
  events, the remote-attestation claim of a capture path, and the scorers over events. The CBOR
  codecs serde derives for the manifest and the event are the fields of \<open>llm_lib\<close>; Ed25519 and the
  quote verifier are fields of \<open>lib\<close>.
\<close>

subsection \<open>Data\<close>

record public_jwk =
  kty :: str
  crv :: str
  jwk_x :: str

record trust_policy =
  required :: bool
  accepted_tee_platforms :: "str list"
  cvm_receipt_url :: str
  registry_url :: str
  tp_verifier_profile :: str

record contest_manifest =
  man_version :: u32
  man_profile :: str
  issuer :: str
  man_hackathon_id :: str
  man_gateway_id :: str
  competition_url :: str
  gateway_manifest_url :: str
  man_cvm_receipt_hash :: str
  man_value_x :: str
  policy_hash :: str
  scoring_rule_hash :: str
  enforcement_mode :: str
  start_url :: str
  capture_methods :: "str list"
  man_trust_policy :: trust_policy
  event_signing_jwk :: public_jwk
  event_kinds :: "str list"

record event_actor =
  actor_kind :: str
  agent_session_id :: str

record contest_event =
  ev_version :: u32
  ev_profile :: str
  event_id :: str
  kind :: str
  hackathon_id :: str
  team_id :: str
  gateway_id :: str
  manifest_hash :: str
  capture_method :: str
  assurance :: str
  event_index :: u64
  previous_team_event_hash :: str
  started_at_ms :: u64
  completed_at_ms :: u64
  actor :: event_actor
  subject :: "(str \<times> str) list"
  metrics :: "(str \<times> int) list"
  hashes :: "(str \<times> str) list"
  evidence :: "(str \<times> str) list"
  signature :: str

record verified_cvm_receipt =
  vr_verifier_profile :: str
  vr_platform :: str
  vr_value_x :: str
  vr_platform_measurement :: str
  vr_quote_binding_hash :: str
  vr_receipt_hash :: str
  vr_chain_depth :: nat

record capture_ra_claim =
  ra_profile :: str
  ra_capture_method :: str
  ra_assurance :: str
  ra_enforcement :: str
  ra_requirement :: str
  ra_verifier_profile :: str
  ra_platform :: str
  ra_value_x :: str
  ra_platform_measurement :: str
  ra_quote_binding_hash :: str
  ra_cvm_receipt_hash :: str
  ra_manifest_hash :: str
  ra_event_signing_key_hash :: str
  ra_chain_depth :: nat

record score_report =
  sr_team_id :: str
  sr_rank :: u32
  sr_score :: int
  sr_unit :: str
  sr_status :: str
  sr_explanations :: "str list"
  sr_receipt_refs :: "str list"

datatype llm_error =
    LEncode str
  | LDecode str
  | SignatureDecode str
  | SignatureVerify
  | InvalidPublicKey
  | EventVersionMismatch u32
  | EventProfileMismatch str
  | ManifestVersionMismatch u32
  | ManifestProfileMismatch str

datatype capture_ra_error =
    UnsupportedCapturePath str str
  | EatDecode str
  | UnknownPlatform u8
  | PlatformNotAccepted str "str list"
  | EmptyQuote
  | QuoteVerify str
  | ChainValueXDrift str str
  | ChainTooDeep nat
  | ReceiptHashMismatch str str
  | ValueXMismatch str str
  | CaptureMethodNotAdvertised str

record llm_lib = lib +
  ser_manifest :: "contest_manifest \<Rightarrow> str + bytes"
  de_manifest :: "bytes \<Rightarrow> str + contest_manifest"
  ser_event :: "contest_event \<Rightarrow> str + bytes"
  de_event :: "bytes \<Rightarrow> str + contest_event"

definition MANIFEST_PROFILE :: str where
  "MANIFEST_PROFILE = ''https://cvm.dev/llm-contest-manifest/v1''"

definition EVENT_PROFILE :: str where
  "EVENT_PROFILE = ''https://cvm.dev/contest-event/v1''"

definition CAPTURE_RA_PROFILE :: str where
  "CAPTURE_RA_PROFILE = ''https://cvm.dev/llm-capture-ra/v1''"

subsection \<open>Remote-attested capture paths\<close>

record attested_capture_path_spec =
  spec_capture_method :: str
  spec_assurance :: str
  spec_enforcement :: str
  spec_requirement :: str

definition REMOTE_ATTESTED_CAPTURE_PATHS :: "attested_capture_path_spec list" where
  "REMOTE_ATTESTED_CAPTURE_PATHS =
    [\<lparr>spec_capture_method = ''gateway_proxy'', spec_assurance = ''attested'', spec_enforcement = ''routed'',
      spec_requirement = ''gateway endpoint serves manifest and model API from a Cvm-verified TEE''\<rparr>,
     \<lparr>spec_capture_method = ''gateway_proxy'', spec_assurance = ''attested'', spec_enforcement = ''managed_keys'',
      spec_requirement = ''organizer-managed provider keys live behind a Cvm-verified TEE gateway''\<rparr>,
     \<lparr>spec_capture_method = ''local_proxy'', spec_assurance = ''attested'', spec_enforcement = ''routed'',
      spec_requirement = ''local-model proxy runs in a Cvm-verified TEE sidecar or workspace''\<rparr>,
     \<lparr>spec_capture_method = ''sdk_cli_wrapper'', spec_assurance = ''attested'', spec_enforcement = ''routed'',
      spec_requirement = ''wrapper event signer runs inside a Cvm-verified TEE workspace''\<rparr>,
     \<lparr>spec_capture_method = ''browser_extension'', spec_assurance = ''attested'', spec_enforcement = ''attested_broker'',
      spec_requirement = ''browser observer is mediated by a Cvm-verified broker; desktop extension alone is insufficient''\<rparr>,
     \<lparr>spec_capture_method = ''strict_workbench'', spec_assurance = ''attested'', spec_enforcement = ''strict_workbench'',
      spec_requirement = ''workbench launcher and event signer run inside a Cvm-verified TEE''\<rparr>,
     \<lparr>spec_capture_method = ''tee_workspace'', spec_assurance = ''attested'', spec_enforcement = ''full_tee'',
      spec_requirement = ''participant workspace and event signer run inside a Cvm-verified TEE''\<rparr>]"

definition find_attested_path :: "str \<Rightarrow> str \<Rightarrow> str \<Rightarrow> attested_capture_path_spec option" where
  "find_attested_path cm as enf =
     (if as \<noteq> ''attested'' then None
      else find (\<lambda>s. spec_capture_method s = cm \<and> spec_enforcement s = enf) REMOTE_ATTESTED_CAPTURE_PATHS)"

subsection \<open>Receipts\<close>

fun platform_label :: "platform \<Rightarrow> str" where
  "platform_label Nitro = ''nitro''"
| "platform_label SevSnp = ''sev-snp''"
| "platform_label Tdx = ''tdx''"

definition normalize_platform_label :: "str \<Rightarrow> str" where
  "normalize_platform_label v =
     (let n = replace_char (CHR ''_'') ''-'' (to_ascii_lowercase (trim v)) in
      if n = ''tdx'' then ''tdx''
      else if n = ''nitro'' \<or> n = ''aws-nitro'' then ''nitro''
      else if n = ''snp'' \<or> n = ''sev-snp'' \<or> n = ''sevsnp'' \<or> n = ''amd-sev-snp'' then ''sev-snp''
      else n)"

definition platform_is_accepted :: "platform \<Rightarrow> str list \<Rightarrow> bool" where
  "platform_is_accepted p accepted =
     (let l = normalize_platform_label (platform_label p)
      in list_ex (\<lambda>a. normalize_platform_label a = l) accepted)"

definition normalize_value_x :: "str \<Rightarrow> str" where
  "normalize_value_x v = to_ascii_lowercase (trim_start_matches ''sha384:'' (trim v))"

definition sha384_label :: "('m) lib_scheme \<Rightarrow> bytes \<Rightarrow> str" where
  "sha384_label L b = ''sha384:'' @ hex_encode L b"

definition measurement_of :: "(str \<times> bytes) list \<Rightarrow> eat_token \<Rightarrow> bytes" where
  "measurement_of ms eat =
     (case ms of (_, v) # _ \<Rightarrow> if v \<noteq> [] then v else platform_measurement eat | [] \<Rightarrow> platform_measurement eat)"

function verify_eat_chain ::
    "('m) lib_scheme \<Rightarrow> eat_token \<Rightarrow> str list \<Rightarrow> bytes \<Rightarrow> nat
       \<Rightarrow> capture_ra_error + (platform \<times> bytes \<times> bytes \<times> nat)" where
  "verify_eat_chain L eat accepted leaf depth =
     (if 16 < depth then Inl (ChainTooDeep 16)
      else if eat_value_x eat \<noteq> leaf
      then Inl (ChainValueXDrift (sha384_label L leaf) (sha384_label L (eat_value_x eat)))
      else case eat_platform_enum L eat of
        None \<Rightarrow> Inl (UnknownPlatform (eat_platform eat))
      | Some p \<Rightarrow>
         if \<not> platform_is_accepted p accepted then Inl (PlatformNotAccepted (platform_label p) accepted)
         else if platform_quote eat = [] then Inl EmptyQuote
         else case verify_platform_quote L p (platform_quote eat) (eat_binding L eat) of
           Inl e \<Rightarrow> Inl (QuoteVerify e)
         | Inr ms \<Rightarrow>
            (case eat_decode_previous L eat of
               Inl e \<Rightarrow> Inl (EatDecode e)
             | Inr (Some prev) \<Rightarrow>
                (case verify_eat_chain L prev accepted leaf (depth + 1) of
                   Inl e \<Rightarrow> Inl e
                 | Inr (_, _, _, d) \<Rightarrow> Inr (p, measurement_of ms eat, eat_binding L eat, d))
             | Inr None \<Rightarrow> Inr (p, measurement_of ms eat, eat_binding L eat, depth + 1)))"
  by pat_completeness auto
termination
  by (relation "measure (\<lambda>(L, eat, accepted, leaf, depth). 17 - depth)") auto

declare verify_eat_chain.simps [simp del]

definition verify_cvm_receipt ::
    "('m) lib_scheme \<Rightarrow> bytes \<Rightarrow> str list \<Rightarrow> str \<Rightarrow> capture_ra_error + verified_cvm_receipt" where
  "verify_cvm_receipt L cbor accepted vprofile =
     rbind (map_err EatDecode (eat_from_cbor L cbor)) (\<lambda>eat.
     rbind (verify_eat_chain L eat accepted (eat_value_x eat) 0) (\<lambda>(p, meas, binding, depth).
     Inr \<lparr>vr_verifier_profile = vprofile, vr_platform = platform_label p,
          vr_value_x = sha384_label L (eat_value_x eat),
          vr_platform_measurement = hex_encode L meas,
          vr_quote_binding_hash = ''sha256:'' @ hex_encode L binding,
          vr_receipt_hash = sha256_prefixed L cbor, vr_chain_depth = depth\<rparr>))"

definition build_capture_ra_claim ::
    "('m) lib_scheme \<Rightarrow> contest_manifest \<Rightarrow> str \<Rightarrow> bytes \<Rightarrow> str \<Rightarrow> str \<Rightarrow> str
       \<Rightarrow> capture_ra_error + capture_ra_claim" where
  "build_capture_ra_claim L man mhash cbor cm as enf =
     rbind (ok_or (find_attested_path cm as enf) (UnsupportedCapturePath cm enf)) (\<lambda>spec.
     rbind (ensure (cm \<in> set (capture_methods man)) (CaptureMethodNotAdvertised cm)) (\<lambda>_.
     rbind (verify_cvm_receipt L cbor (accepted_tee_platforms (man_trust_policy man))
              (tp_verifier_profile (man_trust_policy man))) (\<lambda>v.
     rbind (ensure (man_cvm_receipt_hash man = vr_receipt_hash v)
              (ReceiptHashMismatch (man_cvm_receipt_hash man) (vr_receipt_hash v))) (\<lambda>_.
     rbind (ensure (normalize_value_x (man_value_x man) = normalize_value_x (vr_value_x v))
              (ValueXMismatch (man_value_x man) (vr_value_x v))) (\<lambda>_.
     Inr \<lparr>ra_profile = CAPTURE_RA_PROFILE, ra_capture_method = cm, ra_assurance = as, ra_enforcement = enf,
          ra_requirement = spec_requirement spec, ra_verifier_profile = vr_verifier_profile v,
          ra_platform = vr_platform v, ra_value_x = vr_value_x v,
          ra_platform_measurement = vr_platform_measurement v,
          ra_quote_binding_hash = vr_quote_binding_hash v, ra_cvm_receipt_hash = vr_receipt_hash v,
          ra_manifest_hash = mhash,
          ra_event_signing_key_hash = sha256_prefixed L (jwk_x (event_signing_jwk man)),
          ra_chain_depth = vr_chain_depth v\<rparr>)))))"

definition insert_capture_ra_evidence ::
    "(str \<times> str) list \<Rightarrow> capture_ra_claim \<Rightarrow> (str \<times> str) list" where
  "insert_capture_ra_evidence ev c = bt_extend ev
     [(''ra_profile'', ra_profile c), (''ra_capture_method'', ra_capture_method c),
      (''ra_assurance'', ra_assurance c), (''ra_enforcement'', ra_enforcement c),
      (''ra_requirement'', ra_requirement c), (''ra_verifier_profile'', ra_verifier_profile c),
      (''ra_platform'', ra_platform c), (''ra_value_x'', ra_value_x c),
      (''ra_platform_measurement'', ra_platform_measurement c),
      (''ra_quote_binding_hash'', ra_quote_binding_hash c),
      (''ra_cvm_receipt_hash'', ra_cvm_receipt_hash c), (''ra_manifest_hash'', ra_manifest_hash c),
      (''ra_event_signing_key_hash'', ra_event_signing_key_hash c),
      (''ra_chain_depth'', show_nat (ra_chain_depth c))]"

definition event_matches_capture_ra_claim :: "contest_event \<Rightarrow> capture_ra_claim \<Rightarrow> bool" where
  "event_matches_capture_ra_claim ev c \<longleftrightarrow>
     capture_method ev = ra_capture_method c \<and> assurance ev = ra_assurance c
     \<and> manifest_hash ev = ra_manifest_hash c
     \<and> bt_get (evidence ev) ''enforcement_mode'' = Some (ra_enforcement c)
     \<and> bt_get (evidence ev) ''ra_profile'' = Some (ra_profile c)
     \<and> bt_get (evidence ev) ''ra_cvm_receipt_hash'' = Some (ra_cvm_receipt_hash c)
     \<and> bt_get (evidence ev) ''ra_event_signing_key_hash'' = Some (ra_event_signing_key_hash c)"

subsection \<open>Keys, manifests and events\<close>

definition from_verifying_key :: "('m) lib_scheme \<Rightarrow> bytes \<Rightarrow> public_jwk" where
  "from_verifying_key L key = \<lparr>kty = ''OKP'', crv = ''Ed25519'', jwk_x = b64url_encode L key\<rparr>"

definition to_verifying_key :: "('m) lib_scheme \<Rightarrow> public_jwk \<Rightarrow> llm_error + bytes" where
  "to_verifying_key L j =
     rbind (ensure (kty j = ''OKP'' \<and> crv j = ''Ed25519'') InvalidPublicKey) (\<lambda>_.
     rbind (map_err SignatureDecode (b64url_decode L (jwk_x j))) (\<lambda>b.
     rbind (ensure (length b = 32) InvalidPublicKey) (\<lambda>_.
     rbind (ensure (ed_valid_key L b) InvalidPublicKey) (\<lambda>_. Inr b))))"

definition self_hosted :: "str list \<Rightarrow> str \<Rightarrow> str \<Rightarrow> trust_policy" where
  "self_hosted accepted receipt_url reg_url =
     \<lparr>required = True, accepted_tee_platforms = accepted, cvm_receipt_url = receipt_url,
      registry_url = reg_url, tp_verifier_profile = ''cvm-eat-v2''\<rparr>"

definition trust_policy_default :: trust_policy where
  "trust_policy_default = \<lparr>required = True, accepted_tee_platforms = [''tdx'', ''sev-snp'', ''nitro''],
     cvm_receipt_url = [], registry_url = [], tp_verifier_profile = ''cvm-eat-v2''\<rparr>"

definition manifest_new ::
    "('m) lib_scheme \<Rightarrow> str \<Rightarrow> str \<Rightarrow> str \<Rightarrow> str \<Rightarrow> str \<Rightarrow> str \<Rightarrow> str \<Rightarrow> str \<Rightarrow> str \<Rightarrow> str \<Rightarrow> str \<Rightarrow> str list
       \<Rightarrow> trust_policy \<Rightarrow> bytes \<Rightarrow> str list \<Rightarrow> contest_manifest" where
  "manifest_new L iss hk gw curl gmu crh vx ph srh enf su cms tp key kinds =
     \<lparr>man_version = 1, man_profile = MANIFEST_PROFILE, issuer = iss, man_hackathon_id = hk,
      man_gateway_id = gw, competition_url = curl, gateway_manifest_url = gmu,
      man_cvm_receipt_hash = crh, man_value_x = vx, policy_hash = ph, scoring_rule_hash = srh,
      enforcement_mode = enf, start_url = su, capture_methods = cms, man_trust_policy = tp,
      event_signing_jwk = from_verifying_key L key, event_kinds = kinds\<rparr>"

definition manifest_to_cbor :: "('m) llm_lib_scheme \<Rightarrow> contest_manifest \<Rightarrow> llm_error + bytes" where
  "manifest_to_cbor L man = map_err LEncode (ser_manifest L man)"

definition manifest_from_cbor :: "('m) llm_lib_scheme \<Rightarrow> bytes \<Rightarrow> llm_error + contest_manifest" where
  "manifest_from_cbor L b =
     rbind (map_err LDecode (de_manifest L b)) (\<lambda>man.
     rbind (ensure (man_version man = 1) (ManifestVersionMismatch (man_version man))) (\<lambda>_.
     rbind (ensure (man_profile man = MANIFEST_PROFILE) (ManifestProfileMismatch (man_profile man))) (\<lambda>_.
     Inr man)))"

definition manifest_hash_of :: "('m) llm_lib_scheme \<Rightarrow> contest_manifest \<Rightarrow> llm_error + str" where
  "manifest_hash_of L man = rbind (manifest_to_cbor L man) (\<lambda>b. Inr (sha256_prefixed L b))"

definition event_verifying_key :: "('m) lib_scheme \<Rightarrow> contest_manifest \<Rightarrow> llm_error + bytes" where
  "event_verifying_key L man = to_verifying_key L (event_signing_jwk man)"

definition event_new ::
    "str \<Rightarrow> str \<Rightarrow> str \<Rightarrow> str \<Rightarrow> str \<Rightarrow> str \<Rightarrow> str \<Rightarrow> str \<Rightarrow> u64 \<Rightarrow> str \<Rightarrow> u64 \<Rightarrow> u64 \<Rightarrow> event_actor
       \<Rightarrow> (str \<times> str) list \<Rightarrow> (str \<times> int) list \<Rightarrow> (str \<times> str) list \<Rightarrow> (str \<times> str) list \<Rightarrow> contest_event" where
  "event_new eid k hk tm gw mh cm as idx prev st co ac subj met hs ev =
     \<lparr>ev_version = 1, ev_profile = EVENT_PROFILE, event_id = eid, kind = k, hackathon_id = hk,
      team_id = tm, gateway_id = gw, manifest_hash = mh, capture_method = cm, assurance = as,
      event_index = idx, previous_team_event_hash = prev, started_at_ms = st, completed_at_ms = co,
      actor = ac, subject = subj, metrics = met, hashes = hs, evidence = ev, signature = []\<rparr>"

definition event_to_cbor :: "('m) llm_lib_scheme \<Rightarrow> contest_event \<Rightarrow> llm_error + bytes" where
  "event_to_cbor L e = map_err LEncode (ser_event L e)"

definition event_from_cbor :: "('m) llm_lib_scheme \<Rightarrow> bytes \<Rightarrow> llm_error + contest_event" where
  "event_from_cbor L b =
     rbind (map_err LDecode (de_event L b)) (\<lambda>e.
     rbind (ensure (ev_version e = 1) (EventVersionMismatch (ev_version e))) (\<lambda>_.
     rbind (ensure (ev_profile e = EVENT_PROFILE) (EventProfileMismatch (ev_profile e))) (\<lambda>_.
     Inr e)))"

definition signing_bytes :: "('m) llm_lib_scheme \<Rightarrow> contest_event \<Rightarrow> llm_error + bytes" where
  "signing_bytes L e = event_to_cbor L (e\<lparr>signature := []\<rparr>)"

definition event_sign :: "('m) llm_lib_scheme \<Rightarrow> bytes \<Rightarrow> contest_event \<Rightarrow> llm_error + contest_event" where
  "event_sign L sk e =
     rbind (signing_bytes L e) (\<lambda>b. Inr (e\<lparr>signature := b64url_encode L (ed_sign L sk b)\<rparr>))"

definition event_verify :: "('m) llm_lib_scheme \<Rightarrow> bytes \<Rightarrow> contest_event \<Rightarrow> llm_error + unit" where
  "event_verify L key e =
     rbind (map_err SignatureDecode (b64url_decode L (signature e))) (\<lambda>sig.
     rbind (ensure (length sig = 64) (SignatureDecode ''expected 64 bytes'')) (\<lambda>_.
     rbind (signing_bytes L e) (\<lambda>b.
     ensure (ed_verify L key b sig) SignatureVerify)))"

definition event_hash :: "('m) llm_lib_scheme \<Rightarrow> contest_event \<Rightarrow> llm_error + str" where
  "event_hash L e = rbind (event_to_cbor L e) (\<lambda>b. Inr (sha256_prefixed L b))"

definition total_tokens :: "contest_event \<Rightarrow> int" where
  "total_tokens e = (case bt_get (metrics e) ''total_tokens'' of None \<Rightarrow> 0 | Some n \<Rightarrow> n)"

definition random_id :: "('m) lib_scheme \<Rightarrow> bytes \<Rightarrow> str \<Rightarrow> str" where
  "random_id L rnd prefix = prefix @ ''_'' @ hex_encode L rnd"

subsection \<open>Scores\<close>

definition totals_by_team :: "contest_event list \<Rightarrow> (str \<times> int) list" where
  "totals_by_team evs =
     fold (\<lambda>e. bt_add i64_add (total_tokens e) (team_id e)) (filter (\<lambda>e. kind e = ''llm.call'') evs) []"

definition min_tokens_cmp :: "str \<times> int \<Rightarrow> str \<times> int \<Rightarrow> ordering" where
  "min_tokens_cmp a b = then_with (cmp_of (snd a) (snd b)) (cmp_of (fst a) (fst b))"

definition budget_cmp :: "int \<Rightarrow> str \<times> int \<Rightarrow> str \<times> int \<Rightarrow> ordering" where
  "budget_cmp budget a b =
     then_with (then_with (cmp_of (snd b \<le> budget) (snd a \<le> budget)) (cmp_of (snd b) (snd a)))
       (cmp_of (fst a) (fst b))"

definition score_min_tokens :: "contest_event list \<Rightarrow> score_report list" where
  "score_min_tokens evs =
     map (\<lambda>(i, tm, total). \<lparr>sr_team_id = tm, sr_rank = word_of_nat (i + 1), sr_score = total,
            sr_unit = ''tokens'', sr_status = ''eligible'',
            sr_explanations = [show_int total @ '' total tokens''], sr_receipt_refs = []\<rparr>)
       (enumerate 0 (sort_by min_tokens_cmp (totals_by_team evs)))"

definition score_max_tokens_under_budget :: "contest_event list \<Rightarrow> int \<Rightarrow> score_report list" where
  "score_max_tokens_under_budget evs budget =
     map (\<lambda>(i, tm, total). \<lparr>sr_team_id = tm, sr_rank = word_of_nat (i + 1), sr_score = total,
            sr_unit = ''tokens'', sr_status = (if total \<le> budget then ''eligible'' else ''ineligible''),
            sr_explanations = [show_int total @ '' total tokens; budget '' @ show_int budget],
            sr_receipt_refs = []\<rparr>)
       (enumerate 0 (sort_by (budget_cmp budget) (totals_by_team evs)))"

definition distinct_agent_count :: "contest_event list \<Rightarrow> str \<Rightarrow> nat" where
  "distinct_agent_count evs tm =
     length (remdups (map (\<lambda>e. agent_session_id (actor e)) (filter (\<lambda>e. team_id e = tm) evs)))"

subsection \<open>Signatures\<close>

lemma event_sign_verifies:
  assumes "sig_law L" "event_sign L sk e = Inr e'"
  obtains sg where "e' = e\<lparr>signature := sg\<rparr>" "signing_bytes L e' = signing_bytes L e"
    "event_verify L (ed_public L sk) e' = Inr ()"
proof -
  obtain b where b: "signing_bytes L e = Inr b" "e' = e\<lparr>signature := b64url_encode L (ed_sign L sk b)\<rparr>"
    using assms(2) by (auto simp: event_sign_def res_simps)
  then have sb: "signing_bytes L e' = Inr b" by (simp add: signing_bytes_def)
  have "event_verify L (ed_public L sk) e' = Inr ()"
    using assms(1) sb b(2) by (simp add: event_verify_def sig_law_def)
  with b sb show thesis by (intro that[of "b64url_encode L (ed_sign L sk b)"]) simp_all
qed

subsection \<open>Attestation chains against their specification\<close>

text \<open>
  What a verified stage is, and a chain of \<open>n\<close> verified stages that all report the leaf's
  \<open>value_x\<close>: the specification \<open>verify_eat_chain\<close> implements.
\<close>

definition good_stage :: "('m) lib_scheme \<Rightarrow> str list \<Rightarrow> bytes \<Rightarrow> eat_token \<Rightarrow> platform \<Rightarrow> (str \<times> bytes) list \<Rightarrow> bool" where
  "good_stage L accepted leaf eat p ms \<longleftrightarrow>
     eat_value_x eat = leaf \<and> eat_platform_enum L eat = Some p \<and> platform_is_accepted p accepted
     \<and> platform_quote eat \<noteq> [] \<and> verify_platform_quote L p (platform_quote eat) (eat_binding L eat) = Inr ms"

inductive good_chain :: "('m) lib_scheme \<Rightarrow> str list \<Rightarrow> bytes \<Rightarrow> eat_token \<Rightarrow> nat \<Rightarrow> bool"
  for L accepted leaf where
  first_stage: "good_stage L accepted leaf eat p ms \<Longrightarrow> eat_decode_previous L eat = Inr None
     \<Longrightarrow> good_chain L accepted leaf eat 1"
| later_stage: "good_stage L accepted leaf eat p ms \<Longrightarrow> eat_decode_previous L eat = Inr (Some prev)
     \<Longrightarrow> good_chain L accepted leaf prev n \<Longrightarrow> good_chain L accepted leaf eat (Suc n)"

inductive_cases good_chain_first: "good_chain L accepted leaf eat (Suc 0)"
inductive_simps good_chain_simps: "good_chain L accepted leaf eat n"

lemma good_chain_pos: "good_chain L accepted leaf eat n \<Longrightarrow> 0 < n"
  by (induction rule: good_chain.induct) auto

text \<open>Every token of the chain is a good stage.\<close>

inductive stage_of :: "('m) lib_scheme \<Rightarrow> eat_token \<Rightarrow> eat_token \<Rightarrow> bool" for L where
  stage_self: "stage_of L eat eat"
| stage_prev: "eat_decode_previous L eat = Inr (Some prev) \<Longrightarrow> stage_of L prev t \<Longrightarrow> stage_of L eat t"

lemma good_chain_stages:
  assumes "stage_of L eat t" "good_chain L accepted leaf eat n"
  shows "\<exists>p ms. good_stage L accepted leaf t p ms"
  using assms
proof (induction arbitrary: n rule: stage_of.induct)
  case (stage_self eat)
  then show ?case by (auto simp: good_chain_simps[of L accepted leaf eat n])
next
  case (stage_prev eat prev t)
  from stage_prev.prems stage_prev.hyps(1) obtain m where "good_chain L accepted leaf prev m"
    by (auto simp: good_chain_simps[of L accepted leaf eat n])
  then show ?case by (rule stage_prev.IH)
qed

lemma verify_eat_chain_stage:
  assumes "d \<le> 16" "good_stage L accepted leaf eat p ms"
  shows "verify_eat_chain L eat accepted leaf d =
    (case eat_decode_previous L eat of
       Inl e \<Rightarrow> Inl (EatDecode e)
     | Inr (Some prev) \<Rightarrow>
        (case verify_eat_chain L prev accepted leaf (d + 1) of
           Inl e \<Rightarrow> Inl e
         | Inr (_, _, _, n) \<Rightarrow> Inr (p, measurement_of ms eat, eat_binding L eat, n))
     | Inr None \<Rightarrow> Inr (p, measurement_of ms eat, eat_binding L eat, d + 1))"
  by (subst verify_eat_chain.simps) (use assms in \<open>simp add: good_stage_def\<close>)

lemma verify_eat_chain_needs_stage:
  assumes "verify_eat_chain L eat accepted leaf d = Inr r"
  obtains p ms where "d \<le> 16" "good_stage L accepted leaf eat p ms"
proof -
  have "d \<le> 16 \<and> (\<exists>p ms. good_stage L accepted leaf eat p ms)"
    using assms unfolding verify_eat_chain.simps[of L eat accepted leaf d] good_stage_def
    by (simp split: if_splits option.splits sum.splits)
  then show thesis using that by blast
qed

lemma verify_eat_chain_sound:
  "verify_eat_chain L eat accepted leaf d = Inr (p, meas, b, n) \<Longrightarrow>
   \<exists>k ms. good_chain L accepted leaf eat k \<and> n = d + k \<and> d + k \<le> 17
     \<and> good_stage L accepted leaf eat p ms \<and> meas = measurement_of ms eat \<and> b = eat_binding L eat"
proof (induction "17 - d" arbitrary: d eat p meas b n rule: less_induct)
  case less
  obtain p0 ms where st: "d \<le> 16" "good_stage L accepted leaf eat p0 ms"
    using verify_eat_chain_needs_stage[OF less.prems] .
  note eq = less.prems[unfolded verify_eat_chain_stage[OF st]]
  then obtain prev where pv: "eat_decode_previous L eat = Inr prev"
    by (cases "eat_decode_previous L eat") auto
  show ?case
  proof (cases prev)
    case None
    then show ?thesis using eq pv st first_stage[OF st(2)] by auto
  next
    case (Some t)
    then obtain p' m' b' where rec: "verify_eat_chain L t accepted leaf (d + 1) = Inr (p', m', b', n)"
      using eq pv by (auto split: sum.splits)
    have "17 - (d + 1) < 17 - d" using st(1) by simp
    from less.hyps[OF this rec] obtain k where k: "good_chain L accepted leaf t k" "n = d + 1 + k" "d + 1 + k \<le> 17"
      by blast
    have "good_chain L accepted leaf eat (Suc k)"
      using later_stage[OF st(2) _ k(1)] pv Some by simp
    moreover have "p = p0" "meas = measurement_of ms eat" "b = eat_binding L eat"
      using eq pv Some rec by simp_all
    ultimately show ?thesis using k st(2) by (intro exI[of _ "Suc k"] exI[of _ ms]) simp
  qed
qed

lemma verify_eat_chain_complete:
  assumes "good_chain L accepted leaf eat k" "d + k \<le> 17"
  shows "\<exists>p meas b. verify_eat_chain L eat accepted leaf d = Inr (p, meas, b, d + k)"
  using assms
proof (induction arbitrary: d rule: good_chain.induct)
  case (first_stage eat p ms)
  then show ?case by (simp add: verify_eat_chain_stage[where p = p and ms = ms])
next
  case (later_stage eat p ms prev n)
  then have "d < 17" using good_chain_pos by fastforce
  moreover obtain p' m' b' where "verify_eat_chain L prev accepted leaf (d + 1) = Inr (p', m', b', d + 1 + n)"
    using later_stage.IH[of "d + 1"] later_stage.prems by auto
  ultimately show ?case using later_stage.hyps(1,2)
    by (simp add: verify_eat_chain_stage[where p = p and ms = ms])
qed

subsection \<open>Totals and rankings\<close>

definition calls_of :: "contest_event list \<Rightarrow> str \<Rightarrow> contest_event list" where
  "calls_of evs tm = filter (\<lambda>e. kind e = ''llm.call'' \<and> team_id e = tm) evs"

definition wrapped_total :: "contest_event list \<Rightarrow> str \<Rightarrow> int" where
  "wrapped_total evs tm = wrap_i64 (\<Sum>e\<leftarrow>calls_of evs tm. total_tokens e)"

lemma fold_i64_add:
  "fold (\<lambda>e v. Some (i64_add (case v of None \<Rightarrow> 0 | Some c \<Rightarrow> c) (f e))) xs (Some (wrap_i64 c))
   = Some (wrap_i64 (c + sum_list (map f xs)))"
  by (induction xs arbitrary: c) (simp_all add: i64_add_def wrap_i64_add_left add.assoc)

lemma fold_i64_add_None:
  "fold (\<lambda>e v. Some (i64_add (case v of None \<Rightarrow> 0 | Some c \<Rightarrow> c) (f e))) xs None
   = (if xs = [] then None else Some (wrap_i64 (sum_list (map f xs))))"
proof (cases xs)
  case (Cons x ys)
  have "fold (\<lambda>e v. Some (i64_add (case v of None \<Rightarrow> 0 | Some c \<Rightarrow> c) (f e))) xs None
      = fold (\<lambda>e v. Some (i64_add (case v of None \<Rightarrow> 0 | Some c \<Rightarrow> c) (f e))) ys (Some (wrap_i64 (f x)))"
    using Cons by (simp add: i64_add_def)
  then show ?thesis using Cons by (simp only: fold_i64_add) simp
qed simp

lemma totals_by_team_as_count:
  "totals_by_team evs =
     fold (\<lambda>e. if kind e = ''llm.call''
               then (\<lambda>m. bt_insert (team_id e)
                       (i64_add (case bt_get m (team_id e) of None \<Rightarrow> 0 | Some c \<Rightarrow> c) (total_tokens e)) m)
               else id) evs []"
proof -
  have "fold (\<lambda>e. bt_add i64_add (total_tokens e) (team_id e)) (filter (\<lambda>e. kind e = ''llm.call'') evs) m
      = fold (\<lambda>e. if kind e = ''llm.call''
               then (\<lambda>m. bt_insert (team_id e)
                       (i64_add (case bt_get m (team_id e) of None \<Rightarrow> 0 | Some c \<Rightarrow> c) (total_tokens e)) m)
               else id) evs m" for m
    by (induction evs arbitrary: m) (simp_all add: bt_add_def)
  then show ?thesis by (simp add: totals_by_team_def)
qed

lemma totals_by_team_get:
  "bt_get (totals_by_team evs) tm = (if calls_of evs tm = [] then None else Some (wrapped_total evs tm))"
  unfolding totals_by_team_as_count bt.get_fold_count[where P = "\<lambda>e. kind e = ''llm.call''" and f = team_id
      and g = "\<lambda>v e. i64_add (case v of None \<Rightarrow> 0 | Some c \<Rightarrow> c) (total_tokens e)"]
  by (simp add: fold_i64_add_None calls_of_def wrapped_total_def)

lemma totals_by_team_ok: "bt_ok (totals_by_team evs)"
  unfolding totals_by_team_as_count
  by (rule bt.ok_fold_count[where P = "\<lambda>e. kind e = ''llm.call''" and f = team_id
      and g = "\<lambda>v e. i64_add (case v of None \<Rightarrow> 0 | Some c \<Rightarrow> c) (total_tokens e)"]) simp

lemma totals_by_team_mem:
  "(tm, n) \<in> set (totals_by_team evs) \<longleftrightarrow> calls_of evs tm \<noteq> [] \<and> n = wrapped_total evs tm"
proof -
  have "(tm, n) \<in> set (totals_by_team evs) \<longleftrightarrow> bt_get (totals_by_team evs) tm = Some n"
    using bt_ok_distinct[OF totals_by_team_ok] by (simp add: map_of_eq_Some_iff)
  then show ?thesis by (auto simp: totals_by_team_get)
qed

interpretation min_tokens: total_cmp min_tokens_cmp
  unfolding min_tokens_cmp_def by (intro total_cmp_then total_cmp_key)

interpretation budget: total_cmp "budget_cmp b" for b
  unfolding budget_cmp_def by (intro total_cmp_then total_cmp_key total_cmp_key_rev)

text \<open>A ranking of teams: the reports are the totals in the comparator's order, ranked from 1.\<close>

definition ranks :: "(str \<times> int \<Rightarrow> str \<times> int \<Rightarrow> ordering) \<Rightarrow> contest_event list \<Rightarrow> score_report list \<Rightarrow> bool" where
  "ranks cmp evs rs \<longleftrightarrow>
     sorted_wrt (\<lambda>a b. cmp (sr_team_id a, sr_score a) (sr_team_id b, sr_score b) = Less) rs
     \<and> map sr_rank rs = map word_of_nat [1..<Suc (length rs)]
     \<and> distinct (map sr_team_id rs)
     \<and> set (map sr_team_id rs) = {tm. calls_of evs tm \<noteq> []}
     \<and> (\<forall>r\<in>set rs. sr_score r = wrapped_total evs (sr_team_id r))"

lemma strict_sorted_of_distinct:
  assumes "sorted_wrt (\<lambda>a b. cmp a b \<noteq> Greater) xs" "distinct (map fst xs)"
    and "\<And>a b. cmp a b = Equal \<Longrightarrow> fst a = fst b"
  shows "sorted_wrt (\<lambda>a b. cmp a b = Less) xs"
  using assms(1,2)
proof (induction xs)
  case (Cons x xs)
  have "cmp x y = Less" if "y \<in> set xs" for y
    using Cons.prems that assms(3)[of x y] by (cases "cmp x y") (auto simp: image_iff)
  with Cons show ?case by simp
qed simp

lemma ranks_of_sorted:
  fixes f :: "nat \<times> str \<times> int \<Rightarrow> score_report"
  assumes tot: "total_cmp cmp" and eq: "\<And>a b. cmp a b = Equal \<Longrightarrow> fst a = fst b"
    and f: "\<And>i t n. sr_team_id (f (i, t, n)) = t \<and> sr_score (f (i, t, n)) = n \<and> sr_rank (f (i, t, n)) = word_of_nat (i + 1)"
  shows "ranks cmp evs (map f (enumerate 0 (sort_by cmp (totals_by_team evs))))"
proof -
  let ?xs = "sort_by cmp (totals_by_team evs)"
  define rs where "rs = map f (enumerate 0 ?xs)"
  have "(\<lambda>r. (sr_team_id r, sr_score r)) \<circ> f = snd"
    using f by (intro ext) (auto simp: comp_def)
  then have proj: "map (\<lambda>r. (sr_team_id r, sr_score r)) rs = ?xs"
    unfolding rs_def list.map_comp by simp
  have teams: "map sr_team_id rs = map fst ?xs"
    unfolding proj[symmetric] by (simp add: comp_def)
  have "mset (map fst ?xs) = mset (map fst (totals_by_team evs))" by simp
  then have dist: "distinct (map fst ?xs)"
    using bt_ok_distinct[OF totals_by_team_ok, of evs] mset_eq_imp_distinct_iff by blast
  have "sorted_wrt (\<lambda>a b. cmp a b = Less) (map (\<lambda>r. (sr_team_id r, sr_score r)) rs)"
    unfolding proj by (rule strict_sorted_of_distinct[OF total_cmp.sorted_sort_by[OF tot] dist eq])
  then have srt: "sorted_wrt (\<lambda>a b. cmp (sr_team_id a, sr_score a) (sr_team_id b, sr_score b) = Less) rs"
    by (simp only: sorted_wrt_map)
  have "sr_rank \<circ> f = (\<lambda>i. word_of_nat i) \<circ> (\<lambda>i. i + 1) \<circ> fst"
    using f by (intro ext) (auto simp: comp_def)
  then have "map sr_rank rs = map word_of_nat (map (\<lambda>i. i + 1) (map fst (enumerate 0 ?xs)))"
    unfolding rs_def list.map_comp by (simp only: comp_assoc)
  also have "map (\<lambda>i. i + 1) (map fst (enumerate 0 ?xs)) = [1..<Suc (length ?xs)]"
    by (simp add: map_Suc_upt)
  finally have rk: "map sr_rank rs = map word_of_nat [1..<Suc (length rs)]"
    by (simp add: rs_def)
  have mem: "sr_score r = wrapped_total evs (sr_team_id r)" if "r \<in> set rs" for r
  proof -
    have "(sr_team_id r, sr_score r) \<in> set (map (\<lambda>r. (sr_team_id r, sr_score r)) rs)"
      using that by auto
    then show ?thesis unfolding proj by (simp add: totals_by_team_mem)
  qed
  have "set (map fst ?xs) = {tm. calls_of evs tm \<noteq> []}"
    using totals_by_team_mem[of _ _ evs] by force
  with srt teams dist rk mem show ?thesis
    unfolding rs_def[symmetric] by (simp only: ranks_def) blast
qed

subsection \<open>Properties\<close>

lemma lib_extend_simps [simp]:
  "sha256 (lib.extend L x) = sha256 L" "hex_encode (lib.extend L x) = hex_encode L"
  "hex_decode (lib.extend L x) = hex_decode L" "sha384 (lib.extend L x) = sha384 L"
  "b64_encode (lib.extend L x) = b64_encode L" "b64_decode (lib.extend L x) = b64_decode L"
  "b64url_encode (lib.extend L x) = b64url_encode L" "b64url_decode (lib.extend L x) = b64url_decode L"
  "ed_verify (lib.extend L x) = ed_verify L" "ed_sign (lib.extend L x) = ed_sign L"
  "ed_public (lib.extend L x) = ed_public L" "ed_valid_key (lib.extend L x) = ed_valid_key L"
  by (simp_all add: lib.extend_def)

lemma sig_law_extend [simp]: "sig_law (lib.extend L x) = sig_law L"
  by (simp add: sig_law_def)

definition ref_llm :: llm_lib where
  "ref_llm = lib.extend ref_lib (llm_lib.fields (\<lambda>_. Inr ''manifest'') (\<lambda>_. Inl ''unknown'')
     (\<lambda>e. Inr (event_id e @ team_id e)) (\<lambda>_. Inl ''unknown''))"

definition ref_event :: contest_event where
  "ref_event = event_new ''evt_1'' ''llm.call'' ''hk'' ''team_a'' ''gw'' ''sha256:m'' ''gateway_proxy'' ''routed''
     0 ''sha256:0'' 1 2 \<lparr>actor_kind = ''agent'', agent_session_id = ''s1''\<rparr> [] [(''total_tokens'', 42)] [] []"

text \<open>
  C14: a CVM receipt verifies exactly when it decodes to an attestation token from which a chain of
  at most seventeen stages starts, each of them with the leaf's \<open>value_x\<close>, a known platform the
  policy accepts and a non-empty quote that verifies against the token's binding; the report then
  names the leaf's platform, measurement and binding, the receipt's own hash and the chain's length.
\<close>

theorem receipt_verified_iff:
  "verify_cvm_receipt L cbor accepted vp = Inr r \<longleftrightarrow>
   (\<exists>eat n p ms. eat_from_cbor L cbor = Inr eat \<and> good_chain L accepted (eat_value_x eat) eat n \<and> n \<le> 17
      \<and> good_stage L accepted (eat_value_x eat) eat p ms
      \<and> r = \<lparr>vr_verifier_profile = vp, vr_platform = platform_label p,
             vr_value_x = ''sha384:'' @ hex_encode L (eat_value_x eat),
             vr_platform_measurement = hex_encode L (measurement_of ms eat),
             vr_quote_binding_hash = ''sha256:'' @ hex_encode L (eat_binding L eat),
             vr_receipt_hash = sha256_prefixed L cbor, vr_chain_depth = n\<rparr>)"
    (is "?lhs \<longleftrightarrow> ?rhs")
proof
  assume ?lhs
  then obtain eat p meas b n where e: "eat_from_cbor L cbor = Inr eat"
    and c: "verify_eat_chain L eat accepted (eat_value_x eat) 0 = Inr (p, meas, b, n)"
    and r: "r = \<lparr>vr_verifier_profile = vp, vr_platform = platform_label p,
       vr_value_x = sha384_label L (eat_value_x eat), vr_platform_measurement = hex_encode L meas,
       vr_quote_binding_hash = ''sha256:'' @ hex_encode L b, vr_receipt_hash = sha256_prefixed L cbor,
       vr_chain_depth = n\<rparr>"
    by (auto simp: verify_cvm_receipt_def res_simps)
  from verify_eat_chain_sound[OF c] e r show ?rhs by (auto simp: sha384_label_def)
next
  assume ?rhs
  then obtain eat n p ms where e: "eat_from_cbor L cbor = Inr eat"
    and g: "good_chain L accepted (eat_value_x eat) eat n" "n \<le> 17"
    and s: "good_stage L accepted (eat_value_x eat) eat p ms"
    and r: "r = \<lparr>vr_verifier_profile = vp, vr_platform = platform_label p,
             vr_value_x = ''sha384:'' @ hex_encode L (eat_value_x eat),
             vr_platform_measurement = hex_encode L (measurement_of ms eat),
             vr_quote_binding_hash = ''sha256:'' @ hex_encode L (eat_binding L eat),
             vr_receipt_hash = sha256_prefixed L cbor, vr_chain_depth = n\<rparr>"
    by blast
  obtain p' meas b where v: "verify_eat_chain L eat accepted (eat_value_x eat) 0 = Inr (p', meas, b, n)"
    using verify_eat_chain_complete[OF g(1), of 0] g(2) by auto
  obtain ms' where "good_stage L accepted (eat_value_x eat) eat p' ms'" "meas = measurement_of ms' eat" "b = eat_binding L eat"
    using verify_eat_chain_sound[OF v] by blast
  with s have "p' = p" "meas = measurement_of ms eat" "b = eat_binding L eat"
    by (auto simp: good_stage_def)
  with e v r show ?lhs by (simp add: verify_cvm_receipt_def sha384_label_def)
qed

lemma build_claim_verified:
  assumes "build_capture_ra_claim L man mh cbor cm as enf = Inr c"
  shows "as = ''attested''
    \<and> (\<exists>s\<in>set REMOTE_ATTESTED_CAPTURE_PATHS. spec_capture_method s = cm \<and> spec_enforcement s = enf)
    \<and> cm \<in> set (capture_methods man)
    \<and> sha256_prefixed L cbor = man_cvm_receipt_hash man \<and> ra_cvm_receipt_hash c = man_cvm_receipt_hash man
    \<and> ra_capture_method c = cm \<and> ra_assurance c = as \<and> ra_enforcement c = enf
    \<and> ra_profile c = CAPTURE_RA_PROFILE \<and> ra_manifest_hash c = mh
    \<and> ra_event_signing_key_hash c = sha256_prefixed L (jwk_x (event_signing_jwk man))
    \<and> (\<exists>eat n p ms. eat_from_cbor L cbor = Inr eat \<and> ra_chain_depth c = n \<and> 1 \<le> n \<and> n \<le> 17
         \<and> good_chain L (accepted_tee_platforms (man_trust_policy man)) (eat_value_x eat) eat n
         \<and> good_stage L (accepted_tee_platforms (man_trust_policy man)) (eat_value_x eat) eat p ms
         \<and> ra_platform c = platform_label p \<and> ra_value_x c = sha384_label L (eat_value_x eat)
         \<and> ra_platform_measurement c = hex_encode L (measurement_of ms eat)
         \<and> ra_quote_binding_hash c = ''sha256:'' @ hex_encode L (eat_binding L eat)
         \<and> normalize_value_x (man_value_x man) = normalize_value_x (sha384_label L (eat_value_x eat))
         \<and> (\<forall>t. stage_of L eat t \<longrightarrow>
              (\<exists>p ms. good_stage L (accepted_tee_platforms (man_trust_policy man)) (eat_value_x eat) t p ms)))"
proof -
  obtain spec v where sp: "find_attested_path cm as enf = Some spec" "cm \<in> set (capture_methods man)"
    and v: "verify_cvm_receipt L cbor (accepted_tee_platforms (man_trust_policy man))
              (tp_verifier_profile (man_trust_policy man)) = Inr v"
    and eqs: "man_cvm_receipt_hash man = vr_receipt_hash v"
      "normalize_value_x (man_value_x man) = normalize_value_x (vr_value_x v)"
    and c: "ra_profile c = CAPTURE_RA_PROFILE" "ra_capture_method c = cm" "ra_assurance c = as" "ra_enforcement c = enf"
      "ra_cvm_receipt_hash c = vr_receipt_hash v" "ra_manifest_hash c = mh" "ra_chain_depth c = vr_chain_depth v"
      "ra_event_signing_key_hash c = sha256_prefixed L (jwk_x (event_signing_jwk man))"
      "ra_platform c = vr_platform v" "ra_value_x c = vr_value_x v" "ra_platform_measurement c = vr_platform_measurement v"
      "ra_quote_binding_hash c = vr_quote_binding_hash v"
    using assms by (auto simp: build_capture_ra_claim_def res_simps)
  obtain eat p meas b n where e: "eat_from_cbor L cbor = Inr eat"
    and ch: "verify_eat_chain L eat (accepted_tee_platforms (man_trust_policy man)) (eat_value_x eat) 0 = Inr (p, meas, b, n)"
    and vv: "vr_receipt_hash v = sha256_prefixed L cbor" "vr_value_x v = sha384_label L (eat_value_x eat)" "vr_chain_depth v = n"
      "vr_platform v = platform_label p" "vr_platform_measurement v = hex_encode L meas"
      "vr_quote_binding_hash v = ''sha256:'' @ hex_encode L b"
    using v by (auto simp: verify_cvm_receipt_def res_simps)
  from verify_eat_chain_sound[OF ch] obtain ms
    where g: "good_chain L (accepted_tee_platforms (man_trust_policy man)) (eat_value_x eat) eat n" "n \<le> 17"
      "good_stage L (accepted_tee_platforms (man_trust_policy man)) (eat_value_x eat) eat p ms"
      "meas = measurement_of ms eat" "b = eat_binding L eat"
    by auto
  have path: "as = ''attested''" "\<exists>s\<in>set REMOTE_ATTESTED_CAPTURE_PATHS. spec_capture_method s = cm \<and> spec_enforcement s = enf"
    using sp(1) by (auto simp: find_attested_path_def find_Some_iff split: if_splits)
  have "1 \<le> n" using good_chain_pos[OF g(1)] by simp
  with g good_chain_stages[OF _ g(1)]
  have "\<exists>eat n p ms. eat_from_cbor L cbor = Inr eat \<and> ra_chain_depth c = n \<and> 1 \<le> n \<and> n \<le> 17
       \<and> good_chain L (accepted_tee_platforms (man_trust_policy man)) (eat_value_x eat) eat n
       \<and> good_stage L (accepted_tee_platforms (man_trust_policy man)) (eat_value_x eat) eat p ms
       \<and> ra_platform c = platform_label p \<and> ra_value_x c = sha384_label L (eat_value_x eat)
       \<and> ra_platform_measurement c = hex_encode L (measurement_of ms eat)
       \<and> ra_quote_binding_hash c = ''sha256:'' @ hex_encode L (eat_binding L eat)
       \<and> normalize_value_x (man_value_x man) = normalize_value_x (sha384_label L (eat_value_x eat))
       \<and> (\<forall>t. stage_of L eat t \<longrightarrow>
            (\<exists>p ms. good_stage L (accepted_tee_platforms (man_trust_policy man)) (eat_value_x eat) t p ms))"
    using e vv eqs c(7,9-12) by (intro exI[of _ eat] exI[of _ n] exI[of _ p] exI[of _ ms]) auto
  with path sp(2) vv(1) eqs(1) c show ?thesis by simp
qed

text \<open>The evidence that is inserted for a claim is what \<open>event_matches_capture_ra_claim\<close> asks for.\<close>

lemma inserted_evidence:
  "bt_get (insert_capture_ra_evidence ev c) ''ra_profile'' = Some (ra_profile c)"
  "bt_get (insert_capture_ra_evidence ev c) ''ra_cvm_receipt_hash'' = Some (ra_cvm_receipt_hash c)"
  "bt_get (insert_capture_ra_evidence ev c) ''ra_event_signing_key_hash'' = Some (ra_event_signing_key_hash c)"
  "bt_get (insert_capture_ra_evidence ev c) ''enforcement_mode'' = bt_get ev ''enforcement_mode''"
  by (simp_all add: insert_capture_ra_evidence_def bt_extend_def bt_get_insert)

lemma claim_evidence_matches:
  assumes "capture_method e = ra_capture_method c" "assurance e = ra_assurance c" "manifest_hash e = ra_manifest_hash c"
    and "bt_get ev ''enforcement_mode'' = Some (ra_enforcement c)"
  shows "event_matches_capture_ra_claim (e\<lparr>evidence := insert_capture_ra_evidence ev c\<rparr>) c"
  using assms by (simp add: event_matches_capture_ra_claim_def inserted_evidence)

text \<open>
  C9: a capture claim is only built for a path of the remote-attested table, advertised by the
  manifest, from the very receipt the manifest pins, whose attestation chain has at most seventeen
  stages that all verify on platforms the manifest accepts and all carry the \<open>value_x\<close> of the
  manifest. The claim names the manifest hash, the manifest's event key, and the platform, the
  measurement, the binding, \<open>value_x\<close> and the depth of the chain that was verified; and an event
  of that method, assurance, manifest and enforcement mode matches the claim once its evidence was inserted.
\<close>

theorem capture_claim_sound:
  assumes "build_capture_ra_claim L man mh cbor cm as enf = Inr c"
  shows "as = ''attested''
    \<and> (\<exists>s\<in>set REMOTE_ATTESTED_CAPTURE_PATHS. spec_capture_method s = cm \<and> spec_enforcement s = enf)
    \<and> cm \<in> set (capture_methods man)
    \<and> sha256_prefixed L cbor = man_cvm_receipt_hash man \<and> ra_cvm_receipt_hash c = man_cvm_receipt_hash man
    \<and> ra_capture_method c = cm \<and> ra_assurance c = as \<and> ra_enforcement c = enf
    \<and> ra_profile c = CAPTURE_RA_PROFILE \<and> ra_manifest_hash c = mh
    \<and> ra_event_signing_key_hash c = sha256_prefixed L (jwk_x (event_signing_jwk man))
    \<and> (\<exists>eat n p ms. eat_from_cbor L cbor = Inr eat \<and> ra_chain_depth c = n \<and> 1 \<le> n \<and> n \<le> 17
         \<and> good_chain L (accepted_tee_platforms (man_trust_policy man)) (eat_value_x eat) eat n
         \<and> good_stage L (accepted_tee_platforms (man_trust_policy man)) (eat_value_x eat) eat p ms
         \<and> ra_platform c = platform_label p \<and> ra_value_x c = sha384_label L (eat_value_x eat)
         \<and> ra_platform_measurement c = hex_encode L (measurement_of ms eat)
         \<and> ra_quote_binding_hash c = ''sha256:'' @ hex_encode L (eat_binding L eat)
         \<and> normalize_value_x (man_value_x man) = normalize_value_x (sha384_label L (eat_value_x eat))
         \<and> (\<forall>t. stage_of L eat t \<longrightarrow>
              (\<exists>p ms. good_stage L (accepted_tee_platforms (man_trust_policy man)) (eat_value_x eat) t p ms)))
    \<and> (\<forall>e ev. capture_method e = cm \<longrightarrow> assurance e = as \<longrightarrow> manifest_hash e = mh \<longrightarrow> bt_get ev ''enforcement_mode'' = Some enf
         \<longrightarrow> event_matches_capture_ra_claim (e\<lparr>evidence := insert_capture_ra_evidence ev c\<rparr>) c)"
  using build_claim_verified[OF assms] by (simp add: claim_evidence_matches)

definition ref_eat :: eat_token where
  "ref_eat = \<lparr>eat_value_x = ''vx'', eat_platform = 2, eat_source_hash = [], eat_artifact_hash = [],
     platform_quote = pad 32 ''vx'', platform_measurement = ''m'', tls_spki_hash = [], previous_attestation = []\<rparr>"

definition ref_claim_lib :: lib where
  "ref_claim_lib = ref_lib\<lparr>eat_from_cbor := (\<lambda>_. Inr ref_eat)\<rparr>"

definition ref_manifest :: contest_manifest where
  "ref_manifest = manifest_new ref_lib ''iss'' ''hk'' ''gw'' ''url'' ''gurl''
     (sha256_prefixed ref_lib ''receipt'') (''SHA384:'' @ ''7678'') ''ph'' ''sh'' ''routed'' ''su'' [''gateway_proxy'']
     (self_hosted ['' TDX''] [] []) (pad 32 ''k'') [''llm.call'']"

theorem capture_claim_sound_witness:
  "\<exists>c. build_capture_ra_claim ref_claim_lib (ref_manifest\<lparr>man_value_x := '' sha384:7678''\<rparr>) ''mh'' ''receipt''
      ''gateway_proxy'' ''attested'' ''routed'' = Inr c \<and> 1 \<le> ra_chain_depth c \<and> ra_manifest_hash c = ''mh''"
proof -
  have "res_ok (build_capture_ra_claim ref_claim_lib (ref_manifest\<lparr>man_value_x := '' sha384:7678''\<rparr>) ''mh'' ''receipt''
      ''gateway_proxy'' ''attested'' ''routed'') \<noteq> None"
    by code_simp
  then obtain c where c: "build_capture_ra_claim ref_claim_lib (ref_manifest\<lparr>man_value_x := '' sha384:7678''\<rparr>)
      ''mh'' ''receipt'' ''gateway_proxy'' ''attested'' ''routed'' = Inr c"
    by (auto simp: res_simps)
  from capture_claim_sound[OF c] c show ?thesis by auto
qed

text \<open>
  The claim does not bind the event signing key. The receipt that verifies for a manifest
  verifies for the same manifest with any other signing key and hash: nothing in the quote is
  compared with the key, so the key's place in the claim rests on who served the manifest.
\<close>

lemma claim_ignores_signing_key:
  assumes "build_capture_ra_claim L man mh cbor cm as enf = Inr c"
  shows "build_capture_ra_claim L (man\<lparr>event_signing_jwk := other\<rparr>) mh' cbor cm as enf
    = Inr (c\<lparr>ra_manifest_hash := mh', ra_event_signing_key_hash := sha256_prefixed L (jwk_x other)\<rparr>)"
proof -
  obtain v where v: "verify_cvm_receipt L cbor (accepted_tee_platforms (man_trust_policy man))
      (tp_verifier_profile (man_trust_policy man)) = Inr v"
    using assms by (auto simp: build_capture_ra_claim_def res_simps)
  from assms show ?thesis
    by (auto simp: build_capture_ra_claim_def res_simps v)
qed

text \<open>
  An event signed with a key verifies under the manifest that publishes the key's public half,
  and signing changes nothing but the signature, so the event still names the same bytes to sign.
\<close>

lemma signed_event_verifies:
  assumes "sig_law L" "event_sign L sk e = Inr e'"
  shows "\<exists>key. event_verifying_key L (manifest_new L iss hk gw curl gmu crh vx ph srh enf su cms tp (ed_public L sk) kinds)
           = Inr key \<and> event_verify L key e' = Inr ()
         \<and> e' = e\<lparr>signature := signature e'\<rparr> \<and> signing_bytes L e' = signing_bytes L e"
proof -
  obtain sg where e': "e' = e\<lparr>signature := sg\<rparr>" "signing_bytes L e' = signing_bytes L e"
      "event_verify L (ed_public L sk) e' = Inr ()"
    using event_sign_verifies[OF assms] .
  have "event_verifying_key L (manifest_new L iss hk gw curl gmu crh vx ph srh enf su cms tp (ed_public L sk) kinds)
      = Inr (ed_public L sk)"
    using assms(1) by (simp add: event_verifying_key_def manifest_new_def from_verifying_key_def to_verifying_key_def sig_law_def)
  moreover have "e' = e\<lparr>signature := signature e'\<rparr>" unfolding e'(1) by simp
  ultimately show ?thesis using e'(2,3) by blast
qed

lemma score_min_tokens_ranks:
  "ranks min_tokens_cmp evs (score_min_tokens evs)
   \<and> list_all (\<lambda>r. sr_status r = ''eligible'') (score_min_tokens evs)"
  unfolding score_min_tokens_def
  by (auto intro!: ranks_of_sorted min_tokens.total_cmp_axioms simp: min_tokens_cmp_def list_all_iff)

lemma score_budget_ranks:
  "ranks (budget_cmp budget) evs (score_max_tokens_under_budget evs budget)
   \<and> list_all (\<lambda>r. sr_status r = (if sr_score r \<le> budget then ''eligible'' else ''ineligible''))
        (score_max_tokens_under_budget evs budget)"
  unfolding score_max_tokens_under_budget_def
  by (auto intro!: ranks_of_sorted budget.total_cmp_axioms simp: budget_cmp_def list_all_iff)

text \<open>
  C28: the scoreboards. Both list every team with a recorded LLM call exactly once, ranked from 1,
  with the sum over exactly the team's calls in 64-bit arithmetic. The minimal-token
  one is in strictly increasing order of that total, ties by team name, and every team is eligible. The
  one under a budget has the teams within the budget first and only them eligible, each group in
  decreasing order of the total, ties by team name.
\<close>

theorem scoreboards_rank_teams:
  "let least = score_min_tokens evs; most = score_max_tokens_under_budget evs budget
   in sorted_wrt (\<lambda>a b. sr_score a < sr_score b \<or> sr_score a = sr_score b \<and> sr_team_id a < sr_team_id b) least
    \<and> sorted_wrt (\<lambda>a b. sr_score a \<le> budget \<and> budget < sr_score b
         \<or> (sr_score a \<le> budget) = (sr_score b \<le> budget)
           \<and> (sr_score b < sr_score a \<or> sr_score a = sr_score b \<and> sr_team_id a < sr_team_id b)) most
    \<and> list_all (\<lambda>r. sr_status r = ''eligible'') least
    \<and> list_all (\<lambda>r. sr_status r = (if sr_score r \<le> budget then ''eligible'' else ''ineligible'')) most
    \<and> list_all (\<lambda>rs. map sr_rank rs = map word_of_nat [1..<Suc (length rs)] \<and> distinct (map sr_team_id rs)
         \<and> set (map sr_team_id rs) = {tm. calls_of evs tm \<noteq> []}
         \<and> list_all (\<lambda>r. sr_score r = wrapped_total evs (sr_team_id r)) rs) [least, most]"
proof -
  have least: "sorted_wrt (\<lambda>a b. sr_score a < sr_score b \<or> sr_score a = sr_score b \<and> sr_team_id a < sr_team_id b) (score_min_tokens evs)"
    using score_min_tokens_ranks[of evs] unfolding ranks_def min_tokens_cmp_def by simp
  have "sorted_wrt (\<lambda>a b. budget_cmp budget (sr_team_id a, sr_score a) (sr_team_id b, sr_score b) = Less)
      (score_max_tokens_under_budget evs budget)"
    using score_budget_ranks[of budget evs] unfolding ranks_def by simp
  then have most: "sorted_wrt (\<lambda>a b. sr_score a \<le> budget \<and> budget < sr_score b
         \<or> (sr_score a \<le> budget) = (sr_score b \<le> budget)
           \<and> (sr_score b < sr_score a \<or> sr_score a = sr_score b \<and> sr_team_id a < sr_team_id b))
      (score_max_tokens_under_budget evs budget)"
    by (rule sorted_wrt_mono_rel[rotated]) (auto simp: budget_cmp_def)
  show ?thesis
    using least most score_min_tokens_ranks[of evs] score_budget_ranks[of budget evs]
    unfolding Let_def ranks_def list_all_iff by simp
qed

end
