(* ===== verification/Llm_Capture.thy ===== *)
theory Llm_Capture
  imports Llm_Attested
begin

section \<open>Capture reports and participant configuration (\<open>src/llm_capture.rs\<close>)\<close>

text \<open>
  The adapters below the scoring layer: a capture report is normalized, made into an event and
  signed; the participant configuration is read from the team payload an event service answers.
  The clock, random bytes and the environment are arguments; the derived JSON codec of the
  configuration is the record \<open>config_codec\<close>.
\<close>

definition ZERO_HASH :: str where
  "ZERO_HASH = ''sha256:0000000000000000000000000000000000000000000000000000000000000000''"

record capture_report =
  cr_kind :: str
  cr_hackathon_id :: str
  cr_team_id :: str
  cr_gateway_id :: str
  cr_manifest_hash :: str
  cr_capture_method :: str
  cr_assurance :: str
  cr_event_index :: u64
  cr_previous_team_event_hash :: str
  cr_started_at_ms :: u64
  cr_completed_at_ms :: u64
  cr_actor :: event_actor
  cr_subject :: "(str \<times> str) list"
  cr_metrics :: "(str \<times> int) list"
  cr_hashes :: "(str \<times> str) list"
  cr_evidence :: "(str \<times> str) list"

definition default_kind :: str where
  "default_kind = ''llm.call''"

definition default_actor :: event_actor where
  "default_actor = \<lparr>actor_kind = ''agent'', agent_session_id = ''agent_default''\<rparr>"

definition report_new :: "u64 \<Rightarrow> str \<Rightarrow> str \<Rightarrow> str \<Rightarrow> str \<Rightarrow> str \<Rightarrow> capture_report" where
  "report_new now k hk tm cm as =
     \<lparr>cr_kind = k, cr_hackathon_id = hk, cr_team_id = tm, cr_gateway_id = ''capture_adapter'',
      cr_manifest_hash = ZERO_HASH, cr_capture_method = cm, cr_assurance = as, cr_event_index = 0,
      cr_previous_team_event_hash = ZERO_HASH, cr_started_at_ms = now, cr_completed_at_ms = now,
      cr_actor = default_actor, cr_subject = [], cr_metrics = [], cr_hashes = [], cr_evidence = []\<rparr>"

definition report_normalize :: "u64 \<Rightarrow> capture_report \<Rightarrow> capture_report" where
  "report_normalize now r =
     (let r = (if cr_kind r = [] then r\<lparr>cr_kind := default_kind\<rparr> else r);
          r = (if cr_started_at_ms r = 0 then r\<lparr>cr_started_at_ms := now\<rparr> else r);
          r = (if cr_completed_at_ms r = 0 then r\<lparr>cr_completed_at_ms := cr_started_at_ms r\<rparr> else r);
          r = (if cr_previous_team_event_hash r = [] then r\<lparr>cr_previous_team_event_hash := ZERO_HASH\<rparr> else r);
          r = (if cr_manifest_hash r = [] then r\<lparr>cr_manifest_hash := ZERO_HASH\<rparr> else r);
          r = (if cr_gateway_id r = [] then r\<lparr>cr_gateway_id := ''capture_adapter''\<rparr> else r)
      in r)"

definition report_sign ::
    "('m) llm_lib_scheme \<Rightarrow> u64 \<Rightarrow> bytes \<Rightarrow> bytes \<Rightarrow> capture_report \<Rightarrow> llm_error + contest_event" where
  "report_sign L now rnd sk r0 =
     (let r = report_normalize now r0 in
      event_sign L sk (event_new (random_id L rnd ''evt'') (cr_kind r) (cr_hackathon_id r) (cr_team_id r)
        (cr_gateway_id r) (cr_manifest_hash r) (cr_capture_method r) (cr_assurance r) (cr_event_index r)
        (cr_previous_team_event_hash r) (cr_started_at_ms r) (cr_completed_at_ms r) (cr_actor r)
        (cr_subject r) (cr_metrics r) (cr_hashes r) (cr_evidence r)))"

record participant_config =
  pc_version :: u32
  pc_event_id :: str
  pc_issuer :: str
  pc_team_id :: str
  pc_team_name :: str
  pc_team_api_key :: str
  pc_gateway_base_url :: str
  pc_event_sink_url :: str
  pc_bootstrap_url :: str
  pc_gateway_manifest_url :: str
  pc_cvm_url :: str
  pc_cvm_json_url :: str
  pc_cvm_embed_url :: str
  pc_cvm_image_url :: str
  pc_cvm_proof_url :: str
  pc_capture_methods :: "str list"

record config_codec =
  ser_config :: "participant_config \<Rightarrow> bytes option"
  de_config :: "bytes \<Rightarrow> participant_config option"

datatype config_error =
    MissingField str | ReadConfig str | DecodeConfig str | ConfigDir str | EncodeConfig | WriteConfig str

definition optional_string :: "json \<Rightarrow> str \<Rightarrow> str option" where
  "optional_string v k =
     (case Option.bind (jget v k) as_str of None \<Rightarrow> None | Some s \<Rightarrow> if s \<noteq> [] then Some s else None)"

definition required_string :: "json \<Rightarrow> str \<Rightarrow> config_error + str" where
  "required_string v k = ok_or (optional_string v k) (MissingField k)"

definition from_team_payload :: "json \<Rightarrow> config_error + participant_config" where
  "from_team_payload v =
     rbind (required_string v ''cvm_url'') (\<lambda>cvm.
     rbind (required_string v ''event_id'') (\<lambda>eid.
     rbind (required_string v ''team_id'') (\<lambda>tid.
     rbind (required_string v ''team_name'') (\<lambda>tn.
     rbind (required_string v ''team_api_key'') (\<lambda>key.
     rbind (required_string v ''gateway_base_url'') (\<lambda>gbu.
     rbind (required_string v ''event_sink_url'') (\<lambda>esu.
     rbind (required_string v ''bootstrap_url'') (\<lambda>bu.
     rbind (required_string v ''gateway_manifest_url'') (\<lambda>gmu.
     Inr \<lparr>pc_version = 1, pc_event_id = eid, pc_issuer = opt_or (optional_string v ''issuer'') [],
          pc_team_id = tid, pc_team_name = tn, pc_team_api_key = key, pc_gateway_base_url = gbu,
          pc_event_sink_url = esu, pc_bootstrap_url = bu, pc_gateway_manifest_url = gmu, pc_cvm_url = cvm,
          pc_cvm_json_url = opt_or (optional_string v ''cvm_json_url'') (cvm @ ''.json''),
          pc_cvm_embed_url = opt_or (optional_string v ''cvm_embed_url'') (cvm @ ''.embed''),
          pc_cvm_image_url = opt_or (optional_string v ''cvm_image_url'') (cvm @ ''.svg''),
          pc_cvm_proof_url = opt_or (optional_string v ''cvm_proof_url'') (cvm @ ''.proof.json''),
          pc_capture_methods = (case Option.bind (jget v ''capture_methods'') as_array of
             None \<Rightarrow> [] | Some items \<Rightarrow> List.map_filter as_str items)\<rparr>)))))))))"

definition config_load :: "config_codec \<Rightarrow> fs \<Rightarrow> str \<Rightarrow> config_error + participant_config" where
  "config_load C w path =
     rbind (map_err (\<lambda>_. ReadConfig path) (fs_read w path)) (\<lambda>b. ok_or (de_config C b) (DecodeConfig path))"

definition config_save :: "config_codec \<Rightarrow> str \<Rightarrow> participant_config \<Rightarrow> fs \<Rightarrow> config_error + fs" where
  "config_save C path cfg w =
     rbind (map_err (\<lambda>_. ConfigDir path) (ensure_parent path w)) (\<lambda>_.
     rbind (ok_or (ser_config C cfg) EncodeConfig) (\<lambda>b.
     map_err (\<lambda>_. WriteConfig path) (fs_write path b w)))"

definition default_path :: "(str \<Rightarrow> str option) \<Rightarrow> str" where
  "default_path env =
     (case env ''LLMATTEST_CONFIG'' of
        Some p \<Rightarrow> p
      | None \<Rightarrow>
         (case env ''HOME'' of
            Some home \<Rightarrow> path_join (path_join home ''.llmattest'') ''config.json''
          | None \<Rightarrow> ''./llmattest-config.json''))"

definition openai_base_url :: "participant_config \<Rightarrow> str" where
  "openai_base_url cfg = trim_end_matches ''/'' (pc_gateway_base_url cfg) @ ''/v1''"

definition apply_to_report :: "participant_config \<Rightarrow> capture_report \<Rightarrow> capture_report" where
  "apply_to_report cfg r =
     (let r = (if cr_hackathon_id r = [] then r\<lparr>cr_hackathon_id := pc_event_id cfg\<rparr> else r)
      in if cr_team_id r = [] then r\<lparr>cr_team_id := pc_team_id cfg\<rparr> else r)"

text \<open>The signing key's secret bytes: the hash of a seed, or random bytes.\<close>

definition signing_key_from_seed :: "('m) lib_scheme \<Rightarrow> bytes \<Rightarrow> str option \<Rightarrow> bytes" where
  "signing_key_from_seed L rnd seed =
     (case seed of
        None \<Rightarrow> rnd
      | Some s \<Rightarrow>
         (case hex_decode L (trim_start_matches ''sha256:'' (sha256_prefixed L s)) of
            None \<Rightarrow> replicate 32 (CHR 0x2A)
          | Some d \<Rightarrow> if length d = 32 then d else replicate 32 (CHR 0x2A)))"

subsection \<open>Properties\<close>

lemma normalize_kind: "cr_kind (report_normalize now r) = (if cr_kind r = [] then default_kind else cr_kind r)"
  by (simp add: report_normalize_def Let_def)

lemma normalize_started: "cr_started_at_ms (report_normalize now r) = (if cr_started_at_ms r = 0 then now else cr_started_at_ms r)"
  by (simp add: report_normalize_def Let_def)

lemma normalize_completed:
  "cr_completed_at_ms (report_normalize now r)
   = (if cr_completed_at_ms r = 0 then cr_started_at_ms (report_normalize now r) else cr_completed_at_ms r)"
  unfolding normalize_started by (simp add: report_normalize_def Let_def)

lemma normalize_previous:
  "cr_previous_team_event_hash (report_normalize now r)
   = (if cr_previous_team_event_hash r = [] then ZERO_HASH else cr_previous_team_event_hash r)"
  by (simp add: report_normalize_def Let_def)

lemma normalize_manifest:
  "cr_manifest_hash (report_normalize now r) = (if cr_manifest_hash r = [] then ZERO_HASH else cr_manifest_hash r)"
  by (simp add: report_normalize_def Let_def)

lemma normalize_gateway:
  "cr_gateway_id (report_normalize now r) = (if cr_gateway_id r = [] then ''capture_adapter'' else cr_gateway_id r)"
  by (simp add: report_normalize_def Let_def)

lemma normalize_keeps:
  "cr_team_id (report_normalize now r) = cr_team_id r" "cr_metrics (report_normalize now r) = cr_metrics r"
  by (simp_all add: report_normalize_def Let_def)

lemmas normalize_fields = normalize_kind normalize_started normalize_completed normalize_previous
  normalize_manifest normalize_gateway normalize_keeps

text \<open>
  Signing a capture report gives an event that verifies under the signer's public key and that
  is complete: it has a kind, a gateway, a manifest hash and a previous hash, and its start and
  completion times are set whenever the clock is.
\<close>

lemma report_sign_complete:
  assumes "sig_law L" "report_sign L now rnd sk r = Inr e"
  shows "event_verify L (ed_public L sk) e = Inr () \<and> kind e \<noteq> [] \<and> gateway_id e \<noteq> [] \<and> manifest_hash e \<noteq> []
    \<and> previous_team_event_hash e \<noteq> [] \<and> team_id e = cr_team_id r \<and> metrics e = cr_metrics r
    \<and> (now \<noteq> 0 \<longrightarrow> started_at_ms e \<noteq> 0 \<and> completed_at_ms e \<noteq> 0)"
proof -
  obtain u b where u: "u = event_new (random_id L rnd ''evt'') (cr_kind (report_normalize now r)) (cr_hackathon_id (report_normalize now r))
        (cr_team_id (report_normalize now r)) (cr_gateway_id (report_normalize now r)) (cr_manifest_hash (report_normalize now r))
        (cr_capture_method (report_normalize now r)) (cr_assurance (report_normalize now r)) (cr_event_index (report_normalize now r))
        (cr_previous_team_event_hash (report_normalize now r)) (cr_started_at_ms (report_normalize now r))
        (cr_completed_at_ms (report_normalize now r)) (cr_actor (report_normalize now r)) (cr_subject (report_normalize now r))
        (cr_metrics (report_normalize now r)) (cr_hashes (report_normalize now r)) (cr_evidence (report_normalize now r))"
    and b: "signing_bytes L u = Inr b" "e = u\<lparr>signature := b64url_encode L (ed_sign L sk b)\<rparr>"
    using assms(2) by (auto simp: report_sign_def Let_def event_sign_def res_simps)
  have "signing_bytes L e = Inr b" using b by (simp add: signing_bytes_def)
  then have "event_verify L (ed_public L sk) e = Inr ()"
    using assms(1) b(2) by (simp add: event_verify_def sig_law_def)
  then show ?thesis
    using b(2) u by (simp add: event_new_def normalize_fields default_kind_def ZERO_HASH_def)
qed

end
