(* ===== verification/Event_Service.thy ===== *)
theory Event_Service
  imports Text_Codec Http_Service Llm_Capture
begin

section \<open>The event service (\<open>src/bin/llm-event-service.rs\<close>)\<close>

text \<open>
  Organizers create events, teams join them, gateways and daemons post captured events, and
  anyone reads the cards, proofs and receipts computed from the log. The state is the store (held
  in memory and saved to a file after every mutation), one log file per event, and the limiter.
  The page and card texts are in \<open>Event_Pages\<close>, the routes in \<open>Event_Routes\<close>.

  The derived JSON codecs of the store and of the request bodies, the QR encoder, the rendering of
  a floating-point ratio and the \<open>Debug\<close> rendering of a string list are the parameters \<open>es_lib\<close>
  adds. What a request reads from outside (clocks, peer, random bytes, the two documents it
  fetches) is its input \<open>es_in\<close>.
\<close>

subsection \<open>Data\<close>

record es_config =
  ec_listen :: str
  ec_public_base_url :: str
  ec_gateway_base_url :: str
  ec_issuer :: str
  ec_registry_url :: str
  ec_cvm_receipt_url :: str
  ec_gateway_manifest_url :: str
  ec_participant_release_base_url :: str
  ec_accepted_tee_platforms :: "str list"
  ec_runtime_mode :: str
  ec_runtime_value_x :: "str option"
  ec_runtime_domain :: "str option"
  ec_store_path :: str
  ec_event_log_dir :: str
  ec_rate_state_path :: str
  ec_tls_cert_path :: "str option"
  ec_tls_key_path :: "str option"
  ec_tls_client_ca_path :: "str option"
  ec_max_connections :: u64
  ec_read_timeout_ms :: u64
  ec_public_requests_per_minute :: u32
  ec_mutation_requests_per_minute :: u32
  ec_ingest_requests_per_minute :: u32

record cvm_visibility =
  show_capture_labels :: bool
  show_token_stats :: bool
  show_models :: bool
  show_providers :: bool
  show_agent_sessions :: bool

definition cvm_visibility_default :: cvm_visibility where
  "cvm_visibility_default = \<lparr>show_capture_labels = True, show_token_stats = True, show_models = True,
     show_providers = True, show_agent_sessions = True\<rparr>"

record event_record =
  er_event_id :: str
  er_event_type :: str
  er_name :: str
  er_organizer_token :: str
  er_created_at_ms :: u64
  er_gateway_base_url :: str
  er_join_url :: str
  er_dashboard_url :: str
  er_organizer_url :: str
  er_issuer :: str
  er_event_sink_url :: str
  er_bootstrap_url :: str
  er_gateway_manifest_url :: str
  er_participant_release_base_url :: str
  er_trust_policy :: trust_policy
  er_default_scoring_rule_hash :: str
  er_capture_methods :: "str list"
  er_cvm_visibility :: cvm_visibility

record team_record =
  tr_event_id :: str
  tr_team_id :: str
  tr_team_name :: str
  tr_api_key :: str
  tr_created_at_ms :: u64

record event_store =
  st_events :: "(str \<times> event_record) list"
  st_teams :: "(str \<times> team_record list) list"
  st_captured_events :: "(str \<times> str list) list"
  st_captured_event_counts :: "(str \<times> u64) list"

definition store_default :: event_store where
  "store_default = \<lparr>st_events = [], st_teams = [], st_captured_events = [], st_captured_event_counts = []\<rparr>"

record create_event_request =
  ce_name :: "str option"
  ce_event_type :: "str option"
  ce_gateway_base_url :: "str option"
  ce_gateway_manifest_url :: "str option"
  ce_cvm_receipt_url :: "str option"
  ce_scoring :: "str option"
  ce_cvm_visibility :: "cvm_visibility option"

record create_team_request =
  ct_team_name :: "str option"

record 'g app_state = "'g service_base" +
  es_cfg :: es_config
  es_store :: event_store

record es_lib = llm_lib +
  ser_store :: "event_store \<Rightarrow> bytes option"
  de_store :: "bytes \<Rightarrow> event_store option"
  de_create_event :: "bytes \<Rightarrow> create_event_request option"
  de_create_team :: "bytes \<Rightarrow> create_team_request option"
  qr_encode :: "str \<Rightarrow> (int \<times> (int \<Rightarrow> int \<Rightarrow> bool)) option"
  f64_ratio :: "int \<Rightarrow> int \<Rightarrow> str"
  debug_strings :: "str list \<Rightarrow> str"

datatype http_fetch = SendFailed | StatusFailed | ReadFailed | Fetched bytes

record es_in =
  ei_peer :: str
  ei_clock :: "u64 \<times> nat"
  ei_clock2 :: "u64 \<times> nat"
  ei_now :: u64
  ei_random :: bytes
  ei_random2 :: bytes
  ei_fetch :: "str \<Rightarrow> http_fetch"

datatype es_error =
    EsDecodeEvent | EsDecodeTeam | EsStoreDir str | EsStoreEncode | EsStoreWrite str
  | EsBadEventId | EsLogDir str | EsLogAppend str | EsLogRead str | EsLogBase64 | EsQr

subsection \<open>Error texts\<close>

fun llm_error_message :: "llm_error \<Rightarrow> str" where
  "llm_error_message (LEncode e) = ''CBOR encode failed: '' @ e"
| "llm_error_message (LDecode e) = ''CBOR decode failed: '' @ e"
| "llm_error_message (SignatureDecode e) = ''signature decode failed: '' @ e"
| "llm_error_message SignatureVerify = ''signature verify failed''"
| "llm_error_message InvalidPublicKey = ''invalid public key''"
| "llm_error_message (EventVersionMismatch v) = ''event version mismatch: expected 1, got '' @ show_u32 v"
| "llm_error_message (EventProfileMismatch p) = ''event profile mismatch: expected '' @ EVENT_PROFILE @ '', got '' @ p"
| "llm_error_message (ManifestVersionMismatch v) = ''manifest version mismatch: expected 1, got '' @ show_u32 v"
| "llm_error_message (ManifestProfileMismatch p) = ''manifest profile mismatch: expected '' @ MANIFEST_PROFILE @ '', got '' @ p"

fun capture_ra_error_message :: "(str list \<Rightarrow> str) \<Rightarrow> capture_ra_error \<Rightarrow> str" where
  "capture_ra_error_message dbg (UnsupportedCapturePath m e) = ''capture path '' @ m @ ''/'' @ e @ '' is not a remote-attested path''"
| "capture_ra_error_message dbg (EatDecode e) = ''EAT decode failed: '' @ e"
| "capture_ra_error_message dbg (UnknownPlatform p) = ''EAT has unknown platform discriminant '' @ show_int (uint p)"
| "capture_ra_error_message dbg (PlatformNotAccepted p acc) = ''TEE platform '' @ p @ '' is not accepted by policy '' @ dbg acc"
| "capture_ra_error_message dbg EmptyQuote = ''TEE quote is empty''"
| "capture_ra_error_message dbg (QuoteVerify e) = ''platform quote verification failed: '' @ e"
| "capture_ra_error_message dbg (ChainValueXDrift l p) = ''attestation chain value_x drift: leaf '' @ l @ '', previous '' @ p"
| "capture_ra_error_message dbg (ChainTooDeep n) = ''attestation chain is deeper than '' @ show_nat n @ '' stages''"
| "capture_ra_error_message dbg (ReceiptHashMismatch e g) = ''cvm receipt hash mismatch: expected '' @ e @ '', got '' @ g"
| "capture_ra_error_message dbg (ValueXMismatch e g) = ''manifest value_x mismatch: expected '' @ e @ '', got '' @ g"
| "capture_ra_error_message dbg (CaptureMethodNotAdvertised m) = ''manifest does not advertise capture method '' @ m"

subsection \<open>The store and the logs\<close>

datatype store_error = StoreRead str | StoreDecode str

definition load_store :: "('m) es_lib_scheme \<Rightarrow> fs \<Rightarrow> str \<Rightarrow> store_error + event_store" where
  "load_store L w path =
     (if \<not> fs_exists w path then Inr store_default
      else rbind (ok_or (read_to_string w path) (StoreRead path)) (\<lambda>body. ok_or (de_store L body) (StoreDecode path)))"

definition save_store :: "('m) es_lib_scheme \<Rightarrow> str \<Rightarrow> event_store \<Rightarrow> fs \<Rightarrow> es_error + fs" where
  "save_store L path st w =
     rbind (map_err (\<lambda>_. EsStoreDir path) (ensure_parent path w)) (\<lambda>_.
     rbind (ok_or (ser_store L st) EsStoreEncode) (\<lambda>body.
     map_err (\<lambda>_. EsStoreWrite path) (fs_write path body w)))"

definition ascii_alnum :: "char \<Rightarrow> bool" where
  "ascii_alnum c \<longleftrightarrow> CHR ''A'' \<le> c \<and> c \<le> CHR ''Z'' \<or> CHR ''a'' \<le> c \<and> c \<le> CHR ''z'' \<or> CHR ''0'' \<le> c \<and> c \<le> CHR ''9''"

definition log_id_ok :: "str \<Rightarrow> bool" where
  "log_id_ok eid \<longleftrightarrow> list_all (\<lambda>c. ascii_alnum c \<or> c = CHR ''_'' \<or> c = CHR ''-'') eid"

definition log_path :: "str \<Rightarrow> str \<Rightarrow> str" where
  "log_path dir eid = path_join dir (eid @ ''.cborl'')"

definition append_captured_event :: "str \<Rightarrow> str \<Rightarrow> str \<Rightarrow> fs \<Rightarrow> es_error + fs" where
  "append_captured_event dir eid b64 w =
     rbind (ensure (log_id_ok eid) EsBadEventId) (\<lambda>_.
     rbind (ensure (\<not> faulty w dir) (EsLogDir dir)) (\<lambda>_.
     map_err (\<lambda>_. EsLogAppend (log_path dir eid)) (fs_append (log_path dir eid) (b64 @ [CHR 0x0A]) w)))"

definition load_captured_events :: "('m) es_lib_scheme \<Rightarrow> str \<Rightarrow> str \<Rightarrow> fs \<Rightarrow> es_error + contest_event list" where
  "load_captured_events L dir eid w =
     rbind (ensure (log_id_ok eid) EsBadEventId) (\<lambda>_.
     let path = log_path dir eid in
     if \<not> fs_exists w path then Inr []
     else rbind (ok_or (read_to_string w path) (EsLogRead path)) (\<lambda>body.
          rbind (rmap (\<lambda>line. ok_or (b64_decode L (trim line)) EsLogBase64)
                   (filter (\<lambda>line. trim line \<noteq> []) (lines body))) (\<lambda>bs.
          Inr (List.map_filter (\<lambda>b. res_ok (event_from_cbor L b)) bs))))"

subsection \<open>URLs\<close>

definition service_base_url :: "event_record \<Rightarrow> str" where
  "service_base_url e =
     trim_end_matches ''/''
       (case strip_suffix (''/e/'' @ er_event_id e @ ''/join'') (er_join_url e) of
          Some b \<Rightarrow> b | None \<Rightarrow> trim_end_matches ''/join'' (er_join_url e))"

definition event_service_release_base :: "event_record \<Rightarrow> str" where
  "event_service_release_base e =
     (if er_participant_release_base_url e \<noteq> [] then trim_end_matches ''/'' (er_participant_release_base_url e)
      else service_base_url e @ ''/downloads'')"

definition cvm_url :: "event_record \<Rightarrow> str \<Rightarrow> str" where
  "cvm_url e tm = service_base_url e @ ''/e/'' @ er_event_id e @ ''/teams/'' @ tm @ ''/cvm''"

definition individual_signal_base_url :: "event_record \<Rightarrow> str \<Rightarrow> str" where
  "individual_signal_base_url e tm = cvm_url e tm @ ''.signal''"

definition with_optional_agent_query :: "str \<Rightarrow> str option \<Rightarrow> str" where
  "with_optional_agent_query url agent =
     (case agent of None \<Rightarrow> url | Some a \<Rightarrow> url @ ''?agent='' @ url_encode_component a)"

subsection \<open>Documents\<close>

text \<open>A derived \<open>Serialize\<close> inside \<open>json!\<close> becomes an ordered map.\<close>

definition trust_policy_value :: "trust_policy \<Rightarrow> json" where
  "trust_policy_value p = jobj [(''required'', JBool (required p)),
     (''accepted_tee_platforms'', JArr (map JStr (accepted_tee_platforms p))),
     (''cvm_receipt_url'', JStr (cvm_receipt_url p)), (''registry_url'', JStr (registry_url p)),
     (''verifier_profile'', JStr (tp_verifier_profile p))]"

definition visibility_value :: "cvm_visibility \<Rightarrow> json" where
  "visibility_value v = jobj [(''show_capture_labels'', JBool (show_capture_labels v)),
     (''show_token_stats'', JBool (show_token_stats v)), (''show_models'', JBool (show_models v)),
     (''show_providers'', JBool (show_providers v)), (''show_agent_sessions'', JBool (show_agent_sessions v))]"

definition opt_str_value :: "str option \<Rightarrow> json" where
  "opt_str_value v = (case v of None \<Rightarrow> JNull | Some s \<Rightarrow> JStr s)"

definition counts_value :: "(str \<times> u64) list \<Rightarrow> json" where
  "counts_value m = JObj (map (\<lambda>(k, n). (k, JInt (uint n))) m)"

definition event_bootstrap_document :: "event_record \<Rightarrow> json" where
  "event_bootstrap_document e = jobj [(''version'', JInt 1),
     (''profile'', JStr ''https://cvm.dev/llm-self-host-bootstrap/v1''), (''issuer'', JStr (er_issuer e)),
     (''event_id'', JStr (er_event_id e)), (''name'', JStr (er_name e)), (''join_url'', JStr (er_join_url e)),
     (''dashboard_url'', JStr (er_dashboard_url e)), (''gateway_base_url'', JStr (er_gateway_base_url e)),
     (''gateway_manifest_url'', JStr (er_gateway_manifest_url e)), (''event_sink_url'', JStr (er_event_sink_url e)),
     (''participant_release_base_url'', JStr (event_service_release_base e)),
     (''trust_policy'', trust_policy_value (er_trust_policy e)),
     (''capture_methods'', JArr (map JStr (er_capture_methods e)))]"

definition self_host_document :: "es_config \<Rightarrow> json" where
  "self_host_document c = jobj [(''version'', JInt 1),
     (''profile'', JStr ''https://cvm.dev/llm-self-host-instance/v1''), (''issuer'', JStr (ec_issuer c)),
     (''public_base_url'', JStr (ec_public_base_url c)), (''gateway_base_url'', JStr (ec_gateway_base_url c)),
     (''gateway_manifest_url'', JStr (ec_gateway_manifest_url c)),
     (''participant_release_base_url'', JStr (ec_participant_release_base_url c)),
     (''runtime'', jobj [(''mode'', JStr (ec_runtime_mode c)), (''tee_attested'', JBool (ec_runtime_mode c = ''tee'')),
        (''value_x'', opt_str_value (ec_runtime_value_x c)), (''domain'', opt_str_value (ec_runtime_domain c))]),
     (''trust_policy'', trust_policy_value (self_hosted (ec_accepted_tee_platforms c) (ec_cvm_receipt_url c) (ec_registry_url c)))]"

definition registry_document :: "es_config \<Rightarrow> json" where
  "registry_document c = jobj [(''version'', JInt 1),
     (''profile'', JStr ''https://cvm.dev/cvm-trust-registry/v1''), (''issuer'', JStr (ec_issuer c)),
     (''verifier_profile'', JStr ''cvm-eat-v2''),
     (''accepted_tee_platforms'', JArr (map JStr (ec_accepted_tee_platforms c))),
     (''cvm_receipt_url'', JStr (ec_cvm_receipt_url c)), (''gateway_manifest_url'', JStr (ec_gateway_manifest_url c))]"

subsection \<open>Team events and their root\<close>

definition team_events_cmp :: "contest_event \<Rightarrow> contest_event \<Rightarrow> ordering" where
  "team_events_cmp a b =
     then_with (then_with (cmp_of (event_index a) (event_index b)) (cmp_of (started_at_ms a) (started_at_ms b)))
       (cmp_of (event_id a) (event_id b))"

definition es_team_events :: "team_record \<Rightarrow> contest_event list \<Rightarrow> contest_event list" where
  "es_team_events t evs = sort_by team_events_cmp (filter (\<lambda>e. team_id e = tr_team_id t) evs)"

definition event_hash_or_id :: "('m) es_lib_scheme \<Rightarrow> contest_event \<Rightarrow> str" where
  "event_hash_or_id L e = (case event_hash L e of Inr h \<Rightarrow> h | Inl _ \<Rightarrow> sha256_prefixed L (event_id e))"

definition event_hashes_for_team :: "('m) es_lib_scheme \<Rightarrow> contest_event list \<Rightarrow> str list" where
  "event_hashes_for_team L evs = map (event_hash_or_id L) evs"

definition event_log_root :: "('m) lib_scheme \<Rightarrow> str list \<Rightarrow> str" where
  "event_log_root L hs = (if hs = [] then ''sha256:empty'' else sha256_prefixed L (join [CHR 0x0A] hs))"

definition last_or_empty :: "str list \<Rightarrow> str" where
  "last_or_empty hs = (if hs = [] then ''sha256:empty'' else last hs)"

definition captured_llm_calls :: "contest_event \<Rightarrow> int" where
  "captured_llm_calls e =
     (if kind e = ''llm.call'' then 1 else max (opt_or (bt_get (metrics e) ''llm_calls'') 0) 0)"

subsection \<open>The team card\<close>

record card_acc =
  ca_capture_methods :: "(str \<times> u64) list"
  ca_assurance :: "(str \<times> u64) list"
  ca_enforcement :: "(str \<times> u64) list"
  ca_remote_attestation :: "(str \<times> u64) list"
  ca_ra_platforms :: "(str \<times> u64) list"
  ca_models :: "(str \<times> u64) list"
  ca_providers :: "(str \<times> u64) list"
  ca_agent_sessions :: "(str \<times> u64) list"
  ca_total_tokens :: int
  ca_llm_calls :: int
  ca_min_tokens :: "int option"
  ca_max_tokens :: "int option"

definition card_start :: card_acc where
  "card_start = \<lparr>ca_capture_methods = [], ca_assurance = [], ca_enforcement = [], ca_remote_attestation = [],
     ca_ra_platforms = [], ca_models = [], ca_providers = [], ca_agent_sessions = [], ca_total_tokens = 0,
     ca_llm_calls = 0, ca_min_tokens = None, ca_max_tokens = None\<rparr>"

text \<open>\<open>*m.entry(k).or_default() += 1\<close>, and the same where the key may be absent from the event.\<close>

definition count_key :: "str \<Rightarrow> (str \<times> u64) list \<Rightarrow> (str \<times> u64) list" where
  "count_key k m = bt_add (+) 1 k m"

definition count_opt :: "str option \<Rightarrow> (str \<times> u64) list \<Rightarrow> (str \<times> u64) list" where
  "count_opt k m = (case k of None \<Rightarrow> m | Some x \<Rightarrow> count_key x m)"

definition card_step :: "contest_event \<Rightarrow> card_acc \<Rightarrow> card_acc" where
  "card_step e a =
     (let tokens = total_tokens e in
      \<lparr>ca_capture_methods = count_key (capture_method e) (ca_capture_methods a),
       ca_assurance = count_key (assurance e) (ca_assurance a),
       ca_enforcement = count_opt (bt_get (evidence e) ''enforcement_mode'') (ca_enforcement a),
       ca_remote_attestation = count_opt (bt_get (evidence e) ''ra_profile'') (ca_remote_attestation a),
       ca_ra_platforms = count_opt (bt_get (evidence e) ''ra_platform'') (ca_ra_platforms a),
       ca_models = count_opt (bt_get (subject e) ''model'') (ca_models a),
       ca_providers = count_opt (bt_get (subject e) ''provider'') (ca_providers a),
       ca_agent_sessions = count_key (agent_session_id (actor e)) (ca_agent_sessions a),
       ca_total_tokens = i64_add (ca_total_tokens a) tokens,
       ca_llm_calls =
         (if kind e = ''llm.call'' then i64_add (ca_llm_calls a) 1
          else case bt_get (metrics e) ''llm_calls'' of
            Some calls \<Rightarrow> i64_add (ca_llm_calls a) (max calls 0)
          | None \<Rightarrow> ca_llm_calls a),
       ca_min_tokens = Some (case ca_min_tokens a of None \<Rightarrow> tokens | Some c \<Rightarrow> min c tokens),
       ca_max_tokens = Some (case ca_max_tokens a of None \<Rightarrow> tokens | Some c \<Rightarrow> max c tokens)\<rparr>)"

definition card_stats :: "cvm_visibility \<Rightarrow> nat \<Rightarrow> card_acc \<Rightarrow> json" where
  "card_stats v n a = JObj (bt_of_list (
     [(''captured_events'', JInt (int n)), (''llm_calls'', JInt (ca_llm_calls a))]
     @ (if show_token_stats v then
          [(''total_tokens'', JInt (ca_total_tokens a)), (''min_call_tokens'', JInt (opt_or (ca_min_tokens a) 0)),
           (''max_call_tokens'', JInt (opt_or (ca_max_tokens a) 0))] else [])
     @ (if show_models v then [(''models'', counts_value (ca_models a))] else [])
     @ (if show_providers v then [(''providers'', counts_value (ca_providers a))] else [])
     @ (if show_agent_sessions v then
          [(''agent_sessions'', JInt (int (length (ca_agent_sessions a)))),
           (''agent_session_counts'', counts_value (ca_agent_sessions a))] else [])))"

definition card_labels :: "cvm_visibility \<Rightarrow> card_acc \<Rightarrow> json" where
  "card_labels v a =
     (if show_capture_labels v then
        jobj [(''capture_methods'', counts_value (ca_capture_methods a)), (''assurance'', counts_value (ca_assurance a)),
          (''enforcement'', counts_value (ca_enforcement a)), (''remote_attestation'', counts_value (ca_remote_attestation a)),
          (''ra_platforms'', counts_value (ca_ra_platforms a))]
      else jobj [])"

definition oembed_link :: "event_record \<Rightarrow> str \<Rightarrow> str" where
  "oembed_link e card_url = service_base_url e @ ''/oembed?url='' @ url_encode_component card_url"

definition team_cvm_document :: "('m) es_lib_scheme \<Rightarrow> event_record \<Rightarrow> team_record \<Rightarrow> contest_event list \<Rightarrow> json" where
  "team_cvm_document L e t evs =
     (let tevs = es_team_events t evs;
          a = fold card_step tevs card_start;
          hs = event_hashes_for_team L tevs;
          card_url = cvm_url e (tr_team_id t)
      in jobj [(''version'', JInt 1), (''profile'', JStr ''https://cvm.dev/llm-participant-cvm/v1''),
        (''event_id'', JStr (er_event_id e)), (''event_type'', JStr (er_event_type e)), (''event_name'', JStr (er_name e)),
        (''team_id'', JStr (tr_team_id t)), (''team_name'', JStr (tr_team_name t)),
        (''visibility'', visibility_value (er_cvm_visibility e)),
        (''labels'', card_labels (er_cvm_visibility e) a),
        (''stats'', card_stats (er_cvm_visibility e) (length tevs) a),
        (''integrity'', jobj [(''event_log_root'', JStr (event_log_root L hs)), (''event_count'', JInt (int (length hs))),
           (''latest_event_hash'', JStr (last_or_empty hs)), (''proof_url'', JStr (card_url @ ''.proof.json'')),
           (''receipts_url'', JStr (card_url @ ''.receipts.json'')),
           (''trust_registry_url'', JStr (registry_url (er_trust_policy e))),
           (''cvm_receipt_url'', JStr (cvm_receipt_url (er_trust_policy e))),
           (''gateway_manifest_url'', JStr (er_gateway_manifest_url e))]),
        (''share'', jobj [
           (''headline'', JStr (tr_team_name t @ '' used '' @ show_int (ca_total_tokens a) @ '' captured tokens across ''
              @ show_int (ca_llm_calls a) @ '' LLM events'')),
           (''url'', JStr card_url), (''json_url'', JStr (card_url @ ''.json'')), (''embed_url'', JStr (card_url @ ''.embed'')),
           (''image_url'', JStr (card_url @ ''.svg'')),
           (''individual_signal_json_url'', JStr (card_url @ ''.signal.json'')),
           (''individual_signal_image_url'', JStr (card_url @ ''.signal.svg'')),
           (''qr_svg_url'', JStr (card_url @ ''.qr.svg'')), (''proof_url'', JStr (card_url @ ''.proof.json'')),
           (''receipts_url'', JStr (card_url @ ''.receipts.json'')),
           (''credential_url'', JStr (card_url @ ''.credential.json'')),
           (''oembed_url'', JStr (oembed_link e card_url)),
           (''dashboard_url'', JStr (er_dashboard_url e))])])"

subsection \<open>Proof, receipts and credential\<close>

definition cvm_proof_document ::
    "('m) es_lib_scheme \<Rightarrow> event_record \<Rightarrow> team_record \<Rightarrow> contest_event list \<Rightarrow> json \<Rightarrow> json" where
  "cvm_proof_document L e t evs doc =
     (let hs = event_hashes_for_team L (es_team_events t evs);
          url = cvm_url e (tr_team_id t); p = er_trust_policy e
      in jobj [(''version'', JInt 1), (''profile'', JStr ''https://cvm.dev/llm-cvm-proof/v1''),
        (''event_id'', JStr (er_event_id e)), (''event_type'', JStr (er_event_type e)), (''team_id'', JStr (tr_team_id t)),
        (''cvm_url'', JStr url), (''cvm_json_hash'', JStr (sha256_prefixed L (json_compact L doc))),
        (''event_log_root'', JStr (event_log_root L hs)), (''event_hashes'', JArr (map JStr hs)),
        (''receipts_url'', JStr (url @ ''.receipts.json'')), (''credential_url'', JStr (url @ ''.credential.json'')),
        (''trust'', jobj [(''issuer'', JStr (er_issuer e)), (''registry_url'', JStr (registry_url p)),
           (''gateway_manifest_url'', JStr (er_gateway_manifest_url e)), (''cvm_receipt_url'', JStr (cvm_receipt_url p)),
           (''verifier_profile'', JStr (tp_verifier_profile p)),
           (''accepted_tee_platforms'', JArr (map JStr (accepted_tee_platforms p)))]),
        (''verification'', jobj [(''mode'', JStr ''recompute-card-from-signed-events''),
           (''note'', JStr (''Fetch receipts_url, verify each ContestEvent signature against the gateway manifest, ''
              @ ''recompute stats, then compare cvm_json_hash and event_log_root.''))])])"

definition receipt_value :: "('m) es_lib_scheme \<Rightarrow> contest_event \<Rightarrow> json" where
  "receipt_value L e =
     jobj [(''event_id'', JStr (event_id e)), (''kind'', JStr (kind e)), (''event_hash'', JStr (event_hash_or_id L e)),
       (''receipt_cbor_b64'', JStr (b64_encode L (case event_to_cbor L e of Inr b \<Rightarrow> b | Inl _ \<Rightarrow> [])))]"

definition cvm_receipts_document ::
    "('m) es_lib_scheme \<Rightarrow> event_record \<Rightarrow> team_record \<Rightarrow> contest_event list \<Rightarrow> json" where
  "cvm_receipts_document L e t evs =
     (let receipts = map (receipt_value L) (es_team_events t evs);
          hs = List.map_filter (\<lambda>r. as_str (jidx r ''event_hash'')) receipts
      in jobj [(''version'', JInt 1), (''profile'', JStr ''https://cvm.dev/llm-cvm-receipts/v1''),
        (''event_id'', JStr (er_event_id e)), (''team_id'', JStr (tr_team_id t)),
        (''event_log_root'', JStr (event_log_root L hs)), (''receipts'', JArr receipts)])"

definition cvm_credential_document ::
    "('m) es_lib_scheme \<Rightarrow> u64 \<Rightarrow> event_record \<Rightarrow> team_record \<Rightarrow> contest_event list \<Rightarrow> json \<Rightarrow> json" where
  "cvm_credential_document L now e t evs doc =
     (let root = event_log_root L (event_hashes_for_team L (es_team_events t evs));
          url = cvm_url e (tr_team_id t)
      in jobj [
        (''@context'', JArr [JStr ''https://www.w3.org/ns/credentials/v2'',
           JStr ''https://purl.imsglobal.org/spec/ob/v3p0/context-3.0.3.json'']),
        (''id'', JStr (url @ ''.credential.json'')),
        (''type'', JArr [JStr ''VerifiableCredential'', JStr ''OpenBadgeCredential'', JStr ''CvmCredential'']),
        (''name'', JStr (tr_team_name t @ '' LLM Attested Cvm'')), (''description'', jidx (jidx doc ''share'') ''headline''),
        (''issuer'', jobj [(''id'', JStr (er_issuer e)), (''name'', JStr ''Cvm LLM Attested'')]),
        (''validFrom'', JInt (uint now)),
        (''credentialSubject'', jobj [(''id'', JStr url), (''name'', JStr (tr_team_name t)),
           (''event'', jobj [(''id'', JStr (er_event_id e)), (''name'', JStr (er_name e)), (''type'', JStr (er_event_type e))]),
           (''achievement'', jobj [(''id'', JStr (service_base_url e @ ''/achievement/llm-attested-capture'')),
              (''type'', JArr [JStr ''Achievement'']), (''name'', JStr ''LLM Attested Capture''),
              (''description'', JStr ''Captured LLM and agent activity represented by signed cvm receipts.'')]),
           (''result'', jidx doc ''stats''),
           (''evidence'', JArr [jobj [(''id'', JStr (url @ ''.proof.json'')), (''type'', JArr [JStr ''Evidence'']),
              (''name'', JStr ''Cvm proof bundle''), (''eventLogRoot'', JStr root)]])]),
        (''proof'', jobj [(''type'', JStr ''CvmEventReceiptProof2026''), (''proofPurpose'', JStr ''assertionMethod''),
           (''verificationMethod'', JStr (er_gateway_manifest_url e)), (''proofValue'', JStr root),
           (''receiptService'', JStr (url @ ''.receipts.json''))])])"

subsection \<open>The individual signal\<close>

definition latest_signal_event_label :: "contest_event \<Rightarrow> str" where
  "latest_signal_event_label e =
     kind e @ '' via '' @ opt_or (bt_get (subject e) ''provider'') ''unknown'' @ '' '' @ opt_or (bt_get (subject e) ''model'') ''unknown''"

definition format_age :: "u64 \<Rightarrow> u64 \<Rightarrow> str" where
  "format_age now completed =
     (let secs = sat_sub now completed div 1000 in
      if secs < 60 then show_u64 secs @ ''s ago''
      else if secs < 3600 then show_u64 (secs div 60) @ ''m ago''
      else if secs < 86400 then show_u64 (secs div 3600) @ ''h ago''
      else show_u64 (secs div 86400) @ ''d ago'')"

definition token_source_label :: "contest_event \<Rightarrow> str" where
  "token_source_label e =
     (case bt_get (evidence e) ''token_source'' of
        Some s \<Rightarrow> s
      | None \<Rightarrow>
         (case bt_get (evidence e) ''gateway_usage'' of
            Some s \<Rightarrow> s
          | None \<Rightarrow> if bt_get (metrics e) ''total_tokens'' \<noteq> None then ''captured usage'' else ''usage missing''))"

definition signal_failure_label :: "contest_event option \<Rightarrow> str" where
  "signal_failure_label latest =
     (case latest of
        None \<Rightarrow> ''waiting for first capture''
      | Some e \<Rightarrow>
         if kind e = ''llm.call'' \<and> bt_get (metrics e) ''total_tokens'' = None then ''token usage missing''
         else if kind e = ''llm.call'' \<and> total_tokens e = 0 then ''zero-token LLM call''
         else ''0 actionable failures'')"

record signal_acc =
  sa_total_tokens :: int
  sa_llm_calls :: int
  sa_today_tokens :: int
  sa_today_llm_calls :: int
  sa_capture_methods :: "(str \<times> u64) list"
  sa_assurance :: "(str \<times> u64) list"
  sa_enforcement :: "(str \<times> u64) list"

definition signal_start :: signal_acc where
  "signal_start = \<lparr>sa_total_tokens = 0, sa_llm_calls = 0, sa_today_tokens = 0, sa_today_llm_calls = 0,
     sa_capture_methods = [], sa_assurance = [], sa_enforcement = []\<rparr>"

definition signal_step :: "u64 \<Rightarrow> contest_event \<Rightarrow> signal_acc \<Rightarrow> signal_acc" where
  "signal_step day_start e a =
     (let calls = captured_llm_calls e; tokens = total_tokens e; today = day_start \<le> completed_at_ms e in
      \<lparr>sa_total_tokens = i64_add (sa_total_tokens a) tokens,
       sa_llm_calls = i64_add (sa_llm_calls a) calls,
       sa_today_tokens = (if today then i64_add (sa_today_tokens a) tokens else sa_today_tokens a),
       sa_today_llm_calls = (if today then i64_add (sa_today_llm_calls a) calls else sa_today_llm_calls a),
       sa_capture_methods = count_key (capture_method e) (sa_capture_methods a),
       sa_assurance = count_key (assurance e) (sa_assurance a),
       sa_enforcement = count_opt (bt_get (evidence e) ''enforcement_mode'') (sa_enforcement a)\<rparr>)"

definition last_opt :: "'a list \<Rightarrow> 'a option" where
  "last_opt xs = (if xs = [] then None else Some (last xs))"

text \<open>The agent a signal is about: the requested one, else the session of the team's latest event.\<close>

definition requested_agent_of :: "str option \<Rightarrow> str option" where
  "requested_agent_of req = (case req of None \<Rightarrow> None | Some a \<Rightarrow> if trim a = [] then None else Some (trim a))"

definition signal_agent :: "str option \<Rightarrow> contest_event list \<Rightarrow> str option" where
  "signal_agent requested tevs =
     (case requested of Some a \<Rightarrow> Some a
      | None \<Rightarrow> map_option (\<lambda>e. agent_session_id (actor e)) (last_opt tevs))"

definition signal_events :: "str option \<Rightarrow> contest_event list \<Rightarrow> contest_event list" where
  "signal_events agent tevs =
     (case agent of None \<Rightarrow> [] | Some a \<Rightarrow> filter (\<lambda>e. agent_session_id (actor e) = a) tevs)"

definition individual_signal_document ::
    "('m) es_lib_scheme \<Rightarrow> u64 \<Rightarrow> event_record \<Rightarrow> team_record \<Rightarrow> contest_event list \<Rightarrow> str option \<Rightarrow> json" where
  "individual_signal_document L now e t evs req =
     (let requested = requested_agent_of req;
          tevs = es_team_events t evs;
          agent = signal_agent requested tevs;
          sel = signal_events agent tevs;
          latest = last_opt sel;
          day_start = now div 86400000 * 86400000;
          a = fold (signal_step day_start) sel signal_start;
          base = individual_signal_base_url e (tr_team_id t);
          image_url = with_optional_agent_query (base @ ''.svg'') requested;
          json_url = with_optional_agent_query (base @ ''.json'') requested;
          hs = event_hashes_for_team L sel;
          display_name = opt_or agent (tr_team_name t)
      in jobj [(''version'', JInt 1), (''profile'', JStr ''https://cvm.dev/llm-individual-signal/v1''),
        (''event_id'', JStr (er_event_id e)), (''event_type'', JStr (er_event_type e)), (''event_name'', JStr (er_name e)),
        (''team_id'', JStr (tr_team_id t)), (''team_name'', JStr (tr_team_name t)),
        (''participant'', jobj [(''display_name'', JStr display_name), (''agent_session_id'', opt_str_value agent)]),
        (''stats'', jobj [(''captured_events'', JInt (int (length sel))), (''llm_calls'', JInt (sa_llm_calls a)),
           (''total_tokens'', JInt (sa_total_tokens a)), (''today_llm_calls'', JInt (sa_today_llm_calls a)),
           (''today_total_tokens'', JInt (sa_today_tokens a))]),
        (''labels'', jobj [(''capture_methods'', counts_value (sa_capture_methods a)),
           (''assurance'', counts_value (sa_assurance a)), (''enforcement'', counts_value (sa_enforcement a)),
           (''active_path'', JStr (case latest of None \<Rightarrow> ''not connected'' | Some x \<Rightarrow> capture_method x)),
           (''latest_event'', JStr (case latest of None \<Rightarrow> ''none yet'' | Some x \<Rightarrow> latest_signal_event_label x)),
           (''latest_age'', JStr (case latest of None \<Rightarrow> ''none yet'' | Some x \<Rightarrow> format_age now (completed_at_ms x))),
           (''latest_assurance'', JStr (case latest of None \<Rightarrow> ''pending'' | Some x \<Rightarrow> assurance x)),
           (''latest_enforcement'', JStr (opt_or (Option.bind latest (\<lambda>x. bt_get (evidence x) ''enforcement_mode'')) ''unrouted'')),
           (''token_source'', JStr (case latest of None \<Rightarrow> ''no usage receipts yet'' | Some x \<Rightarrow> token_source_label x)),
           (''actionable_failure'', JStr (signal_failure_label latest))]),
        (''integrity'', jobj [(''event_log_root'', JStr (event_log_root L hs)), (''event_count'', JInt (int (length hs))),
           (''latest_event_hash'', JStr (last_or_empty hs)), (''team_cvm_url'', JStr (cvm_url e (tr_team_id t))),
           (''trust_registry_url'', JStr (registry_url (er_trust_policy e))),
           (''cvm_receipt_url'', JStr (cvm_receipt_url (er_trust_policy e))),
           (''gateway_manifest_url'', JStr (er_gateway_manifest_url e))]),
        (''share'', jobj [
           (''headline'', JStr (display_name @ '' has '' @ show_int (sa_llm_calls a) @ '' captured calls and ''
              @ show_int (sa_total_tokens a) @ '' tokens'')),
           (''url'', JStr json_url), (''json_url'', JStr json_url), (''image_url'', JStr image_url),
           (''team_cvm_url'', JStr (cvm_url e (tr_team_id t)))])])"

subsection \<open>Joining an event\<close>

definition curl_test :: "str \<Rightarrow> str \<Rightarrow> str" where
  \<open>curl_test base key = ''curl -sS '' @ base @ ''/v1/chat/completions -H '' @ [CHR 0x27] @ ''authorization: Bearer '' @ key @ [CHR 0x27]
     @ '' -H '' @ [CHR 0x27] @ ''content-type: application/json'' @ [CHR 0x27] @ '' --data '' @ [CHR 0x27]
     @ ''{"model":"any-compatible-model","messages":[{"role":"user","content":"hello"}]}'' @ [CHR 0x27]\<close>

definition team_start_payload :: "event_record \<Rightarrow> team_record \<Rightarrow> json" where
  "team_start_payload e t =
     (let base = trim_end_matches ''/'' (er_gateway_base_url e);
          card_url = cvm_url e (tr_team_id t);
          release = event_service_release_base e
      in jobj [(''event_id'', JStr (er_event_id e)), (''issuer'', JStr (er_issuer e)), (''team_id'', JStr (tr_team_id t)),
        (''team_name'', JStr (tr_team_name t)), (''team_api_key'', JStr (tr_api_key t)), (''cvm_url'', JStr card_url),
        (''cvm_json_url'', JStr (card_url @ ''.json'')), (''cvm_embed_url'', JStr (card_url @ ''.embed'')),
        (''cvm_image_url'', JStr (card_url @ ''.svg'')), (''cvm_proof_url'', JStr (card_url @ ''.proof.json'')),
        (''individual_signal_image_url'', JStr (card_url @ ''.signal.svg'')),
        (''individual_signal_json_url'', JStr (card_url @ ''.signal.json'')),
        (''gateway_base_url'', JStr (er_gateway_base_url e)), (''event_sink_url'', JStr (er_event_sink_url e)),
        (''bootstrap_url'', JStr (er_bootstrap_url e)), (''gateway_manifest_url'', JStr (er_gateway_manifest_url e)),
        (''trust_policy'', trust_policy_value (er_trust_policy e)),
        (''openai_compatible'', jobj [(''OPENAI_BASE_URL'', JStr (base @ ''/v1'')), (''OPENAI_API_KEY'', JStr (tr_api_key t)),
           (''LLM_ATTESTED_AGENT'', JStr ''your-agent-or-ide-name'')]),
        (''llmattest'', jobj [(''start'', JStr ''llmattest start --team-payload team.json -- your-agent-command''),
           (''init'', JStr ''llmattest init --team-payload team.json''), (''status'', JStr ''llmattest status''),
           (''status_watch'', JStr ''llmattest status --watch''), (''smoke'', JStr ''llmattest smoke''),
           (''run'', JStr ''llmattest run -- your-agent-command'')]),
        (''install'', jobj [(''mac_linux'', JStr (''curl -fsSL '' @ trim_end_matches ''/'' release @ ''/install.sh | sh'')),
           (''windows_powershell'', JStr (''irm '' @ trim_end_matches ''/'' release @ ''/install.ps1 | iex'')),
           (''release_base_url'', JStr release)]),
        (''participant_next_step'', JStr (''Save this response as team.json, then run: llmattest start ''
           @ ''--team-payload team.json -- your-agent-command'')),
        (''curl_test'', JStr (curl_test base (tr_api_key t))),
        (''capture_methods'', JArr (map JStr (er_capture_methods e))),
        (''note'', JStr (''Use any LLM or agent that can route through one of the capture methods. ''
           @ ''Assurance is shown separately from score.''))])"

definition new_event_record ::
    "('m) lib_scheme \<Rightarrow> es_config \<Rightarrow> es_in \<Rightarrow> create_event_request \<Rightarrow> event_record" where
  "new_event_record L c inp b =
     (let eid = random_id L (ei_random inp) ''hk'';
          tok = random_id L (ei_random2 inp) ''org'';
          etype = opt_or (ce_event_type b) ''hackathon'';
          overridden = ce_gateway_base_url b \<noteq> None;
          gw = trim_end_matches ''/'' (opt_or (ce_gateway_base_url b) (ec_gateway_base_url c));
          man_url = opt_or (ce_gateway_manifest_url b)
             (if overridden then gw @ ''/.well-known/llm-attested/manifest.cbor'' else ec_gateway_manifest_url c);
          receipt_url = opt_or (ce_cvm_receipt_url b)
             (if overridden then gw @ ''/.well-known/cvm/receipt'' else ec_cvm_receipt_url c);
          base = ec_public_base_url c @ ''/e/'' @ eid
      in \<lparr>er_event_id = eid, er_event_type = etype,
          er_name = opt_or (ce_name b) ((if etype = ''universal'' then ''Universal Cvm '' else ''LLM Attested '') @ eid),
          er_organizer_token = tok, er_created_at_ms = ei_now inp, er_gateway_base_url = gw,
          er_join_url = base @ ''/join'', er_dashboard_url = base @ ''/dashboard'',
          er_organizer_url = base @ ''/dashboard?organizer_token='' @ tok, er_issuer = ec_issuer c,
          er_event_sink_url = base @ ''/events'', er_bootstrap_url = base @ ''/bootstrap.json'',
          er_gateway_manifest_url = man_url,
          er_participant_release_base_url = ec_participant_release_base_url c,
          er_trust_policy = self_hosted (ec_accepted_tee_platforms c) receipt_url (ec_registry_url c),
          er_default_scoring_rule_hash = sha256_prefixed L (opt_or (ce_scoring b) ''min-total-tokens''),
          er_capture_methods = [''gateway_proxy'', ''local_proxy'', ''browser_extension'', ''hosted_workbench'', ''provider_tls_notary''],
          er_cvm_visibility = opt_or (ce_cvm_visibility b) cvm_visibility_default\<rparr>)"

definition add_event :: "event_record \<Rightarrow> event_store \<Rightarrow> event_store" where
  "add_event e st = (let eid = er_event_id e in
     st\<lparr>st_events := bt_insert eid e (st_events st), st_teams := bt_or_insert eid [] (st_teams st),
        st_captured_events := bt_or_insert eid [] (st_captured_events st),
        st_captured_event_counts := bt_or_insert eid 0 (st_captured_event_counts st)\<rparr>)"

definition event_created_value :: "es_config \<Rightarrow> event_record \<Rightarrow> json" where
  "event_created_value c e = jobj [(''event_id'', JStr (er_event_id e)), (''event_type'', JStr (er_event_type e)),
     (''name'', JStr (er_name e)), (''join_url'', JStr (er_join_url e)), (''dashboard_url'', JStr (er_dashboard_url e)),
     (''organizer_url'', JStr (er_organizer_url e)), (''issuer'', JStr (er_issuer e)),
     (''event_sink_url'', JStr (er_event_sink_url e)), (''bootstrap_url'', JStr (er_bootstrap_url e)),
     (''gateway_base_url'', JStr (er_gateway_base_url e)), (''gateway_manifest_url'', JStr (er_gateway_manifest_url e)),
     (''participant_release_base_url'', JStr (ec_participant_release_base_url c)),
     (''trust_policy'', trust_policy_value (er_trust_policy e)),
     (''capture_methods'', JArr (map JStr (er_capture_methods e))),
     (''cvm_visibility'', visibility_value (er_cvm_visibility e)),
     (''organizer_next_step'', JStr ''Share join_url in your hackathon chat, website, or email.'')]"

text \<open>
  A mutation updates the store in memory and then saves it; a failed save fails the request and
  keeps the update, as the source does.
\<close>

definition commit_store ::
    "('m) es_lib_scheme \<Rightarrow> (es_error handler_error + http_response) \<Rightarrow> 'g app_state
       \<Rightarrow> (es_error handler_error + http_response) \<times> 'g app_state" where
  "commit_store L answer s =
     (case save_store L (ec_store_path (es_cfg s)) (es_store s) (disk s) of
        Inl e \<Rightarrow> (Inl (Failed e), s)
      | Inr w \<Rightarrow> (answer, s\<lparr>disk := w\<rparr>))"

definition create_event ::
    "('m) es_lib_scheme \<Rightarrow> es_in \<Rightarrow> http_request \<Rightarrow> 'g app_state \<Rightarrow> (es_error handler_error + http_response) \<times> 'g app_state" where
  "create_event L inp req s =
     (case (if req_body req = [] then Some \<lparr>ce_name = None, ce_event_type = None, ce_gateway_base_url = None,
              ce_gateway_manifest_url = None, ce_cvm_receipt_url = None, ce_scoring = None, ce_cvm_visibility = None\<rparr>
            else de_create_event L (req_body req)) of
        None \<Rightarrow> (Inl (Failed EsDecodeEvent), s)
      | Some b \<Rightarrow>
         let e = new_event_record L (es_cfg s) inp b
         in commit_store L (write_json L 201 (event_created_value (es_cfg s) e))
              (s\<lparr>es_store := add_event e (es_store s)\<rparr>))"

definition add_team :: "str \<Rightarrow> team_record \<Rightarrow> event_store \<Rightarrow> event_store" where
  "add_team eid t st = st\<lparr>st_teams := bt_insert eid (opt_or (bt_get (st_teams st) eid) [] @ [t]) (st_teams st)\<rparr>"

definition not_found_json :: "('m) lib_scheme \<Rightarrow> str \<Rightarrow> es_error handler_error + http_response" where
  "not_found_json L what = write_json L 404 (jobj [(''error'', JStr what)])"

definition new_team_record :: "('m) lib_scheme \<Rightarrow> es_in \<Rightarrow> str \<Rightarrow> create_team_request \<Rightarrow> team_record" where
  "new_team_record L inp eid b =
     \<lparr>tr_event_id = eid, tr_team_id = random_id L (ei_random inp) ''team'',
      tr_team_name = opt_or (ct_team_name b) ''Unnamed team'', tr_api_key = random_id L (ei_random2 inp) ''llma'',
      tr_created_at_ms = ei_now inp\<rparr>"

definition create_team ::
    "('m) es_lib_scheme \<Rightarrow> es_in \<Rightarrow> str \<Rightarrow> http_request \<Rightarrow> 'g app_state \<Rightarrow> (es_error handler_error + http_response) \<times> 'g app_state" where
  "create_team L inp eid req s =
     (case (if req_body req = [] then Some \<lparr>ct_team_name = None\<rparr> else de_create_team L (req_body req)) of
        None \<Rightarrow> (Inl (Failed EsDecodeTeam), s)
      | Some b \<Rightarrow>
         (case bt_get (st_events (es_store s)) eid of
            None \<Rightarrow> (not_found_json L ''event not found'', s)
          | Some e \<Rightarrow>
             let t = new_team_record L inp eid b
             in commit_store L (write_json L 201 (team_start_payload e t))
                  (s\<lparr>es_store := add_team eid t (es_store s)\<rparr>)))"

subsection \<open>Capturing events\<close>

datatype validate_error =
    NoEnforcement | ManifestFetch http_fetch str | ManifestDecode llm_error | ManifestHashing llm_error
  | ManifestDiffers str str | BadSigningKey llm_error | BadSignature llm_error | ReceiptFetch http_fetch str
  | BadClaim capture_ra_error | ClaimDiffers

fun fetch_error_message :: "str \<Rightarrow> http_fetch \<Rightarrow> str \<Rightarrow> str" where
  "fetch_error_message what SendFailed url = ''fetch '' @ what @ '' '' @ url"
| "fetch_error_message what StatusFailed url = what @ '' returned error '' @ url"
| "fetch_error_message what ReadFailed url = ''read '' @ what"
| "fetch_error_message what (Fetched _) url = []"

fun validate_error_message :: "('m) es_lib_scheme \<Rightarrow> validate_error \<Rightarrow> str" where
  "validate_error_message L NoEnforcement = ''missing enforcement_mode evidence''"
| "validate_error_message L (ManifestFetch f url) = fetch_error_message ''gateway manifest'' f url"
| "validate_error_message L (ManifestDecode e) = ''decode gateway manifest: '' @ llm_error_message e"
| "validate_error_message L (ManifestHashing e) = ''hash gateway manifest: '' @ llm_error_message e"
| "validate_error_message L (ManifestDiffers got want) =
     ''event manifest hash '' @ got @ '' does not match gateway manifest '' @ want"
| "validate_error_message L (BadSigningKey e) = ''decode event signing key: '' @ llm_error_message e"
| "validate_error_message L (BadSignature e) = ''event signature is not from the attested gateway key: '' @ llm_error_message e"
| "validate_error_message L (ReceiptFetch f url) = fetch_error_message ''cvm receipt'' f url"
| "validate_error_message L (BadClaim e) = ''verify capture RA claim: '' @ capture_ra_error_message (debug_strings L) e"
| "validate_error_message L ClaimDiffers = ''event RA evidence does not match verified gateway receipt''"

definition fetched :: "(http_fetch \<Rightarrow> 'e) \<Rightarrow> http_fetch \<Rightarrow> 'e + bytes" where
  "fetched err f = (case f of Fetched b \<Rightarrow> Inr b | _ \<Rightarrow> Inl (err f))"

definition validate_attested_capture_event ::
    "('m) es_lib_scheme \<Rightarrow> (str \<Rightarrow> http_fetch) \<Rightarrow> event_record \<Rightarrow> contest_event \<Rightarrow> validate_error + unit" where
  "validate_attested_capture_event L http e c =
     (if assurance c \<noteq> ''attested'' then Inr ()
      else
        rbind (ok_or (bt_get (evidence c) ''enforcement_mode'') NoEnforcement) (\<lambda>enforcement.
        rbind (fetched (\<lambda>f. ManifestFetch f (er_gateway_manifest_url e)) (http (er_gateway_manifest_url e))) (\<lambda>manifest_bytes.
        rbind (map_err ManifestDecode (manifest_from_cbor L manifest_bytes)) (\<lambda>man.
        rbind (map_err ManifestHashing (manifest_hash_of L man)) (\<lambda>mh.
        rbind (ensure (manifest_hash c = mh) (ManifestDiffers (manifest_hash c) mh)) (\<lambda>_.
        rbind (map_err BadSigningKey (event_verifying_key L man)) (\<lambda>key.
        rbind (map_err BadSignature (event_verify L key c)) (\<lambda>_.
        rbind (let url = cvm_receipt_url (man_trust_policy man) in fetched (\<lambda>f. ReceiptFetch f url) (http url)) (\<lambda>receipt.
        rbind (map_err BadClaim (build_capture_ra_claim L man mh receipt (capture_method c) (assurance c) enforcement)) (\<lambda>claim.
        ensure (event_matches_capture_ra_claim c claim) ClaimDiffers))))))))))"

text \<open>Before the second lock: the decoded event, or the answer that refuses the request.\<close>

definition ingest_admit ::
    "('m) es_lib_scheme \<Rightarrow> es_in \<Rightarrow> str \<Rightarrow> http_request \<Rightarrow> event_store
       \<Rightarrow> (es_error handler_error + http_response) + contest_event" where
  "ingest_admit L inp eid req st =
     rbind (ensure (req_body req \<noteq> []) (write_json L 400 (jobj [(''error'', JStr ''empty event body'')]))) (\<lambda>_.
     rbind (map_err (\<lambda>e. write_json L 400 (jobj [(''error'', JStr (''invalid contest event: '' @ llm_error_message e))]))
              (event_from_cbor L (req_body req))) (\<lambda>captured.
     rbind (ok_or (bt_get (st_events st) eid) (not_found_json L ''event not found'')) (\<lambda>e.
     rbind (map_err (\<lambda>err. write_json L 422 (jobj [(''error'',
                JStr (''attested capture rejected: '' @ validate_error_message L err))]))
              (validate_attested_capture_event L (ei_fetch inp) e captured)) (\<lambda>_.
     Inr captured))))"

definition record_capture :: "str \<Rightarrow> str \<Rightarrow> event_store \<Rightarrow> event_store" where
  "record_capture eid h st =
     st\<lparr>st_captured_events := bt_insert eid (opt_or (bt_get (st_captured_events st) eid) [] @ [h]) (st_captured_events st),
        st_captured_event_counts := bt_insert eid
          (case bt_get (st_captured_event_counts st) eid of None \<Rightarrow> 1 | Some n \<Rightarrow> sat_add n 1)
          (st_captured_event_counts st)\<rparr>"

definition accepted_value :: "bool \<Rightarrow> str \<Rightarrow> u64 \<Rightarrow> json" where
  "accepted_value dup h n = jobj [(''accepted'', JBool True), (''duplicate'', JBool dup), (''event_hash'', JStr h),
     (''count'', JInt (uint n))]"

text \<open>Under the store lock: the duplicate check, the log line, the index and the save.\<close>

definition ingest_commit ::
    "('m) es_lib_scheme \<Rightarrow> str \<Rightarrow> http_request \<Rightarrow> 'g app_state \<Rightarrow> (es_error handler_error + http_response) \<times> 'g app_state" where
  "ingest_commit L eid req s0 =
     (let h = sha256_prefixed L (req_body req) in
      if bt_get (st_events (es_store s0)) eid = None then (not_found_json L ''event not found'', s0)
      else let s = s0\<lparr>es_store := (es_store s0)\<lparr>st_captured_events := bt_or_insert eid [] (st_captured_events (es_store s0))\<rparr>\<rparr>
           in if h \<in> set (opt_or (bt_get (st_captured_events (es_store s)) eid) [])
              then commit_store L (write_json L 202 (accepted_value True h
                     (opt_or (bt_get (st_captured_event_counts (es_store s)) eid) 0))) s
              else case append_captured_event (ec_event_log_dir (es_cfg s)) eid (b64_encode L (req_body req)) (disk s) of
                Inl e \<Rightarrow> (Inl (Failed e), s)
              | Inr w \<Rightarrow>
                 (let st = record_capture eid h (es_store s)
                  in commit_store L (write_json L 202 (accepted_value False h
                       (opt_or (bt_get (st_captured_event_counts st) eid) 0)))
                       (s\<lparr>es_store := st, disk := w\<rparr>)))"

definition ingest_event ::
    "('m) es_lib_scheme \<Rightarrow> es_in \<Rightarrow> str \<Rightarrow> http_request \<Rightarrow> 'g app_state \<Rightarrow> (es_error handler_error + http_response) \<times> 'g app_state" where
  "ingest_event L inp eid req s =
     (case ingest_admit L inp eid req (es_store s) of
        Inl answer \<Rightarrow> (answer, s)
      | Inr _ \<Rightarrow> ingest_commit L eid req s)"

subsection \<open>Reading\<close>

definition bootstrap_document :: "('m) es_lib_scheme \<Rightarrow> str \<Rightarrow> 'g app_state \<Rightarrow> es_error handler_error + http_response" where
  "bootstrap_document L eid s =
     (case bt_get (st_events (es_store s)) eid of
        None \<Rightarrow> not_found_json L ''event not found''
      | Some e \<Rightarrow> write_json L 200 (event_bootstrap_document e))"

definition event_cvms :: "('m) es_lib_scheme \<Rightarrow> str \<Rightarrow> 'g app_state \<Rightarrow> es_error handler_error + http_response" where
  "event_cvms L eid s =
     (case bt_get (st_events (es_store s)) eid of
        None \<Rightarrow> not_found_json L ''event not found''
      | Some e \<Rightarrow>
         rbind (map_err Failed (load_captured_events L (ec_event_log_dir (es_cfg s)) eid (disk s))) (\<lambda>evs.
         write_json L 200 (jobj [(''event_id'', JStr (er_event_id e)), (''name'', JStr (er_name e)),
           (''cvms'', JArr (map (\<lambda>t. team_cvm_document L e t evs) (opt_or (bt_get (st_teams (es_store s)) eid) [])))])))"

record cvm_context =
  cx_event :: event_record
  cx_team :: team_record
  cx_events :: "contest_event list"

definition load_cvm_context ::
    "('m) es_lib_scheme \<Rightarrow> str \<Rightarrow> str \<Rightarrow> 'g app_state \<Rightarrow> es_error handler_error + cvm_context option" where
  "load_cvm_context L eid tm s =
     (case bt_get (st_events (es_store s)) eid of
        None \<Rightarrow> Inr None
      | Some e \<Rightarrow>
         (case Option.bind (bt_get (st_teams (es_store s)) eid) (find (\<lambda>t. tr_team_id t = tm)) of
            None \<Rightarrow> Inr None
          | Some t \<Rightarrow>
             rbind (map_err Failed (load_captured_events L (ec_event_log_dir (es_cfg s)) eid (disk s))) (\<lambda>evs.
             Inr (Some \<lparr>cx_event = e, cx_team = t, cx_events = evs\<rparr>))))"

text \<open>The handlers of a team's card: not found, or rendered from the context.\<close>

definition with_context ::
    "('m) es_lib_scheme \<Rightarrow> str \<Rightarrow> str \<Rightarrow> 'g app_state \<Rightarrow> es_error handler_error + http_response
       \<Rightarrow> (cvm_context \<Rightarrow> es_error handler_error + http_response) \<Rightarrow> es_error handler_error + http_response" where
  "with_context L eid tm s absent k =
     rbind (load_cvm_context L eid tm s) (\<lambda>cx. case cx of None \<Rightarrow> absent | Some x \<Rightarrow> k x)"

definition context_card :: "('m) es_lib_scheme \<Rightarrow> cvm_context \<Rightarrow> json" where
  "context_card L x = team_cvm_document L (cx_event x) (cx_team x) (cx_events x)"

definition team_cvm :: "('m) es_lib_scheme \<Rightarrow> str \<Rightarrow> str \<Rightarrow> 'g app_state \<Rightarrow> es_error handler_error + http_response" where
  "team_cvm L eid tm s = with_context L eid tm s (not_found_json L ''cvm not found'') (\<lambda>x. write_json L 200 (context_card L x))"

definition team_cvm_proof :: "('m) es_lib_scheme \<Rightarrow> str \<Rightarrow> str \<Rightarrow> 'g app_state \<Rightarrow> es_error handler_error + http_response" where
  "team_cvm_proof L eid tm s = with_context L eid tm s (not_found_json L ''cvm not found'') (\<lambda>x.
     write_json L 200 (cvm_proof_document L (cx_event x) (cx_team x) (cx_events x) (context_card L x)))"

definition team_cvm_receipts :: "('m) es_lib_scheme \<Rightarrow> str \<Rightarrow> str \<Rightarrow> 'g app_state \<Rightarrow> es_error handler_error + http_response" where
  "team_cvm_receipts L eid tm s = with_context L eid tm s (not_found_json L ''cvm not found'') (\<lambda>x.
     write_json L 200 (cvm_receipts_document L (cx_event x) (cx_team x) (cx_events x)))"

definition team_cvm_credential :: "('m) es_lib_scheme \<Rightarrow> u64 \<Rightarrow> str \<Rightarrow> str \<Rightarrow> 'g app_state \<Rightarrow> es_error handler_error + http_response" where
  "team_cvm_credential L now eid tm s = with_context L eid tm s (not_found_json L ''cvm not found'') (\<lambda>x.
     write_json L 200 (cvm_credential_document L now (cx_event x) (cx_team x) (cx_events x) (context_card L x)))"

definition team_individual_signal ::
    "('m) es_lib_scheme \<Rightarrow> u64 \<Rightarrow> str \<Rightarrow> str \<Rightarrow> str option \<Rightarrow> 'g app_state \<Rightarrow> es_error handler_error + http_response" where
  "team_individual_signal L now eid tm agent s = with_context L eid tm s (not_found_json L ''cvm not found'') (\<lambda>x.
     write_json L 200 (individual_signal_document L now (cx_event x) (cx_team x) (cx_events x) agent))"

definition oembed_document :: "('m) es_lib_scheme \<Rightarrow> str \<Rightarrow> 'g app_state \<Rightarrow> es_error handler_error + http_response" where
  \<open>oembed_document L path s =
     (case query_param path ''url'' of
        None \<Rightarrow> write_json L 400 (jobj [(''error'', JStr ''missing url'')])
      | Some url \<Rightarrow>
         if \<not> starts_with (trim_end_matches ''/'' (ec_public_base_url (es_cfg s))) url
         then write_json L 400 (jobj [(''error'', JStr ''url must belong to this cvm host'')])
         else write_json L 200 (jobj [(''version'', JStr ''1.0''), (''type'', JStr ''rich''), (''provider_name'', JStr ''Cvm''),
           (''provider_url'', JStr (ec_public_base_url (es_cfg s))), (''title'', JStr ''LLM Attested cvm''),
           (''html'', JStr (''<iframe src="'' @ html_escape (trim_end_matches ''.json'' url @ ''.embed'')
              @ ''" width="420" height="520" loading="lazy" referrerpolicy="no-referrer"></iframe>'')),
           (''width'', JInt 420), (''height'', JInt 520), (''cache_age'', JInt 30)]))\<close>

end
