(* ===== verification/Event_Pages.thy ===== *)
theory Event_Pages
  imports Event_Service
begin

section \<open>Pages and cards (\<open>src/bin/llm-event-service.rs\<close>)\<close>

text \<open>
  The HTML pages and SVG cards. A format string is a list of literal pieces and named holes; a
  page is its template with the holes filled by a list of values, so that what a value may contain
  is a property of the list.
\<close>

datatype piece = Lit str | Hole str

definition render :: "piece list \<Rightarrow> (str \<times> str) list \<Rightarrow> str" where
  "render t vals = concat (map (\<lambda>p. case p of Lit s \<Rightarrow> s | Hole h \<Rightarrow> opt_or (map_of vals h) []) t)"

subsection \<open>Site pages\<close>

definition home_template :: "piece list" where
  \<open>home_template = [
    Lit (''<!doctype html>'' @ [CHR 0x0A] @ ''<html>'' @ [CHR 0x0A] @
     ''<head><meta charset="utf-8"><title>LLM Attested Events</title></head>'' @ [CHR 0x0A] @ ''<body>'' @
     [CHR 0x0A] @ ''<h1>LLM Attested Events</h1>'' @ [CHR 0x0A] @ ''<p>Runtime: <strong>''), Hole ''runtime_label'',
     Lit (''</strong></p>'' @ [CHR 0x0A] @
     ''<p><a href="/.well-known/llm-attested/self-host.json">Self-host document</a></p>'' @ [CHR 0x0A] @
     ''<p><a href="/.well-known/cvm/registry.json">Trust registry</a></p>'' @ [CHR 0x0A] @
     ''<p>Create an event:</p>'' @ [CHR 0x0A] @ ''<pre>curl -sS -X POST /events -H '' @ [CHR 0x27] @
     ''content-type: application/json'' @ [CHR 0x27] @ '' --data '' @ [CHR 0x27] @ ''{"name":"My Hackathon"}'' @
     [CHR 0x27] @ ''</pre>'' @ [CHR 0x0A] @ ''</body>'' @ [CHR 0x0A] @ ''</html>'')]\<close>

definition home_page :: "es_config \<Rightarrow> bytes" where
  "home_page c = render home_template
     [(''runtime_label'', if ec_runtime_mode c = ''tee'' then ''TEE-backed local site'' else ''plain local site'')]"

definition join_template :: "piece list" where
  \<open>join_template = [
    Lit (''<!doctype html>'' @ [CHR 0x0A] @ ''<html>'' @ [CHR 0x0A] @ ''<head><meta charset="utf-8"><title>''),
     Hole ''name'', Lit (''</title></head>'' @ [CHR 0x0A] @ ''<body>'' @ [CHR 0x0A] @ ''<h1>''), Hole ''name'',
     Lit (''</h1>'' @ [CHR 0x0A] @ ''<p>This event does not require a specific LLM, provider, IDE, or agent.</p>'' @
     [CHR 0x0A] @ ''<h2>1. Install or update llmattest</h2>'' @ [CHR 0x0A] @ ''<pre>curl -fsSL ''),
     Hole ''release_base'', Lit (''/install.sh | sh</pre>'' @ [CHR 0x0A] @ ''<p>Windows PowerShell:</p>'' @
     [CHR 0x0A] @ ''<pre>irm ''), Hole ''release_base'', Lit (''/install.ps1 | iex</pre>'' @ [CHR 0x0A] @
     ''<h2>2. Create your team payload</h2>'' @ [CHR 0x0A] @ ''<pre>curl -sS -X POST ''), Hole ''base'',
     Lit (''/e/''), Hole ''event_id'', Lit (''/teams '' @ [CHR 0x5C] @ [CHR 0x0A] @ ''  -H '' @ [CHR 0x27] @
     ''content-type: application/json'' @ [CHR 0x27] @ '' '' @ [CHR 0x5C] @ [CHR 0x0A] @ ''  --data '' @ [CHR 0x27] @
     ''{"team_name":"YOUR TEAM"}'' @ [CHR 0x27] @ '' &gt; team.json</pre>'' @ [CHR 0x0A] @
     ''<h2>3. Start your agent through the one binary</h2>'' @ [CHR 0x0A] @
     ''<pre>llmattest start --team-payload team.json -- your-agent-command</pre>'' @ [CHR 0x0A] @
     ''<h2>4. Keep status visible</h2>'' @ [CHR 0x0A] @ ''<pre>llmattest status --watch</pre>'' @ [CHR 0x0A] @
     ''<p>The cvm shows capture method, assurance, enforcement, token stats, model stats, and proof links.</p>'' @
     [CHR 0x0A] @ ''<p><a href="''), Hole ''dashboard'', Lit (''">Dashboard</a></p>'' @ [CHR 0x0A] @ ''</body>'' @
     [CHR 0x0A] @ ''</html>'')]\<close>

definition join_values :: "es_config \<Rightarrow> event_record \<Rightarrow> (str \<times> str) list" where
  "join_values c e = [(''name'', html_escape (er_name e)), (''base'', ec_public_base_url c),
     (''release_base'', html_escape (ec_participant_release_base_url c)), (''event_id'', er_event_id e),
     (''dashboard'', er_dashboard_url e)]"

definition join_page :: "str \<Rightarrow> 'g app_state \<Rightarrow> http_response" where
  "join_page eid s =
     (case bt_get (st_events (es_store s)) eid of
        None \<Rightarrow> write_response 404 ''text/html'' ''event not found''
      | Some e \<Rightarrow> write_response 200 ''text/html'' (render join_template (join_values (es_cfg s) e)))"

definition dashboard_template :: "piece list" where
  \<open>dashboard_template = [
    Lit (''<!doctype html>'' @ [CHR 0x0A] @ ''<html>'' @ [CHR 0x0A] @ ''<head><meta charset="utf-8"><title>''),
     Hole ''name'', Lit ('' dashboard</title></head>'' @ [CHR 0x0A] @ ''<body>'' @ [CHR 0x0A] @ ''<h1>''),
     Hole ''name'', Lit (''</h1>'' @ [CHR 0x0A] @ ''<p>Join URL: <a href="''), Hole ''join'', Lit (''">''),
     Hole ''join'', Lit (''</a></p>'' @ [CHR 0x0A] @ ''<p>Gateway: ''), Hole ''gateway'', Lit (''</p>'' @
     [CHR 0x0A] @ ''<p>Captured events: ''), Hole ''captured_count'', Lit (''</p>'' @ [CHR 0x0A] @ ''<table>'' @
     [CHR 0x0A] @ ''<thead><tr><th>Team</th><th>ID</th><th>Created</th><th>Cvm</th></tr></thead>'' @ [CHR 0x0A] @
     ''<tbody>''), Hole ''rows'', Lit (''</tbody>'' @ [CHR 0x0A] @ ''</table>'' @ [CHR 0x0A] @ ''</body>'' @
     [CHR 0x0A] @ ''</html>'')]\<close>

definition dashboard_row :: "str \<Rightarrow> team_record \<Rightarrow> str" where
  \<open>dashboard_row eid t = ''<tr><td>'' @ html_escape (tr_team_name t) @ ''</td><td>'' @ html_escape (tr_team_id t)
     @ ''</td><td>'' @ show_u64 (tr_created_at_ms t) @ ''</td><td><a href="/e/'' @ html_escape eid
     @ ''/teams/'' @ html_escape (tr_team_id t) @ ''/cvm.json">cvm</a></td></tr>''\<close>

definition dashboard_count :: "str \<Rightarrow> event_store \<Rightarrow> u64" where
  "dashboard_count eid st =
     (case bt_get (st_captured_event_counts st) eid of
        Some n \<Rightarrow> n
      | None \<Rightarrow> (case bt_get (st_captured_events st) eid of Some hs \<Rightarrow> word_of_nat (length hs) | None \<Rightarrow> 0))"

definition dashboard_values :: "str \<Rightarrow> event_store \<Rightarrow> event_record \<Rightarrow> (str \<times> str) list" where
  "dashboard_values eid st e = [(''name'', html_escape (er_name e)), (''join'', er_join_url e),
     (''gateway'', html_escape (er_gateway_base_url e)), (''captured_count'', show_u64 (dashboard_count eid st)),
     (''rows'', concat (map (dashboard_row eid) (opt_or (bt_get (st_teams st) eid) [])))]"

definition dashboard_page :: "str \<Rightarrow> 'g app_state \<Rightarrow> http_response" where
  "dashboard_page eid s =
     (case bt_get (st_events (es_store s)) eid of
        None \<Rightarrow> write_response 404 ''text/html'' ''event not found''
      | Some e \<Rightarrow> write_response 200 ''text/html'' (render dashboard_template (dashboard_values eid (es_store s) e)))"

subsection \<open>Card pages\<close>

definition compact_counts :: "json \<Rightarrow> str" where
  "compact_counts v =
     (case as_object v of
        None \<Rightarrow> ''none''
      | Some m \<Rightarrow>
         if m = [] then ''none''
         else join '', '' (map (\<lambda>(name, n). name @ '' x'' @ show_nat (opt_or (as_u64 n) 0)) m))"

definition u64_or_0 :: "json \<Rightarrow> str \<Rightarrow> str" where
  "u64_or_0 v k = show_nat (opt_or (as_u64 (jidx v k)) 0)"

definition i64_or_0 :: "json \<Rightarrow> str \<Rightarrow> str" where
  "i64_or_0 v k = show_int (opt_or (as_i64 (jidx v k)) 0)"

definition cvm_json_ld :: "('m) lib_scheme \<Rightarrow> json \<Rightarrow> str" where
  "cvm_json_ld L doc = (let share = jidx doc ''share'' in
     json_compact L (jobj [(''@context'', JStr ''https://schema.org''), (''@type'', JStr ''CreativeWork''),
       (''name'', JStr (str_or doc ''team_name'' ''Participant'' @ '' cvm'')), (''description'', jidx share ''headline''),
       (''url'', jidx share ''url''),
       (''encoding'', JArr [
          jobj [(''@type'', JStr ''MediaObject''), (''encodingFormat'', JStr ''application/json''), (''contentUrl'', jidx share ''json_url'')],
          jobj [(''@type'', JStr ''MediaObject''), (''encodingFormat'', JStr ''image/svg+xml''), (''contentUrl'', jidx share ''image_url'')]]),
       (''identifier'', jidx (jidx doc ''integrity'') ''event_log_root'')]))"

definition embed_code_template :: "piece list" where
  \<open>embed_code_template = [
    Lit (''<iframe src="''), Hole ''embed_url'',
     Lit (''" width="420" height="520" loading="lazy" referrerpolicy="no-referrer"></iframe>'')]\<close>

definition cvm_page_template :: "piece list" where
  \<open>cvm_page_template = [
    Lit (''<!doctype html>'' @ [CHR 0x0A] @ ''<html>'' @ [CHR 0x0A] @ ''<head>'' @ [CHR 0x0A] @
     ''<meta charset="utf-8">'' @ [CHR 0x0A] @
     ''<meta name="viewport" content="width=device-width, initial-scale=1">'' @ [CHR 0x0A] @ ''<title>''),
     Hole ''team'', Lit ('' cvm</title>'' @ [CHR 0x0A] @ ''<meta name="description" content="''),
     Hole ''description'', Lit (''">'' @ [CHR 0x0A] @ ''<meta property="og:type" content="profile">'' @ [CHR 0x0A] @
     ''<meta property="og:title" content="''), Hole ''team'', Lit ('' cvm">'' @ [CHR 0x0A] @
     ''<meta property="og:description" content="''), Hole ''description'', Lit (''">'' @ [CHR 0x0A] @
     ''<meta property="og:url" content="''), Hole ''url'', Lit (''">'' @ [CHR 0x0A] @
     ''<meta property="og:image" content="''), Hole ''image_url'', Lit (''">'' @ [CHR 0x0A] @
     ''<meta name="twitter:card" content="summary_large_image">'' @ [CHR 0x0A] @
     ''<link rel="alternate" type="application/json" href="''), Hole ''json_url'', Lit (''">'' @ [CHR 0x0A] @
     ''<link rel="alternate" type="application/ld+json" href="''), Hole ''credential_url'', Lit (''">'' @
     [CHR 0x0A] @ ''<link rel="alternate" type="application/json+oembed" href="''), Hole ''oembed_url'',
     Lit (''">'' @ [CHR 0x0A] @ ''<style>'' @ [CHR 0x0A] @
     '':root { color-scheme: light; font-family: Inter, ui-sans-serif, system-ui, -apple-system, BlinkMacSystemFont, "Segoe UI", sans-serif; }'' @
     [CHR 0x0A] @ ''body { margin: 0; background: #f6f7f2; color: #141414; }'' @ [CHR 0x0A] @
     ''main { max-width: 920px; margin: 0 auto; padding: 40px 20px; }'' @ [CHR 0x0A] @
     ''.hero { display: grid; grid-template-columns: minmax(0, 1fr) 220px; gap: 28px; align-items: center; }'' @
     [CHR 0x0A] @
     ''.proof { margin-top: 28px; display: grid; grid-template-columns: repeat(auto-fit, minmax(170px, 1fr)); gap: 12px; }'' @
     [CHR 0x0A] @ ''.stat { border: 1px solid #d7dbc9; background: #fff; border-radius: 8px; padding: 14px; }'' @
     [CHR 0x0A] @ ''.label { color: #5d6356; font-size: 12px; text-transform: uppercase; letter-spacing: .08em; }'' @
     [CHR 0x0A] @ ''.value { font-size: 24px; font-weight: 760; margin-top: 4px; word-break: break-word; }'' @
     [CHR 0x0A] @ ''.links { margin-top: 28px; display: flex; flex-wrap: wrap; gap: 10px; }'' @ [CHR 0x0A] @
     ''a, button { color: #0b5f6a; }'' @ [CHR 0x0A] @
     ''code, textarea { font-family: ui-monospace, SFMono-Regular, Menlo, Consolas, monospace; }'' @ [CHR 0x0A] @
     ''code { overflow-wrap: anywhere; word-break: break-word; font-size: 12px; }'' @ [CHR 0x0A] @
     ''textarea { width: 100%; min-height: 84px; margin-top: 12px; border: 1px solid #cfd5c2; border-radius: 8px; padding: 12px; box-sizing: border-box; background: #fff; }'' @
     [CHR 0x0A] @ ''@media (max-width: 680px) { .hero { grid-template-columns: 1fr; } }'' @ [CHR 0x0A] @
     ''</style>'' @ [CHR 0x0A] @ ''<script type="application/ld+json">''), Hole ''json_ld'', Lit (''</script>'' @
     [CHR 0x0A] @ ''</head>'' @ [CHR 0x0A] @ ''<body>'' @ [CHR 0x0A] @ ''<main>'' @ [CHR 0x0A] @
     ''<section class="hero">'' @ [CHR 0x0A] @ ''<div>'' @ [CHR 0x0A] @ ''<p class="label">''), Hole ''event_name'',
     Lit (''</p>'' @ [CHR 0x0A] @ ''<h1>''), Hole ''team'', Lit (''</h1>'' @ [CHR 0x0A] @ ''<p>''),
     Hole ''headline'', Lit (''</p>'' @ [CHR 0x0A] @ ''</div>'' @ [CHR 0x0A] @
     ''<img alt="QR code for this cvm" src="''), Hole ''qr_url'', Lit (''" width="220" height="220">'' @ [CHR 0x0A] @
     ''</section>'' @ [CHR 0x0A] @ ''<section class="proof">'' @ [CHR 0x0A] @
     ''  <div class="stat"><div class="label">Captured events</div><div class="value">''), Hole ''captured_events'',
     Lit (''</div></div>'' @ [CHR 0x0A] @
     ''  <div class="stat"><div class="label">LLM calls</div><div class="value">''), Hole ''llm_calls'',
     Lit (''</div></div>'' @ [CHR 0x0A] @
     ''  <div class="stat"><div class="label">Total tokens</div><div class="value">''), Hole ''total_tokens'',
     Lit (''</div></div>'' @ [CHR 0x0A] @
     ''  <div class="stat"><div class="label">Assurance</div><div class="value">''), Hole ''assurance'',
     Lit (''</div></div>'' @ [CHR 0x0A] @ ''</section>'' @ [CHR 0x0A] @ ''<section class="proof">'' @ [CHR 0x0A] @
     ''  <div class="stat"><div class="label">Capture</div><div>''), Hole ''capture'', Lit (''</div></div>'' @
     [CHR 0x0A] @ ''  <div class="stat"><div class="label">Enforcement</div><div>''), Hole ''enforcement'',
     Lit (''</div></div>'' @ [CHR 0x0A] @ ''  <div class="stat"><div class="label">Event log root</div><code>''),
     Hole ''event_log_root'', Lit (''</code></div>'' @ [CHR 0x0A] @ ''</section>'' @ [CHR 0x0A] @
     ''<div class="links">'' @ [CHR 0x0A] @ ''  <a href="''), Hole ''json_url'', Lit (''">JSON</a>'' @ [CHR 0x0A] @
     ''  <a href="''), Hole ''proof_url'', Lit (''">Proof bundle</a>'' @ [CHR 0x0A] @ ''  <a href="''),
     Hole ''credential_url'', Lit (''">Credential JSON</a>'' @ [CHR 0x0A] @ ''  <a href="''), Hole ''image_url'',
     Lit (''">SVG card</a>'' @ [CHR 0x0A] @ ''  <a href="''), Hole ''signal_image_url'',
     Lit (''">Individual signal SVG</a>'' @ [CHR 0x0A] @ ''  <a href="''), Hole ''embed_url'',
     Lit (''">Live iframe</a>'' @ [CHR 0x0A] @ ''</div>'' @ [CHR 0x0A] @ ''<textarea readonly>''),
     Hole ''embed_code'', Lit (''</textarea>'' @ [CHR 0x0A] @ ''<textarea readonly>''), Hole ''profile_markdown'',
     Lit (''</textarea>'' @ [CHR 0x0A] @ ''</main>'' @ [CHR 0x0A] @ ''</body>'' @ [CHR 0x0A] @ ''</html>'')]\<close>

definition cvm_page_values :: "('m) es_lib_scheme \<Rightarrow> cvm_context \<Rightarrow> (str \<times> str) list" where
  "cvm_page_values L x =
     (let doc = context_card L x; stats = jidx doc ''stats''; labels = jidx doc ''labels''; share = jidx doc ''share'';
          signal_image_url = str_or share ''individual_signal_image_url'' [];
          embed_url = str_or share ''embed_url'' []; description = str_or share ''headline'' []
      in [(''team'', html_escape (tr_team_name (cx_team x))), (''event_name'', html_escape (er_name (cx_event x))),
          (''headline'', html_escape description), (''description'', html_escape description),
          (''url'', html_escape (str_or share ''url'' [])), (''image_url'', html_escape (str_or share ''image_url'' [])),
          (''signal_image_url'', html_escape signal_image_url),
          (''json_url'', html_escape (str_or share ''json_url'' ''cvm.json'')),
          (''credential_url'', html_escape (str_or share ''credential_url'' [])),
          (''proof_url'', html_escape (str_or share ''proof_url'' [])), (''embed_url'', html_escape embed_url),
          (''oembed_url'', html_escape (str_or share ''oembed_url'' [])),
          (''qr_url'', html_escape (str_or share ''qr_svg_url'' [])),
          (''captured_events'', u64_or_0 stats ''captured_events''), (''llm_calls'', u64_or_0 stats ''llm_calls''),
          (''total_tokens'', i64_or_0 stats ''total_tokens''),
          (''capture'', html_escape (compact_counts (jidx labels ''capture_methods''))),
          (''assurance'', html_escape (compact_counts (jidx labels ''assurance''))),
          (''enforcement'', html_escape (compact_counts (jidx labels ''enforcement''))),
          (''event_log_root'', html_escape (str_or (jidx doc ''integrity'') ''event_log_root'' ''sha256:empty'')),
          (''embed_code'', html_escape (render embed_code_template [(''embed_url'', embed_url)])),
          (''profile_markdown'', html_escape (''![Cvm signal]('' @ signal_image_url @ '')'')),
          (''json_ld'', script_escape (cvm_json_ld L doc))])"

definition team_cvm_page :: "('m) es_lib_scheme \<Rightarrow> str \<Rightarrow> str \<Rightarrow> 'g app_state \<Rightarrow> es_error handler_error + http_response" where
  "team_cvm_page L eid tm s = with_context L eid tm s (Inr (write_response 404 ''text/html'' ''cvm not found'')) (\<lambda>x.
     Inr (write_response 200 ''text/html'' (render cvm_page_template (cvm_page_values L x))))"

definition cvm_embed_template :: "piece list" where
  \<open>cvm_embed_template = [
    Lit (''<!doctype html>'' @ [CHR 0x0A] @ ''<html>'' @ [CHR 0x0A] @ ''<head>'' @ [CHR 0x0A] @
     ''<meta charset="utf-8">'' @ [CHR 0x0A] @
     ''<meta name="viewport" content="width=device-width, initial-scale=1">'' @ [CHR 0x0A] @
     ''<meta http-equiv="refresh" content="30">'' @ [CHR 0x0A] @ ''<base target="_blank">'' @ [CHR 0x0A] @
     ''<style>'' @ [CHR 0x0A] @
     '':root { color-scheme: light; font-family: Inter, ui-sans-serif, system-ui, -apple-system, BlinkMacSystemFont, "Segoe UI", sans-serif; }'' @
     [CHR 0x0A] @ ''body { margin: 0; background: transparent; color: #141414; }'' @ [CHR 0x0A] @
     ''a { color: inherit; text-decoration: none; }'' @ [CHR 0x0A] @
     ''.card { box-sizing: border-box; width: 100%; min-height: 100vh; border: 1px solid #cfd5c2; border-radius: 8px; background: #fbfcf7; padding: 18px; display: grid; gap: 14px; }'' @
     [CHR 0x0A] @
     ''.eyebrow { color: #5d6356; font-size: 11px; text-transform: uppercase; letter-spacing: .08em; }'' @
     [CHR 0x0A] @ ''h1 { margin: 0; font-size: 24px; line-height: 1.08; }'' @ [CHR 0x0A] @
     ''.headline { margin: 0; color: #35382f; }'' @ [CHR 0x0A] @
     ''.grid { display: grid; grid-template-columns: repeat(3, 1fr); gap: 8px; }'' @ [CHR 0x0A] @
     ''.stat { background: #fff; border: 1px solid #e0e4d5; border-radius: 8px; padding: 10px; min-width: 0; }'' @
     [CHR 0x0A] @ ''.label { color: #687060; font-size: 10px; text-transform: uppercase; letter-spacing: .08em; }'' @
     [CHR 0x0A] @ ''.value { margin-top: 3px; font-weight: 760; font-size: 18px; word-break: break-word; }'' @
     [CHR 0x0A] @ ''.small { font-size: 12px; color: #4b5045; word-break: break-word; }'' @ [CHR 0x0A] @
     ''footer { display: flex; justify-content: space-between; gap: 10px; align-items: center; }'' @ [CHR 0x0A] @
     ''</style>'' @ [CHR 0x0A] @ ''</head>'' @ [CHR 0x0A] @ ''<body>'' @ [CHR 0x0A] @ ''<a href="''), Hole ''url'',
     Lit (''" class="card" aria-label="Open cvm">'' @ [CHR 0x0A] @ ''<header>'' @ [CHR 0x0A] @
     ''  <div class="eyebrow">''), Hole ''event_name'', Lit (''</div>'' @ [CHR 0x0A] @ ''  <h1>''), Hole ''team'',
     Lit (''</h1>'' @ [CHR 0x0A] @ ''</header>'' @ [CHR 0x0A] @ ''<p class="headline">''), Hole ''headline'',
     Lit (''</p>'' @ [CHR 0x0A] @ ''<section class="grid">'' @ [CHR 0x0A] @
     ''  <div class="stat"><div class="label">Tokens</div><div class="value">''), Hole ''total_tokens'',
     Lit (''</div></div>'' @ [CHR 0x0A] @ ''  <div class="stat"><div class="label">Calls</div><div class="value">''),
     Hole ''llm_calls'', Lit (''</div></div>'' @ [CHR 0x0A] @
     ''  <div class="stat"><div class="label">Events</div><div class="value">''), Hole ''captured_events'',
     Lit (''</div></div>'' @ [CHR 0x0A] @ ''</section>'' @ [CHR 0x0A] @ ''<section class="stat">'' @ [CHR 0x0A] @
     ''  <div class="label">Assurance</div>'' @ [CHR 0x0A] @ ''  <div class="small">''), Hole ''assurance'',
     Lit (''</div>'' @ [CHR 0x0A] @ ''</section>'' @ [CHR 0x0A] @ ''<section class="stat">'' @ [CHR 0x0A] @
     ''  <div class="label">Enforcement</div>'' @ [CHR 0x0A] @ ''  <div class="small">''), Hole ''enforcement'',
     Lit (''</div>'' @ [CHR 0x0A] @ ''</section>'' @ [CHR 0x0A] @ ''<footer>'' @ [CHR 0x0A] @
     ''  <span class="small">Live cvm</span>'' @ [CHR 0x0A] @ ''  <img alt="" src="''), Hole ''qr_url'',
     Lit (''" width="64" height="64">'' @ [CHR 0x0A] @ ''</footer>'' @ [CHR 0x0A] @ ''</a>'' @ [CHR 0x0A] @
     ''</body>'' @ [CHR 0x0A] @ ''</html>'')]\<close>

definition cvm_embed_values :: "('m) es_lib_scheme \<Rightarrow> cvm_context \<Rightarrow> (str \<times> str) list" where
  "cvm_embed_values L x =
     (let doc = context_card L x; stats = jidx doc ''stats''; labels = jidx doc ''labels''; share = jidx doc ''share''
      in [(''url'', html_escape (str_or share ''url'' [])), (''event_name'', html_escape (er_name (cx_event x))),
          (''team'', html_escape (tr_team_name (cx_team x))), (''headline'', html_escape (str_or share ''headline'' [])),
          (''total_tokens'', i64_or_0 stats ''total_tokens''), (''llm_calls'', u64_or_0 stats ''llm_calls''),
          (''captured_events'', u64_or_0 stats ''captured_events''),
          (''assurance'', html_escape (compact_counts (jidx labels ''assurance''))),
          (''enforcement'', html_escape (compact_counts (jidx labels ''enforcement''))),
          (''qr_url'', html_escape (str_or share ''qr_svg_url'' []))])"

definition EMBED_CSP :: str where
  "EMBED_CSP = ''default-src '' @ [CHR 0x27] @ ''self'' @ [CHR 0x27] @ ''; img-src '' @ [CHR 0x27] @ ''self'' @ [CHR 0x27]
     @ '' data:; style-src '' @ [CHR 0x27] @ ''unsafe-inline'' @ [CHR 0x27] @ ''; base-uri '' @ [CHR 0x27] @ ''none'' @ [CHR 0x27]
     @ ''; frame-ancestors *''"

definition team_cvm_embed_page :: "('m) es_lib_scheme \<Rightarrow> str \<Rightarrow> str \<Rightarrow> 'g app_state \<Rightarrow> es_error handler_error + http_response" where
  "team_cvm_embed_page L eid tm s = with_context L eid tm s (Inr (write_response 404 ''text/html'' ''cvm not found'')) (\<lambda>x.
     Inr (write_response_with_headers 200 ''text/html'' [(''Content-Security-Policy'', EMBED_CSP)]
       (render cvm_embed_template (cvm_embed_values L x))))"

subsection \<open>Images\<close>

definition qr_path_data :: "int \<times> (int \<Rightarrow> int \<Rightarrow> bool) \<Rightarrow> int \<Rightarrow> str" where
  "qr_path_data qr border =
     concat (map (\<lambda>y. concat (map (\<lambda>x.
       if snd qr x y then ''M'' @ show_int (x + border) @ '' '' @ show_int (y + border) @ ''h1v1h-1z'' else [])
       [0..fst qr - 1])) [0..fst qr - 1])"

definition metadata_template :: "piece list" where
  \<open>metadata_template = [
    Lit (''<metadata id="cvm-card-json" data-content-type="application/json" data-profile="''), Hole ''profile'',
     Lit (''" data-sha256="''), Hole ''metadata_hash'', Lit (''">''), Hole ''metadata_json'', Lit (''</metadata>'')]\<close>

definition svg_card_metadata :: "('m) lib_scheme \<Rightarrow> json \<Rightarrow> str" where
  "svg_card_metadata L doc = (let metadata_json = json_compact L doc in
     render metadata_template [(''profile'', xml_escape (str_or doc ''profile'' ''https://cvm.dev/cvm/v1'')),
       (''metadata_hash'', xml_escape (sha256_prefixed L metadata_json)), (''metadata_json'', xml_escape metadata_json)])"

definition card_svg_template :: "piece list" where
  \<open>card_svg_template = [

     Lit (''<svg xmlns="http://www.w3.org/2000/svg" width="1200" height="630" viewBox="0 0 1200 630" role="img" aria-label="''),
     Hole ''team'', Lit ('' cvm">'' @ [CHR 0x0A]), Hole ''metadata'', Lit ([CHR 0x0A] @
     ''<rect width="1200" height="630" fill="#f6f7f2"/>'' @ [CHR 0x0A] @
     ''<rect x="52" y="52" width="1096" height="526" rx="18" fill="#fbfcf7" stroke="#cfd5c2" stroke-width="2"/>'' @
     [CHR 0x0A] @
     ''<text x="92" y="118" fill="#5d6356" font-family="Inter, system-ui, sans-serif" font-size="24" letter-spacing="3">''),
     Hole ''event_name'', Lit (''</text>'' @ [CHR 0x0A] @
     ''<text x="92" y="178" fill="#141414" font-family="Inter, system-ui, sans-serif" font-size="54" font-weight="800">''),
     Hole ''team'', Lit (''</text>'' @ [CHR 0x0A] @
     ''<text x="92" y="232" fill="#33372d" font-family="Inter, system-ui, sans-serif" font-size="28">''),
     Hole ''headline'', Lit (''</text>'' @ [CHR 0x0A] @ ''<g transform="translate(92 292)">'' @ [CHR 0x0A] @
     ''  <rect width="220" height="112" rx="12" fill="#ffffff" stroke="#dce2d0"/>'' @ [CHR 0x0A] @
     ''  <text x="22" y="40" fill="#687060" font-family="Inter, system-ui, sans-serif" font-size="18" letter-spacing="2">TOKENS</text>'' @
     [CHR 0x0A] @
     ''  <text x="22" y="86" fill="#141414" font-family="Inter, system-ui, sans-serif" font-size="42" font-weight="800">''),
     Hole ''tokens'', Lit (''</text>'' @ [CHR 0x0A] @ ''</g>'' @ [CHR 0x0A] @
     ''<g transform="translate(336 292)">'' @ [CHR 0x0A] @
     ''  <rect width="220" height="112" rx="12" fill="#ffffff" stroke="#dce2d0"/>'' @ [CHR 0x0A] @
     ''  <text x="22" y="40" fill="#687060" font-family="Inter, system-ui, sans-serif" font-size="18" letter-spacing="2">CALLS</text>'' @
     [CHR 0x0A] @
     ''  <text x="22" y="86" fill="#141414" font-family="Inter, system-ui, sans-serif" font-size="42" font-weight="800">''),
     Hole ''calls'', Lit (''</text>'' @ [CHR 0x0A] @ ''</g>'' @ [CHR 0x0A] @ ''<g transform="translate(580 292)">'' @
     [CHR 0x0A] @ ''  <rect width="220" height="112" rx="12" fill="#ffffff" stroke="#dce2d0"/>'' @ [CHR 0x0A] @
     ''  <text x="22" y="40" fill="#687060" font-family="Inter, system-ui, sans-serif" font-size="18" letter-spacing="2">EVENTS</text>'' @
     [CHR 0x0A] @
     ''  <text x="22" y="86" fill="#141414" font-family="Inter, system-ui, sans-serif" font-size="42" font-weight="800">''),
     Hole ''events'', Lit (''</text>'' @ [CHR 0x0A] @ ''</g>'' @ [CHR 0x0A] @
     ''<text x="92" y="466" fill="#5d6356" font-family="Inter, system-ui, sans-serif" font-size="20">Assurance: ''),
     Hole ''assurance'', Lit (''</text>'' @ [CHR 0x0A] @
     ''<text x="92" y="504" fill="#5d6356" font-family="Inter, system-ui, sans-serif" font-size="20">Enforcement: ''),
     Hole ''enforcement'', Lit (''</text>'' @ [CHR 0x0A] @
     ''<rect x="906" y="294" width="212" height="212" rx="12" fill="#ffffff" stroke="#dce2d0"/>'' @ [CHR 0x0A] @
     ''<path d="''), Hole ''qr_path'', Lit (''" fill="#141414" transform="translate(926 314) scale(''),
     Hole ''qr_scale'', Lit ('')"/>'' @ [CHR 0x0A] @
     ''<text x="906" y="542" fill="#5d6356" font-family="Inter, system-ui, sans-serif" font-size="18">scan to verify</text>'' @
     [CHR 0x0A] @ ''</svg>'')]\<close>

definition card_svg_values :: "('m) es_lib_scheme \<Rightarrow> int \<times> (int \<Rightarrow> int \<Rightarrow> bool) \<Rightarrow> json \<Rightarrow> (str \<times> str) list" where
  "card_svg_values L qr doc =
     (let share = jidx doc ''share''; stats = jidx doc ''stats''; labels = jidx doc ''labels''
      in [(''team'', xml_escape (str_or doc ''team_name'' ''Participant'')),
          (''event_name'', xml_escape (str_or doc ''event_name'' ''LLM Attested'')),
          (''headline'', xml_escape (str_or share ''headline'' [])), (''tokens'', i64_or_0 stats ''total_tokens''),
          (''calls'', u64_or_0 stats ''llm_calls''), (''events'', u64_or_0 stats ''captured_events''),
          (''assurance'', xml_escape (truncate_text (compact_counts (jidx labels ''assurance'')) 64)),
          (''enforcement'', xml_escape (truncate_text (compact_counts (jidx labels ''enforcement'')) 64)),
          (''metadata'', svg_card_metadata L doc), (''qr_path'', qr_path_data qr 4),
          (''qr_scale'', f64_ratio L 172 (max (fst qr + 8) 1))])"

definition cvm_card_svg :: "('m) es_lib_scheme \<Rightarrow> json \<Rightarrow> es_error handler_error + str" where
  "cvm_card_svg L doc =
     rbind (ok_or (qr_encode L (str_or (jidx doc ''share'') ''url'' [])) (Failed EsQr)) (\<lambda>qr.
     Inr (render card_svg_template (card_svg_values L qr doc)))"

definition signal_svg_template :: "piece list" where
  \<open>signal_svg_template = [

     Lit (''<svg xmlns="http://www.w3.org/2000/svg" width="1200" height="630" viewBox="0 0 1200 630" role="img" aria-label="''),
     Hole ''name'', Lit ('' individual signal cvm">'' @ [CHR 0x0A]), Hole ''metadata'', Lit ([CHR 0x0A] @
     ''<rect width="1200" height="630" fill="#06201c"/>'' @ [CHR 0x0A] @
     ''<rect x="44" y="42" width="1112" height="546" rx="24" fill="#092b25" stroke="#d8fff6" stroke-width="2"/>'' @
     [CHR 0x0A] @
     ''<text x="76" y="104" fill="#59ffd6" font-family="Inter, system-ui, sans-serif" font-size="26" font-weight="900">LIVE CVM</text>'' @
     [CHR 0x0A] @
     ''<text x="76" y="174" fill="#f7fff4" font-family="Inter, system-ui, sans-serif" font-size="74" font-weight="950">''),
     Hole ''name'', Lit (''</text>'' @ [CHR 0x0A] @ ''<rect x="756" y="84" width="128" height="34" rx="17" fill="''),
     Hole ''status_fill'', Lit (''"/>'' @ [CHR 0x0A] @
     ''<text x="820" y="107" fill="#06201c" font-family="Inter, system-ui, sans-serif" font-size="18" font-weight="800" text-anchor="middle">''),
     Hole ''status'', Lit (''</text>'' @ [CHR 0x0A] @
     ''<rect x="902" y="84" width="170" height="34" rx="17" fill="#ffd166"/>'' @ [CHR 0x0A] @
     ''<text x="987" y="107" fill="#06201c" font-family="Inter, system-ui, sans-serif" font-size="18" font-weight="800" text-anchor="middle">''),
     Hole ''assurance'', Lit (''</text>'' @ [CHR 0x0A] @
     ''<line x1="78" y1="314" x2="990" y2="314" stroke="#23685c" stroke-width="2" stroke-dasharray="10 12"/>'' @
     [CHR 0x0A] @
     ''<path d="M78 304L126 268L174 334L222 283L270 352L318 277L366 326L414 294L462 370L510 285L558 318L606 274L654 342L702 302L750 329L798 279L846 354L894 309L942 296L990 332" fill="none" stroke="#59ffd6" stroke-width="8" stroke-linejoin="round"/>'' @
     [CHR 0x0A] @
     ''<path d="M78 304L126 268L174 334L222 283L270 352L318 277L366 326L414 294L462 370L510 285L558 318L606 274L654 342L702 302L750 329L798 279L846 354L894 309L942 296L990 332" fill="none" stroke="#ffd166" stroke-width="2" stroke-linejoin="round"/>'' @
     [CHR 0x0A] @
     ''<text x="78" y="400" fill="#d8fff6" font-family="Inter, system-ui, sans-serif" font-size="21" font-weight="800">''),
     Hole ''signal_line'', Lit (''</text>'' @ [CHR 0x0A] @
     ''<rect x="80" y="416" width="258" height="92" rx="12" fill="#0d3932" stroke="#23685c" stroke-width="2"/>'' @
     [CHR 0x0A] @
     ''<text x="104" y="453" fill="#59ffd6" font-family="Inter, system-ui, sans-serif" font-size="18" font-weight="850">active path</text>'' @
     [CHR 0x0A] @
     ''<text x="104" y="486" fill="#f7fff4" font-family="Inter, system-ui, sans-serif" font-size="30" font-weight="950">''),
     Hole ''active_path'', Lit (''</text>'' @ [CHR 0x0A] @
     ''<rect x="368" y="416" width="258" height="92" rx="12" fill="#0d3932" stroke="#23685c" stroke-width="2"/>'' @
     [CHR 0x0A] @
     ''<text x="392" y="453" fill="#59ffd6" font-family="Inter, system-ui, sans-serif" font-size="18" font-weight="850">latest event</text>'' @
     [CHR 0x0A] @
     ''<text x="392" y="486" fill="#f7fff4" font-family="Inter, system-ui, sans-serif" font-size="30" font-weight="950">''),
     Hole ''latest_age'', Lit (''</text>'' @ [CHR 0x0A] @
     ''<rect x="656" y="416" width="258" height="92" rx="12" fill="#0d3932" stroke="#23685c" stroke-width="2"/>'' @
     [CHR 0x0A] @
     ''<text x="680" y="453" fill="#59ffd6" font-family="Inter, system-ui, sans-serif" font-size="18" font-weight="850">today</text>'' @
     [CHR 0x0A] @
     ''<text x="680" y="486" fill="#f7fff4" font-family="Inter, system-ui, sans-serif" font-size="30" font-weight="950">''),
     Hole ''today_label'', Lit (''</text>'' @ [CHR 0x0A] @
     ''<rect x="960" y="400" width="112" height="112" rx="8" fill="#d8fff6"/>'' @ [CHR 0x0A] @ ''<path d="''),
     Hole ''qr_path'', Lit (''" fill="#06201c" transform="translate(967 407) scale(''), Hole ''qr_scale'',
     Lit ('')"/>'' @ [CHR 0x0A] @
     ''<text x="80" y="560" fill="#a8d9ce" font-family="Inter, system-ui, sans-serif" font-size="19" font-weight="800">''),
     Hole ''health_line'', Lit (''</text>'' @ [CHR 0x0A] @ ''</svg>'')]\<close>

definition signal_svg_values :: "('m) es_lib_scheme \<Rightarrow> int \<times> (int \<Rightarrow> int \<Rightarrow> bool) \<Rightarrow> json \<Rightarrow> (str \<times> str) list" where
  "signal_svg_values L qr doc =
     (let stats = jidx doc ''stats''; labels = jidx doc ''labels'';
          live = 0 < opt_or (as_u64 (jidx stats ''captured_events'')) 0;
          today_calls = opt_or (as_i64 (jidx stats ''today_llm_calls'')) 0
      in [(''name'', xml_escape (truncate_text (str_or (jidx doc ''participant'') ''display_name'' ''Individual'') 28)),
          (''status_fill'', if live then ''#59ffd6'' else ''#ffd166''), (''status'', if live then ''LIVE'' else ''WAITING''),
          (''assurance'', xml_escape (truncate_text (str_or labels ''latest_assurance'' ''pending'') 18)),
          (''signal_line'', xml_escape (truncate_text (''signal: prompts hidden | receipts public | ''
              @ str_or labels ''token_source'' ''usage unknown'') 82)),
          (''active_path'', xml_escape (truncate_text
              (replace_char (CHR ''_'') '' '' (str_or labels ''active_path'' ''not connected'')) 16)),
          (''latest_age'', xml_escape (truncate_text (str_or labels ''latest_age'' ''none yet'') 16)),
          (''today_label'', xml_escape (if today_calls = 1 then ''1 call'' else show_int today_calls @ '' calls'')),
          (''qr_path'', qr_path_data qr 4), (''qr_scale'', f64_ratio L 98 (max (fst qr + 8) 1)),
          (''health_line'', xml_escape (truncate_text (''capture health: '' @ str_or labels ''latest_enforcement'' ''unrouted''
              @ '' | '' @ str_or labels ''actionable_failure'' ''0 actionable failures'' @ '' | ''
              @ i64_or_0 stats ''today_total_tokens'' @ '' tokens today'') 88)),
          (''metadata'', svg_card_metadata L doc)])"

definition individual_signal_card_svg :: "('m) es_lib_scheme \<Rightarrow> json \<Rightarrow> es_error handler_error + str" where
  "individual_signal_card_svg L doc =
     (let share = jidx doc ''share'';
          url = (case as_str (jidx share ''json_url'') of Some u \<Rightarrow> u | None \<Rightarrow> str_or share ''url'' [])
      in rbind (ok_or (qr_encode L url) (Failed EsQr)) (\<lambda>qr. Inr (render signal_svg_template (signal_svg_values L qr doc))))"

definition qr_template :: "piece list" where
  \<open>qr_template = [
    Lit (''<svg xmlns="http://www.w3.org/2000/svg" width="''), Hole ''width'', Lit (''" height="''), Hole ''width'',
     Lit (''" viewBox="0 0 ''), Hole ''size'', Lit ('' ''), Hole ''size'',
     Lit (''" role="img" aria-label="QR code">'' @ [CHR 0x0A] @ ''<rect width="''), Hole ''size'',
     Lit (''" height="''), Hole ''size'', Lit (''" fill="#ffffff"/>'' @ [CHR 0x0A] @ ''<path d="''), Hole ''path'',
     Lit (''" fill="#141414"/>'' @ [CHR 0x0A] @ ''</svg>'')]\<close>

definition qr_svg :: "('m) es_lib_scheme \<Rightarrow> str \<Rightarrow> int \<Rightarrow> es_error handler_error + str" where
  "qr_svg L text module_px =
     rbind (ok_or (qr_encode L text) (Failed EsQr)) (\<lambda>qr.
     let size = fst qr + 4 * 2
     in Inr (render qr_template [(''width'', show_int (size * module_px)), (''size'', show_int size), (''path'', qr_path_data qr 4)]))"

definition svg_not_found :: http_response where
  "svg_not_found = write_response 404 ''image/svg+xml'' ''not found''"

definition svg_response :: "str \<Rightarrow> str \<Rightarrow> http_response" where
  "svg_response max_age svg = write_response_with_headers 200 ''image/svg+xml'' [(''Cache-Control'', ''public, max-age='' @ max_age)] svg"

definition team_cvm_svg :: "('m) es_lib_scheme \<Rightarrow> str \<Rightarrow> str \<Rightarrow> 'g app_state \<Rightarrow> es_error handler_error + http_response" where
  "team_cvm_svg L eid tm s = with_context L eid tm s (Inr svg_not_found) (\<lambda>x.
     rbind (cvm_card_svg L (context_card L x)) (\<lambda>svg. Inr (svg_response ''30'' svg)))"

definition team_individual_signal_svg ::
    "('m) es_lib_scheme \<Rightarrow> u64 \<Rightarrow> str \<Rightarrow> str \<Rightarrow> str option \<Rightarrow> 'g app_state \<Rightarrow> es_error handler_error + http_response" where
  "team_individual_signal_svg L now eid tm agent s = with_context L eid tm s (Inr svg_not_found) (\<lambda>x.
     rbind (individual_signal_card_svg L (individual_signal_document L now (cx_event x) (cx_team x) (cx_events x) agent))
       (\<lambda>svg. Inr (svg_response ''30'' svg)))"

definition team_cvm_qr_svg :: "('m) es_lib_scheme \<Rightarrow> str \<Rightarrow> str \<Rightarrow> 'g app_state \<Rightarrow> es_error handler_error + http_response" where
  "team_cvm_qr_svg L eid tm s = with_context L eid tm s (Inr svg_not_found) (\<lambda>x.
     rbind (qr_svg L (cvm_url (cx_event x) (tr_team_id (cx_team x))) 8) (\<lambda>svg. Inr (svg_response ''300'' svg)))"

end
