(* ===== verification/Event_Routes.thy ===== *)
theory Event_Routes
  imports Event_Pages
begin

section \<open>Routes and start-up of the event service (\<open>src/bin/llm-event-service.rs\<close>)\<close>

text \<open>
  The handler: every request is rate limited per address, mutations once more per address and
  event; the rest is dispatched on the method and the path. Start-up parses the flags, loads the
  store and the limiter and checks the TLS flags.
\<close>

subsection \<open>Policies\<close>

definition es_ip_policy :: "'g app_state \<Rightarrow> rate_limit_policy" where
  "es_ip_policy s = with_backoff 1000 60000
     (per_minute (ec_public_requests_per_minute (es_cfg s)) (min (ec_public_requests_per_minute (es_cfg s)) 120))"

definition es_create_event_policy :: "'g app_state \<Rightarrow> rate_limit_policy" where
  "es_create_event_policy s = with_backoff 2000 300000
     (per_minute (min (ec_mutation_requests_per_minute (es_cfg s)) 10) (min (ec_mutation_requests_per_minute (es_cfg s)) 10))"

definition es_create_team_policy :: "'g app_state \<Rightarrow> rate_limit_policy" where
  "es_create_team_policy s = with_backoff 1000 120000
     (per_minute (ec_mutation_requests_per_minute (es_cfg s)) (min (ec_mutation_requests_per_minute (es_cfg s)) 30))"

definition es_ingest_policy :: "'g app_state \<Rightarrow> rate_limit_policy" where
  "es_ingest_policy s = with_backoff 500 60000
     (per_minute (ec_ingest_requests_per_minute (es_cfg s)) (min (ec_ingest_requests_per_minute (es_cfg s)) 300))"

subsection \<open>Dispatch\<close>

definition route_of :: "str \<Rightarrow> str" where
  "route_of path = hd (split_on (CHR ''?'') path)"

definition parts_of :: "str \<Rightarrow> str list" where
  "parts_of path = split_on (CHR ''/'') (trim_start_matches ''/'' (route_of path))"

text \<open>\<open>enforce_rate\<close> with its second clock reading.\<close>

definition enforce_rate ::
    "('m) es_lib_scheme \<Rightarrow> 'g net_env \<Rightarrow> es_in \<Rightarrow> str \<Rightarrow> rate_limit_policy
      \<Rightarrow> ('g app_state \<Rightarrow> (es_error handler_error + http_response) \<times> 'g app_state)
      \<Rightarrow> 'g app_state \<Rightarrow> (es_error handler_error + http_response) \<times> 'g app_state" where
  "enforce_rate L G inp key p k s = limited L G (fst (ei_clock2 inp)) (snd (ei_clock2 inp)) key p k s"

text \<open>The pages and documents of a team's card, by the last path segment.\<close>

definition es_team_route ::
    "('m) es_lib_scheme \<Rightarrow> es_in \<Rightarrow> http_request \<Rightarrow> str \<Rightarrow> str \<Rightarrow> str \<Rightarrow> 'g app_state \<Rightarrow> es_error handler_error + http_response" where
  "es_team_route L inp req eid tm leaf s =
     (if leaf = ''cvm'' then team_cvm_page L eid tm s
      else if leaf = ''cvm.embed'' then team_cvm_embed_page L eid tm s
      else if leaf = ''cvm.svg'' then team_cvm_svg L eid tm s
      else if leaf = ''cvm.signal.svg''
      then team_individual_signal_svg L (ei_now inp) eid tm (query_param (req_path req) ''agent'') s
      else if leaf = ''cvm.signal.json''
      then team_individual_signal L (ei_now inp) eid tm (query_param (req_path req) ''agent'') s
      else if leaf = ''cvm.qr.svg'' then team_cvm_qr_svg L eid tm s
      else if leaf = ''cvm.proof.json'' then team_cvm_proof L eid tm s
      else if leaf = ''cvm.receipts.json'' then team_cvm_receipts L eid tm s
      else if leaf = ''cvm.credential.json'' then team_cvm_credential L (ei_now inp) eid tm s
      else if leaf = ''cvm.json'' then team_cvm L eid tm s
      else not_found_json L ''not found'')"

definition es_event_route :: "('m) es_lib_scheme \<Rightarrow> str \<Rightarrow> str \<Rightarrow> 'g app_state \<Rightarrow> es_error handler_error + http_response" where
  "es_event_route L eid leaf s =
     (if leaf = ''join'' then Inr (join_page eid s)
      else if leaf = ''bootstrap.json'' then bootstrap_document L eid s
      else if leaf = ''dashboard'' then Inr (dashboard_page eid s)
      else if leaf = ''cvms.json'' then event_cvms L eid s
      else not_found_json L ''not found'')"

definition es_get ::
    "('m) es_lib_scheme \<Rightarrow> es_in \<Rightarrow> http_request \<Rightarrow> 'g app_state \<Rightarrow> es_error handler_error + http_response" where
  "es_get L inp req s =
     (let route = route_of (req_path req) in
      if route = ''/healthz'' then write_json L 200 (jobj [(''ok'', JBool True)])
      else if route = ''/'' then Inr (write_response 200 ''text/html'' (home_page (es_cfg s)))
      else if route = ''/.well-known/llm-attested/self-host.json'' then write_json L 200 (self_host_document (es_cfg s))
      else if route = ''/.well-known/cvm/registry.json'' then write_json L 200 (registry_document (es_cfg s))
      else if route = ''/oembed'' then oembed_document L (req_path req) s
      else case parts_of (req_path req) of
        [a, eid, leaf] \<Rightarrow> if a = ''e'' then es_event_route L eid leaf s else not_found_json L ''not found''
      | [a, eid, b, tm, leaf] \<Rightarrow>
          if a = ''e'' \<and> b = ''teams'' then es_team_route L inp req eid tm leaf s else not_found_json L ''not found''
      | _ \<Rightarrow> not_found_json L ''not found'')"

definition es_post ::
    "('m) es_lib_scheme \<Rightarrow> 'g net_env \<Rightarrow> es_in \<Rightarrow> http_request \<Rightarrow> 'g app_state \<Rightarrow> (es_error handler_error + http_response) \<times> 'g app_state" where
  "es_post L G inp req s =
     (if route_of (req_path req) = ''/events''
      then enforce_rate L G inp (''event-service:create-event:'' @ ei_peer inp) (es_create_event_policy s) (create_event L inp req) s
      else case parts_of (req_path req) of
        [a, eid, leaf] \<Rightarrow>
          if a = ''e'' \<and> leaf = ''teams''
          then enforce_rate L G inp (''event-service:create-team:'' @ eid @ '':'' @ ei_peer inp) (es_create_team_policy s)
                 (create_team L inp eid req) s
          else if a = ''e'' \<and> leaf = ''events''
          then enforce_rate L G inp (''event-service:ingest:'' @ eid @ '':'' @ ei_peer inp) (es_ingest_policy s)
                 (ingest_event L inp eid req) s
          else (not_found_json L ''not found'', s)
      | _ \<Rightarrow> (not_found_json L ''not found'', s))"

definition es_route ::
    "('m) es_lib_scheme \<Rightarrow> 'g net_env \<Rightarrow> es_in \<times> http_request \<Rightarrow> 'g app_state \<Rightarrow> (es_error handler_error + http_response) \<times> 'g app_state" where
  "es_route L G q s =
     (let m = req_method (snd q) in
      if m = ''OPTIONS'' then (Inr (write_response 204 ''text/plain'' []), s)
      else if m = ''GET'' then (es_get L (fst q) (snd q) s, s)
      else if m = ''POST'' then es_post L G (fst q) (snd q) s
      else (not_found_json L ''not found'', s))"

definition es_handle_connection ::
    "('m) es_lib_scheme \<Rightarrow> 'g net_env \<Rightarrow> es_in \<times> http_request \<Rightarrow> 'g app_state \<Rightarrow> (es_error handler_error + http_response) \<times> 'g app_state" where
  "es_handle_connection L G q s =
     limited L G (fst (ei_clock (fst q))) (snd (ei_clock (fst q))) (''event-service:ip:'' @ ei_peer (fst q)) (es_ip_policy s)
       (es_route L G q) s"

subsection \<open>Start-up\<close>

datatype es_start_error =
    EsNeedsValue str | EsBadNumber str | EsUnknownArg str | EsHelp | EsStore store_error | EsDir str
  | EsLimiter net_error | EsTls tls_error

record es_args = es_config +
  ea_registry_url :: "str option"
  ea_cvm_receipt_url :: "str option"
  ea_gateway_manifest_url :: "str option"
  ea_participant_release_base_url :: "str option"

definition es_args_default :: es_args where
  "es_args_default = \<lparr>ec_listen = ''127.0.0.1:8080'', ec_public_base_url = ''http://127.0.0.1:8080'',
     ec_gateway_base_url = ''http://127.0.0.1:8088'', ec_issuer = ''self-hosted'', ec_registry_url = [],
     ec_cvm_receipt_url = [], ec_gateway_manifest_url = [], ec_participant_release_base_url = [],
     ec_accepted_tee_platforms = [''tdx'', ''sev-snp'', ''nitro''], ec_runtime_mode = [], ec_runtime_value_x = None,
     ec_runtime_domain = None, ec_store_path = ''./llm-events-service.json'',
     ec_event_log_dir = ''./llm-event-captures'', ec_rate_state_path = ''./llm-event-service-rate-state.json'',
     ec_tls_cert_path = None, ec_tls_key_path = None, ec_tls_client_ca_path = None, ec_max_connections = 512,
     ec_read_timeout_ms = 5000, ec_public_requests_per_minute = 1200, ec_mutation_requests_per_minute = 60,
     ec_ingest_requests_per_minute = 3000, ea_registry_url = None, ea_cvm_receipt_url = None,
     ea_gateway_manifest_url = None, ea_participant_release_base_url = None\<rparr>"

definition es_flags :: "str list" where
  "es_flags = [''--listen'', ''--public-base-url'', ''--gateway-base-url'', ''--issuer'', ''--registry-url'',
     ''--cvm-receipt-url'', ''--gateway-manifest-url'', ''--participant-release-base-url'', ''--accepted-tee-platforms'',
     ''--store'', ''--event-log-dir'', ''--rate-state'', ''--tls-cert'', ''--tls-key'', ''--tls-client-ca'',
     ''--max-connections'', ''--read-timeout-ms'', ''--public-requests-per-minute'', ''--mutation-requests-per-minute'',
     ''--ingest-requests-per-minute'']"

definition es_set_flag :: "str \<Rightarrow> str \<Rightarrow> es_args \<Rightarrow> es_start_error + es_args" where
  "es_set_flag f v a =
     (if f = ''--listen'' then Inr (a\<lparr>ec_listen := v\<rparr>)
      else if f = ''--public-base-url'' then Inr (a\<lparr>ec_public_base_url := v\<rparr>)
      else if f = ''--gateway-base-url'' then Inr (a\<lparr>ec_gateway_base_url := v\<rparr>)
      else if f = ''--issuer'' then Inr (a\<lparr>ec_issuer := v\<rparr>)
      else if f = ''--registry-url'' then Inr (a\<lparr>ea_registry_url := Some v\<rparr>)
      else if f = ''--cvm-receipt-url'' then Inr (a\<lparr>ea_cvm_receipt_url := Some v\<rparr>)
      else if f = ''--gateway-manifest-url'' then Inr (a\<lparr>ea_gateway_manifest_url := Some v\<rparr>)
      else if f = ''--participant-release-base-url'' then Inr (a\<lparr>ea_participant_release_base_url := Some v\<rparr>)
      else if f = ''--accepted-tee-platforms''
      then Inr (a\<lparr>ec_accepted_tee_platforms := filter (\<lambda>s. s \<noteq> []) (map trim (split_on (CHR '','') v))\<rparr>)
      else if f = ''--store'' then Inr (a\<lparr>ec_store_path := v\<rparr>)
      else if f = ''--event-log-dir'' then Inr (a\<lparr>ec_event_log_dir := v\<rparr>)
      else if f = ''--rate-state'' then Inr (a\<lparr>ec_rate_state_path := v\<rparr>)
      else if f = ''--tls-cert'' then Inr (a\<lparr>ec_tls_cert_path := Some v\<rparr>)
      else if f = ''--tls-key'' then Inr (a\<lparr>ec_tls_key_path := Some v\<rparr>)
      else if f = ''--tls-client-ca'' then Inr (a\<lparr>ec_tls_client_ca_path := Some v\<rparr>)
      else if f = ''--max-connections'' then rbind (ok_or (parse_u64 v) (EsBadNumber f)) (\<lambda>n. Inr (a\<lparr>ec_max_connections := n\<rparr>))
      else if f = ''--read-timeout-ms'' then rbind (ok_or (parse_u64 v) (EsBadNumber f)) (\<lambda>n. Inr (a\<lparr>ec_read_timeout_ms := n\<rparr>))
      else if f = ''--public-requests-per-minute''
      then rbind (ok_or (parse_u32 v) (EsBadNumber f)) (\<lambda>n. Inr (a\<lparr>ec_public_requests_per_minute := n\<rparr>))
      else if f = ''--mutation-requests-per-minute''
      then rbind (ok_or (parse_u32 v) (EsBadNumber f)) (\<lambda>n. Inr (a\<lparr>ec_mutation_requests_per_minute := n\<rparr>))
      else if f = ''--ingest-requests-per-minute''
      then rbind (ok_or (parse_u32 v) (EsBadNumber f)) (\<lambda>n. Inr (a\<lparr>ec_ingest_requests_per_minute := n\<rparr>))
      else Inl (EsUnknownArg f))"

fun es_parse_loop :: "str list \<Rightarrow> es_args \<Rightarrow> es_start_error + es_args" where
  "es_parse_loop [] a = Inr a"
| "es_parse_loop [f] a =
     (if f = ''-h'' \<or> f = ''--help'' then Inl EsHelp
      else if f \<in> set es_flags then Inl (EsNeedsValue f) else Inl (EsUnknownArg f))"
| "es_parse_loop (f # v # rest) a =
     (if f = ''-h'' \<or> f = ''--help'' then Inl EsHelp
      else rbind (es_set_flag f v a) (\<lambda>a'. es_parse_loop rest a'))"

definition es_finish_args :: "(str \<Rightarrow> str option) \<Rightarrow> es_args \<Rightarrow> es_config" where
  "es_finish_args env a =
     (let public = trim_end_matches ''/'' (ec_public_base_url a); gw = trim_end_matches ''/'' (ec_gateway_base_url a) in
      es_config.truncate (a\<lparr>ec_public_base_url := public, ec_gateway_base_url := gw,
        ec_registry_url := opt_or (ea_registry_url a) (public @ ''/.well-known/cvm/registry.json''),
        ec_cvm_receipt_url := opt_or (ea_cvm_receipt_url a) (gw @ ''/.well-known/cvm/receipt''),
        ec_gateway_manifest_url := opt_or (ea_gateway_manifest_url a) (gw @ ''/.well-known/llm-attested/manifest.cbor''),
        ec_participant_release_base_url :=
          trim_end_matches ''/'' (opt_or (ea_participant_release_base_url a) (public @ ''/downloads'')),
        ec_runtime_mode := (if opt_or (env ''CVM_STAGE'') [] = ''1'' then ''tee'' else ''plain''),
        ec_runtime_value_x := env ''CVM_VALUE_X'', ec_runtime_domain := env ''CVM_DOMAIN'',
        ec_max_connections := max (ec_max_connections a) 1, ec_read_timeout_ms := max (ec_read_timeout_ms a) 1,
        ec_public_requests_per_minute := max (ec_public_requests_per_minute a) 1,
        ec_mutation_requests_per_minute := max (ec_mutation_requests_per_minute a) 1,
        ec_ingest_requests_per_minute := max (ec_ingest_requests_per_minute a) 1\<rparr>))"

definition es_parse_args :: "(str \<Rightarrow> str option) \<Rightarrow> str list \<Rightarrow> es_start_error + es_config" where
  "es_parse_args env args = rbind (es_parse_loop args es_args_default) (\<lambda>a. Inr (es_finish_args env a))"

text \<open>\<open>main\<close> up to the accept loop, from a parsed configuration.\<close>

definition es_main ::
    "('m) es_lib_scheme \<Rightarrow> 'g net_env \<Rightarrow> (str \<Rightarrow> str \<Rightarrow> str option \<Rightarrow> str + 'tls) \<Rightarrow> u64 \<Rightarrow> es_config \<Rightarrow> fs
       \<Rightarrow> es_start_error + 'g app_state" where
  "es_main L G load_tls now c w =
     rbind (map_err EsStore (load_store L w (ec_store_path c))) (\<lambda>st.
     rbind (ensure (\<not> faulty w (ec_event_log_dir c)) (EsDir (ec_event_log_dir c))) (\<lambda>_.
     rbind (map_err EsLimiter (lim_load G now (ec_rate_state_path c) 200000 w)) (\<lambda>lim.
     rbind (map_err EsTls (rustls_acceptor_from_paths load_tls (ec_tls_cert_path c) (ec_tls_key_path c) (ec_tls_client_ca_path c))) (\<lambda>_.
     Inr \<lparr>limiter = lim, disk = w, es_cfg = c, es_store = st\<rparr>))))"

end
