(* ===== verification/Line_Log.thy ===== *)
theory Line_Log
  imports Text_Codec Http_Service
begin

section \<open>Logs of base64 lines\<close>

text \<open>
  The services append captured events to files, one base64 line each, and read such files back. A
  file written that way reads back to what was written; what the rate limiter does to the disk
  leaves it alone.
\<close>

subsection \<open>Lines\<close>

definition capture_line :: "('m) lib_scheme \<Rightarrow> bytes \<Rightarrow> str" where
  "capture_line L b = b64_encode L b @ [CHR 0x0A]"

lemma lead_none:
  assumes "list_all (\<lambda>w. w \<noteq> [] \<and> hd w \<notin> A) ws" "set s \<subseteq> A"
  shows "lead ws s = 0"
proof -
  have "\<not> starts_with w s" if "w \<in> set ws" for w
    using assms that by (cases w; cases s) (auto simp: list_all_iff starts_with_def)
  then have "find (\<lambda>c. starts_with c s) ws = None" by (simp add: find_None_iff)
  then show ?thesis by (simp add: lead_def)
qed

lemma trim_none:
  assumes "list_all (\<lambda>w. w \<noteq> [] \<and> hd w \<notin> A \<and> last w \<notin> A) ws_codes" "set s \<subseteq> A"
  shows "trim s = s"
proof -
  have "lead ws_codes s = 0" by (rule lead_none[OF _ assms(2)]) (use assms(1) in \<open>auto simp: list_all_iff\<close>)
  moreover have "lead (map rev ws_codes) (rev s) = 0"
    by (rule lead_none[where A = A]) (use assms in \<open>auto simp: list_all_iff hd_rev\<close>)
  ultimately show ?thesis by (simp add: trim_def trim_start_def trim_end_def strip_lead.simps)
qed

lemma strip_cr_none: "CHR 0x0D \<notin> set s \<Longrightarrow> strip_cr s = s"
  by (cases s rule: rev_cases) (auto simp: strip_cr_def strip_suffix_def strip_prefix_def starts_with_def)

definition b64_alphabet :: str where
  "b64_alphabet = ''ABCDEFGHIJKLMNOPQRSTUVWXYZabcdefghijklmnopqrstuvwxyz0123456789+/=''"

lemma b64_alphabet_facts:
  "list_all (\<lambda>c. (of_char c :: int) < 128 \<and> c \<noteq> CHR 0x0A \<and> c \<noteq> CHR 0x0D) b64_alphabet"
  "list_all (\<lambda>w. w \<noteq> [] \<and> hd w \<notin> set b64_alphabet \<and> last w \<notin> set b64_alphabet) ws_codes"
  by code_simp+

lemma b64_text:
  assumes "b64_law L"
  shows "trim (b64_encode L b) = b64_encode L b" "CHR 0x0A \<notin> set (b64_encode L b)" "is_ascii (b64_encode L b)"
    "strip_cr (b64_encode L b) = b64_encode L b"
proof -
  have sub: "set (b64_encode L b) \<subseteq> set b64_alphabet"
    using assms unfolding b64_law_def list_all_iff b64_alphabet_def by blast
  then show "trim (b64_encode L b) = b64_encode L b" by (rule trim_none[OF b64_alphabet_facts(2)])
  have f: "(of_char c :: int) < 128 \<and> c \<noteq> CHR 0x0A \<and> c \<noteq> CHR 0x0D" if "c \<in> set (b64_encode L b)" for c
    using b64_alphabet_facts(1) sub that unfolding list_all_iff by blast
  then show "CHR 0x0A \<notin> set (b64_encode L b)" "is_ascii (b64_encode L b)"
    "strip_cr (b64_encode L b) = b64_encode L b"
    by (auto simp: is_ascii_def list_all_iff intro!: strip_cr_none)
qed

lemma split_on_line: "c \<notin> set a \<Longrightarrow> split_on c (a @ c # b) = a # split_on c b"
  by (induction a) auto

lemma split_on_Nil: "split_on c s \<noteq> []"
  by (induction s) (auto split: list.splits)

lemma split_log: "b64_law L \<Longrightarrow> split_on (CHR 0x0A) (concat (map (capture_line L) bs)) = map (b64_encode L) bs @ [[]]"
  by (induction bs) (auto simp: capture_line_def split_on_line b64_text)

lemma lines_log: "b64_law L \<Longrightarrow> lines (concat (map (capture_line L) bs)) = map (b64_encode L) bs"
  by (simp add: lines_def split_log Let_def b64_text cong: map_cong)

lemma is_ascii_log: "b64_law L \<Longrightarrow> is_ascii (concat (map (capture_line L) bs))"
  using b64_text(3)[of L] by (auto simp: is_ascii_def capture_line_def list_all_iff)

subsection \<open>The limiter's frame\<close>

lemma lim_check_faulty:
  assumes "lim_check G now inst key p (l, w) = (r, l', w')"
  shows "faulty w' = faulty w"
proof -
  have sl: "save_locked G now (x, w) = (r2, y, w2) \<Longrightarrow> faulty w2 = faulty w" for x y r2 w2
    by (rule save_locked_cases[of G now x w]) (auto simp: fs_write_faulty)
  show ?thesis
    using assms by (auto simp: lim_check_def Let_def save_if_due_def dest!: sl split: sum.splits prod.splits if_splits)
qed

lemma limited_frame:
  assumes "limited L G now inst key p k s = (r, s')"
  obtains l w where "lim_path l = lim_path (limiter s)" "faulty w = faulty (disk s)"
    "\<And>q. q \<noteq> lim_path (limiter s) \<Longrightarrow> bt_get (files w) q = bt_get (files (disk s)) q"
    "k (s\<lparr>limiter := l, disk := w\<rparr>) = (r, s')
     \<or> s' = s\<lparr>limiter := l, disk := w\<rparr> \<and> (\<forall>resp. r = Inr resp \<longrightarrow> status resp = 429)"
proof -
  obtain d l w where c: "lim_check G now inst key p (limiter s, disk s) = (d, l, w)" by (metis prod_cases3)
  have path: "lim_path l = lim_path (limiter s)"
    using lim_check_disk[OF c, of "lim_path (limiter s) @ ''x''"] by simp
  have out: "k (s\<lparr>limiter := l, disk := w\<rparr>) = (r, s')
      \<or> s' = s\<lparr>limiter := l, disk := w\<rparr> \<and> (\<forall>resp. r = Inr resp \<longrightarrow> status resp = 429)"
    using assms c by (auto simp: limited_def write_rate_limited_def write_json_with_headers_def
        write_response_with_headers_def split: sum.splits if_splits option.splits)
  show thesis by (rule that[OF path lim_check_faulty[OF c] _ out]) (use lim_check_disk[OF c] in blast)
qed

end
