(* ===== verification/Event_Service_Safety.thy ===== *)
theory Event_Service_Safety
  imports Event_Routes Line_Log
begin

section \<open>What the event service guarantees\<close>

text \<open>
  The captured events: a run of requests appends to the in-memory index, the counters and the log
  files the same accepted bodies (\<open>es_step\<close> relates one request to what it captured), writes
  no other files, and answers a mutation only once the store is saved. The documents computed from
  the log agree with each other.
\<close>

subsection \<open>What a request may change\<close>

definition cap :: "'g app_state \<Rightarrow> str \<Rightarrow> str list" where
  "cap s eid = opt_or (bt_get (st_captured_events (es_store s)) eid) []"

definition cnt :: "'g app_state \<Rightarrow> str \<Rightarrow> u64" where
  "cnt s eid = opt_or (bt_get (st_captured_event_counts (es_store s)) eid) 0"

definition es_log :: "'g app_state \<Rightarrow> str \<Rightarrow> bytes" where
  "es_log s eid = opt_or (bt_get (files (disk s)) (log_path (ec_event_log_dir (es_cfg s)) eid)) []"

text \<open>The configured paths keep the logs apart from the store and the limiter's state.\<close>

definition paths_apart :: "'g app_state \<Rightarrow> bool" where
  "paths_apart s \<longleftrightarrow> (\<forall>eid. log_id_ok eid \<longrightarrow>
     log_path (ec_event_log_dir (es_cfg s)) eid \<notin> {ec_store_path (es_cfg s), lim_path (limiter s)})"

definition es_frame :: "'g app_state \<Rightarrow> 'g app_state \<Rightarrow> bool" where
  "es_frame s s' \<longleftrightarrow> es_cfg s' = es_cfg s \<and> lim_path (limiter s') = lim_path (limiter s)
     \<and> faulty (disk s') = faulty (disk s)"

text \<open>A body was accepted for an event: it decodes and, where it claims attestation, was validated.\<close>

definition admitted :: "('m) es_lib_scheme \<Rightarrow> es_in \<times> http_request \<Rightarrow> bytes \<Rightarrow> bool" where
  "admitted L q b \<longleftrightarrow> b = req_body (snd q) \<and> b \<noteq> [] \<and>
     (\<exists>c e. event_from_cbor L b = Inr c \<and> validate_attested_capture_event L (ei_fetch (fst q)) e c = Inr ())"

text \<open>\<open>es_step L q s s' eid bs\<close>: serving \<open>q\<close> captured the bodies \<open>bs\<close> for the event \<open>eid\<close>.\<close>

definition es_step ::
    "('m) es_lib_scheme \<Rightarrow> es_in \<times> http_request \<Rightarrow> 'g app_state \<Rightarrow> 'g app_state \<Rightarrow> str \<Rightarrow> bytes list \<Rightarrow> bool" where
  "es_step L q s s' eid bs \<longleftrightarrow>
     cap s' eid = cap s eid @ map (sha256_prefixed L) bs
     \<and> cnt s' eid = fold (\<lambda>_ n. sat_add n 1) bs (cnt s eid)
     \<and> (log_id_ok eid \<longrightarrow> es_log s' eid = es_log s eid @ concat (map (capture_line L) bs))
     \<and> (bs = [] \<or> (\<exists>b. bs = [b] \<and> log_id_ok eid \<and> admitted L q b \<and> sha256_prefixed L b \<notin> set (cap s eid)))"

definition es_effect :: "('m) es_lib_scheme \<Rightarrow> es_in \<times> http_request \<Rightarrow> 'g app_state \<Rightarrow> 'g app_state \<Rightarrow> bool" where
  "es_effect L q s s' \<longleftrightarrow> es_frame s s' \<and> (\<forall>eid. \<exists>bs. es_step L q s s' eid bs)"

text \<open>The files a request may touch.\<close>

definition es_writable :: "'g app_state \<Rightarrow> str \<Rightarrow> bool" where
  "es_writable s p \<longleftrightarrow> p = lim_path (limiter s) \<or> p = ec_store_path (es_cfg s)
     \<or> (\<exists>eid. log_id_ok eid \<and> p = log_path (ec_event_log_dir (es_cfg s)) eid)"

definition es_confined :: "'g app_state \<Rightarrow> 'g app_state \<Rightarrow> bool" where
  "es_confined s s' \<longleftrightarrow> es_frame s s' \<and> (\<forall>p. \<not> es_writable s p \<longrightarrow> bt_get (files (disk s')) p = bt_get (files (disk s)) p)"

lemma es_frame_trans: "es_frame a b \<Longrightarrow> es_frame b c \<Longrightarrow> es_frame a c"
  by (simp add: es_frame_def)

lemma es_confined_trans: "es_confined a b \<Longrightarrow> es_confined b c \<Longrightarrow> es_confined a c"
  by (auto simp: es_confined_def es_frame_def es_writable_def)

lemma paths_apart_frame: "es_frame s s' \<Longrightarrow> paths_apart s' = paths_apart s"
  by (simp add: es_frame_def paths_apart_def)

lemma es_effect_same:
  assumes "es_frame s s'" "\<And>eid. cap s' eid = cap s eid" "\<And>eid. cnt s' eid = cnt s eid"
    "\<And>eid. log_id_ok eid \<Longrightarrow> es_log s' eid = es_log s eid"
  shows "es_effect L q s s'"
  unfolding es_effect_def es_step_def using assms by (auto intro!: exI[of _ "[]"])

text \<open>Log paths of admissible ids differ, since the ids have no separator.\<close>

lemma log_id_no_slash: "log_id_ok eid \<Longrightarrow> CHR ''/'' \<notin> set eid"
  by (auto simp: log_id_ok_def list_all_iff ascii_alnum_def)

lemma log_path_eq: "log_id_ok eid \<Longrightarrow>
  log_path dir eid = (if dir = [] then [] else if last dir = CHR ''/'' then dir else dir @ ''/'') @ eid @ ''.cborl''"
  using log_id_no_slash[of eid]
  by (cases eid) (auto simp: log_path_def path_join_def starts_with_def)

lemma log_path_inj: "log_id_ok a \<Longrightarrow> log_id_ok b \<Longrightarrow> log_path dir a = log_path dir b \<longleftrightarrow> a = b"
  by (auto simp: log_path_eq)

subsection \<open>Operations\<close>

lemma save_store_disk:
  assumes "save_store L path st w = Inr w'"
  shows "faulty w' = faulty w" "q \<noteq> path \<Longrightarrow> bt_get (files w') q = bt_get (files w) q"
    "\<exists>b. ser_store L st = Some b \<and> fs_read w' path = Inr b"
  using assms by (auto simp: save_store_def res_simps fs_write_faulty fs_write_other dest: fs_read_write)

lemma commit_store_frame:
  assumes "commit_store L ans s = (r, s')"
  shows "es_store s' = es_store s" "es_confined s s'"
    "q \<noteq> ec_store_path (es_cfg s) \<Longrightarrow> bt_get (files (disk s')) q = bt_get (files (disk s)) q"
    "r = Inr resp \<Longrightarrow> ans = Inr resp \<and> (\<exists>b. ser_store L (es_store s') = Some b \<and> fs_read (disk s') (ec_store_path (es_cfg s')) = Inr b)"
  using assms
  by (auto simp: commit_store_def es_confined_def es_frame_def es_writable_def
      dest: save_store_disk split: sum.splits)

lemma commit_store_effect:
  assumes "commit_store L ans s = (r, s')" "paths_apart s"
  shows "es_effect L q s s'"
proof (rule es_effect_same)
  show "es_frame s s'" using commit_store_frame(2)[OF assms(1)] by (simp add: es_confined_def)
  then show "es_log s' eid = es_log s eid" if "log_id_ok eid" for eid
    using that assms(2) commit_store_frame(3)[OF assms(1)] by (auto simp: es_log_def es_frame_def paths_apart_def)
qed (simp_all add: cap_def cnt_def commit_store_frame(1)[OF assms(1)])

text \<open>A store update that leaves the captures alone, then the save.\<close>

lemma commit_update_effect:
  assumes c: "commit_store L ans (s\<lparr>es_store := st\<rparr>) = (r, s')" and p: "paths_apart s"
    and st: "\<And>eid. opt_or (bt_get (st_captured_events st) eid) [] = cap s eid"
      "\<And>eid. opt_or (bt_get (st_captured_event_counts st) eid) 0 = cnt s eid"
  shows "es_effect L q s s'"
proof (rule es_effect_same)
  have 1: "es_frame (s\<lparr>es_store := st\<rparr>) s'" using commit_store_frame(2)[OF c] by (simp add: es_confined_def)
  then show "es_frame s s'" by (simp add: es_frame_def)
  show "es_log s' eid = es_log s eid" if "log_id_ok eid" for eid
    using that p 1 commit_store_frame(3)[OF c] by (auto simp: es_log_def es_frame_def paths_apart_def)
qed (use commit_store_frame(1)[OF c] st in \<open>simp_all add: cap_def cnt_def\<close>)

lemma commit_update_confined:
  "commit_store L ans (s\<lparr>es_store := st\<rparr>) = (r, s') \<Longrightarrow> es_confined s s'"
  using commit_store_frame(2)[of L ans "s\<lparr>es_store := st\<rparr>" r s']
  by (simp add: es_confined_def es_frame_def es_writable_def)

lemma opt_or_or_insert: "opt_or (bt_get (bt_or_insert k d m) eid) d = opt_or (bt_get m eid) d"
  by (simp add: bt_or_insert_def opt_or_def bt_get_insert split: option.splits)

text \<open>The same captures in another store.\<close>

definition same_captures :: "event_store \<Rightarrow> event_store \<Rightarrow> bool" where
  "same_captures st st' \<longleftrightarrow>
     (\<forall>eid. opt_or (bt_get (st_captured_events st') eid) [] = opt_or (bt_get (st_captured_events st) eid) []
       \<and> opt_or (bt_get (st_captured_event_counts st') eid) 0 = opt_or (bt_get (st_captured_event_counts st) eid) 0)"

lemma commit_or_same:
  assumes "s' = s \<or> (\<exists>ans st. commit_store L ans (s\<lparr>es_store := st\<rparr>) = (r, s') \<and> same_captures (es_store s) st)"
    and "paths_apart s"
  shows "es_effect L q s s' \<and> es_confined s s'"
  using assms(1)
proof (elim disjE exE conjE)
  assume "s' = s"
  then show ?thesis by (auto simp: es_confined_def es_frame_def intro: es_effect_same)
next
  fix ans st
  assume c: "commit_store L ans (s\<lparr>es_store := st\<rparr>) = (r, s')" and st: "same_captures (es_store s) st"
  have "es_effect L q s s'"
    by (rule commit_update_effect[OF c assms(2)]) (use st in \<open>simp_all add: same_captures_def cap_def cnt_def\<close>)
  then show ?thesis using commit_update_confined[OF c] by simp
qed

lemma same_captures_add_event: "same_captures st (add_event e st)"
  by (simp add: same_captures_def add_event_def Let_def opt_or_or_insert)

lemma same_captures_add_team: "same_captures st (add_team eid t st)"
  by (simp add: same_captures_def add_team_def)

lemma create_event_effect:
  assumes "create_event L inp req s = (r, s')" "paths_apart s"
  shows "es_effect L q s s' \<and> es_confined s s'"
  by (rule commit_or_same[OF _ assms(2)])
     (use assms(1) same_captures_add_event[of "es_store s"] in \<open>auto simp: create_event_def Let_def split: option.splits if_splits\<close>)

lemma create_team_effect:
  assumes "create_team L inp eid req s = (r, s')" "paths_apart s"
  shows "es_effect L q s s' \<and> es_confined s s'"
  by (rule commit_or_same[OF _ assms(2)])
     (use assms(1) same_captures_add_team[of "es_store s" eid] in \<open>auto simp: create_team_def Let_def split: option.splits if_splits\<close>)

lemma append_captured_event_disk:
  assumes "append_captured_event dir eid b64 w = Inr w'"
  shows "log_id_ok eid" "faulty w' = faulty w"
    "bt_get (files w') p = (if p = log_path dir eid then Some (opt_or (bt_get (files w) p) [] @ b64 @ [CHR 0x0A])
                            else bt_get (files w) p)"
  using assms
  by (auto simp: append_captured_event_def res_simps fs_append_def bt_get_insert opt_or_def split: if_splits option.splits)

lemma cnt_record: "opt_or (bt_get (st_captured_event_counts (record_capture eid h st)) x) 0
   = (if x = eid then sat_add (opt_or (bt_get (st_captured_event_counts st) x) 0) 1
      else opt_or (bt_get (st_captured_event_counts st) x) 0)"
  by (auto simp: record_capture_def opt_or_def bt_get_insert sat_add_def split: option.splits)

lemma cap_record: "opt_or (bt_get (st_captured_events (record_capture eid h st)) x) []
   = opt_or (bt_get (st_captured_events st) x) [] @ (if x = eid then [h] else [])"
  by (auto simp: record_capture_def opt_or_def bt_get_insert split: option.splits)

text \<open>What a commit does, case by case.\<close>

lemma ingest_commit_cases:
  assumes "ingest_commit L eid req s = (r, s')"
  obtains (same) "s' = s"
  | (touched) ans st where "same_captures (es_store s) st" "commit_store L ans (s\<lparr>es_store := st\<rparr>) = (r, s') \<or> s' = s\<lparr>es_store := st\<rparr>"
  | (captured) ans st w where "sha256_prefixed L (req_body req) \<notin> set (cap s eid)" "same_captures (es_store s) st"
      "append_captured_event (ec_event_log_dir (es_cfg s)) eid (b64_encode L (req_body req)) (disk s) = Inr w"
      "commit_store L ans (s\<lparr>es_store := record_capture eid (sha256_prefixed L (req_body req)) st, disk := w\<rparr>) = (r, s')"
proof -
  let ?st = "(es_store s)\<lparr>st_captured_events := bt_or_insert eid [] (st_captured_events (es_store s))\<rparr>"
  have st: "same_captures (es_store s) ?st" by (simp add: same_captures_def opt_or_or_insert)
  have c: "opt_or (bt_get (st_captured_events ?st) eid) [] = cap s eid" by (simp add: cap_def opt_or_or_insert)
  show thesis
    using assms that(1) that(2)[OF st] that(3)[OF _ st] c
    by (simp add: ingest_commit_def Let_def split: if_splits sum.splits) blast+
qed

lemma ingest_admit_admitted: "ingest_admit L inp eid req st = Inr c \<Longrightarrow> admitted L (inp, req) (req_body req)"
  by (auto simp: ingest_admit_def admitted_def res_simps)

lemma captured_effect:
  assumes h: "sha256_prefixed L (req_body req) \<notin> set (cap s eid)" and st: "same_captures (es_store s) st"
    and ap: "append_captured_event (ec_event_log_dir (es_cfg s)) eid (b64_encode L (req_body req)) (disk s) = Inr w"
    and c: "commit_store L ans (s\<lparr>es_store := record_capture eid (sha256_prefixed L (req_body req)) st, disk := w\<rparr>) = (r, s')"
    and p: "paths_apart s" and adm: "admitted L (inp, req) (req_body req)"
  shows "es_effect L (inp, req) s s' \<and> es_confined s s'"
proof -
  let ?s1 = "s\<lparr>es_store := record_capture eid (sha256_prefixed L (req_body req)) st, disk := w\<rparr>"
  let ?bs = "\<lambda>x. if x = eid then [req_body req] else []"
  have conf: "es_confined ?s1 s'" by (rule commit_store_frame(2)[OF c])
  have fr: "es_frame s s'" using conf append_captured_event_disk(2)[OF ap] by (simp add: es_confined_def es_frame_def)
  have id: "log_id_ok eid" by (rule append_captured_event_disk(1)[OF ap])
  have log: "es_log s' x = es_log s x @ concat (map (capture_line L) (?bs x))" if x: "log_id_ok x" for x
  proof -
    have "log_path (ec_event_log_dir (es_cfg s)) x \<noteq> ec_store_path (es_cfg s)" using p x by (simp add: paths_apart_def)
    then have "bt_get (files (disk s')) (log_path (ec_event_log_dir (es_cfg s)) x) = bt_get (files w) (log_path (ec_event_log_dir (es_cfg s)) x)"
      using commit_store_frame(3)[OF c] by simp
    then show ?thesis
      using fr append_captured_event_disk(3)[OF ap] log_path_inj[OF x id]
      by (simp add: es_log_def es_frame_def capture_line_def opt_or_def)
  qed
  have "es_step L (inp, req) s s' x (?bs x)" for x
    using commit_store_frame(1)[OF c] st log[of x] id adm h
    by (simp add: es_step_def cap_def cnt_def cnt_record cap_record same_captures_def)
  moreover have "es_confined s s'"
  proof -
    have "bt_get (files (disk s')) q = bt_get (files (disk s)) q" if q: "\<not> es_writable s q" for q
    proof -
      have "q \<noteq> ec_store_path (es_cfg s)" "q \<noteq> log_path (ec_event_log_dir (es_cfg s)) eid"
        using q id by (auto simp: es_writable_def)
      then show ?thesis
        using commit_store_frame(3)[OF c, of q] append_captured_event_disk(3)[OF ap, of q] by simp
    qed
    with fr show ?thesis by (simp add: es_confined_def)
  qed
  ultimately show ?thesis using fr unfolding es_effect_def by blast
qed

lemma ingest_commit_effect:
  assumes "ingest_commit L eid req s = (r, s')" "paths_apart s" "admitted L (inp, req) (req_body req)"
  shows "es_effect L (inp, req) s s' \<and> es_confined s s'"
  using assms(1)
proof (cases rule: ingest_commit_cases)
  case same
  then show ?thesis using commit_or_same[of s' s] assms(2) by blast
next
  case (touched ans st)
  from touched(2) show ?thesis
  proof
    assume "commit_store L ans (s\<lparr>es_store := st\<rparr>) = (r, s')"
    with touched(1) assms(2) show ?thesis using commit_or_same[of s' s] by blast
  next
    assume "s' = s\<lparr>es_store := st\<rparr>"
    with touched(1) show ?thesis
      by (auto simp: es_confined_def es_frame_def same_captures_def cap_def cnt_def es_log_def intro!: es_effect_same)
  qed
next
  case (captured ans st w)
  then show ?thesis by (rule captured_effect[OF _ _ _ _ assms(2,3)])
qed

lemma ingest_event_effect:
  assumes "ingest_event L inp eid req s = (r, s')" "paths_apart s"
  shows "es_effect L (inp, req) s s' \<and> es_confined s s'"
proof (cases "ingest_admit L inp eid req (es_store s)")
  case (Inl a)
  with assms(1) have "s' = s" by (simp add: ingest_event_def)
  then show ?thesis using commit_or_same[of s' s] assms(2) by blast
next
  case (Inr c)
  have "ingest_commit L eid req s = (r, s')" using assms(1) Inr by (simp add: ingest_event_def)
  then show ?thesis using ingest_commit_effect assms(2) ingest_admit_admitted[OF Inr] by blast
qed

subsection \<open>Requests and runs\<close>

text \<open>Effects compose with a limiter check before them.\<close>

lemma es_effect_limited:
  assumes "lim_path l = lim_path (limiter s)" "faulty w = faulty (disk s)"
    and w: "\<And>q. q \<noteq> lim_path (limiter s) \<Longrightarrow> bt_get (files w) q = bt_get (files (disk s)) q"
    and p: "paths_apart s" and e: "es_effect L q (s\<lparr>limiter := l, disk := w\<rparr>) s'"
  shows "es_effect L q s s'"
proof -
  let ?s1 = "s\<lparr>limiter := l, disk := w\<rparr>"
  have fr: "es_frame s ?s1" using assms(1,2) by (simp add: es_frame_def)
  have "cap ?s1 = cap s" "cnt ?s1 = cnt s" by (simp_all add: cap_def cnt_def fun_eq_iff)
  moreover have "es_log ?s1 eid = es_log s eid" if "log_id_ok eid" for eid
    using w p that by (auto simp: es_log_def paths_apart_def)
  ultimately have "es_step L q ?s1 s' eid bs \<longleftrightarrow> es_step L q s s' eid bs" for eid bs by (auto simp: es_step_def)
  then show ?thesis using e fr es_frame_trans unfolding es_effect_def by blast
qed

lemma limited_effect:
  assumes lim: "limited L' G now inst key p k s = (r, s')" and pa: "paths_apart s"
    and k: "\<And>s1 r1 s2. paths_apart s1 \<Longrightarrow> k s1 = (r1, s2) \<Longrightarrow> es_effect L q s1 s2 \<and> es_confined s1 s2"
  shows "es_effect L q s s' \<and> es_confined s s'"
proof -
  obtain l w where l: "lim_path l = lim_path (limiter s)" "faulty w = faulty (disk s)"
      "\<And>q. q \<noteq> lim_path (limiter s) \<Longrightarrow> bt_get (files w) q = bt_get (files (disk s)) q"
    and out: "k (s\<lparr>limiter := l, disk := w\<rparr>) = (r, s') \<or> s' = s\<lparr>limiter := l, disk := w\<rparr>"
    by (rule limited_frame[OF lim]) blast
  let ?s1 = "s\<lparr>limiter := l, disk := w\<rparr>"
  have fr: "es_frame s ?s1" using l by (simp add: es_frame_def)
  have c1: "es_confined s ?s1" using fr l(3) by (auto simp: es_confined_def es_writable_def)
  have pa1: "paths_apart ?s1" using fr pa by (simp add: paths_apart_frame)
  have e: "es_effect L q ?s1 s' \<and> es_confined ?s1 s'"
    using out k[OF pa1] commit_or_same[of s' ?s1] pa1 by blast
  then show ?thesis
    using es_effect_limited[OF l(1,2) l(3) pa] c1 es_confined_trans by blast
qed

lemma es_post_effect:
  assumes "es_post L G inp req s = (r, s')" "paths_apart s"
  shows "es_effect L (inp, req) s s' \<and> es_confined s s'"
proof -
  have lim: "es_effect L (inp, req) s s' \<and> es_confined s s'"
    if "enforce_rate L G inp key p k s = (r, s')"
      "\<And>s1 r1 s2. paths_apart s1 \<Longrightarrow> k s1 = (r1, s2) \<Longrightarrow> es_effect L (inp, req) s1 s2 \<and> es_confined s1 s2" for key p k
    using limited_effect[OF _ assms(2)] that unfolding enforce_rate_def by blast
  have "es_effect L (inp, req) s s' \<and> es_confined s s'" if "s' = s"
    using commit_or_same[of s' s] assms(2) that by blast
  then show ?thesis
    using assms(1) lim[OF _ create_event_effect] lim[OF _ create_team_effect] lim[OF _ ingest_event_effect]
    by (simp add: es_post_def split: if_splits list.splits)
qed

lemma es_handle_effect:
  assumes "es_handle_connection L G q s = (r, s')" "paths_apart s"
  shows "es_effect L q s s' \<and> es_confined s s'"
proof (rule limited_effect[OF assms(1)[unfolded es_handle_connection_def] assms(2)])
  fix s1 r1 s2
  assume p: "paths_apart s1" and c: "es_route L G q s1 = (r1, s2)"
  then have "s2 = s1 \<or> es_post L G (fst q) (snd q) s1 = (r1, s2)"
    by (auto simp: es_route_def Let_def split: if_splits)
  then show "es_effect L q s1 s2 \<and> es_confined s1 s2"
    using es_post_effect[of L G "fst q" "snd q" s1 r1 s2] p commit_or_same[of s2 s1] by (cases q) auto
qed

definition es_run :: "('m) es_lib_scheme \<Rightarrow> 'g net_env \<Rightarrow> (es_in \<times> http_request) list \<Rightarrow> 'g app_state \<Rightarrow> 'g app_state" where
  "es_run L G qs s = fold (\<lambda>q s. snd (es_handle_connection L G q s)) qs s"

lemma es_run_snoc: "es_run L G (qs @ [q]) s = snd (es_handle_connection L G q (es_run L G qs s))"
  by (simp add: es_run_def)

lemma es_run_confined: "paths_apart s \<Longrightarrow> es_confined s (es_run L G qs s)"
proof (induction qs rule: rev_induct)
  case Nil
  then show ?case by (simp add: es_run_def es_confined_def es_frame_def)
next
  case (snoc q qs)
  let ?s = "es_run L G qs s"
  have c: "es_confined s ?s" using snoc by simp
  then have "paths_apart ?s" using snoc.prems paths_apart_frame by (auto simp: es_confined_def)
  then have "es_confined ?s (snd (es_handle_connection L G q ?s))"
    using es_handle_effect[of L G q ?s] by (metis prod.collapse)
  with c show ?case by (simp add: es_run_snoc es_confined_trans)
qed

lemma sat_add_count: "unat (fold (\<lambda>_ n. sat_add n 1) bs (n :: u64)) = min (unat n + length bs) (2 ^ 64 - 1)"
proof (induction bs arbitrary: n)
  case Nil
  then show ?case using unat_u64[of n] by simp
next
  case (Cons b bs)
  show ?case
    by (simp only: fold_simps Cons.IH unat_sat_add unat_1) simp
qed

definition recorded ::
    "('m) es_lib_scheme \<Rightarrow> (es_in \<times> http_request) list \<Rightarrow> 'g app_state \<Rightarrow> 'g app_state \<Rightarrow> str \<Rightarrow> bytes list \<Rightarrow> bool" where
  "recorded L qs s s' eid bs \<longleftrightarrow>
     cap s' eid = cap s eid @ map (sha256_prefixed L) bs
     \<and> cnt s' eid = fold (\<lambda>_ n. sat_add n 1) bs (cnt s eid)
     \<and> (log_id_ok eid \<longrightarrow> es_log s' eid = es_log s eid @ concat (map (capture_line L) bs))
     \<and> (distinct (cap s eid) \<longrightarrow> distinct (cap s' eid))
     \<and> list_all (\<lambda>b. log_id_ok eid \<and> list_ex (\<lambda>q. admitted L q b) qs) bs"

lemma es_step_distinct: "es_step L q s s' eid bs \<Longrightarrow> distinct (cap s eid) \<Longrightarrow> distinct (cap s' eid)"
  by (auto simp: es_step_def)

lemma recorded_step:
  assumes "recorded L qs s0 s eid bs" "es_step L q s s' eid new"
  shows "recorded L (qs @ [q]) s0 s' eid (bs @ new)"
proof -
  have "distinct (cap s0 eid) \<longrightarrow> distinct (cap s' eid)"
    using assms(1) es_step_distinct[OF assms(2)] unfolding recorded_def by blast
  moreover have "list_all (\<lambda>b. log_id_ok eid \<and> list_ex (\<lambda>q. admitted L q b) (qs @ [q])) (bs @ new)"
    using assms by (auto simp: recorded_def es_step_def list_all_iff)
  ultimately show ?thesis using assms by (simp add: recorded_def es_step_def)
qed

lemma es_run_recorded:
  assumes "paths_apart s"
  shows "\<exists>bs. recorded L qs s (es_run L G qs s) eid bs"
proof (induction qs rule: rev_induct)
  case Nil
  then show ?case by (intro exI[of _ "[]"]) (simp add: recorded_def es_run_def)
next
  case (snoc q qs)
  let ?s = "es_run L G qs s" and ?s' = "snd (es_handle_connection L G q (es_run L G qs s))"
  obtain bs where bs: "recorded L qs s ?s eid bs" using snoc by auto
  have "paths_apart ?s" using es_run_confined[OF assms, of L G qs] paths_apart_frame[of s ?s] assms by (simp add: es_confined_def)
  then have "es_effect L q ?s ?s'" using es_handle_effect[of L G q ?s] by (metis prod.collapse)
  then obtain new where new: "es_step L q ?s ?s' eid new" unfolding es_effect_def by blast
  have "recorded L (qs @ [q]) s ?s' eid (bs @ new)"
    by (rule recorded_step[OF bs new])
  then show ?case by (auto simp: es_run_snoc)
qed

subsection \<open>Reading the log back\<close>

lemma load_log:
  assumes L: "b64_law L" and ne: "list_all (\<lambda>b. b \<noteq> []) bs" and id: "log_id_ok eid"
    and log: "opt_or (bt_get (files w) (log_path dir eid)) [] = concat (map (capture_line L) bs)"
    and ok: "\<not> faulty w (log_path dir eid)"
  shows "load_captured_events L dir eid w = Inr (List.map_filter (\<lambda>b. res_ok (event_from_cbor L b)) bs)"
proof (cases "bt_get (files w) (log_path dir eid)")
  case None
  then have "concat (map (capture_line L) bs) = []" using log by (simp add: opt_or_def)
  then have "bs = []" by (cases bs) (auto simp: capture_line_def)
  with None id show ?thesis by (simp add: load_captured_events_def fs_exists_def map_filter_simps)
next
  case (Some body)
  then have body: "body = concat (map (capture_line L) bs)" using log by (simp add: opt_or_def)
  have "b64_encode L b \<noteq> []" if "b \<in> set bs" for b using L ne that by (auto simp: b64_law_def list_all_iff)
  then have "filter (\<lambda>l. trim l \<noteq> []) (lines body) = map (b64_encode L) bs"
    using L by (auto simp: body lines_log b64_text filter_id_conv)
  moreover have "rmap (\<lambda>l. ok_or (b64_decode L (trim l)) EsLogBase64) (map (b64_encode L) bs) = Inr bs"
  proof -
    have "ok_or (b64_decode L (trim (b64_encode L b))) EsLogBase64 = Inr b" for b
      using L b64_text(1)[OF L, of b] by (simp add: b64_law_def)
    then show ?thesis by (induction bs) simp_all
  qed
  moreover have "read_to_string w (log_path dir eid) = Some body"
    using Some ok utf8_valid_ascii[OF is_ascii_log[OF L]] by (simp add: read_to_string_def fs_read_def body)
  ultimately show ?thesis
    using Some id by (simp add: load_captured_events_def fs_exists_def Let_def)
qed

subsection \<open>Statuses\<close>

text \<open>\<open>answers A r\<close>: when the handler answers at all, its status is in \<open>A\<close>.\<close>

definition answers :: "nat set \<Rightarrow> es_error handler_error + http_response \<Rightarrow> bool" where
  "answers A r \<longleftrightarrow> (\<forall>resp. r = Inr resp \<longrightarrow> status resp \<in> A)"

lemma answers_json: "st \<in> A \<Longrightarrow> answers A (write_json L st v)"
  by (auto simp: answers_def write_json_def write_json_with_headers_def write_response_with_headers_def split: option.splits)

lemma answers_not_found: "404 \<in> A \<Longrightarrow> answers A (not_found_json L what)"
  by (simp add: not_found_json_def answers_json)

lemma answers_response: "st \<in> A \<Longrightarrow> answers A (Inr (write_response_with_headers st ct hs b))"
  "st \<in> A \<Longrightarrow> answers A (Inr (write_response st ct b))"
  by (simp_all add: answers_def write_response_def write_response_with_headers_def)

lemma answers_rbind: "(\<And>x. m = Inr x \<Longrightarrow> answers A (k x)) \<Longrightarrow> answers A (rbind m k)"
  by (cases m) (auto simp: answers_def)

lemma answers_context: "answers A absent \<Longrightarrow> (\<And>x. answers A (k x)) \<Longrightarrow> answers A (with_context L eid tm s absent k)"
  unfolding with_context_def by (rule answers_rbind) (simp split: option.splits)

lemmas answers_intros = answers_json answers_not_found answers_response answers_rbind answers_context

lemma ingest_admit_refuses: "ingest_admit L inp eid req st = Inl r \<Longrightarrow> answers {400, 404, 422} r"
proof -
  have e: "map_err f m = Inl r \<Longrightarrow> (\<And>x. answers A (f x)) \<Longrightarrow> answers A r" for f A and m :: "'x + 'y"
    by (cases m) auto
  have o: "ok_or m d = Inl r \<Longrightarrow> r = d" for m :: "'x option" and d by (cases m) auto
  show "ingest_admit L inp eid req st = Inl r \<Longrightarrow> answers {400, 404, 422} r"
    unfolding ingest_admit_def rbind_Inl_iff
    by (elim disjE exE conjE; (erule e)?) (auto simp: ensure_def intro: answers_intros dest!: o split: if_splits)
qed

lemma es_team_route_status: "answers {200, 400, 404} (es_team_route L inp req eid tm leaf s)"
  by (simp add: es_team_route_def team_cvm_page_def team_cvm_embed_page_def team_cvm_svg_def
      team_individual_signal_svg_def team_individual_signal_def team_cvm_qr_svg_def team_cvm_proof_def
      team_cvm_receipts_def team_cvm_credential_def team_cvm_def svg_not_found_def svg_response_def answers_intros)

lemma es_event_route_status: "answers {200, 400, 404} (es_event_route L eid leaf s)"
  by (simp add: es_event_route_def join_page_def dashboard_page_def bootstrap_document_def event_cvms_def answers_intros
      split: option.splits)

lemma es_get_status: "answers {200, 400, 404} (es_get L inp req s)"
  by (simp add: es_get_def Let_def oembed_document_def answers_intros es_team_route_status es_event_route_status
      split: list.splits option.splits)

subsection \<open>Durability\<close>

text \<open>The derived store codec: what it encodes is UTF-8 text that decodes to the same store.\<close>

definition store_law :: "('m) es_lib_scheme \<Rightarrow> bool" where
  "store_law L \<longleftrightarrow> (\<forall>st b. ser_store L st = Some b \<longrightarrow> de_store L b = Some st \<and> utf8_valid b)"

definition saved :: "('m) es_lib_scheme \<Rightarrow> 'g app_state \<Rightarrow> bool" where
  "saved L s \<longleftrightarrow> (\<exists>b. ser_store L (es_store s) = Some b \<and> fs_read (disk s) (ec_store_path (es_cfg s)) = Inr b)"

lemma saved_reloads:
  assumes "saved L s" "store_law L"
  shows "load_store L (disk s) (ec_store_path (es_cfg s)) = Inr (es_store s)"
proof -
  obtain b where b: "ser_store L (es_store s) = Some b" "fs_read (disk s) (ec_store_path (es_cfg s)) = Inr b"
    using assms(1) by (auto simp: saved_def)
  then have "de_store L b = Some (es_store s)" "utf8_valid b" using assms(2) by (auto simp: store_law_def)
  moreover have "fs_exists (disk s) (ec_store_path (es_cfg s))"
    using b(2) by (auto simp: fs_exists_def fs_read_def res_simps split: if_splits)
  ultimately show ?thesis using b(2) by (simp add: load_store_def read_to_string_def)
qed

lemma commit_store_saved: "commit_store L ans s = (Inr resp, s') \<Longrightarrow> saved L s'"
  using commit_store_frame(4)[of L ans s "Inr resp" s' resp] by (simp add: saved_def)

lemma create_event_saved: "create_event L inp req s = (Inr resp, s') \<Longrightarrow> saved L s'"
  by (auto simp: create_event_def Let_def dest: commit_store_saved split: option.splits if_splits)

lemma create_team_saved:
  assumes "create_team L inp eid req s = (Inr resp, s')" "status resp \<noteq> 404"
  shows "saved L s'"
  using assms answers_not_found[of "{404}" L "''event not found''"]
  by (auto simp: create_team_def Let_def answers_def dest: commit_store_saved split: option.splits if_splits)

lemma ingest_event_saved:
  assumes "ingest_event L inp eid req s = (Inr resp, s')" "status resp \<notin> {400, 404, 422}"
  shows "saved L s' \<and> (\<exists>c. ingest_admit L inp eid req (es_store s) = Inr c)"
proof (cases "ingest_admit L inp eid req (es_store s)")
  case (Inl r)
  then have "answers {400, 404, 422} r" "r = Inr resp"
    using ingest_admit_refuses assms(1) by (auto simp: ingest_event_def)
  then show ?thesis using assms(2) by (simp add: answers_def)
next
  case (Inr c)
  then have "ingest_commit L eid req s = (Inr resp, s')" using assms(1) by (simp add: ingest_event_def)
  then show ?thesis
    using Inr assms(2) answers_not_found[of "{404}" L "''event not found''"]
    by (auto simp: ingest_commit_def Let_def answers_def dest: commit_store_saved split: if_splits sum.splits)
qed

lemma es_post_saved:
  assumes "es_post L G inp req s = (Inr resp, s')" "status resp \<in> {201, 202}"
  shows "saved L s'"
proof -
  have nf: "not_found_json L w \<noteq> Inr resp" for w
    using assms(2) answers_not_found[of "{404}" L w] by (auto simp: answers_def)
  have team: "create_team L inp eid req s1 = (Inr resp, s') \<Longrightarrow> saved L s'" for eid s1
    by (rule create_team_saved) (use assms(2) in auto)
  have ingest: "ingest_event L inp eid req s1 = (Inr resp, s') \<Longrightarrow> saved L s'" for eid s1
    using ingest_event_saved[of L inp eid req s1 resp s'] assms(2) by auto
  have lim: "saved L s'" if "enforce_rate L G inp key p k s = (Inr resp, s')" "\<And>s1. k s1 = (Inr resp, s') \<Longrightarrow> saved L s'" for key p k
    using limited_frame[OF that(1)[unfolded enforce_rate_def]] that(2) assms(2) by force
  show ?thesis
    using assms(1) lim[OF _ create_event_saved] lim[OF _ team] lim[OF _ ingest] nf
    by (simp add: es_post_def split: if_splits list.splits)
qed

subsection \<open>A reference instance\<close>

definition ref_es :: es_lib where
  "ref_es = (llm_lib.extend ref_llm (es_lib.fields (\<lambda>_. Some ''store'') (\<lambda>_. None) (\<lambda>_. None) (\<lambda>_. None)
     (\<lambda>_. None) (\<lambda>_ _. ''1'') (\<lambda>_. [])))\<lparr>de_event := (\<lambda>b. if b = ''evt'' then Inr ref_event else Inl ''unknown'')\<rparr>"

definition ref_es_config :: es_config where
  "ref_es_config = es_finish_args (\<lambda>_. None) es_args_default"

definition ref_es_state :: "nat app_state" where
  "ref_es_state = \<lparr>limiter = ref_limiter [], disk = ref_fs, es_cfg = ref_es_config, es_store = store_default\<rparr>"

definition ref_es_in :: es_in where
  "ref_es_in = \<lparr>ei_peer = ''1.2.3.4'', ei_clock = (10, 0), ei_clock2 = (10, 0), ei_now = 10, ei_random = ''r'',
     ei_random2 = ''o'', ei_fetch = (\<lambda>_. SendFailed)\<rparr>"

definition ref_es_create :: "es_in \<times> http_request" where
  "ref_es_create = (ref_es_in, \<lparr>req_method = ''POST'', req_path = ''/events'', req_headers = [], req_body = []\<rparr>)"

definition ref_es_ingest :: "es_in \<times> http_request" where
  "ref_es_ingest = (ref_es_in, \<lparr>req_method = ''POST'', req_path = ''/e/hk_72/events'', req_headers = [], req_body = ''evt''\<rparr>)"

lemma ref_es_b64: "b64_law ref_es"
proof -
  have "b64_encode ref_es = b64_encode ref_lib" "b64_decode ref_es = b64_decode ref_lib"
    by (simp_all add: ref_es_def llm_lib.extend_def es_lib.fields_def ref_llm_def lib.extend_def llm_lib.fields_def)
  then show ?thesis using ref_lib_b64_law by (simp add: b64_law_def)
qed

lemma ref_es_paths: "paths_apart ref_es_state"
proof -
  have "last (log_path dir eid) = CHR ''l''" if "log_id_ok eid" for dir eid using that by (simp add: log_path_eq)
  moreover have "last (ec_store_path (es_cfg ref_es_state)) \<noteq> CHR ''l''" "last (lim_path (limiter ref_es_state)) \<noteq> CHR ''l''"
    by (simp_all add: ref_es_state_def ref_es_config_def es_finish_args_def Let_def es_config.truncate_def
        es_args_default_def ref_limiter_def)
  ultimately show ?thesis unfolding paths_apart_def by (metis insert_iff singletonD)
qed

lemma ref_es_captures: "cap (es_run ref_es ref_net_any [ref_es_create, ref_es_ingest, ref_es_ingest] ref_es_state) ''hk_72''
    = [sha256_prefixed ref_es ''evt'']"
  by code_simp

subsection \<open>Properties\<close>

text \<open>
  Whatever requests the service serves, the index, the counters and the log of an event grow by
  exactly the same accepted bodies: each was posted, decodes to a contest event and, where it
  claims attestation, was validated; the index gains the hash of each, once; the log one line for
  each, in order, behind what it held; and the counter their number, saturating.
\<close>

lemma captures_are_recorded:
  assumes "paths_apart s"
  shows "\<exists>bs. recorded L qs s (es_run L G qs s) eid bs
     \<and> unat (cnt (es_run L G qs s) eid) = min (unat (cnt s eid) + length bs) (2 ^ 64 - 1)"
proof -
  obtain bs where "recorded L qs s (es_run L G qs s) eid bs" using es_run_recorded[OF assms] by blast
  then show ?thesis using sat_add_count[of bs "cnt s eid"] by (auto simp: recorded_def)
qed

text \<open>
  C19: what the cards are computed from is what was accepted: for an event that starts with an empty
  log, reading the log back gives exactly the events of the accepted bodies, in the order they
  were accepted, each once.
\<close>

theorem log_reads_back:
  assumes "b64_law L" "paths_apart s" "log_id_ok eid" "es_log s eid = []" "cap s eid = []"
    and "\<not> faulty (disk s) (log_path (ec_event_log_dir (es_cfg s)) eid)"
  shows "\<exists>bs. cap (es_run L G qs s) eid = map (sha256_prefixed L) bs \<and> distinct bs
     \<and> list_all (\<lambda>b. list_ex (\<lambda>q. admitted L q b) qs) bs
     \<and> load_captured_events L (ec_event_log_dir (es_cfg s)) eid (disk (es_run L G qs s))
       = Inr (map (\<lambda>b. the (res_ok (event_from_cbor L b))) bs)"
proof -
  let ?s = "es_run L G qs s" and ?dir = "ec_event_log_dir (es_cfg s)"
  obtain bs where bs: "recorded L qs s ?s eid bs" using es_run_recorded[OF assms(2)] by blast
  have fr: "es_frame s ?s" using es_run_confined[OF assms(2), of L G qs] by (simp add: es_confined_def)
  have adm: "list_all (\<lambda>b. list_ex (\<lambda>q. admitted L q b) qs) bs" using bs by (auto simp: recorded_def list_all_iff)
  then have ne: "list_all (\<lambda>b. b \<noteq> []) bs" and dec: "\<And>b. b \<in> set bs \<Longrightarrow> \<exists>c. event_from_cbor L b = Inr c"
    by (auto simp: list_all_iff list_ex_iff admitted_def)
  have "load_captured_events L ?dir eid (disk ?s) = Inr (List.map_filter (\<lambda>b. res_ok (event_from_cbor L b)) bs)"
    by (rule load_log[OF assms(1) ne assms(3)])
       (use bs fr assms(3,4,6) in \<open>auto simp: recorded_def es_frame_def es_log_def\<close>)
  moreover have "List.map_filter (\<lambda>b. res_ok (event_from_cbor L b)) bs = map (\<lambda>b. the (res_ok (event_from_cbor L b))) bs"
    using dec by (induction bs) (force simp: map_filter_simps)+
  moreover have "distinct bs" using bs assms(5) by (auto simp: recorded_def distinct_map)
  ultimately show ?thesis using bs adm assms(5) by (intro exI[of _ bs]) (simp add: recorded_def)
qed

theorem log_reads_back_witness:
  "\<exists>bs. map (sha256_prefixed ref_es) bs = [sha256_prefixed ref_es ''evt''] \<and> load_captured_events ref_es
     (ec_event_log_dir ref_es_config) ''hk_72'' (disk (es_run ref_es ref_net_any [ref_es_create, ref_es_ingest, ref_es_ingest] ref_es_state))
     = Inr (map (\<lambda>b. the (res_ok (event_from_cbor ref_es b))) bs)"
proof -
  have 1: "log_id_ok ''hk_72''" "es_log ref_es_state ''hk_72'' = []" "cap ref_es_state ''hk_72'' = []" by code_simp+
  have 2: "\<not> faulty (disk ref_es_state) (log_path (ec_event_log_dir (es_cfg ref_es_state)) ''hk_72'')"
    by (simp add: ref_es_state_def ref_fs_def)
  have 3: "es_cfg ref_es_state = ref_es_config" by (simp add: ref_es_state_def)
  show ?thesis
    using log_reads_back[OF ref_es_b64 ref_es_paths 1 2, of ref_net_any "[ref_es_create, ref_es_ingest, ref_es_ingest]"]
      ref_es_captures unfolding 3 by (metis (no_types))
qed

text \<open>
  C18: an acknowledged mutation survives a restart: when the service has answered 201 or 202, loading
  the store from its file gives exactly the store in memory.
\<close>

theorem acknowledged_is_durable:
  assumes "store_law L" "es_handle_connection L G q s = (Inr resp, s')" "status resp = 201 \<or> status resp = 202"
  shows "load_store L (disk s') (ec_store_path (es_cfg s')) = Inr (es_store s')"
proof (rule saved_reloads[OF _ assms(1)])
  have route: "saved L s'" if r: "es_route L G q s1 = (Inr resp, s')" for s1
  proof -
    have "status (write_response 204 ''text/plain'' []) = 204" by (simp add: write_response_def write_response_with_headers_def)
    moreover have "status r \<notin> {201, 202}" if "es_get L (fst q) (snd q) s1 = Inr r" for r
      using es_get_status[of L "fst q" "snd q" s1] that by (auto simp: answers_def)
    moreover have "status r \<notin> {201, 202}" if "not_found_json L w = Inr r" for w r
      using answers_not_found[of "{404}" L w] that by (auto simp: answers_def)
    ultimately have "es_post L G (fst q) (snd q) s1 = (Inr resp, s')"
      using r assms(3) by (auto simp: es_route_def Let_def split: if_splits)
    then show ?thesis using es_post_saved assms(3) by blast
  qed
  from limited_frame[OF assms(2)[unfolded es_handle_connection_def]] show "saved L s'"
    using route assms(3) by force
qed

definition ref_es_store :: event_store where
  "ref_es_store = add_event (new_event_record ref_lib ref_es_config ref_es_in \<lparr>ce_name = None, ce_event_type = None,
     ce_gateway_base_url = None, ce_gateway_manifest_url = None, ce_cvm_receipt_url = None, ce_scoring = None,
     ce_cvm_visibility = None\<rparr>) store_default"

definition ref_es_codec :: es_lib where
  "ref_es_codec = ref_es\<lparr>ser_store := (\<lambda>st. if st = ref_es_store then Some ''store'' else None),
     de_store := (\<lambda>b. if b = ''store'' then Some ref_es_store else None)\<rparr>"

theorem acknowledged_is_durable_witness:
  "\<exists>resp s'. es_handle_connection ref_es_codec ref_net_any ref_es_create ref_es_state = (Inr resp, s') \<and> status resp = 201
     \<and> load_store ref_es_codec (disk s') (ec_store_path (es_cfg s')) = Inr (es_store s')"
proof -
  have "utf8_valid ''store''" by code_simp
  then have law: "store_law ref_es_codec" by (auto simp: store_law_def ref_es_codec_def split: if_splits)
  obtain r s' where c: "es_handle_connection ref_es_codec ref_net_any ref_es_create ref_es_state = (r, s')"
    by (metis prod.collapse)
  have "map_option status (res_ok (fst (es_handle_connection ref_es_codec ref_net_any ref_es_create ref_es_state))) = Some 201"
    by code_simp
  with c obtain resp where "r = Inr resp" "status resp = 201" by (auto simp: res_simps)
  with acknowledged_is_durable[OF law, of ref_net_any ref_es_create ref_es_state resp s'] c show ?thesis by auto
qed

lemma fetched_Inr_iff [res_simps]: "fetched err f = Inr b \<longleftrightarrow> f = Fetched b"
  by (cases f) (auto simp: fetched_def)

text \<open>
  C5: an accepted event that claims attestation came with evidence. The gateway manifest that the
  event's record points at was fetched and has the hash the event names; the event is signed by the
  key that manifest publishes; the receipt that manifest points at was fetched, is the one it pins,
  and decodes to a token all of whose stages verify on platforms the manifest accepts; and the
  event's own evidence is that of the claim.
\<close>

theorem attested_capture_verified:
  assumes "ingest_event L inp eid req s = (Inr resp, s')" "status resp = 202"
    and "event_from_cbor L (req_body req) = Inr c" "assurance c = ''attested''"
  shows "\<exists>e mb man key receipt eat claim. bt_get (st_events (es_store s)) eid = Some e
     \<and> ei_fetch inp (er_gateway_manifest_url e) = Fetched mb \<and> manifest_from_cbor L mb = Inr man
     \<and> manifest_hash_of L man = Inr (manifest_hash c)
     \<and> event_verifying_key L man = Inr key \<and> event_verify L key c = Inr ()
     \<and> ei_fetch inp (cvm_receipt_url (man_trust_policy man)) = Fetched receipt
     \<and> sha256_prefixed L receipt = man_cvm_receipt_hash man \<and> capture_method c \<in> set (capture_methods man)
     \<and> eat_from_cbor L receipt = Inr eat
     \<and> normalize_value_x (man_value_x man) = normalize_value_x (sha384_label L (eat_value_x eat))
     \<and> (\<forall>t. stage_of L eat t \<longrightarrow>
          (\<exists>p ms. good_stage L (accepted_tee_platforms (man_trust_policy man)) (eat_value_x eat) t p ms))
     \<and> event_matches_capture_ra_claim c claim \<and> ra_cvm_receipt_hash claim = sha256_prefixed L receipt"
proof -
  obtain c' where "ingest_admit L inp eid req (es_store s) = Inr c'"
    using ingest_event_saved[OF assms(1)] assms(2) by auto
  then obtain e where e: "bt_get (st_events (es_store s)) eid = Some e"
    and v: "validate_attested_capture_event L (ei_fetch inp) e c = Inr ()"
    using assms(3) by (auto simp: ingest_admit_def res_simps)
  obtain enf mb man mh key receipt claim where
      m: "ei_fetch inp (er_gateway_manifest_url e) = Fetched mb" "manifest_from_cbor L mb = Inr man"
        "manifest_hash_of L man = Inr mh" "manifest_hash c = mh" "event_verifying_key L man = Inr key"
        "event_verify L key c = Inr ()" "ei_fetch inp (cvm_receipt_url (man_trust_policy man)) = Fetched receipt"
    and cl: "build_capture_ra_claim L man mh receipt (capture_method c) (assurance c) enf = Inr claim"
      "event_matches_capture_ra_claim c claim"
    using v assms(4) by (auto simp: validate_attested_capture_event_def res_simps Let_def)
  with build_claim_verified[OF cl(1)] e show ?thesis by (auto intro!: exI[of _ e])
qed

definition ref_att_manifest :: contest_manifest where
  "ref_att_manifest = ref_manifest\<lparr>man_value_x := ''sha384:7678'', man_trust_policy := self_hosted [''tdx''] ''https://gw/receipt'' []\<rparr>"

definition ref_att_lib :: es_lib where
  "ref_att_lib = ref_es\<lparr>eat_from_cbor := (\<lambda>_. Inr ref_eat), de_manifest := (\<lambda>_. Inr ref_att_manifest)\<rparr>"

definition ref_att_event :: contest_event where
  "ref_att_event =
     (let h = sha256_prefixed ref_lib ''manifest'';
          claim = the (res_ok (build_capture_ra_claim ref_att_lib ref_att_manifest h ''receipt'' ''gateway_proxy'' ''attested'' ''routed''));
          unsigned = ref_event\<lparr>assurance := ''attested'', manifest_hash := h,
            evidence := insert_capture_ra_evidence [(''enforcement_mode'', ''routed'')] claim\<rparr>
      in the (res_ok (event_sign ref_att_lib ''k'' unsigned)))"

definition ref_att_es :: es_lib where
  "ref_att_es = ref_att_lib\<lparr>de_event := (\<lambda>b. if b = ''att'' then Inr ref_att_event else Inl ''unknown'')\<rparr>"

definition ref_att_in :: es_in where
  "ref_att_in = ref_es_in\<lparr>ei_fetch := (\<lambda>u. if u = ''https://gw/receipt'' then Fetched ''receipt'' else Fetched ''manifest'')\<rparr>"

definition ref_att_req :: http_request where
  "ref_att_req = \<lparr>req_method = ''POST'', req_path = ''/e/hk_72/events'', req_headers = [], req_body = ''att''\<rparr>"

definition ref_att_state :: "nat app_state" where
  "ref_att_state = es_run ref_es ref_net_any [ref_es_create] ref_es_state"

theorem attested_capture_verified_witness:
  "\<exists>resp s'. ingest_event ref_att_es ref_att_in ''hk_72'' ref_att_req ref_att_state = (Inr resp, s') \<and> status resp = 202
     \<and> (\<exists>man key. event_verifying_key ref_att_es man = Inr key \<and> event_verify ref_att_es key ref_att_event = Inr ())"
proof -
  obtain r s' where c: "ingest_event ref_att_es ref_att_in ''hk_72'' ref_att_req ref_att_state = (r, s')"
    by (metis prod.collapse)
  have "map_option status (res_ok (fst (ingest_event ref_att_es ref_att_in ''hk_72'' ref_att_req ref_att_state))) = Some 202"
    by code_simp
  with c obtain resp where r: "r = Inr resp" "status resp = 202" by (auto simp: res_simps)
  have e: "event_from_cbor ref_att_es (req_body ref_att_req) = Inr ref_att_event" "assurance ref_att_event = ''attested''"
    by code_simp+
  from attested_capture_verified[OF c[unfolded r(1)] r(2) e] c r show ?thesis by blast
qed

subsection \<open>Replays and files\<close>

lemma acknowledged_in_index:
  assumes "ingest_event L inp eid req s = (Inr resp, s')" "status resp = 202"
  shows "sha256_prefixed L (req_body req) \<in> set (cap s' eid)"
proof -
  obtain c where "ingest_admit L inp eid req (es_store s) = Inr c" using ingest_event_saved[OF assms(1)] assms(2) by auto
  then have i: "ingest_commit L eid req s = (Inr resp, s')" using assms(1) by (simp add: ingest_event_def)
  have nf: "not_found_json L w \<noteq> Inr resp" for w
    using assms(2) answers_not_found[of "{404}" L w] by (auto simp: answers_def)
  have st: "commit_store L ans s1 = (Inr resp, s') \<Longrightarrow> es_store s' = es_store s1" for ans s1
    by (rule commit_store_frame(1))
  show ?thesis
    using i nf cap_record[of eid _ _ eid]
    by (auto simp: ingest_commit_def Let_def cap_def opt_or_or_insert dest!: st split: if_splits sum.splits)
qed

lemma es_run_cap_grows: "paths_apart s \<Longrightarrow> set (cap s eid) \<subseteq> set (cap (es_run L G qs s) eid)"
  using es_run_recorded[of s L qs G eid] by (auto simp: recorded_def)

lemma replay_commit:
  assumes "sha256_prefixed L (req_body req) \<in> set (cap s eid)" "ingest_event L inp eid req s = (r, s')"
  shows "same_captures (es_store s) (es_store s')"
    and "r = Inr resp \<Longrightarrow> status resp = 202
      \<Longrightarrow> write_json L 202 (accepted_value True (sha256_prefixed L (req_body req)) (cnt s eid))
          = (Inr resp :: es_error handler_error + http_response)"
    and "q \<noteq> ec_store_path (es_cfg s) \<Longrightarrow> bt_get (files (disk s')) q = bt_get (files (disk s)) q"
proof -
  let ?dup = "write_json L 202 (accepted_value True (sha256_prefixed L (req_body req)) (cnt s eid)) :: es_error handler_error + http_response"
  let ?st = "(es_store s)\<lparr>st_captured_events := bt_or_insert eid [] (st_captured_events (es_store s))\<rparr>"
  have st: "same_captures (es_store s) ?st" by (simp add: same_captures_def opt_or_or_insert)
  have nf: "status p = 404" if "not_found_json L w = Inr p" for w p
    using that answers_not_found[of "{404}" L w] by (auto simp: answers_def)
  have c: "s' = s \<and> (\<forall>p. r = Inr p \<longrightarrow> status p \<noteq> 202) \<or> commit_store L ?dup (s\<lparr>es_store := ?st\<rparr>) = (r, s')"
  proof (cases "ingest_admit L inp eid req (es_store s)")
    case (Inl a)
    then show ?thesis using assms(2) ingest_admit_refuses[OF Inl] by (auto simp: ingest_event_def answers_def)
  next
    case (Inr x)
    then show ?thesis using assms nf
      by (auto simp: ingest_event_def ingest_commit_def Let_def cap_def cnt_def opt_or_or_insert split: if_splits)
  qed
  then show "same_captures (es_store s) (es_store s')"
    using st commit_store_frame(1) by (force simp: same_captures_def)
  show "?dup = Inr resp" if "r = Inr resp" "status resp = 202"
    using c that commit_store_frame(4)[of L ?dup "s\<lparr>es_store := ?st\<rparr>" r s' resp] by auto
  show "bt_get (files (disk s')) q = bt_get (files (disk s)) q" if "q \<noteq> ec_store_path (es_cfg s)"
    using c that commit_store_frame(3)[of L ?dup "s\<lparr>es_store := ?st\<rparr>" r s' q] by auto
qed

text \<open>Events are never removed.\<close>

definition events_stay :: "'g app_state \<Rightarrow> 'g app_state \<Rightarrow> bool" where
  "events_stay s s' \<longleftrightarrow> (\<forall>x. bt_get (st_events (es_store s)) x \<noteq> None \<longrightarrow> bt_get (st_events (es_store s')) x \<noteq> None)"

lemma events_stay_commit: "commit_store L ans s1 = (r, s') \<Longrightarrow> events_stay s s1 \<Longrightarrow> events_stay s s'"
  by (simp add: events_stay_def commit_store_frame(1))

lemma events_stay_same: "st_events (es_store s') = st_events (es_store s) \<Longrightarrow> events_stay s s'"
  by (simp add: events_stay_def)

lemma create_event_stay: "create_event L inp req s = (r, s') \<Longrightarrow> events_stay s s'"
  by (auto simp: create_event_def Let_def events_stay_def add_event_def bt_get_insert dest!: commit_store_frame(1)
      split: option.splits if_splits)

lemma create_team_stay: "create_team L inp eid req s = (r, s') \<Longrightarrow> events_stay s s'"
  by (auto simp: create_team_def Let_def events_stay_def add_team_def dest!: commit_store_frame(1)
      split: option.splits if_splits)

lemma ingest_event_stay: "ingest_event L inp eid req s = (r, s') \<Longrightarrow> events_stay s s'"
  by (auto simp: ingest_event_def ingest_commit_def Let_def record_capture_def intro!: events_stay_same
      dest!: commit_store_frame(1) split: sum.splits if_splits)

lemma limited_stay:
  assumes "limited L' G now inst key p k s = (r, s')" "\<And>s1 r1 s2. k s1 = (r1, s2) \<Longrightarrow> events_stay s1 s2"
  shows "events_stay s s'"
proof -
  obtain l w where "k (s\<lparr>limiter := l, disk := w\<rparr>) = (r, s') \<or> s' = s\<lparr>limiter := l, disk := w\<rparr>"
    by (rule limited_frame[OF assms(1)]) blast
  then show ?thesis using assms(2)[of "s\<lparr>limiter := l, disk := w\<rparr>" r s'] by (auto simp: events_stay_def)
qed

lemma es_handle_stay: "es_handle_connection L G q s = (r, s') \<Longrightarrow> events_stay s s'"
proof -
  have post: "events_stay s1 s2" if "es_post L G inp req s1 = (r1, s2)" for inp req s1 r1 s2
  proof -
    have lim: "events_stay s1 s2" if "enforce_rate L G inp key p k s1 = (r1, s2)"
        "\<And>a r b. k a = (r, b) \<Longrightarrow> events_stay a b" for key p k
      using limited_stay that unfolding enforce_rate_def by blast
    show ?thesis
      using that lim[OF _ create_event_stay] lim[OF _ create_team_stay] lim[OF _ ingest_event_stay] events_stay_same[of s2 s1]
      by (simp add: es_post_def split: if_splits list.splits)
  qed
  have "events_stay s1 s2" if "es_route L G q s1 = (r1, s2)" for s1 r1 s2
    using that post by (auto simp: es_route_def Let_def intro: events_stay_same split: if_splits)
  then show "es_handle_connection L G q s = (r, s') \<Longrightarrow> events_stay s s'"
    unfolding es_handle_connection_def using limited_stay by blast
qed

lemma es_run_stay: "events_stay s (es_run L G qs s)"
proof (induction qs rule: rev_induct)
  case (snoc q qs)
  have "events_stay (es_run L G qs s) (snd (es_handle_connection L G q (es_run L G qs s)))"
    using es_handle_stay by (metis prod.collapse)
  with snoc show ?case by (simp add: es_run_snoc events_stay_def)
qed (simp add: es_run_def events_stay_def)

lemma replay_answer:
  assumes "sha256_prefixed L (req_body req) \<in> set (cap s eid)" "ingest_event L inp eid req s = (r, s')"
    and "req_body req \<noteq> []" "event_from_cbor L (req_body req) = Inr c" "bt_get (st_events (es_store s)) eid = Some e"
  shows "case validate_attested_capture_event L (ei_fetch inp) e c of
      Inl err \<Rightarrow> assurance c = ''attested'' \<and> s' = s
        \<and> r = write_json L 422 (jobj [(''error'', JStr (''attested capture rejected: '' @ validate_error_message L err))])
    | Inr _ \<Rightarrow> r = write_json L 202 (accepted_value True (sha256_prefixed L (req_body req)) (cnt s eid))
        \<or> (\<exists>f. r = Inl (Failed f) \<and> save_store L (ec_store_path (es_cfg s)) (es_store s') (disk s) = Inl f)"
proof (cases "validate_attested_capture_event L (ei_fetch inp) e c")
  case (Inl err)
  moreover have "assurance c = ''attested''" using Inl by (auto simp: validate_attested_capture_event_def split: if_splits)
  ultimately show ?thesis using assms by (auto simp: ingest_event_def ingest_admit_def ensure_simps)
next
  case (Inr u)
  then have "ingest_commit L eid req s = (r, s')" using assms by (simp add: ingest_event_def ingest_admit_def ensure_simps)
  then show ?thesis
    using Inr assms(1,5)
    by (auto simp: ingest_commit_def Let_def cap_def cnt_def opt_or_or_insert commit_store_def split: sum.splits if_splits)
qed

text \<open>
  C23: posting an event again is harmless. Once a body was acknowledged for an event, and whatever
  the service served in between, the same body captures nothing more: no index, no counter and no
  log changes. The answer is an acknowledgement that reports a duplicate and the count as it stands. Two
  things can come instead: for an attested event whose documents, fetched again, no longer vouch for it, the
  refusal of that validation, and where the store cannot be saved, that failure.
\<close>

theorem replay_is_idempotent:
  assumes "paths_apart s" "ingest_event L inp eid req s = (Inr resp, s1)" "status resp = 202"
    and "s2 = es_run L G qs s1" "ingest_event L inp' eid req s2 = (r, s3)"
  shows "(\<forall>x. cap s3 x = cap s2 x \<and> cnt s3 x = cnt s2 x \<and> (log_id_ok x \<longrightarrow> es_log s3 x = es_log s2 x))
     \<and> (\<exists>c e. event_from_cbor L (req_body req) = Inr c \<and> bt_get (st_events (es_store s2)) eid = Some e
          \<and> (case validate_attested_capture_event L (ei_fetch inp') e c of
               Inl err \<Rightarrow> assurance c = ''attested'' \<and> s3 = s2
                 \<and> r = write_json L 422 (jobj [(''error'', JStr (''attested capture rejected: '' @ validate_error_message L err))])
             | Inr _ \<Rightarrow> r = write_json L 202 (accepted_value True (sha256_prefixed L (req_body req)) (cnt s2 eid))
                 \<or> (\<exists>f. r = Inl (Failed f) \<and> save_store L (ec_store_path (es_cfg s2)) (es_store s3) (disk s2) = Inl f)))"
proof -
  have f1: "es_frame s s1" using ingest_event_effect[OF assms(2,1)] by (simp add: es_confined_def)
  then have p1: "paths_apart s1" using assms(1) paths_apart_frame by blast
  have f2: "es_frame s1 s2" using es_run_confined[OF p1, of L G qs] by (simp add: es_confined_def assms(4))
  then have p2: "paths_apart s2" using p1 paths_apart_frame by blast
  have h: "sha256_prefixed L (req_body req) \<in> set (cap s2 eid)"
    using acknowledged_in_index[OF assms(2,3)] es_run_cap_grows[OF p1] assms(4) by blast
  have f3: "es_frame s2 s3" using ingest_event_effect[OF assms(5) p2] by (simp add: es_confined_def)
  have log: "es_log s3 x = es_log s2 x" if "log_id_ok x" for x
    using replay_commit(3)[OF h assms(5)] f3 p2 that by (auto simp: es_log_def es_frame_def paths_apart_def)
  obtain c where "ingest_admit L inp eid req (es_store s) = Inr c" using ingest_event_saved[OF assms(2)] assms(3) by auto
  then have c: "req_body req \<noteq> []" "event_from_cbor L (req_body req) = Inr c" "bt_get (st_events (es_store s)) eid \<noteq> None"
    by (auto simp: ingest_admit_def res_simps)
  obtain e where e: "bt_get (st_events (es_store s2)) eid = Some e"
    using c(3) ingest_event_stay[OF assms(2)] es_run_stay[of s1 L G qs] unfolding assms(4) events_stay_def by blast
  show ?thesis
    using replay_commit(1)[OF h assms(5)] log replay_answer[OF h assms(5) c(1,2) e] c(2) e
    by (auto simp: same_captures_def cap_def cnt_def)
qed

definition ref_served :: "nat app_state" where
  "ref_served = es_run ref_es ref_net_any [ref_es_create] ref_es_state"

theorem replay_is_idempotent_witness:
  "\<exists>resp s1. ingest_event ref_es ref_es_in ''hk_72'' (snd ref_es_ingest) ref_served = (Inr resp, s1) \<and> status resp = 202
     \<and> fst (ingest_event ref_es ref_es_in ''hk_72'' (snd ref_es_ingest) (es_run ref_es ref_net_any [ref_es_create] s1))
       = write_json ref_es 202 (accepted_value True (sha256_prefixed ref_es ''evt'')
           (cnt (es_run ref_es ref_net_any [ref_es_create] s1) ''hk_72''))
     \<and> cap (snd (ingest_event ref_es ref_es_in ''hk_72'' (snd ref_es_ingest) (es_run ref_es ref_net_any [ref_es_create] s1))) ''hk_72''
       = cap (es_run ref_es ref_net_any [ref_es_create] s1) ''hk_72''"
proof -
  have p: "paths_apart ref_served"
    using es_run_confined[OF ref_es_paths] ref_es_paths paths_apart_frame unfolding ref_served_def es_confined_def by blast
  obtain r s1 where c: "ingest_event ref_es ref_es_in ''hk_72'' (snd ref_es_ingest) ref_served = (r, s1)" by (metis prod.collapse)
  have "map_option status (res_ok (fst (ingest_event ref_es ref_es_in ''hk_72'' (snd ref_es_ingest) ref_served))) = Some 202"
    by code_simp
  with c obtain resp where r: "r = Inr resp" "status resp = 202" by (auto simp: res_simps)
  let ?s2 = "es_run ref_es ref_net_any [ref_es_create] s1"
  obtain r3 s3 where i: "ingest_event ref_es ref_es_in ''hk_72'' (snd ref_es_ingest) ?s2 = (r3, s3)" by (metis prod.collapse)
  have b: "req_body (snd ref_es_ingest) = ''evt''" by (simp add: ref_es_ingest_def)
  have ev: "case event_from_cbor ref_es ''evt'' of Inr c \<Rightarrow> assurance c \<noteq> ''attested'' | Inl _ \<Rightarrow> False" by code_simp
  have sv: "save_store ref_es path st w \<noteq> Inl f" if "faulty w = (\<lambda>_. False)" for path st w f
    using that
    by (simp add: save_store_def ensure_parent_def Let_def fs_write_def ref_es_def es_lib.defs llm_lib.extend_def ref_llm_def lib.extend_def
        llm_lib.fields_def)
  have "es_frame ref_es_state ref_served" using es_run_confined[OF ref_es_paths] unfolding ref_served_def es_confined_def by blast
  moreover have "es_frame ref_served s1" using ingest_event_effect[OF c p] by (simp add: es_confined_def)
  moreover have "es_frame s1 ?s2" using es_run_confined paths_apart_frame calculation(2) p unfolding es_confined_def by blast
  ultimately have "faulty (disk ?s2) = (\<lambda>_. False)" by (simp add: es_frame_def ref_es_state_def ref_fs_def)
  note saves = sv[OF this]
  have val: "validate_attested_capture_event ref_es f e c = Inr ()" if "event_from_cbor ref_es ''evt'' = Inr c" for f e c
    using ev that by (simp add: validate_attested_capture_event_def)
  from replay_is_idempotent[OF p c[unfolded r(1)] r(2) refl i] c r i saves
  show ?thesis unfolding b by (auto simp: val)
qed

text \<open>
  The service writes only its own files. Whatever is posted, to whatever event id, a run changes
  no file but the limiter's state, the store and logs whose names are a path-free event id in the
  log directory.
\<close>

lemma es_writes_confined:
  assumes "paths_apart s" "bt_get (files (disk (es_run L G qs s))) p \<noteq> bt_get (files (disk s)) p"
  shows "p = lim_path (limiter s) \<or> p = ec_store_path (es_cfg s)
     \<or> (\<exists>eid. p = log_path (ec_event_log_dir (es_cfg s)) eid
          \<and> (\<forall>c \<in> set eid. ascii_alnum c \<or> c = CHR ''_'' \<or> c = CHR ''-''))"
  using es_run_confined[OF assms(1), of L G qs] assms(2)
  by (auto simp: es_confined_def es_writable_def log_id_ok_def list_all_iff)

interpretation es: rate_limited_service L G "\<lambda>q. fst (ei_clock (fst q))" "\<lambda>q. snd (ei_clock (fst q))"
    "\<lambda>q. ''event-service:ip:'' @ ei_peer (fst q)" "\<lambda>q s. es_ip_policy s" "es_route L G"
    "es_handle_connection L G"
  for L :: "('m) es_lib_scheme" and G :: "'g net_env"
  by unfold_locales (simp add: es_handle_connection_def)

end
