(* ===== verification/Event_Concurrency.thy ===== *)
theory Event_Concurrency
  imports Http_Server Event_Service_Safety
begin

section \<open>The event service under concurrent requests\<close>

text \<open>
  The handler of \<open>src/bin/llm-event-service.rs\<close> as the server runs it, one section per lock it takes:
  the limiter's mutex for each rate check, the store's mutex for each mutation, and for an ingest two
  sections on the store, the event's record being copied out, the capture validated against documents
  fetched from the network with no lock held, and the outcome committed under the lock again. Other
  requests run between any two sections, and a peer that goes away drops what is left of its request.

  A page or document is one section: it changes nothing, and the captures it reads may already be
  newer than the store entry it read.

  The first group of lemmas shows that the sections run without interruption are
  \<open>es_handle_connection\<close>; the others that the guarantees of sequential runs hold in every state the
  server can reach.
\<close>

subsection \<open>The handler in sections\<close>

text \<open>Whether admitting a request fetches documents: an attested event, for an event that exists.\<close>

definition ingest_fetches :: "('m) es_lib_scheme \<Rightarrow> str \<Rightarrow> http_request \<Rightarrow> event_store \<Rightarrow> bool" where
  "ingest_fetches L eid req st \<longleftrightarrow> req_body req \<noteq> [] \<and> bt_get (st_events st) eid \<noteq> None
     \<and> (case event_from_cbor L (req_body req) of
           Inl _ \<Rightarrow> False
         | Inr c \<Rightarrow> assurance c = ''attested'' \<and> bt_get (evidence c) ''enforcement_mode'' \<noteq> None)"

definition ingest_task ::
    "('m) es_lib_scheme \<Rightarrow> es_in \<Rightarrow> str \<Rightarrow> http_request \<Rightarrow> ('g app_state, es_error handler_error + http_response) task" where
  "ingest_task L inp eid req =
     Section (\<lambda>s. let k = (case ingest_admit L inp eid req (es_store s) of
                              Inl answer \<Rightarrow> Return answer
                            | Inr _ \<Rightarrow> atomically (ingest_commit L eid req))
                  in if ingest_fetches L eid req (es_store s) then Await k else k)
       (\<lambda>s. s)"

definition enforce_rate_task ::
    "('m) es_lib_scheme \<Rightarrow> 'g net_env \<Rightarrow> es_in \<Rightarrow> str \<Rightarrow> ('g app_state \<Rightarrow> rate_limit_policy)
      \<Rightarrow> ('g app_state, es_error handler_error + http_response) task
      \<Rightarrow> ('g app_state, es_error handler_error + http_response) task" where
  "enforce_rate_task L G inp key p k = limited_task L G (fst (ei_clock2 inp)) (snd (ei_clock2 inp)) key p k"

definition es_post_task ::
    "('m) es_lib_scheme \<Rightarrow> 'g net_env \<Rightarrow> es_in \<Rightarrow> http_request \<Rightarrow> ('g app_state, es_error handler_error + http_response) task" where
  "es_post_task L G inp req =
     (if route_of (req_path req) = ''/events''
      then enforce_rate_task L G inp (''event-service:create-event:'' @ ei_peer inp) es_create_event_policy
             (atomically (create_event L inp req))
      else case parts_of (req_path req) of
        [a, eid, leaf] \<Rightarrow>
          if a = ''e'' \<and> leaf = ''teams''
          then enforce_rate_task L G inp (''event-service:create-team:'' @ eid @ '':'' @ ei_peer inp) es_create_team_policy
                 (atomically (create_team L inp eid req))
          else if a = ''e'' \<and> leaf = ''events''
          then enforce_rate_task L G inp (''event-service:ingest:'' @ eid @ '':'' @ ei_peer inp) es_ingest_policy
                 (ingest_task L inp eid req)
          else Return (not_found_json L ''not found'')
      | _ \<Rightarrow> Return (not_found_json L ''not found''))"

definition es_route_task ::
    "('m) es_lib_scheme \<Rightarrow> 'g net_env \<Rightarrow> es_in \<times> http_request \<Rightarrow> ('g app_state, es_error handler_error + http_response) task" where
  "es_route_task L G q =
     (let m = req_method (snd q) in
      if m = ''OPTIONS'' then Return (Inr (write_response 204 ''text/plain'' []))
      else if m = ''GET'' then atomically (\<lambda>s. (es_get L (fst q) (snd q) s, s))
      else if m = ''POST'' then es_post_task L G (fst q) (snd q)
      else Return (not_found_json L ''not found''))"

definition es_task ::
    "('m) es_lib_scheme \<Rightarrow> 'g net_env \<Rightarrow> es_in \<times> http_request \<Rightarrow> ('g app_state, es_error handler_error + http_response) task" where
  "es_task L G q =
     limited_task L G (fst (ei_clock (fst q))) (snd (ei_clock (fst q))) (''event-service:ip:'' @ ei_peer (fst q)) es_ip_policy
       (es_route_task L G q)"

text \<open>The function the server calls: the peer is the connection's.\<close>

definition call_of :: "es_in \<times> str \<times> http_request \<Rightarrow> es_in \<times> http_request" where
  "call_of c = (case c of (inp, peer, req) \<Rightarrow> (inp\<lparr>ei_peer := peer\<rparr>, req))"

definition event_service_handler ::
    "('m) es_lib_scheme \<Rightarrow> 'g net_env \<Rightarrow> (es_in, 'g app_state, es_error) handler" where
  "event_service_handler L G inp peer req = es_task L G (call_of (inp, peer, req))"

subsection \<open>Uninterrupted\<close>

lemma run_ingest_task [simp]: "run_task (ingest_task L inp eid req) = ingest_event L inp eid req"
  by (simp add: fun_eq_iff ingest_task_def ingest_event_def Let_def split: sum.split)

lemma run_es_post_task: "run_task (es_post_task L G inp req) s = es_post L G inp req s"
proof -
  have r: "run_task (enforce_rate_task L G inp key p k) s = enforce_rate L G inp key (p s) (run_task k) s" for key p k
    by (simp add: enforce_rate_task_def enforce_rate_def run_limited_task)
  show ?thesis by (auto simp: es_post_task_def es_post_def r split: list.split)
qed

lemma run_es_task: "run_task (es_task L G q) s = es_handle_connection L G q s"
proof -
  have "run_task (es_route_task L G q) = es_route L G q"
    by (simp add: fun_eq_iff es_route_task_def es_route_def Let_def run_es_post_task)
  then show ?thesis by (simp add: es_task_def es_handle_connection_def run_limited_task)
qed

subsection \<open>What holds of every section\<close>

lemma sections_es_task:
  fixes J :: "'a \<Rightarrow> 'g app_state \<Rightarrow> bool"
  assumes lim: "\<And>a s now inst key p. J a s \<Longrightarrow>
      J a (snd (limited L G now inst key p (\<lambda>s. (Inl EncodeJson :: es_error handler_error + http_response, s)) s))"
    and refl: "\<And>a. le a a"
    and event: "\<And>a s. J a s \<Longrightarrow> \<exists>b. le a b \<and> J b (snd (create_event L (fst q) (snd q) s))"
    and team: "\<And>a s eid. J a s \<Longrightarrow> \<exists>b. le a b \<and> J b (snd (create_team L (fst q) eid (snd q) s))"
    and ingest: "\<And>a s eid. J a s \<Longrightarrow> admitted L q (req_body (snd q)) \<Longrightarrow> \<exists>b. le a b \<and> J b (snd (ingest_commit L eid (snd q) s))"
  shows "sections_ok le J (es_task L G q) a"
proof -
  have i: "sections_ok le J (ingest_task L (fst q) eid (snd q)) a" for eid a
    using refl ingest ingest_admit_admitted[of L "fst q" eid "snd q"]
    by (auto simp: ingest_task_def Let_def sections_atomically split: sum.split)
  have m: "sections_ok le J (atomically (create_event L (fst q) (snd q))) a"
      "sections_ok le J (atomically (create_team L (fst q) eid (snd q))) a" for eid a
    using event team by (simp_all add: sections_atomically)
  have l: "sections_ok le J (limited_task L G now inst key p k) a" if "\<And>a. sections_ok le J k a" for now inst key p k a
    by (rule sections_limited) (use lim refl that in auto)
  have "sections_ok le J (es_post_task L G (fst q) (snd q)) a" for a
    by (auto simp: es_post_task_def enforce_rate_task_def intro!: l i m split: list.split)
  moreover have "sections_ok le J (atomically (\<lambda>s. (es_get L (fst q) (snd q) s, s))) a" for a
    using refl by (auto simp: sections_atomically)
  ultimately have "sections_ok le J (es_route_task L G q) a" for a
    by (simp add: es_route_task_def Let_def)
  then show ?thesis unfolding es_task_def by (rule l)
qed

subsection \<open>Captures\<close>

definition es_kept :: "('m) es_lib_scheme \<Rightarrow> (es_in \<times> http_request) list \<Rightarrow> 'g app_state \<Rightarrow> 'g app_state \<Rightarrow> bool" where
  "es_kept L qs s0 s \<longleftrightarrow> paths_apart s0 \<and> es_confined s0 s \<and> (\<forall>eid. \<exists>bs. recorded L qs s0 s eid bs)"

lemma recorded_known: "q \<in> set qs \<Longrightarrow> recorded L (qs @ [q]) s0 s eid bs \<Longrightarrow> recorded L qs s0 s eid bs"
proof -
  assume q: "q \<in> set qs"
  then have e: "list_ex P (qs @ [q]) = list_ex P qs" for P by (auto simp: list_ex_iff)
  show "recorded L (qs @ [q]) s0 s eid bs \<Longrightarrow> recorded L qs s0 s eid bs" unfolding recorded_def e .
qed

lemma es_kept_start: "paths_apart s \<Longrightarrow> es_kept L qs s s"
  by (auto simp: es_kept_def es_confined_def es_frame_def recorded_def intro!: exI[of _ "[]"])

lemma es_kept_apart: "es_kept L qs s0 s \<Longrightarrow> paths_apart s"
  using paths_apart_frame[of s0 s] by (simp add: es_kept_def es_confined_def)

lemma es_kept_section:
  assumes "es_kept L qs s0 s" "q \<in> set qs" "es_effect L q s s' \<and> es_confined s s'"
  shows "es_kept L qs s0 s'"
proof -
  have "\<exists>bs. recorded L qs s0 s' eid bs" for eid
    using assms(1,3) recorded_known[OF assms(2) recorded_step] unfolding es_kept_def es_effect_def by meson
  then show ?thesis using assms es_confined_trans unfolding es_kept_def by blast
qed

lemma es_kept_sections:
  assumes "q \<in> set qs"
  shows "sections_ok (\<lambda>_ _. True) (\<lambda>_. es_kept L qs s0) (es_task L G q) ()"
proof -
  note keep = es_kept_section[OF _ assms]
  have "es_kept L qs s0 (snd (limited L G now inst key p (\<lambda>s. (Inl EncodeJson :: es_error handler_error + http_response, s)) s))"
    if k: "es_kept L qs s0 s" for s now inst key p
  proof -
    obtain r s' where c: "limited L G now inst key p (\<lambda>s. (Inl EncodeJson :: es_error handler_error + http_response, s)) s = (r, s')"
      by (rule prod.exhaust)
    have "es_effect L q s s' \<and> es_confined s s'"
      by (rule limited_effect[OF c es_kept_apart[OF k]]) (auto simp: es_confined_def es_frame_def intro: es_effect_same)
    then show ?thesis using keep[OF k] c by simp
  qed
  moreover have "es_kept L qs s0 (snd (create_event L (fst q) (snd q) s))"
      "es_kept L qs s0 (snd (create_team L (fst q) eid (snd q) s))"
      "admitted L q (req_body (snd q)) \<Longrightarrow> es_kept L qs s0 (snd (ingest_commit L eid (snd q) s))"
    if "es_kept L qs s0 s" for s eid
    using that keep[OF that] es_kept_apart[OF that] create_event_effect[of L "fst q" "snd q" s]
      create_team_effect[of L "fst q" eid "snd q" s] ingest_commit_effect[of L eid "snd q" s _ _ "fst q"]
    by (metis prod.collapse)+
  ultimately show ?thesis by (intro sections_es_task) auto
qed

interpretation es_captures: sectioned_service "\<lambda>_ _. True" "\<lambda>_ :: unit. es_kept L qs s0" "event_service_handler L G"
    "\<lambda>c. call_of c \<in> set qs"
  for L :: "('m) es_lib_scheme" and G :: "'g net_env" and qs s0
  by unfold_locales (simp_all add: event_service_handler_def es_kept_sections)

lemma server_captures:
  assumes "serve_hyper bind cfg s = Inr sv0" "serves L' T cfg (event_service_handler L G) sv0 evs sv" "paths_apart s"
  shows "es_kept L (map call_of (sv_calls sv)) s (sv_state sv)"
proof -
  have "\<exists>b :: unit. True \<and> es_kept L (map call_of (sv_calls sv)) s (sv_state sv)"
    by (rule es_captures.server_keeps[OF assms(2)])
       (use serve_hyper_start[OF assms(1)] es_kept_start[OF assms(3)] in \<open>simp_all add: list_all_iff\<close>)
  then show ?thesis by simp
qed

subsection \<open>The shape of the store\<close>

text \<open>
  Ordered maps without duplicate keys, events and teams filed under the event they name, nothing
  filed under an event that does not exist, and for each event distinct capture hashes, counted.
\<close>

definition bt_all :: "('k \<Rightarrow> 'v \<Rightarrow> bool) \<Rightarrow> ('k \<times> 'v) list \<Rightarrow> bool" where
  "bt_all P m \<longleftrightarrow> list_all (\<lambda>(k, v). P k v) m"

definition counted :: "u64 \<Rightarrow> str list \<Rightarrow> bool" where
  "counted n hs \<longleftrightarrow> distinct hs \<and> unat n = min (length hs) (2 ^ 64 - 1)"

lemma counted_Nil [simp]: "counted 0 []"
  by (simp add: counted_def)

definition store_ok :: "event_store \<Rightarrow> bool" where
  "store_ok st \<longleftrightarrow>
     bt_ok (st_events st) \<and> bt_ok (st_teams st) \<and> bt_ok (st_captured_events st) \<and> bt_ok (st_captured_event_counts st)
     \<and> bt_all (\<lambda>k e. er_event_id e = k) (st_events st)
     \<and> bt_all (\<lambda>k ts. bt_get (st_events st) k \<noteq> None \<and> list_all (\<lambda>t. tr_event_id t = k) ts) (st_teams st)
     \<and> bt_all (\<lambda>k hs. bt_get (st_events st) k \<noteq> None \<and> counted (opt_or (bt_get (st_captured_event_counts st) k) 0) hs) (st_captured_events st)
     \<and> bt_all (\<lambda>k _. bt_get (st_captured_events st) k \<noteq> None) (st_captured_event_counts st)"

lemma bt_all_get: "bt_ok m \<Longrightarrow> bt_all P m \<longleftrightarrow> (\<forall>k v. bt_get m k = Some v \<longrightarrow> P k v)"
  by (auto simp: bt_all_def list_all_iff map_of_eq_Some_iff[OF bt_ok_distinct])

lemma store_ok_iff:
  "store_ok st \<longleftrightarrow>
     bt_ok (st_events st) \<and> bt_ok (st_teams st) \<and> bt_ok (st_captured_events st) \<and> bt_ok (st_captured_event_counts st)
     \<and> (\<forall>k e. bt_get (st_events st) k = Some e \<longrightarrow> er_event_id e = k)
     \<and> (\<forall>k ts. bt_get (st_teams st) k = Some ts \<longrightarrow> bt_get (st_events st) k \<noteq> None \<and> list_all (\<lambda>t. tr_event_id t = k) ts)
     \<and> (\<forall>k hs. bt_get (st_captured_events st) k = Some hs \<longrightarrow> bt_get (st_events st) k \<noteq> None \<and> counted (opt_or (bt_get (st_captured_event_counts st) k) 0) hs)
     \<and> (\<forall>k n. bt_get (st_captured_event_counts st) k = Some n \<longrightarrow> bt_get (st_captured_events st) k \<noteq> None)"
  unfolding store_ok_def by (simp add: bt_all_get cong: conj_cong)

lemma store_ok_default: "store_ok store_default"
  by (simp add: store_ok_def store_default_def bt_all_def)

text \<open>A capture list that is not there counts nothing.\<close>

lemma store_ok_uncounted: "store_ok st \<Longrightarrow> bt_get (st_captured_events st) k = None \<Longrightarrow> bt_get (st_captured_event_counts st) k = None"
  unfolding store_ok_iff by (metis not_None_eq)

lemma store_ok_add_event: "store_ok st \<Longrightarrow> store_ok (add_event e st)"
  using store_ok_uncounted[of st "er_event_id e"]
  by (auto simp: store_ok_iff add_event_def Let_def bt_ok_insert bt_ok_or_insert bt_get_insert bt_get_or_insert opt_or_def
      split: if_splits option.splits) (metis option.distinct(1))+

lemma store_ok_add_team:
  assumes "store_ok st" "bt_get (st_events st) eid = Some e" "tr_event_id t = eid"
  shows "store_ok (add_team eid t st)"
  using assms by (auto simp: store_ok_iff add_team_def bt_ok_insert bt_get_insert opt_or_def split: if_splits option.splits)

lemma store_ok_touch:
  assumes "store_ok st" "bt_get (st_events st) eid \<noteq> None"
  shows "store_ok (st\<lparr>st_captured_events := bt_or_insert eid [] (st_captured_events st)\<rparr>)"
  using assms store_ok_uncounted[of st eid]
  by (auto simp: store_ok_iff bt_ok_or_insert bt_get_or_insert opt_or_def split: if_splits option.splits)

lemma counted_snoc: "counted n hs \<Longrightarrow> h \<notin> set hs \<Longrightarrow> counted (sat_add n 1) (hs @ [h])"
  by (auto simp: counted_def unat_sat_add)

lemma store_ok_record:
  assumes ok: "store_ok st" and hs: "bt_get (st_captured_events st) eid = Some hs" and h: "h \<notin> set hs"
  shows "store_ok (record_capture eid h st)"
proof -
  have "counted (opt_or (bt_get (st_captured_event_counts (record_capture eid h st)) eid) 0) (hs @ [h])"
    using ok hs h by (simp add: cnt_record counted_snoc store_ok_iff)
  with ok hs show ?thesis
    by (auto simp: store_ok_iff record_capture_def bt_ok_insert bt_get_insert opt_or_def split: if_splits)
qed

lemma es_store_commit [simp]: "es_store (snd (commit_store L ans s)) = es_store s"
  by (simp add: commit_store_def split: sum.split)

lemma es_store_limited: "es_store (snd (limited L G now inst key p (\<lambda>s. (r, s)) s)) = es_store s"
  by (auto simp: limited_def split: sum.split prod.split)

lemma create_event_store_ok: "store_ok (es_store s) \<Longrightarrow> store_ok (es_store (snd (create_event L inp req s)))"
  by (simp add: create_event_def Let_def store_ok_add_event split: option.split)

lemma create_team_store_ok: "store_ok (es_store s) \<Longrightarrow> store_ok (es_store (snd (create_team L inp eid req s)))"
  by (simp add: create_team_def Let_def store_ok_add_team new_team_record_def split: option.split)

lemma ingest_commit_store_ok:
  assumes "store_ok (es_store s)"
  shows "store_ok (es_store (snd (ingest_commit L eid req s)))"
proof (cases "bt_get (st_events (es_store s)) eid")
  case None
  then show ?thesis using assms by (simp add: ingest_commit_def Let_def)
next
  case (Some e)
  let ?st = "(es_store s)\<lparr>st_captured_events := bt_or_insert eid [] (st_captured_events (es_store s))\<rparr>"
  have ok: "store_ok ?st" using store_ok_touch[OF assms] Some by simp
  obtain hs where hs: "bt_get (st_captured_events ?st) eid = Some hs"
    by (cases "bt_get (st_captured_events (es_store s)) eid") (auto simp: bt_get_or_insert)
  have rec: "store_ok (record_capture eid h ?st)" if "h \<notin> set hs" for h
    by (rule store_ok_record[OF ok hs that])
  show ?thesis
    using Some hs ok rec by (simp add: ingest_commit_def Let_def opt_or_def split: sum.split)
qed

interpretation es_shape: sectioned_service "\<lambda>_ _. True" "\<lambda>_ :: unit. \<lambda>s. store_ok (es_store s)" "event_service_handler L G"
    "\<lambda>_. True"
  for L :: "('m) es_lib_scheme" and G :: "'g net_env"
proof unfold_locales
  fix inp peer req a
  show "sections_ok (\<lambda>_ _. True) (\<lambda>_ :: unit. \<lambda>s. store_ok (es_store s)) (event_service_handler L G inp peer req) a"
    unfolding event_service_handler_def
    by (rule sections_es_task)
       (simp_all add: es_store_limited create_event_store_ok create_team_store_ok ingest_commit_store_ok)
qed simp_all

subsection \<open>A reference run\<close>

text \<open>
  Two connections post the same capture to one event, section by section in turn, so that each has
  copied the event's record before the other commits; the first peer then goes away unanswered.
\<close>

definition ref_plain_config :: http_server_config where
  "ref_plain_config = ref_server_config\<lparr>tls_acceptor := None\<rparr>"

definition ref_post :: "es_in \<times> http_request \<Rightarrow> raw_request" where
  "ref_post q = \<lparr>raw_method = req_method (snd q), raw_path_and_query = Some (req_path (snd q)), raw_headers = [],
     raw_body = Body (req_body (snd q))\<rparr>"

definition ref_es_open :: "nat app_state" where
  "ref_es_open = ref_es_state\<lparr>es_store := add_event (new_event_record ref_es ref_es_config ref_es_in
     \<lparr>ce_name = None, ce_event_type = None, ce_gateway_base_url = None, ce_gateway_manifest_url = None,
      ce_cvm_receipt_url = None, ce_scoring = None, ce_cvm_visibility = None\<rparr>) store_default\<rparr>"

lemma ref_es_open_paths: "paths_apart ref_es_open"
  using ref_es_paths by (simp add: paths_apart_def ref_es_open_def)

lemma ref_es_open_ok: "store_ok (es_store ref_es_open)"
  by (simp add: ref_es_open_def store_ok_add_event store_ok_default)

definition ref_es_server :: "(es_in, nat app_state, es_error) server" where
  "ref_es_server = \<lparr>sv_loop = Acquiring, sv_permits = 2, sv_conns = [], sv_accepted = 0, sv_state = ref_es_open,
     sv_calls = [], sv_sent = []\<rparr>"

definition ref_es_events :: "(es_in, bytes) server_event list" where
  "ref_es_events = [Acquire, Accept ''10.0.0.1'', Acquire, Accept ''10.0.0.2'',
     Receive 0 ref_es_in (ref_post ref_es_ingest), Receive 1 ref_es_in (ref_post ref_es_ingest),
     RunSection 0, RunSection 1, RunSection 0, RunSection 1, RunSection 0, RunSection 1, RunSection 0, RunSection 1,
     Respond 1, Hangup 0]"

lemma ref_es_server_starts: "serve_hyper (\<lambda>_. Inr ()) ref_plain_config ref_es_open = Inr ref_es_server"
  by (simp add: serve_hyper_def ref_plain_config_def ref_server_config_def ref_es_server_def permits_of_def)

lemma ref_es_served:
  "\<exists>sv. serves ref_lib ref_tls_lib ref_plain_config (event_service_handler ref_es ref_net_any) ref_es_server ref_es_events sv
     \<and> cap (sv_state sv) ''hk_72'' = [sha256_prefixed ref_es ''evt''] \<and> length (sv_calls sv) = 2"
proof -
  let ?r = "server_run ref_lib ref_tls_lib ref_plain_config (event_service_handler ref_es ref_net_any) ref_es_events ref_es_server"
  have "(case ?r of None \<Rightarrow> False
      | Some sv \<Rightarrow> cap (sv_state sv) ''hk_72'' = [sha256_prefixed ref_es ''evt''] \<and> length (sv_calls sv) = 2)"
    by code_simp
  then obtain sv where sv: "?r = Some sv" "cap (sv_state sv) ''hk_72'' = [sha256_prefixed ref_es ''evt'']" "length (sv_calls sv) = 2"
    by (auto split: option.splits)
  then show ?thesis using serves_run[OF sv(1) serves.start] by auto
qed

subsection \<open>Properties\<close>

text \<open>
  C2: the captures stay recorded when requests interleave. In every state the server reaches, however
  the sections of its requests alternate and whichever peers go away in the middle, the index, the
  counter and the log of an event have grown by exactly the same bodies, each admitted for one of the
  requests the server took, none twice; and no file was written but the store, the limiter's state and
  the event logs.
\<close>

theorem concurrent_captures_recorded:
  assumes "serve_hyper bind cfg s = Inr sv0" "serves L' T cfg (event_service_handler L G) sv0 evs sv" "paths_apart s"
  shows "(\<exists>bs. recorded L (map call_of (sv_calls sv)) s (sv_state sv) eid bs)
    \<and> (\<forall>p. \<not> es_writable s p \<longrightarrow> bt_get (files (disk (sv_state sv))) p = bt_get (files (disk s)) p)"
  using server_captures[OF assms] by (auto simp: es_kept_def es_confined_def)

theorem concurrent_captures_recorded_witness:
  "\<exists>sv bs. serves ref_lib ref_tls_lib ref_plain_config (event_service_handler ref_es ref_net_any) ref_es_server ref_es_events sv
    \<and> recorded ref_es (map call_of (sv_calls sv)) ref_es_open (sv_state sv) ''hk_72'' bs \<and> length bs = 1"
proof -
  obtain sv where sv: "serves ref_lib ref_tls_lib ref_plain_config (event_service_handler ref_es ref_net_any) ref_es_server ref_es_events sv"
      "cap (sv_state sv) ''hk_72'' = [sha256_prefixed ref_es ''evt'']"
    using ref_es_served by blast
  obtain bs where bs: "recorded ref_es (map call_of (sv_calls sv)) ref_es_open (sv_state sv) ''hk_72'' bs"
    using concurrent_captures_recorded[OF ref_es_server_starts sv(1) ref_es_open_paths, of "''hk_72''"] by blast
  have "cap ref_es_open ''hk_72'' = []"
    by (simp add: cap_def ref_es_open_def add_event_def Let_def store_default_def bt_get_or_insert opt_or_def)
  with bs sv(2) have "map (sha256_prefixed ref_es) bs = [sha256_prefixed ref_es ''evt'']" by (simp add: recorded_def)
  then have "length bs = 1" by (metis length_map One_nat_def length_Cons list.size(3))
  with sv(1) bs show ?thesis by blast
qed

text \<open>
  C12: the store keeps its shape in every state the server reaches: ordered maps with unique keys,
  every event and team filed under the id it carries, no teams, captures or counts for an event that
  does not exist, and per event a list of distinct capture hashes whose number, saturating at the
  width of the counter, is the counter.
\<close>

theorem store_stays_well_formed:
  assumes "serve_hyper bind cfg s = Inr sv0" "serves L' T cfg (event_service_handler L G) sv0 evs sv" "store_ok (es_store s)"
  shows "store_ok (es_store (sv_state sv))"
proof -
  have "\<exists>b :: unit. True \<and> store_ok (es_store (sv_state sv))"
    by (rule es_shape.server_keeps[OF assms(2)])
       (use serve_hyper_start[OF assms(1)] assms(3) in \<open>simp_all add: list_all_iff\<close>)
  then show ?thesis by simp
qed

theorem store_stays_well_formed_witness:
  "\<exists>sv. serves ref_lib ref_tls_lib ref_plain_config (event_service_handler ref_es ref_net_any) ref_es_server ref_es_events sv
    \<and> store_ok (es_store (sv_state sv)) \<and> cap (sv_state sv) ''hk_72'' \<noteq> []"
  using ref_es_served store_stays_well_formed[OF ref_es_server_starts _ ref_es_open_ok] by force

end
