(* ===== verification/Gateway.thy ===== *)
theory Gateway
  imports Http_Service Llm_Capture
begin

section \<open>The gateway (\<open>src/bin/llm-gateway.rs\<close>)\<close>

text \<open>
  The LLM gateway: it authenticates a team, forwards the request to the provider, and appends a
  signed event to its log, chained per team. The provider is the function \<open>gi_upstream\<close> of the
  request's inputs \<open>gw_in\<close>, which also hold the clocks, the peer and the random bytes of the
  request; posts to the event sink, whose outcome the source only logs, go to \<open>outbox\<close>.
\<close>

subsection \<open>Data\<close>

record gw_config =
  gc_listen :: str
  upstream_base :: str
  upstream_key_env :: str
  upstream_auth :: bool
  provider :: str
  gc_issuer :: str
  gc_hackathon_id :: str
  gc_gateway_id :: str
  gc_competition_url :: str
  gc_gateway_manifest_url :: str
  gc_cvm_receipt_url :: str
  cvm_receipt_body :: "bytes option"
  gc_registry_url :: str
  gc_accepted_tee_platforms :: "str list"
  gc_value_x :: str
  gc_cvm_receipt_hash :: str
  gc_policy_hash :: str
  gc_scoring_rule_hash :: str
  gc_enforcement_mode :: str
  gc_start_url :: str
  gc_capture_method :: str
  gc_assurance :: str
  gc_event_sink_url :: "str option"
  event_log_path :: str
  teams :: "(str \<times> str) list"
  rate_state_path :: str
  gc_max_connections :: u64
  gc_read_timeout_ms :: u64
  ip_requests_per_minute :: u32
  unauth_requests_per_minute :: u32
  team_requests_per_minute :: u32

record team_chain =
  next_index :: u64
  previous_hash :: str

record 'g gateway_state = "'g service_base" +
  cfg :: gw_config
  manifest :: contest_manifest
  gw_manifest_hash :: str
  ra_claim :: "capture_ra_claim option"
  signing_key :: bytes
  upstream_key :: "str option"
  chains :: "(str \<times> team_chain) list"
  outbox :: "(str \<times> bytes) list"

record upstream_request =
  ur_method :: str
  ur_url :: str
  ur_bearer :: "str option"
  ur_headers :: "(str \<times> str) list"
  ur_body :: bytes

record upstream_response =
  us_status :: nat
  us_headers :: "(str \<times> bytes) list"
  us_body :: "str + bytes"

record upstream_result =
  up_status :: nat
  up_content_type :: str
  up_body :: bytes
  provider_request_id :: str

record gw_in =
  gi_peer :: str
  gi_clock :: "u64 \<times> nat"
  gi_clock2 :: "u64 \<times> nat"
  gi_started :: u64
  gi_completed :: u64
  gi_random :: bytes
  gi_upstream :: "upstream_request \<Rightarrow> str + upstream_response"

datatype gw_error =
    GwManifest llm_error | GwUpstream str | GwSign llm_error | GwHash llm_error | GwEncode llm_error | GwLog str

subsection \<open>Requests to the provider\<close>

definition should_forward_header :: "str \<Rightarrow> bool" where
  "should_forward_header n \<longleftrightarrow> n \<notin> set [''authorization'', ''host'', ''content-length'', ''connection'',
     ''accept-encoding'', ''x-llm-attested-agent'']"

definition authenticate_team :: "http_request \<Rightarrow> (str \<times> str) list \<Rightarrow> str option" where
  "authenticate_team req ts =
     Option.bind (bt_get (req_headers req) ''authorization'') (\<lambda>auth.
     Option.bind (strip_prefix ''Bearer '' auth) (\<lambda>tok. bt_get ts tok))"

definition upstream_request_of :: "('m) lib_scheme \<Rightarrow> ('g, 'n) gateway_state_scheme \<Rightarrow> http_request \<Rightarrow> upstream_request" where
  "upstream_request_of L s req =
     \<lparr>ur_method = req_method req, ur_url = trim_end_matches ''/'' (upstream_base (cfg s)) @ req_path req,
      ur_bearer = upstream_key s,
      ur_headers = filter (\<lambda>(n, v). should_forward_header n \<and> header_name_ok L n \<and> header_value_ok L v) (req_headers req),
      ur_body = req_body req\<rparr>"

definition header_str :: "('m) lib_scheme \<Rightarrow> (str \<times> bytes) list \<Rightarrow> str list \<Rightarrow> str \<Rightarrow> str" where
  "header_str L hs names d =
     (case find (\<lambda>n. map_of hs n \<noteq> None) names of
        None \<Rightarrow> d
      | Some n \<Rightarrow> (case Option.bind (map_of hs n) (header_to_str L) of None \<Rightarrow> d | Some v \<Rightarrow> v))"

definition proxy_upstream ::
    "('m) lib_scheme \<Rightarrow> gw_in \<Rightarrow> http_request \<Rightarrow> ('g, 'n) gateway_state_scheme \<Rightarrow> gw_error + upstream_result" where
  "proxy_upstream L inp req s =
     rbind (map_err GwUpstream (gi_upstream inp (upstream_request_of L s req))) (\<lambda>resp.
     rbind (map_err GwUpstream (us_body resp)) (\<lambda>body.
     Inr \<lparr>up_status = us_status resp,
          up_content_type = header_str L (us_headers resp) [''content-type''] ''application/json'',
          up_body = body,
          provider_request_id = header_str L (us_headers resp) [''x-request-id'', ''openai-request-id'', ''request-id''] []\<rparr>))"

subsection \<open>Events\<close>

definition usage_i64 :: "json option \<Rightarrow> str list \<Rightarrow> int option" where
  "usage_i64 usage names =
     Option.bind usage (\<lambda>u.
       case find (\<lambda>n. jget u n \<noteq> None) names of
         None \<Rightarrow> None
       | Some n \<Rightarrow> Option.bind (jget u n) as_i64)"

definition extract_usage_metrics :: "json option \<Rightarrow> (str \<times> int) list" where
  "extract_usage_metrics response =
     (let usage = Option.bind response (\<lambda>v. jget v ''usage'');
          input = opt_or (usage_i64 usage [''prompt_tokens'', ''input_tokens'']) 0;
          output = opt_or (usage_i64 usage [''completion_tokens'', ''output_tokens'']) 0;
          total = opt_or (usage_i64 usage [''total_tokens'']) (i64_add input output)
      in bt_insert ''total_tokens'' total (bt_insert ''output_tokens'' output (bt_insert ''input_tokens'' input [])))"

definition count_tool_calls :: "json option \<Rightarrow> nat" where
  "count_tool_calls response =
     (case response of
        None \<Rightarrow> 0
      | Some v \<Rightarrow>
         (case Option.bind (jget v ''choices'') as_array of
            None \<Rightarrow> 0
          | Some choices \<Rightarrow> sum_list (map (\<lambda>c.
              case Option.bind (Option.bind (jget c ''message'') (\<lambda>m. jget m ''tool_calls'')) as_array of
                None \<Rightarrow> 0 | Some a \<Rightarrow> length a) choices))
         + (case Option.bind (jget v ''output'') as_array of
              None \<Rightarrow> 0
            | Some out \<Rightarrow> length (filter (\<lambda>i. Option.bind (jget i ''type'') as_str = Some ''function_call'') out)))"

definition api_family :: "str \<Rightarrow> str" where
  "api_family path =
     (if starts_with ''/v1/responses'' path then ''openai-responses''
      else if starts_with ''/v1/chat/completions'' path then ''openai-chat-completions''
      else ''openai-compatible'')"

definition append_event :: "('m) llm_lib_scheme \<Rightarrow> str \<Rightarrow> contest_event \<Rightarrow> fs \<Rightarrow> gw_error + fs" where
  "append_event L path e w =
     rbind (map_err GwEncode (event_to_cbor L e)) (\<lambda>cbor.
     map_err (\<lambda>_. GwLog path) (fs_append path (b64_encode L cbor @ [CHR 0x0A]) w))"

definition gw_evidence :: "('m) lib_scheme \<Rightarrow> ('g, 'n) gateway_state_scheme \<Rightarrow> json option \<Rightarrow> (str \<times> str) list" where
  "gw_evidence L s response =
     (let ev = (case Option.bind response (\<lambda>v. jget v ''usage'') of
                  None \<Rightarrow> [] | Some u \<Rightarrow> bt_insert ''provider_usage'' (json_compact L u) []);
          ev = bt_insert ''gateway_usage'' ''provider-reported'' ev;
          ev = bt_insert ''enforcement_mode'' (gc_enforcement_mode (cfg s)) ev
      in case ra_claim s of None \<Rightarrow> ev | Some c \<Rightarrow> insert_capture_ra_evidence ev c)"

definition unsigned_event ::
    "('m) lib_scheme \<Rightarrow> gw_in \<Rightarrow> http_request \<Rightarrow> upstream_result \<Rightarrow> str \<Rightarrow> team_chain \<Rightarrow> ('g, 'n) gateway_state_scheme \<Rightarrow> contest_event" where
  "unsigned_event L inp req up tm chain s =
     (let request_json = json_parse L (req_body req);
          response_json = json_parse L (up_body up);
          subj = bt_of_list [(''provider'', provider (cfg s)), (''provider_request_id'', provider_request_id up),
             (''api_family'', api_family (req_path req)),
             (''model'', opt_or (Option.bind (Option.bind request_json (\<lambda>v. jget v ''model'')) as_str) ''unknown'')];
          met = bt_insert ''tool_call_count'' (wrap_i64 (int (count_tool_calls response_json)))
             (bt_insert ''latency_ms'' (wrap_i64 (uint (sat_sub (gi_completed inp) (gi_started inp))))
               (extract_usage_metrics response_json));
          hs = bt_of_list [(''request'', sha256_prefixed L (req_body req)), (''response'', sha256_prefixed L (up_body up))]
      in event_new (random_id L (gi_random inp) ''evt'') ''llm.call'' (gc_hackathon_id (cfg s)) tm
           (gc_gateway_id (cfg s)) (gw_manifest_hash s) (gc_capture_method (cfg s)) (gc_assurance (cfg s))
           (next_index chain) (previous_hash chain) (gi_started inp) (gi_completed inp)
           \<lparr>actor_kind = ''agent'',
            agent_session_id = opt_or (bt_get (req_headers req) ''x-llm-attested-agent'') ''agent_default''\<rparr>
           subj met hs (gw_evidence L s response_json))"

definition build_llm_event ::
    "('m) llm_lib_scheme \<Rightarrow> gw_in \<Rightarrow> http_request \<Rightarrow> upstream_result \<Rightarrow> str \<Rightarrow> ('g, 'n) gateway_state_scheme
       \<Rightarrow> (gw_error + contest_event) \<times> ('g, 'n) gateway_state_scheme" where
  "build_llm_event L inp req up tm s0 =
     (let s = s0\<lparr>chains := bt_or_insert tm \<lparr>next_index = 0, previous_hash = ZERO_HASH\<rparr> (chains s0)\<rparr>;
          chain = the (bt_get (chains s) tm) in
      case event_sign L (signing_key s) (unsigned_event L inp req up tm chain s) of
        Inl e \<Rightarrow> (Inl (GwSign e), s)
      | Inr ev \<Rightarrow>
         (case event_hash L ev of
            Inl e \<Rightarrow> (Inl (GwHash e), s)
          | Inr h \<Rightarrow>
             (case append_event L (event_log_path (cfg s)) ev (disk s) of
                Inl e \<Rightarrow> (Inl e, s)
              | Inr w \<Rightarrow>
                 (Inr ev, s\<lparr>disk := w, chains := bt_insert tm
                    \<lparr>next_index = next_index chain + 1, previous_hash = h\<rparr> (chains s)\<rparr>))))"

definition send_event_sink :: "('m) llm_lib_scheme \<Rightarrow> contest_event \<Rightarrow> ('g, 'n) gateway_state_scheme \<Rightarrow> ('g, 'n) gateway_state_scheme" where
  "send_event_sink L ev s =
     (case gc_event_sink_url (cfg s) of
        None \<Rightarrow> s
      | Some url \<Rightarrow>
         (case event_to_cbor L ev of Inl _ \<Rightarrow> s | Inr b \<Rightarrow> s\<lparr>outbox := outbox s @ [(url, b)]\<rparr>))"

definition handle_model_request ::
    "('m) llm_lib_scheme \<Rightarrow> gw_in \<Rightarrow> http_request \<Rightarrow> str \<Rightarrow> ('g, 'n) gateway_state_scheme
       \<Rightarrow> (gw_error handler_error + http_response) \<times> ('g, 'n) gateway_state_scheme" where
  "handle_model_request L inp req tm s =
     (case proxy_upstream L inp req s of
        Inl e \<Rightarrow> (Inl (Failed e), s)
      | Inr up \<Rightarrow>
         (case build_llm_event L inp req up tm s of
            (Inl e, s1) \<Rightarrow> (Inl (Failed e), s1)
          | (Inr ev, s1) \<Rightarrow>
             (case event_hash L ev of
                Inl e \<Rightarrow> (Inl (Failed (GwHash e)), s1)
              | Inr root \<Rightarrow>
                 (Inr (write_response_with_headers (up_status up) (up_content_type up)
                    [(''x-llm-attested-event-id'', event_id ev), (''x-llm-attested-team-root'', root)] (up_body up)),
                  send_event_sink L ev s1))))"

subsection \<open>The handler\<close>

definition jwk_json :: "public_jwk \<Rightarrow> json" where
  "jwk_json j = JObj [(''kty'', JStr (kty j)), (''crv'', JStr (crv j)), (''x'', JStr (jwk_x j))]"

definition trust_policy_json :: "trust_policy \<Rightarrow> json" where
  "trust_policy_json p = JObj [(''required'', JBool (required p)),
     (''accepted_tee_platforms'', JArr (map JStr (accepted_tee_platforms p))),
     (''cvm_receipt_url'', JStr (cvm_receipt_url p)), (''registry_url'', JStr (registry_url p)),
     (''verifier_profile'', JStr (tp_verifier_profile p))]"

definition manifest_json :: "contest_manifest \<Rightarrow> json" where
  "manifest_json m = JObj [(''version'', JInt (uint (man_version m))), (''profile'', JStr (man_profile m)),
     (''issuer'', JStr (issuer m)), (''hackathon_id'', JStr (man_hackathon_id m)), (''gateway_id'', JStr (man_gateway_id m)),
     (''competition_url'', JStr (competition_url m)), (''gateway_manifest_url'', JStr (gateway_manifest_url m)),
     (''cvm_receipt_hash'', JStr (man_cvm_receipt_hash m)), (''value_x'', JStr (man_value_x m)),
     (''policy_hash'', JStr (policy_hash m)), (''scoring_rule_hash'', JStr (scoring_rule_hash m)),
     (''enforcement_mode'', JStr (enforcement_mode m)), (''start_url'', JStr (start_url m)),
     (''capture_methods'', JArr (map JStr (capture_methods m))), (''trust_policy'', trust_policy_json (man_trust_policy m)),
     (''event_signing_jwk'', jwk_json (event_signing_jwk m)), (''event_kinds'', JArr (map JStr (event_kinds m)))]"

definition gw_ip_policy :: "('g, 'n) gateway_state_scheme \<Rightarrow> rate_limit_policy" where
  "gw_ip_policy s = with_backoff 1000 60000
     (per_minute (ip_requests_per_minute (cfg s)) (min (ip_requests_per_minute (cfg s)) 120))"

definition gw_auth_policy :: "('g, 'n) gateway_state_scheme \<Rightarrow> rate_limit_policy" where
  "gw_auth_policy s = with_backoff 2000 300000
     (per_minute (unauth_requests_per_minute (cfg s)) (min (unauth_requests_per_minute (cfg s)) 20))"

definition gw_team_policy :: "('g, 'n) gateway_state_scheme \<Rightarrow> rate_limit_policy" where
  "gw_team_policy s = with_backoff 1000 120000
     (per_minute (team_requests_per_minute (cfg s)) (min (team_requests_per_minute (cfg s)) 60))"

text \<open>A model request: authenticated and limited per team, or refused and limited per address.\<close>

definition gw_post ::
    "('m) llm_lib_scheme \<Rightarrow> 'g net_env \<Rightarrow> gw_in \<Rightarrow> http_request \<Rightarrow> ('g, 'n) gateway_state_scheme
       \<Rightarrow> (gw_error handler_error + http_response) \<times> ('g, 'n) gateway_state_scheme" where
  "gw_post L G inp req s =
     (case authenticate_team req (teams (cfg s)) of
        None \<Rightarrow>
          limited L G (fst (gi_clock2 inp)) (snd (gi_clock2 inp)) (''gateway:auth:'' @ gi_peer inp) (gw_auth_policy s)
            (\<lambda>s. (write_json L 401 (jobj [(''error'', JStr ''missing or invalid team API key'')]), s)) s
      | Some tm \<Rightarrow>
          limited L G (fst (gi_clock2 inp)) (snd (gi_clock2 inp)) (''gateway:team:'' @ tm) (gw_team_policy s)
            (handle_model_request L inp req tm) s)"

definition gw_route ::
    "('m) llm_lib_scheme \<Rightarrow> 'g net_env \<Rightarrow> gw_in \<Rightarrow> http_request \<Rightarrow> ('g, 'n) gateway_state_scheme
       \<Rightarrow> (gw_error handler_error + http_response) \<times> ('g, 'n) gateway_state_scheme" where
  "gw_route L G inp req s =
     (if req_method req = ''OPTIONS'' then (Inr (write_response 204 ''text/plain'' []), s)
      else if req_method req = ''GET'' \<and> req_path req = ''/healthz''
      then (write_json L 200 (jobj [(''ok'', JBool True), (''gateway_id'', JStr (gc_gateway_id (cfg s))),
              (''manifest_hash'', JStr (gw_manifest_hash s))]), s)
      else if req_method req = ''GET'' \<and> req_path req = ''/.well-known/llm-attested/manifest.cbor''
      then (rbind (map_err (\<lambda>e. Failed (GwManifest e)) (manifest_to_cbor L (manifest s))) (\<lambda>b.
              Inr (write_response 200 ''application/cbor'' b)), s)
      else if req_method req = ''GET'' \<and> req_path req = ''/.well-known/llm-attested/manifest.json''
      then (write_json L 200 (manifest_json (manifest s)), s)
      else if req_method req = ''GET'' \<and> req_path req = ''/.well-known/cvm/receipt''
      then (case cvm_receipt_body (cfg s) of
              None \<Rightarrow> (write_json L 404 (jobj [(''error'', JStr ''cvm receipt not configured'')]), s)
            | Some b \<Rightarrow> (Inr (write_response 200 ''application/cbor'' b), s))
      else if req_method req = ''POST'' \<and> starts_with ''/v1/'' (req_path req)
      then gw_post L G inp req s
      else (write_json L 404 (jobj [(''error'', JStr ''not found'')]), s))"

definition gw_handle_connection ::
    "('m) llm_lib_scheme \<Rightarrow> 'g net_env \<Rightarrow> gw_in \<times> http_request \<Rightarrow> ('g, 'n) gateway_state_scheme
       \<Rightarrow> (gw_error handler_error + http_response) \<times> ('g, 'n) gateway_state_scheme" where
  "gw_handle_connection L G q s =
     limited L G (fst (gi_clock (fst q))) (snd (gi_clock (fst q))) (''gateway:ip:'' @ gi_peer (fst q)) (gw_ip_policy s)
       (gw_route L G (fst q) (snd q)) s"

subsection \<open>Start-up\<close>

datatype gw_start_error =
    StNeedsValue str | StBadNumber str | StUnknownArg str | StHelp | StReadFile str | StTeamFormat | StNoTeam
  | StLogDir str | StManifestHash llm_error | StNoReceipt | StUnknownValueX | StClaim capture_ra_error
  | StNoUpstreamKey str | StLimiter net_error

record gw_args = gw_config +
  ga_competition_url :: "str option"
  ga_gateway_manifest_url :: "str option"
  ga_cvm_receipt_url :: "str option"
  ga_registry_url :: "str option"

definition default_gateway_base_url :: "str \<Rightarrow> str" where
  "default_gateway_base_url lst =
     ''http://'' @ (case strip_prefix ''0.0.0.0:'' lst of None \<Rightarrow> lst | Some port \<Rightarrow> ''127.0.0.1:'' @ port)"

definition gw_args_default :: "('m) lib_scheme \<Rightarrow> (str \<Rightarrow> str option) \<Rightarrow> bytes \<Rightarrow> gw_args" where
  "gw_args_default L env rnd =
     \<lparr>gc_listen = ''127.0.0.1:8088'', upstream_base = opt_or (env ''LLM_UPSTREAM_BASE_URL'') ''https://api.openai.com'',
      upstream_key_env = ''LLM_UPSTREAM_API_KEY'', upstream_auth = True, provider = ''generic'', gc_issuer = ''self-hosted'',
      gc_hackathon_id = ''hk_dev'', gc_gateway_id = random_id L rnd ''gw'', gc_competition_url = [], gc_gateway_manifest_url = [],
      gc_cvm_receipt_url = [], cvm_receipt_body = None, gc_registry_url = [],
      gc_accepted_tee_platforms = [''tdx'', ''sev-snp'', ''nitro''], gc_value_x = opt_or (env ''CVM_VALUE_X'') ''unknown'',
      gc_cvm_receipt_hash = opt_or (env ''CVM_RECEIPT_HASH'') ZERO_HASH, gc_policy_hash = sha256_prefixed L ''allow-all-dev'',
      gc_scoring_rule_hash = sha256_prefixed L ''min-total-tokens'', gc_enforcement_mode = ''routed'',
      gc_start_url = ''http://localhost:8080/events/local/join'', gc_capture_method = ''gateway_proxy'', gc_assurance = ''routed'',
      gc_event_sink_url = None, event_log_path = ''./llm-events.cborl'', teams = [],
      rate_state_path = ''./llm-gateway-rate-state.json'', gc_max_connections = 512, gc_read_timeout_ms = 5000,
      ip_requests_per_minute = 600, unauth_requests_per_minute = 60, team_requests_per_minute = 120,
      ga_competition_url = None, ga_gateway_manifest_url = None, ga_cvm_receipt_url = None, ga_registry_url = None\<rparr>"

definition gw_file :: "fs \<Rightarrow> str \<Rightarrow> gw_start_error + bytes" where
  "gw_file w p = map_err (\<lambda>_. StReadFile p) (fs_read w p)"

definition gw_flags :: "str list" where
  "gw_flags = [''--listen'', ''--upstream'', ''--upstream-key-env'', ''--credential-env'', ''--provider'', ''--issuer'',
     ''--hackathon-id'', ''--gateway-id'', ''--competition-url'', ''--gateway-manifest-url'', ''--cvm-receipt-url'',
     ''--registry-url'', ''--accepted-tee-platforms'', ''--value-x'', ''--cvm-receipt'', ''--policy'', ''--scoring'',
     ''--enforcement-mode'', ''--start-url'', ''--capture-method'', ''--assurance'', ''--event-sink-url'', ''--events'',
     ''--rate-state'', ''--max-connections'', ''--read-timeout-ms'', ''--ip-requests-per-minute'',
     ''--unauth-requests-per-minute'', ''--team-requests-per-minute'', ''--team'']"

definition gw_set_flag :: "('m) lib_scheme \<Rightarrow> fs \<Rightarrow> str \<Rightarrow> str \<Rightarrow> gw_args \<Rightarrow> gw_start_error + gw_args" where
  "gw_set_flag L w f v a =
     (if f = ''--listen'' then Inr (a\<lparr>gc_listen := v\<rparr>)
      else if f = ''--upstream'' then Inr (a\<lparr>upstream_base := v\<rparr>)
      else if f = ''--upstream-key-env'' \<or> f = ''--credential-env'' then Inr (a\<lparr>upstream_key_env := v\<rparr>)
      else if f = ''--provider'' then Inr (a\<lparr>provider := v\<rparr>)
      else if f = ''--issuer'' then Inr (a\<lparr>gc_issuer := v\<rparr>)
      else if f = ''--hackathon-id'' then Inr (a\<lparr>gc_hackathon_id := v\<rparr>)
      else if f = ''--gateway-id'' then Inr (a\<lparr>gc_gateway_id := v\<rparr>)
      else if f = ''--competition-url'' then Inr (a\<lparr>ga_competition_url := Some v\<rparr>)
      else if f = ''--gateway-manifest-url'' then Inr (a\<lparr>ga_gateway_manifest_url := Some v\<rparr>)
      else if f = ''--cvm-receipt-url'' then Inr (a\<lparr>ga_cvm_receipt_url := Some v\<rparr>)
      else if f = ''--registry-url'' then Inr (a\<lparr>ga_registry_url := Some v\<rparr>)
      else if f = ''--accepted-tee-platforms''
      then Inr (a\<lparr>gc_accepted_tee_platforms := filter (\<lambda>s. s \<noteq> []) (map trim (split_on (CHR '','') v))\<rparr>)
      else if f = ''--value-x'' then Inr (a\<lparr>gc_value_x := v\<rparr>)
      else if f = ''--cvm-receipt''
      then rbind (gw_file w v) (\<lambda>b. Inr (a\<lparr>gc_cvm_receipt_hash := sha256_prefixed L b, cvm_receipt_body := Some b\<rparr>))
      else if f = ''--policy'' then rbind (gw_file w v) (\<lambda>b. Inr (a\<lparr>gc_policy_hash := sha256_prefixed L b\<rparr>))
      else if f = ''--scoring'' then rbind (gw_file w v) (\<lambda>b. Inr (a\<lparr>gc_scoring_rule_hash := sha256_prefixed L b\<rparr>))
      else if f = ''--enforcement-mode'' then Inr (a\<lparr>gc_enforcement_mode := v\<rparr>)
      else if f = ''--start-url'' then Inr (a\<lparr>gc_start_url := v\<rparr>)
      else if f = ''--capture-method'' then Inr (a\<lparr>gc_capture_method := v\<rparr>)
      else if f = ''--assurance'' then Inr (a\<lparr>gc_assurance := v\<rparr>)
      else if f = ''--event-sink-url'' then Inr (a\<lparr>gc_event_sink_url := Some v\<rparr>)
      else if f = ''--events'' then Inr (a\<lparr>event_log_path := v\<rparr>)
      else if f = ''--rate-state'' then Inr (a\<lparr>rate_state_path := v\<rparr>)
      else if f = ''--max-connections'' then rbind (ok_or (parse_u64 v) (StBadNumber f)) (\<lambda>n. Inr (a\<lparr>gc_max_connections := n\<rparr>))
      else if f = ''--read-timeout-ms'' then rbind (ok_or (parse_u64 v) (StBadNumber f)) (\<lambda>n. Inr (a\<lparr>gc_read_timeout_ms := n\<rparr>))
      else if f = ''--ip-requests-per-minute''
      then rbind (ok_or (parse_u32 v) (StBadNumber f)) (\<lambda>n. Inr (a\<lparr>ip_requests_per_minute := n\<rparr>))
      else if f = ''--unauth-requests-per-minute''
      then rbind (ok_or (parse_u32 v) (StBadNumber f)) (\<lambda>n. Inr (a\<lparr>unauth_requests_per_minute := n\<rparr>))
      else if f = ''--team-requests-per-minute''
      then rbind (ok_or (parse_u32 v) (StBadNumber f)) (\<lambda>n. Inr (a\<lparr>team_requests_per_minute := n\<rparr>))
      else if f = ''--team''
      then (case split_once (CHR '':'') v of
              None \<Rightarrow> Inl StTeamFormat
            | Some (tm, key) \<Rightarrow> Inr (a\<lparr>teams := bt_insert key tm (teams a)\<rparr>))
      else Inl (StUnknownArg f))"

fun gw_parse_loop :: "('m) lib_scheme \<Rightarrow> fs \<Rightarrow> str list \<Rightarrow> gw_args \<Rightarrow> gw_start_error + gw_args" where
  "gw_parse_loop L w [] a = Inr a"
| "gw_parse_loop L w [f] a =
     (if f = ''-h'' \<or> f = ''--help'' then Inl StHelp
      else if f = ''--upstream-no-auth'' then Inr (a\<lparr>upstream_auth := False\<rparr>)
      else if f \<in> set gw_flags then Inl (StNeedsValue f)
      else Inl (StUnknownArg f))"
| "gw_parse_loop L w (f # v # rest) a =
     (if f = ''-h'' \<or> f = ''--help'' then Inl StHelp
      else if f = ''--upstream-no-auth'' then gw_parse_loop L w (v # rest) (a\<lparr>upstream_auth := False\<rparr>)
      else rbind (gw_set_flag L w f v a) (\<lambda>a'. gw_parse_loop L w rest a'))"

definition gw_parse_args :: "('m) lib_scheme \<Rightarrow> (str \<Rightarrow> str option) \<Rightarrow> bytes \<Rightarrow> fs \<Rightarrow> str list \<Rightarrow> gw_start_error + gw_config" where
  "gw_parse_args L env rnd w args =
     rbind (gw_parse_loop L w args (gw_args_default L env rnd)) (\<lambda>a.
     rbind (ensure (teams a \<noteq> []) StNoTeam) (\<lambda>_.
     let base = default_gateway_base_url (gc_listen a) in
     Inr (gw_config.truncate (a\<lparr>gc_competition_url := opt_or (ga_competition_url a) ''http://localhost:8080/e/local'',
        gc_gateway_manifest_url := opt_or (ga_gateway_manifest_url a) (base @ ''/.well-known/llm-attested/manifest.cbor''),
        gc_cvm_receipt_url := opt_or (ga_cvm_receipt_url a) (base @ ''/.well-known/cvm/receipt''),
        gc_registry_url := opt_or (ga_registry_url a) ''http://localhost:8080/.well-known/cvm/registry.json'',
        gc_max_connections := max (gc_max_connections a) 1, gc_read_timeout_ms := max (gc_read_timeout_ms a) 1,
        ip_requests_per_minute := max (ip_requests_per_minute a) 1,
        unauth_requests_per_minute := max (unauth_requests_per_minute a) 1,
        team_requests_per_minute := max (team_requests_per_minute a) 1\<rparr>))))"

definition read_upstream_key :: "(str \<Rightarrow> str option) \<Rightarrow> gw_config \<Rightarrow> gw_start_error + str" where
  "read_upstream_key env c =
     (case env (upstream_key_env c) of
        Some v \<Rightarrow> Inr v
      | None \<Rightarrow>
         if upstream_key_env c = ''LLM_UPSTREAM_API_KEY''
         then (case env ''OPENAI_API_KEY'' of
                 Some v \<Rightarrow> Inr v
               | None \<Rightarrow> ok_or (env ''OPENROUTER_API_KEY'') (StNoUpstreamKey (upstream_key_env c)))
         else Inl (StNoUpstreamKey (upstream_key_env c)))"

definition gw_manifest :: "('m) lib_scheme \<Rightarrow> gw_config \<Rightarrow> bytes \<Rightarrow> contest_manifest" where
  "gw_manifest L c sk = manifest_new L (gc_issuer c) (gc_hackathon_id c) (gc_gateway_id c) (gc_competition_url c)
     (gc_gateway_manifest_url c) (gc_cvm_receipt_hash c) (gc_value_x c) (gc_policy_hash c) (gc_scoring_rule_hash c)
     (gc_enforcement_mode c) (gc_start_url c) [gc_capture_method c]
     (self_hosted (gc_accepted_tee_platforms c) (gc_cvm_receipt_url c) (gc_registry_url c)) (ed_public L sk)
     [''llm.call'', ''submission'']"

text \<open>\<open>main\<close> up to the accept loop, from a parsed configuration and the signing key's seed.\<close>

definition gw_main ::
    "('m) llm_lib_scheme \<Rightarrow> 'g net_env \<Rightarrow> (str \<Rightarrow> str option) \<Rightarrow> u64 \<Rightarrow> bytes \<Rightarrow> gw_config \<Rightarrow> fs \<Rightarrow> gw_start_error + 'g gateway_state" where
  "gw_main L G env now seed c w =
     rbind (map_err (\<lambda>_. StLogDir (event_log_path c)) (ensure_parent (event_log_path c) w)) (\<lambda>_.
     let man = gw_manifest L c seed in
     rbind (map_err StManifestHash (manifest_hash_of L man)) (\<lambda>mh.
     rbind (if gc_assurance c = ''attested''
            then rbind (ok_or (cvm_receipt_body c) StNoReceipt) (\<lambda>receipt.
                 rbind (ensure (trim (gc_value_x c) \<noteq> [] \<and> gc_value_x c \<noteq> ''unknown'') StUnknownValueX) (\<lambda>_.
                 rbind (map_err StClaim (build_capture_ra_claim L man mh receipt (gc_capture_method c) (gc_assurance c)
                          (gc_enforcement_mode c))) (\<lambda>claim. Inr (Some claim))))
            else Inr None) (\<lambda>claim.
     rbind (if upstream_auth c then rbind (read_upstream_key env c) (\<lambda>k. Inr (Some k)) else Inr None) (\<lambda>key.
     rbind (map_err StLimiter (lim_load G now (rate_state_path c) 200000 w)) (\<lambda>lim.
     Inr \<lparr>limiter = lim, disk = w, cfg = c, manifest = man, gw_manifest_hash = mh, ra_claim = claim,
          signing_key = seed, upstream_key = key, chains = [], outbox = []\<rparr>)))))"

subsection \<open>The handler's frame\<close>

text \<open>What no request changes.\<close>

definition gw_fixed :: "('g, 'n) gateway_state_scheme \<Rightarrow> gw_config \<times> contest_manifest \<times> str \<times> capture_ra_claim option \<times> bytes \<times> str option" where
  "gw_fixed s = (cfg s, manifest s, gw_manifest_hash s, ra_claim s, signing_key s, upstream_key s)"

lemma build_llm_event_fixed: "gw_fixed (snd (build_llm_event L inp req up tm s)) = gw_fixed s"
  by (auto simp: build_llm_event_def gw_fixed_def Let_def split: sum.splits)

lemma handle_model_request_fixed: "gw_fixed (snd (handle_model_request L inp req tm s)) = gw_fixed s"
  using build_llm_event_fixed[of L inp req _ tm s]
  by (auto simp: handle_model_request_def send_event_sink_def gw_fixed_def split: sum.splits prod.splits option.splits)
     (metis gw_fixed_def prod.inject snd_conv)+

end
