(* ===== verification/Gateway_Log.thy ===== *)
theory Gateway_Log
  imports Gateway
begin

section \<open>What the gateway's event log guarantees\<close>

text \<open>
  The log of a gateway run against its specification: per team a hash chain from index 0, each
  event signed by the key the manifest publishes and carrying the gateway's attestation claim. The
  invariant \<open>gw_log_inv\<close> relates the log file, the chain heads and the events appended so far.
\<close>

subsection \<open>Hash chains\<close>

fun chain_from :: "('m) llm_lib_scheme \<Rightarrow> u64 \<Rightarrow> str \<Rightarrow> contest_event list \<Rightarrow> bool" where
  "chain_from L i h [] = True"
| "chain_from L i h (e # es) =
     (event_index e = i \<and> previous_team_event_hash e = h
      \<and> (case event_hash L e of Inl _ \<Rightarrow> False | Inr h' \<Rightarrow> chain_from L (i + 1) h' es))"

fun chain_head :: "('m) llm_lib_scheme \<Rightarrow> u64 \<Rightarrow> str \<Rightarrow> contest_event list \<Rightarrow> team_chain" where
  "chain_head L i h [] = \<lparr>next_index = i, previous_hash = h\<rparr>"
| "chain_head L i h (e # es) = chain_head L (i + 1) (case event_hash L e of Inl _ \<Rightarrow> h | Inr h' \<Rightarrow> h') es"

lemma chain_from_snoc:
  "chain_from L i h (es @ [e]) \<longleftrightarrow> chain_from L i h es \<and> event_index e = next_index (chain_head L i h es)
     \<and> previous_team_event_hash e = previous_hash (chain_head L i h es) \<and> (\<exists>h'. event_hash L e = Inr h')"
  by (induction es arbitrary: i h) (auto split: sum.splits)

lemma chain_head_snoc:
  "event_hash L e = Inr h' \<Longrightarrow> chain_head L i h (es @ [e])
     = \<lparr>next_index = next_index (chain_head L i h es) + 1, previous_hash = h'\<rparr>"
  by (induction es arbitrary: i h) auto

text \<open>The indices of a chain count up from its start.\<close>

lemma chain_from_index:
  "chain_from L i h es \<Longrightarrow> n < length es \<Longrightarrow> event_index (es ! n) = i + word_of_nat n"
proof (induction es arbitrary: i h n)
  case (Cons e es)
  then show ?case by (cases n) (auto split: sum.splits)
qed simp

text \<open>A chain is determined by its last event, where the hash does not collide on the events at hand.\<close>

lemma chain_from_unique:
  assumes "\<forall>e\<in>set es. \<forall>e'\<in>set es'. event_hash L e = event_hash L e' \<longrightarrow> e = e'"
    and "chain_from L i h es" "chain_from L i h es'" "length es = length es'" "es \<noteq> []" "last es = last es'"
  shows "es = es'"
  using assms
proof (induction es arbitrary: es' rule: rev_induct)
  case (snoc e es)
  obtain es2 where es': "es' = es2 @ [e]" using snoc.prems(4-6) by (cases es' rule: rev_cases) auto
  note inj = snoc.prems(1)
  have c: "chain_from L i h es" "chain_from L i h es2" "length es = length es2"
      "previous_hash (chain_head L i h es) = previous_hash (chain_head L i h es2)"
    using snoc.prems(2-4) es' by (auto simp: chain_from_snoc)
  show ?case
  proof (cases es rule: rev_cases)
    case Nil
    then show ?thesis using es' c by simp
  next
    case (snoc fs f)
    then obtain fs2 f2 where es2: "es2 = fs2 @ [f2]" using c(3) by (cases es2 rule: rev_cases) auto
    obtain k k2 where k: "event_hash L f = Inr k" "event_hash L f2 = Inr k2"
      using c(1,2) snoc es2 by (auto simp: chain_from_snoc)
    have "k = k2" using c(4) unfolding snoc es2 by (simp add: chain_head_snoc k)
    moreover have "f \<in> set (es @ [e])" "f2 \<in> set es'" using snoc es2 es' by simp_all
    ultimately have "f = f2" using inj k by metis
    then have l: "es \<noteq> []" "last es = last es2" using snoc es2 by simp_all
    have "\<forall>e\<in>set es. \<forall>e'\<in>set es2. event_hash L e = event_hash L e' \<longrightarrow> e = e'"
      using inj unfolding es' set_append by blast
    from snoc.IH[OF this c(1,2,3) l] show ?thesis unfolding es' by simp
  qed
qed simp

subsection \<open>The invariant\<close>

definition log_of :: "('g, 'n) gateway_state_scheme \<Rightarrow> bytes" where
  "log_of s = opt_or (bt_get (files (disk s)) (event_log_path (cfg s))) []"

definition log_line :: "('m) llm_lib_scheme \<Rightarrow> contest_event \<Rightarrow> bytes" where
  "log_line L e = (case event_to_cbor L e of Inl _ \<Rightarrow> [] | Inr b \<Rightarrow> b64_encode L b @ [CHR 0x0A])"

definition claim_agrees :: "('g, 'n) gateway_state_scheme \<Rightarrow> bool" where
  "claim_agrees s \<longleftrightarrow> (case ra_claim s of None \<Rightarrow> True | Some c \<Rightarrow>
     ra_capture_method c = gc_capture_method (cfg s) \<and> ra_assurance c = gc_assurance (cfg s)
     \<and> ra_enforcement c = gc_enforcement_mode (cfg s) \<and> ra_manifest_hash c = gw_manifest_hash s)"

definition event_good :: "('m) llm_lib_scheme \<Rightarrow> ('g, 'n) gateway_state_scheme \<Rightarrow> contest_event \<Rightarrow> bool" where
  "event_good L s e \<longleftrightarrow> kind e = ''llm.call'' \<and> manifest_hash e = gw_manifest_hash s
     \<and> ev_version e = 1 \<and> ev_profile e = EVENT_PROFILE
     \<and> event_verify L (ed_public L (signing_key s)) e = Inr ()
     \<and> (case ra_claim s of None \<Rightarrow> True | Some c \<Rightarrow> event_matches_capture_ra_claim e c)"

definition team_events :: "str \<Rightarrow> contest_event list \<Rightarrow> contest_event list" where
  "team_events tm evs = filter (\<lambda>e. team_id e = tm) evs"

definition chain_inv :: "('m) llm_lib_scheme \<Rightarrow> (str \<times> team_chain) list \<Rightarrow> contest_event list \<Rightarrow> bool" where
  "chain_inv L cs evs \<longleftrightarrow> (\<forall>tm. chain_from L 0 ZERO_HASH (team_events tm evs)
     \<and> opt_or (bt_get cs tm) \<lparr>next_index = 0, previous_hash = ZERO_HASH\<rparr> = chain_head L 0 ZERO_HASH (team_events tm evs))"

text \<open>What the gateway posted to the event sink: the encoding of an event of the log, to the configured address.\<close>

definition posted :: "('m) llm_lib_scheme \<Rightarrow> gw_config \<Rightarrow> contest_event list \<Rightarrow> str \<times> bytes \<Rightarrow> bool" where
  "posted L c evs p \<longleftrightarrow> gc_event_sink_url c = Some (fst p) \<and> list_ex (\<lambda>e. event_to_cbor L e = Inr (snd p)) evs"

lemma posted_append: "list_all (posted L c evs) ps \<Longrightarrow> list_all (posted L c (evs @ new)) ps"
  by (auto simp: list_all_iff posted_def)

definition gw_log_inv :: "('m) llm_lib_scheme \<Rightarrow> bytes \<Rightarrow> contest_event list \<Rightarrow> ('g, 'n) gateway_state_scheme \<Rightarrow> bool" where
  "gw_log_inv L c0 evs s \<longleftrightarrow> claim_agrees s \<and> lim_path (limiter s) \<noteq> event_log_path (cfg s)
     \<and> log_of s = c0 @ concat (map (log_line L) evs) \<and> list_all (event_good L s) evs \<and> chain_inv L (chains s) evs
     \<and> list_all (posted L (cfg s) evs) (outbox s)"

lemma gw_log_inv_update:
  assumes "gw_log_inv L c0 evs s" "gw_fixed s' = gw_fixed s" "lim_path (limiter s') = lim_path (limiter s)"
    and "log_of s' = c0 @ concat (map (log_line L) evs')" "list_all (event_good L s) evs'" "chain_inv L (chains s') evs'"
    and "list_all (posted L (cfg s) evs') (outbox s')"
  shows "gw_log_inv L c0 evs' s'"
proof -
  have "cfg s' = cfg s" "gw_manifest_hash s' = gw_manifest_hash s" "ra_claim s' = ra_claim s" "signing_key s' = signing_key s"
    using assms(2) by (simp_all add: gw_fixed_def)
  moreover from this have "event_good L s' = event_good L s" "claim_agrees s' = claim_agrees s"
    by (auto simp: event_good_def claim_agrees_def split: option.splits)
  ultimately show ?thesis using assms by (simp add: gw_log_inv_def)
qed

lemma gw_log_inv_fixed:
  assumes "gw_log_inv L c0 evs s" "gw_fixed s' = gw_fixed s" "lim_path (limiter s') = lim_path (limiter s)"
    and "log_of s' = log_of s" "chains s' = chains s" "list_all (posted L (cfg s) evs) (outbox s')"
  shows "gw_log_inv L c0 evs s'"
  using assms by (intro gw_log_inv_update[OF assms(1-3)]) (auto simp: gw_log_inv_def)

lemma gw_log_inv_limiter:
  assumes "gw_log_inv L c0 evs s" "lim_check G now inst key p (limiter s, disk s) = (r, l, w)"
  shows "gw_log_inv L c0 evs (s\<lparr>limiter := l, disk := w\<rparr>)"
proof -
  have "event_log_path (cfg s) \<noteq> lim_path (limiter s)" using assms(1) by (auto simp: gw_log_inv_def)
  from lim_check_disk[OF assms(2) this] show ?thesis
    using assms(1) by (intro gw_log_inv_fixed[OF assms(1)]) (auto simp: gw_fixed_def log_of_def gw_log_inv_def)
qed

lemma unsigned_event_fields:
  "event_index (unsigned_event L inp req up tm ch s) = next_index ch"
  "previous_team_event_hash (unsigned_event L inp req up tm ch s) = previous_hash ch"
  "team_id (unsigned_event L inp req up tm ch s) = tm" "kind (unsigned_event L inp req up tm ch s) = ''llm.call''"
  "manifest_hash (unsigned_event L inp req up tm ch s) = gw_manifest_hash s"
  "capture_method (unsigned_event L inp req up tm ch s) = gc_capture_method (cfg s)"
  "assurance (unsigned_event L inp req up tm ch s) = gc_assurance (cfg s)"
  "evidence (unsigned_event L inp req up tm ch s) = gw_evidence L s (json_parse L (up_body up))"
  "ev_version (unsigned_event L inp req up tm ch s) = 1" "ev_profile (unsigned_event L inp req up tm ch s) = EVENT_PROFILE"
  by (simp_all add: unsigned_event_def event_new_def Let_def)

lemma event_good_unsigned:
  assumes "sig_law L" "claim_agrees s" "event_sign L (signing_key s) (unsigned_event L inp req up tm ch s) = Inr e"
  shows "event_good L s e"
proof -
  obtain sg where e: "e = (unsigned_event L inp req up tm ch s)\<lparr>signature := sg\<rparr>"
      "event_verify L (ed_public L (signing_key s)) e = Inr ()"
    using event_sign_verifies[OF assms(1,3)] .
  have "event_matches_capture_ra_claim e c" if "ra_claim s = Some c" for c
    using assms(2) that
    by (simp add: event_matches_capture_ra_claim_def e(1) unsigned_event_fields claim_agrees_def gw_evidence_def
        inserted_evidence bt_get_insert Let_def)
  with e show ?thesis by (simp add: event_good_def unsigned_event_fields split: option.split)
qed

lemma chain_inv_or_insert:
  assumes "chain_inv L cs evs"
  shows "chain_inv L (bt_or_insert tm \<lparr>next_index = 0, previous_hash = ZERO_HASH\<rparr> cs) evs"
proof -
  have "opt_or (bt_get (bt_or_insert tm \<lparr>next_index = 0, previous_hash = ZERO_HASH\<rparr> cs) k) \<lparr>next_index = 0, previous_hash = ZERO_HASH\<rparr>
      = opt_or (bt_get cs k) \<lparr>next_index = 0, previous_hash = ZERO_HASH\<rparr>" for k
    by (auto simp: bt_get_or_insert opt_or_def split: option.splits)
  with assms show ?thesis unfolding chain_inv_def by simp
qed

lemma chain_inv_snoc:
  assumes "chain_inv L cs evs" "team_id e = tm" "bt_get cs tm = Some ch"
    and "event_index e = next_index ch" "previous_team_event_hash e = previous_hash ch" "event_hash L e = Inr h"
  shows "chain_inv L (bt_insert tm \<lparr>next_index = next_index ch + 1, previous_hash = h\<rparr> cs) (evs @ [e])"
proof -
  have ch: "chain_from L 0 ZERO_HASH (team_events tm evs)" "ch = chain_head L 0 ZERO_HASH (team_events tm evs)"
    using assms(1,3) unfolding chain_inv_def by (metis opt_or_def option.simps(5))+
  show ?thesis unfolding chain_inv_def
  proof
    fix k
    show "chain_from L 0 ZERO_HASH (team_events k (evs @ [e]))
      \<and> opt_or (bt_get (bt_insert tm \<lparr>next_index = next_index ch + 1, previous_hash = h\<rparr> cs) k) \<lparr>next_index = 0, previous_hash = ZERO_HASH\<rparr>
        = chain_head L 0 ZERO_HASH (team_events k (evs @ [e]))"
    proof (cases "k = tm")
      case True
      then have "team_events k (evs @ [e]) = team_events tm evs @ [e]" using assms(2) by (simp add: team_events_def)
      then show ?thesis using ch assms(4-6) True
        by (simp add: chain_from_snoc chain_head_snoc bt_get_insert opt_or_def)
    next
      case False
      then have "team_events k (evs @ [e]) = team_events k evs" using assms(2) by (simp add: team_events_def)
      then show ?thesis using assms(1) False by (simp add: chain_inv_def bt_get_insert)
    qed
  qed
qed

lemma append_event_log:
  assumes "append_event L p e w = Inr w'"
  shows "opt_or (bt_get (files w') p) [] = opt_or (bt_get (files w) p) [] @ log_line L e"
  using assms
  by (auto simp: append_event_def log_line_def fs_append_def opt_or_def bt_get_insert res_simps split: if_splits option.splits)

lemma build_llm_event_inv:
  assumes law: "sig_law L" and inv: "gw_log_inv L c0 evs s0"
    and b: "build_llm_event L inp req up tm s0 = (r, s')"
  shows "(\<exists>e. r = Inr e \<and> gw_log_inv L c0 (evs @ [e]) s') \<or> ((\<exists>err. r = Inl err) \<and> gw_log_inv L c0 evs s')"
proof -
  define s where "s = s0\<lparr>chains := bt_or_insert tm \<lparr>next_index = 0, previous_hash = ZERO_HASH\<rparr> (chains s0)\<rparr>"
  have i1: "gw_log_inv L c0 evs s"
    using inv chain_inv_or_insert[of L "chains s0" evs tm]
    by (intro gw_log_inv_update[OF inv]) (auto simp: gw_log_inv_def s_def log_of_def gw_fixed_def)
  obtain ch where ch: "bt_get (chains s) tm = Some ch"
    by (cases "bt_get (chains s0) tm") (auto simp: s_def bt_get_or_insert)
  note bd = b[unfolded build_llm_event_def Let_def s_def[symmetric] ch option.sel]
  show ?thesis
  proof (cases "event_sign L (signing_key s) (unsigned_event L inp req up tm ch s)")
    case (Inl e)
    then show ?thesis using bd i1 by auto
  next
    case (Inr ev)
    obtain sg where ev: "ev = (unsigned_event L inp req up tm ch s)\<lparr>signature := sg\<rparr>"
      using event_sign_verifies[OF law Inr] by metis
    show ?thesis
    proof (cases "event_hash L ev")
      case (Inl e)
      then show ?thesis using bd Inr i1 by auto
    next
      case h: (Inr h)
      show ?thesis
      proof (cases "append_event L (event_log_path (cfg s)) ev (disk s)")
        case (Inl e)
        then show ?thesis using bd Inr h i1 by auto
      next
        case w: (Inr w)
        let ?s' = "s\<lparr>disk := w, chains := bt_insert tm \<lparr>next_index = next_index ch + 1, previous_hash = h\<rparr> (chains s)\<rparr>"
        have res: "r = Inr ev" "s' = ?s'" using bd Inr h w by auto
        have good: "event_good L s ev"
          using event_good_unsigned[OF law _ Inr] i1 by (simp add: gw_log_inv_def)
        have "chain_inv L (chains ?s') (evs @ [ev])"
          using chain_inv_snoc[of L "chains s" evs ev tm ch h] i1 ch h ev
          by (simp add: gw_log_inv_def unsigned_event_fields)
        moreover have "log_of ?s' = c0 @ concat (map (log_line L) (evs @ [ev]))"
          using append_event_log[OF w] i1 by (simp add: gw_log_inv_def log_of_def)
        ultimately have "gw_log_inv L c0 (evs @ [ev]) ?s'"
          using i1 good posted_append[of L "cfg s" evs "outbox s" "[ev]"]
          by (intro gw_log_inv_update[OF i1]) (auto simp: gw_fixed_def gw_log_inv_def)
        with res show ?thesis by blast
      qed
    qed
  qed
qed

text \<open>\<open>grows\<close>: a piece of the handler extends the log by what it appends and keeps the invariant.\<close>

definition grows ::
    "('m) llm_lib_scheme \<Rightarrow> (('g, 'n) gateway_state_scheme \<Rightarrow> 'r \<times> ('g, 'n) gateway_state_scheme) \<Rightarrow> bool" where
  "grows L f \<longleftrightarrow> (\<forall>c0 evs s. gw_log_inv L c0 evs s \<longrightarrow> (\<exists>new. gw_log_inv L c0 (evs @ new) (snd (f s))))"

lemma grows_same: "(\<And>s. snd (f s) = s) \<Longrightarrow> grows L f"
  by (auto simp: grows_def intro: exI[of _ "[]"])

lemma grows_limited:
  fixes k :: "('g, 'n) gateway_state_scheme \<Rightarrow> ('e handler_error + http_response) \<times> ('g, 'n) gateway_state_scheme"
  assumes "grows L k"
  shows "grows L (\<lambda>s. limited L' G now inst key (p s) k s)"
  unfolding grows_def
proof (intro allI impI)
  fix c0 evs and s :: "('g, 'n) gateway_state_scheme"
  assume i: "gw_log_inv L c0 evs s"
  note k = assms[unfolded grows_def]
  obtain r l w where c: "lim_check G now inst key (p s) (limiter s, disk s) = (r, l, w)" by (metis prod_cases3)
  note i2 = gw_log_inv_limiter[OF i c]
  show "\<exists>new. gw_log_inv L c0 (evs @ new) (snd (limited L' G now inst key (p s) k s))"
  proof (cases "\<exists>d. r = Inr d \<and> allowed d")
    case True
    then show ?thesis using k i2 c by (auto simp: limited_def)
  next
    case False
    then have "snd (limited L' G now inst key (p s) k s) = s\<lparr>limiter := l, disk := w\<rparr>"
      using c by (cases r) (auto simp: limited_def)
    then show ?thesis using i2 by (intro exI[of _ "[]"]) simp
  qed
qed

lemma grows_model_request:
  assumes "sig_law L"
  shows "grows L (handle_model_request L inp req tm)"
  unfolding grows_def
proof (intro allI impI)
  fix c0 evs s
  assume i: "gw_log_inv L c0 evs s"
  show "\<exists>new. gw_log_inv L c0 (evs @ new) (snd (handle_model_request L inp req tm s))"
  proof (cases "proxy_upstream L inp req s")
    case (Inl e)
    then show ?thesis using i by (intro exI[of _ "[]"]) (simp add: handle_model_request_def)
  next
    case (Inr up)
    obtain r s1 where b: "build_llm_event L inp req up tm s = (r, s1)" by (rule prod.exhaust)
    from build_llm_event_inv[OF assms i b] show ?thesis
    proof (elim disjE exE conjE)
      fix e
      assume e: "r = Inr e" and i1: "gw_log_inv L c0 (evs @ [e]) s1"
      have "gw_log_inv L c0 (evs @ [e]) (send_event_sink L e s1)"
        using i1 by (intro gw_log_inv_fixed[OF i1])
          (auto simp: send_event_sink_def gw_fixed_def log_of_def gw_log_inv_def posted_def split: option.splits sum.splits)
      with i1 e Inr b show ?thesis by (intro exI[of _ "[e]"]) (auto simp: handle_model_request_def split: sum.splits)
    next
      fix err
      assume "r = Inl err" "gw_log_inv L c0 evs s1"
      with Inr b show ?thesis by (intro exI[of _ "[]"]) (simp add: handle_model_request_def)
    qed
  qed
qed

lemma grows_post:
  fixes G :: "'g net_env"
  assumes "sig_law L"
  shows "grows L (gw_post L G inp req :: ('g, 'n) gateway_state_scheme \<Rightarrow> _)"
  unfolding grows_def
proof (intro allI impI)
  fix c0 evs and s :: "('g, 'n) gateway_state_scheme"
  assume i: "gw_log_inv L c0 evs s"
  show "\<exists>new. gw_log_inv L c0 (evs @ new) (snd (gw_post L G inp req s))"
  proof (cases "authenticate_team req (teams (cfg s))")
    case None
    have "grows L (\<lambda>s. limited L G (fst (gi_clock2 inp)) (snd (gi_clock2 inp)) (''gateway:auth:'' @ gi_peer inp) (gw_auth_policy s)
        (\<lambda>s. (write_json L 401 (jobj [(''error'', JStr ''missing or invalid team API key'')])
           :: gw_error handler_error + http_response, s :: ('g, 'n) gateway_state_scheme)) s)"
      by (intro grows_limited grows_same) simp
    with i None show ?thesis unfolding grows_def gw_post_def by simp
  next
    case (Some tm)
    have "grows L (\<lambda>s. limited L G (fst (gi_clock2 inp)) (snd (gi_clock2 inp)) (''gateway:team:'' @ tm) (gw_team_policy s)
        (handle_model_request L inp req tm) (s :: ('g, 'n) gateway_state_scheme))"
      by (intro grows_limited grows_model_request assms)
    with i Some show ?thesis unfolding grows_def gw_post_def by simp
  qed
qed

lemma grows_route: "sig_law L \<Longrightarrow> grows L (gw_route L G inp req)"
  using grows_post[of L G inp req] unfolding grows_def gw_route_def
  by (auto intro: exI[of _ "[]"] split: option.split)

lemma grows_handle: "sig_law L \<Longrightarrow> grows L (gw_handle_connection L G q)"
  using grows_limited[OF grows_route] by (simp add: gw_handle_connection_def[abs_def])

definition gw_run ::
    "('m) llm_lib_scheme \<Rightarrow> 'g net_env \<Rightarrow> (gw_in \<times> http_request) list \<Rightarrow> ('g, 'n) gateway_state_scheme \<Rightarrow> ('g, 'n) gateway_state_scheme" where
  "gw_run L G qs s = fold (\<lambda>q s. snd (gw_handle_connection L G q s)) qs s"

lemma gw_run_inv:
  assumes "sig_law L" "gw_log_inv L c0 evs s"
  shows "\<exists>new. gw_log_inv L c0 (evs @ new) (gw_run L G qs s)"
  using assms(2)
proof (induction qs arbitrary: s evs)
  case Nil
  then show ?case by (auto simp: gw_run_def intro: exI[of _ "[]"])
next
  case (Cons q qs)
  obtain new where "gw_log_inv L c0 (evs @ new) (snd (gw_handle_connection L G q s))"
    using grows_handle[OF assms(1)] Cons.prems unfolding grows_def by blast
  from Cons.IH[OF this] show ?case by (simp add: gw_run_def) (metis append.assoc)
qed

interpretation gw: rate_limited_service L G "\<lambda>q. fst (gi_clock (fst q))" "\<lambda>q. snd (gi_clock (fst q))"
    "\<lambda>q. ''gateway:ip:'' @ gi_peer (fst q)" "\<lambda>q s. gw_ip_policy s" "\<lambda>q. gw_route L G (fst q) (snd q)"
    "gw_handle_connection L G"
  for L :: "('m) llm_lib_scheme" and G :: "'g net_env"
  by unfold_locales (simp add: gw_handle_connection_def)

subsection \<open>Start-up and frame\<close>

lemma limited_fixed:
  assumes "\<And>s. gw_fixed (snd (k s)) = gw_fixed s"
  shows "gw_fixed (snd (limited L G now inst key p k s)) = gw_fixed s"
proof -
  obtain r l w where c: "lim_check G now inst key p (limiter s, disk s) = (r, l, w)" by (metis prod_cases3)
  have "gw_fixed (s\<lparr>limiter := l, disk := w\<rparr>) = gw_fixed s" by (simp add: gw_fixed_def)
  then show ?thesis using c assms by (cases r) (auto simp: limited_def)
qed

lemma gw_handle_fixed: "gw_fixed (snd (gw_handle_connection L G q s)) = gw_fixed s"
proof -
  have post: "gw_fixed (snd (gw_post L G inp req s)) = gw_fixed s" for inp req s
    unfolding gw_post_def
    by (cases "authenticate_team req (teams (cfg s))") (simp_all add: limited_fixed handle_model_request_fixed)
  have "gw_fixed (snd (gw_route L G inp req s)) = gw_fixed s" for inp req s
    using post[of inp req s] by (simp add: gw_route_def split: option.split)
  then show ?thesis unfolding gw_handle_connection_def by (intro limited_fixed)
qed

lemma gw_run_fixed: "gw_fixed (gw_run L G qs s) = gw_fixed s"
  by (induction qs arbitrary: s) (simp_all add: gw_run_def gw_handle_fixed)

lemma lim_load_path: "lim_load G now path maxs w = Inr l \<Longrightarrow> lim_path l = path"
  by (auto simp: lim_load_def Let_def res_simps)

lemma build_claim_fields:
  "build_capture_ra_claim L man mh cbor cm as enf = Inr c \<Longrightarrow>
   ra_capture_method c = cm \<and> ra_assurance c = as \<and> ra_enforcement c = enf \<and> ra_manifest_hash c = mh
   \<and> ra_cvm_receipt_hash c = sha256_prefixed L cbor \<and> man_cvm_receipt_hash man = sha256_prefixed L cbor"
  by (auto simp: build_capture_ra_claim_def verify_cvm_receipt_def res_simps)

lemma gw_main_state:
  assumes "gw_main L G env now seed c w = Inr s"
  shows "cfg s = c" "disk s = w" "chains s = [] \<and> outbox s = []" "signing_key s = seed" "manifest s = gw_manifest L c seed"
    "manifest_hash_of L (gw_manifest L c seed) = Inr (gw_manifest_hash s)" "lim_path (limiter s) = rate_state_path c"
    "gc_assurance c \<noteq> ''attested'' \<Longrightarrow> ra_claim s = None"
    "gc_assurance c = ''attested'' \<Longrightarrow> \<exists>claim receipt. ra_claim s = Some claim \<and> cvm_receipt_body c = Some receipt
       \<and> trim (gc_value_x c) \<noteq> [] \<and> gc_value_x c \<noteq> ''unknown''
       \<and> build_capture_ra_claim L (gw_manifest L c seed) (gw_manifest_hash s) receipt (gc_capture_method c) (gc_assurance c)
           (gc_enforcement_mode c) = Inr claim"
  using assms lim_load_path by (auto simp: gw_main_def Let_def res_simps split: if_splits)

lemma gw_main_inv:
  assumes "gw_main L G env now seed c w = Inr s" "rate_state_path c \<noteq> event_log_path c"
  shows "gw_log_inv L (opt_or (bt_get (files w) (event_log_path c)) []) [] s"
proof -
  note m = gw_main_state[OF assms(1)]
  have "claim_agrees s"
  proof (cases "gc_assurance c = ''attested''")
    case True
    then obtain claim receipt where "ra_claim s = Some claim"
        "build_capture_ra_claim L (gw_manifest L c seed) (gw_manifest_hash s) receipt (gc_capture_method c) (gc_assurance c)
           (gc_enforcement_mode c) = Inr claim"
      using m(9) by blast
    with build_claim_fields[OF this(2)] m(1) show ?thesis by (simp add: claim_agrees_def)
  qed (simp add: claim_agrees_def m(8))
  with m assms(2) show ?thesis
    by (simp add: gw_log_inv_def log_of_def chain_inv_def team_events_def opt_or_def)
qed

lemma gw_log_run:
  assumes "sig_law L" "gw_main L G env now seed c w = Inr s" "rate_state_path c \<noteq> event_log_path c"
  shows "\<exists>evs. log_of (gw_run L G qs s) = opt_or (bt_get (files w) (event_log_path c)) [] @ concat (map (log_line L) evs)
     \<and> (\<forall>tm. chain_from L 0 ZERO_HASH (team_events tm evs)) \<and> list_all (event_good L s) evs
     \<and> list_all (posted L c evs) (outbox (gw_run L G qs s))"
proof -
  obtain evs where i: "gw_log_inv L (opt_or (bt_get (files w) (event_log_path c)) []) evs (gw_run L G qs s)"
    using gw_run_inv[OF assms(1) gw_main_inv[OF assms(2,3)], of G qs] by auto
  have "gw_manifest_hash (gw_run L G qs s) = gw_manifest_hash s" "ra_claim (gw_run L G qs s) = ra_claim s"
      "signing_key (gw_run L G qs s) = signing_key s" "cfg (gw_run L G qs s) = c"
    using gw_run_fixed[of L G qs s] gw_main_state(1)[OF assms(2)] by (simp_all add: gw_fixed_def)
  note fixed = this
  have "event_good L (gw_run L G qs s) = event_good L s" by (intro ext) (simp add: event_good_def fixed)
  with i show ?thesis by (intro exI[of _ evs]) (auto simp: gw_log_inv_def chain_inv_def fixed)
qed

subsection \<open>Properties\<close>

text \<open>
  The event log of a gateway, after any requests since its start, is what the log held before
  followed by one line per event, and the events of each team form a hash chain: indices from 0,
  each event naming the hash of the team's previous one. Every event is signed by the key the
  gateway's manifest publishes, names the manifest's hash, and in attested mode carries the
  gateway's remote-attestation claim; and only events of the log are posted to the event sink.
\<close>

lemma gateway_log_chains:
  assumes "sig_law L" "gw_main L G env now seed c w = Inr s" "rate_state_path c \<noteq> event_log_path c"
  shows "\<exists>evs. log_of (gw_run L G qs s) = opt_or (bt_get (files w) (event_log_path c)) [] @ concat (map (log_line L) evs)
     \<and> (\<forall>tm. chain_from L 0 ZERO_HASH (team_events tm evs)) \<and> list_all (event_good L s) evs
     \<and> list_all (posted L c evs) (outbox (gw_run L G qs s))"
  by (rule gw_log_run[OF assms])

definition ref_gw_config :: gw_config where
  "ref_gw_config = gw_config.truncate (gw_args_default ref_lib (\<lambda>_. None) ''g'')\<lparr>upstream_auth := False, teams := [(''key'', ''team_a'')]\<rparr>"

definition ref_gw :: "nat gateway_state" where
  "ref_gw = (case gw_main ref_llm ref_net_any (\<lambda>_. None) 0 ''seed'' ref_gw_config ref_fs of Inr s \<Rightarrow> s | Inl _ \<Rightarrow> undefined)"

lemma ref_gw_main: "gw_main ref_llm ref_net_any (\<lambda>_. None) 0 ''seed'' ref_gw_config ref_fs = Inr ref_gw"
proof -
  have "res_ok (gw_main ref_llm ref_net_any (\<lambda>_. None) 0 ''seed'' ref_gw_config ref_fs) \<noteq> None"
    by (simp add: gw_main_def ref_gw_config_def gw_args_default_def gw_config.truncate_def ensure_parent_def path_parent_def
        Let_def manifest_hash_of_def manifest_to_cbor_def ref_llm_def lib.extend_def llm_lib.fields_def ref_fs_def lim_load_def fs_exists_def opt_or_def)
  then show ?thesis by (auto simp: ref_gw_def res_simps)
qed

definition ref_gw_in :: gw_in where
  "ref_gw_in = \<lparr>gi_peer = ''1.2.3.4'', gi_clock = (10, 0), gi_clock2 = (10, 0), gi_started = 10, gi_completed = 30,
     gi_random = ''r'', gi_upstream = (\<lambda>_. Inr \<lparr>us_status = 200, us_headers = [], us_body = Inr ''ok''\<rparr>)\<rparr>"

definition ref_gw_req :: http_request where
  "ref_gw_req = \<lparr>req_method = ''POST'', req_path = ''/v1/responses'', req_headers = [(''authorization'', ''Bearer key'')], req_body = ''{}''\<rparr>"

text \<open>
  A log cannot be rewritten behind its last event: where the event hash does not collide on
  the events at hand, two chains of the same length from the same start that end in the same event
  are the same chain.
\<close>

lemma chain_tail_determines_log:
  assumes "\<forall>e\<in>set es. \<forall>e'\<in>set es'. event_hash L e = event_hash L e' \<longrightarrow> e = e'"
    and "chain_from L i h es" "chain_from L i h es'" "length es = length es'" "es \<noteq> []" "last es = last es'"
  shows "es = es'"
  using assms by (intro chain_from_unique)

text \<open>
  A model request without a valid team key never reaches the provider: the answer and the
  state after it do not depend on the provider at all, and no chain, log line or sink post results.
\<close>

lemma unauthenticated_not_proxied:
  fixes s :: "('g, 'n) gateway_state_scheme"
  assumes "authenticate_team req (teams (cfg s)) = None"
  shows "gw_handle_connection L G (inp\<lparr>gi_upstream := u\<rparr>, req) s = gw_handle_connection L G (inp, req) s
     \<and> chains (snd (gw_handle_connection L G (inp, req) s)) = chains s
     \<and> outbox (snd (gw_handle_connection L G (inp, req) s)) = outbox s"
proof -
  have cfgs: "cfg (s\<lparr>limiter := l, disk := w\<rparr>) = cfg s" for l w by simp
  have none: "authenticate_team req (teams (cfg (s\<lparr>limiter := l, disk := w\<rparr>))) = None" for l w
    using assms by simp
  have route: "gw_route L G (inp\<lparr>gi_upstream := u\<rparr>) req s' = gw_route L G inp req s'
      \<and> chains (snd (gw_route L G inp req s')) = chains s' \<and> outbox (snd (gw_route L G inp req s')) = outbox s'"
    if "authenticate_team req (teams (cfg s')) = None" for s' :: "('g, 'n) gateway_state_scheme"
    using that by (auto simp: gw_route_def gw_post_def limited_def split: option.split prod.split sum.split)
  obtain r l w where c: "lim_check G (fst (gi_clock inp)) (snd (gi_clock inp)) (''gateway:ip:'' @ gi_peer inp) (gw_ip_policy s)
      (limiter s, disk s) = (r, l, w)" by (metis prod_cases3)
  show ?thesis
    using c route[OF none[where l = l and w = w]] by (cases r) (auto simp: gw_handle_connection_def limited_def)
qed

text \<open>
  What the provider is sent never carries the caller's credentials: neither the team's
  authorization header nor the agent header is forwarded, every forwarded header is one the caller
  sent, and the only bearer key is the gateway's own.
\<close>

lemma forwarded_headers_clean:
  "ur_bearer (upstream_request_of L s req) = upstream_key s
   \<and> set (ur_headers (upstream_request_of L s req)) \<subseteq> set (req_headers req)
   \<and> set (map fst (ur_headers (upstream_request_of L s req)))
       \<inter> {''authorization'', ''host'', ''content-length'', ''connection'', ''accept-encoding'', ''x-llm-attested-agent''} = {}"
  by (auto simp: upstream_request_of_def should_forward_header_def)

text \<open>
  A request the limiter refuses gets status 429 with the wait in its Retry-After header and
  changes nothing of the gateway but the limiter: no chain, no log line, no provider call.
\<close>

lemma gateway_refusal_is_inert:
  assumes "fst (lim_check G (fst (gi_clock inp)) (snd (gi_clock inp)) (''gateway:ip:'' @ gi_peer inp) (gw_ip_policy s)
       (limiter s, disk s)) = Inr d" "\<not> allowed d"
    and "fst (gw_handle_connection L G (inp, req) s) = Inr resp"
  shows "service_base.more (snd (gw_handle_connection L G (inp, req) s)) = service_base.more s \<and> status resp = 429
     \<and> map_of (resp_headers resp) ''Retry-After'' = Some (show_u64 (retry_after_secs (retry_after_ms d)))"
  using gw.refused_unchanged[of G "(inp, req)" s d L] gw.refused_status[of G "(inp, req)" s d L resp] assms by simp

text \<open>
  A gateway that starts in attested mode has a receipt, advertises exactly its hash and a real
  \<open>value_x\<close>, and holds a claim for its own capture path, enforcement mode and manifest.
\<close>

theorem attested_gateway_has_claim:
  assumes "gw_main L G env now seed c w = Inr s" "gc_assurance c = ''attested''"
  shows "\<exists>claim receipt. ra_claim s = Some claim \<and> cvm_receipt_body c = Some receipt
     \<and> ra_cvm_receipt_hash claim = sha256_prefixed L receipt \<and> man_cvm_receipt_hash (manifest s) = sha256_prefixed L receipt
     \<and> gc_value_x c \<noteq> ''unknown'' \<and> trim (gc_value_x c) \<noteq> []
     \<and> ra_capture_method claim = gc_capture_method c \<and> ra_enforcement claim = gc_enforcement_mode c
     \<and> ra_manifest_hash claim = gw_manifest_hash s"
proof -
  note m = gw_main_state[OF assms(1)]
  obtain claim receipt where c: "ra_claim s = Some claim" "cvm_receipt_body c = Some receipt"
      "trim (gc_value_x c) \<noteq> []" "gc_value_x c \<noteq> ''unknown''"
      "build_capture_ra_claim L (gw_manifest L c seed) (gw_manifest_hash s) receipt (gc_capture_method c) (gc_assurance c)
         (gc_enforcement_mode c) = Inr claim"
    using m(9)[OF assms(2)] by blast
  with build_claim_fields[OF c(5)] m(5) show ?thesis by auto
qed

definition ref_attested_config :: gw_config where
  "ref_attested_config = ref_gw_config\<lparr>gc_assurance := ''attested'', cvm_receipt_body := Some ''receipt'',
     gc_cvm_receipt_hash := sha256_prefixed ref_lib ''receipt'', gc_value_x := ''sha384:7678''\<rparr>"

end
