(* ===== verification/Gateway_Concurrency.thy ===== *)
theory Gateway_Concurrency
  imports Http_Server Gateway_Log "HOL-Library.Sublist"
begin

section \<open>The gateway under concurrent requests\<close>

text \<open>
  The handler of \<open>src/bin/llm-gateway.rs\<close> as the server runs it: a section for each limiter check,
  one for the event a model call leaves in the log, under the lock of the team chains, and one for the
  post to the event sink, which the code makes after that lock is released. The handler awaits the
  provider before the event is logged and the sink after the post, with no lock held and no bound on the time. The theorem is the one of sequential runs for every state the server
  can reach: interleaved requests of one team still form one chain.
\<close>

subsection \<open>The handler in sections\<close>

text \<open>Whether an event is posted to the sink, whose answer the handler then awaits.\<close>

definition sink_awaited :: "('m) llm_lib_scheme \<Rightarrow> contest_event \<Rightarrow> ('g, 'n) gateway_state_scheme \<Rightarrow> bool" where
  "sink_awaited L ev s \<longleftrightarrow> gc_event_sink_url (cfg s) \<noteq> None \<and> res_ok (event_to_cbor L ev) \<noteq> None"

definition send_event_task ::
    "('m) llm_lib_scheme \<Rightarrow> contest_event \<Rightarrow> 'r \<Rightarrow> (('g, 'n) gateway_state_scheme, 'r) task" where
  "send_event_task L ev answer =
     Section (\<lambda>s. if sink_awaited L ev s then Await (Return answer) else Return answer) (send_event_sink L ev)"

definition build_event_task ::
    "('m) llm_lib_scheme \<Rightarrow> gw_in \<Rightarrow> http_request \<Rightarrow> str \<Rightarrow> upstream_result
      \<Rightarrow> (('g, 'n) gateway_state_scheme, gw_error handler_error + http_response) task" where
  "build_event_task L inp req tm up =
     Section
       (\<lambda>s. case fst (build_llm_event L inp req up tm s) of
              Inl e \<Rightarrow> Return (Inl (Failed e))
            | Inr ev \<Rightarrow>
               (case event_hash L ev of
                  Inl e \<Rightarrow> Return (Inl (Failed (GwHash e)))
                | Inr root \<Rightarrow>
                   send_event_task L ev (Inr (write_response_with_headers (up_status up) (up_content_type up)
                     [(''x-llm-attested-event-id'', event_id ev), (''x-llm-attested-team-root'', root)] (up_body up)))))
       (\<lambda>s. snd (build_llm_event L inp req up tm s))"

definition model_request_task ::
    "('m) llm_lib_scheme \<Rightarrow> gw_in \<Rightarrow> http_request \<Rightarrow> str
      \<Rightarrow> (('g, 'n) gateway_state_scheme, gw_error handler_error + http_response) task" where
  "model_request_task L inp req tm =
     Section
       (\<lambda>s. Await (case proxy_upstream L inp req s of
              Inl e \<Rightarrow> Return (Inl (Failed e))
            | Inr up \<Rightarrow> build_event_task L inp req tm up))
       (\<lambda>s. s)"

definition gw_post_task ::
    "('m) llm_lib_scheme \<Rightarrow> 'g net_env \<Rightarrow> gw_in \<Rightarrow> http_request
      \<Rightarrow> (('g, 'n) gateway_state_scheme, gw_error handler_error + http_response) task" where
  "gw_post_task L G inp req =
     Section
       (\<lambda>s. case authenticate_team req (teams (cfg s)) of
              None \<Rightarrow>
                limited_task L G (fst (gi_clock2 inp)) (snd (gi_clock2 inp)) (''gateway:auth:'' @ gi_peer inp) gw_auth_policy
                  (Return (write_json L 401 (jobj [(''error'', JStr ''missing or invalid team API key'')])))
            | Some tm \<Rightarrow>
                limited_task L G (fst (gi_clock2 inp)) (snd (gi_clock2 inp)) (''gateway:team:'' @ tm) gw_team_policy
                  (model_request_task L inp req tm))
       (\<lambda>s. s)"

text \<open>The other routes read what the gateway was started with.\<close>

definition gw_route_task ::
    "('m) llm_lib_scheme \<Rightarrow> 'g net_env \<Rightarrow> gw_in \<Rightarrow> http_request
      \<Rightarrow> (('g, 'n) gateway_state_scheme, gw_error handler_error + http_response) task" where
  "gw_route_task L G inp req =
     (if req_method req = ''POST'' \<and> starts_with ''/v1/'' (req_path req) then gw_post_task L G inp req
      else atomically (gw_route L G inp req))"

definition gateway_handler ::
    "('m) llm_lib_scheme \<Rightarrow> 'g net_env \<Rightarrow> (gw_in, ('g, 'n) gateway_state_scheme, gw_error) handler" where
  "gateway_handler L G inp0 peer req =
     (let inp = inp0\<lparr>gi_peer := peer\<rparr> in
      limited_task L G (fst (gi_clock inp)) (snd (gi_clock inp)) (''gateway:ip:'' @ gi_peer inp) gw_ip_policy
        (gw_route_task L G inp req))"

subsection \<open>Uninterrupted\<close>

lemma run_model_request_task: "run_task (model_request_task L inp req tm) = handle_model_request L inp req tm"
  by (auto simp: fun_eq_iff model_request_task_def handle_model_request_def build_event_task_def send_event_task_def
      split: sum.split prod.split)

lemma run_gw_post_task: "run_task (gw_post_task L G inp req) = gw_post L G inp req"
  by (auto simp: fun_eq_iff gw_post_task_def gw_post_def run_limited_task run_model_request_task limited_def
      split: option.split sum.split prod.split)

lemma run_gw_route_task: "run_task (gw_route_task L G inp req) = gw_route L G inp req"
  by (auto simp: fun_eq_iff gw_route_task_def gw_route_def run_gw_post_task)

lemma run_gateway_handler:
  "run_task (gateway_handler L G inp peer req) s = gw_handle_connection L G (inp\<lparr>gi_peer := peer\<rparr>, req) s"
  by (simp add: gateway_handler_def Let_def gw_handle_connection_def run_limited_task run_gw_route_task)

subsection \<open>What holds of every section\<close>

definition gw_kept ::
    "('m) llm_lib_scheme \<Rightarrow> bytes \<Rightarrow> ('g, 'n) gateway_state_scheme \<Rightarrow> contest_event list \<Rightarrow> ('g, 'n) gateway_state_scheme \<Rightarrow> bool" where
  "gw_kept L c0 s0 evs s \<longleftrightarrow> gw_log_inv L c0 evs s \<and> gw_fixed s = gw_fixed s0"

lemma gw_kept_limited:
  assumes "gw_kept L c0 s0 evs s"
  shows "gw_kept L c0 s0 evs (snd (limited L' G now inst key p (\<lambda>s. (r, s)) s))"
proof -
  obtain d l w where c: "lim_check G now inst key p (limiter s, disk s) = (d, l, w)" by (metis prod_cases3)
  have "snd (limited L' G now inst key p (\<lambda>s. (r, s)) s) = s\<lparr>limiter := l, disk := w\<rparr>"
    using c by (auto simp: limited_def split: sum.split)
  then show ?thesis
    using assms gw_log_inv_limiter[of L c0 evs s, OF _ c] by (simp add: gw_kept_def gw_fixed_def)
qed

lemma gw_kept_send:
  assumes "gw_kept L c0 s0 evs s" "ev \<in> set evs"
  shows "gw_kept L c0 s0 evs (send_event_sink L ev s)"
proof -
  have inv: "gw_log_inv L c0 evs s" using assms(1) by (simp add: gw_kept_def)
  have "gw_log_inv L c0 evs (send_event_sink L ev s)"
    by (rule gw_log_inv_fixed[OF inv])
       (use inv assms(2) in \<open>auto simp: send_event_sink_def gw_fixed_def log_of_def gw_log_inv_def posted_def list_ex_iff
          split: option.splits sum.splits\<close>)
  moreover have "gw_fixed (send_event_sink L ev s) = gw_fixed s"
    by (auto simp: send_event_sink_def gw_fixed_def split: option.split sum.split)
  ultimately show ?thesis using assms(1) by (simp add: gw_kept_def)
qed

lemma gw_kept_build:
  assumes "sig_law L" "gw_kept L c0 s0 evs s" "build_llm_event L inp req up tm s = (r, s')"
  shows "(\<exists>e. r = Inr e \<and> gw_kept L c0 s0 (evs @ [e]) s') \<or> ((\<exists>err. r = Inl err) \<and> gw_kept L c0 s0 evs s')"
  using build_llm_event_inv[OF assms(1) _ assms(3)] build_llm_event_fixed[of L inp req up tm s] assms(2,3)
  by (auto simp: gw_kept_def)

lemma sections_build_event:
  fixes s0 :: "('g, 'n) gateway_state_scheme"
  assumes "sig_law L"
  shows "sections_ok prefix (gw_kept L c0 s0) (build_event_task L inp req tm up) a"
proof -
  have send: "sections_ok prefix (gw_kept L c0 s0) (send_event_task L ev x) (evs @ [ev])" for ev evs and x :: "gw_error handler_error + http_response"
  proof -
    have "gw_kept L c0 s0 a (send_event_sink L ev s)" if "prefix (evs @ [ev]) a" "gw_kept L c0 s0 a s" for a s
      using that gw_kept_send set_mono_prefix by fastforce
    then show ?thesis by (auto simp: send_event_task_def)
  qed
  show ?thesis
    unfolding build_event_task_def sections_ok.simps(2)
  proof (intro allI impI)
    fix evs and s :: "('g, 'n) gateway_state_scheme"
    assume k: "gw_kept L c0 s0 evs s"
    obtain r s' where b: "build_llm_event L inp req up tm s = (r, s')" by (rule prod.exhaust)
    from gw_kept_build[OF assms k b]
    show "\<exists>a2. prefix evs a2 \<and> gw_kept L c0 s0 a2 (snd (build_llm_event L inp req up tm s)) \<and>
        sections_ok prefix (gw_kept L c0 s0)
          (case fst (build_llm_event L inp req up tm s) of
             Inl e \<Rightarrow> Return (Inl (Failed e))
           | Inr ev \<Rightarrow>
              (case event_hash L ev of
                 Inl e \<Rightarrow> Return (Inl (Failed (GwHash e)))
               | Inr root \<Rightarrow>
                  send_event_task L ev (Inr (write_response_with_headers (up_status up) (up_content_type up)
                    [(''x-llm-attested-event-id'', event_id ev), (''x-llm-attested-team-root'', root)] (up_body up))))) a2"
    proof (elim disjE exE conjE)
      fix e
      assume "r = Inr e" "gw_kept L c0 s0 (evs @ [e]) s'"
      then show ?thesis using b send by (intro exI[of _ "evs @ [e]"]) (simp split: sum.split)
    qed (use b in auto)
  qed
qed

lemma sections_read:
  "(\<And>a. le a a) \<Longrightarrow> (\<And>s a. sections_ok le J (nxt s) a) \<Longrightarrow> sections_ok le J (Section nxt (\<lambda>s. s)) a"
  by auto

lemma sections_gateway:
  fixes s0 :: "('g, 'n) gateway_state_scheme"
  assumes "sig_law L"
  shows "sections_ok prefix (gw_kept L c0 s0) (gateway_handler L G inp peer req) a"
proof -
  have lim: "sections_ok prefix (gw_kept L c0 s0) (limited_task L G now inst key p k) a"
    if "\<And>a. sections_ok prefix (gw_kept L c0 s0) k a" for now inst key p a
      and k :: "(('g, 'n) gateway_state_scheme, gw_error handler_error + http_response) task"
    by (rule sections_limited) (use that gw_kept_limited in auto)
  have "sections_ok prefix (gw_kept L c0 s0) (model_request_task L inp req tm) a" for inp tm a
    unfolding model_request_task_def
    by (intro sections_read) (simp_all add: sections_build_event[OF assms] split: sum.split)
  then have post: "sections_ok prefix (gw_kept L c0 s0) (gw_post_task L G inp req) a" for inp a
    unfolding gw_post_task_def by (intro sections_read) (simp_all add: lim split: option.split)
  have same: "snd (gw_route L G inp req s) = s" if "\<not> (req_method req = ''POST'' \<and> starts_with ''/v1/'' (req_path req))" for inp and s :: "('g, 'n) gateway_state_scheme"
    using that by (auto simp: gw_route_def split: option.split)
  have "sections_ok prefix (gw_kept L c0 s0) (gw_route_task L G inp req) a" for inp a
  proof (cases "req_method req = ''POST'' \<and> starts_with ''/v1/'' (req_path req)")
    case False
    then show ?thesis using same by (auto simp: gw_route_task_def sections_atomically simp del: starts_with_def)
  qed (simp add: gw_route_task_def post)
  then show ?thesis using lim by (simp add: gateway_handler_def Let_def)
qed

interpretation gw_served: sectioned_service prefix "gw_kept L c0 s0" "gateway_handler L G" "\<lambda>_. sig_law L"
  for L :: "('m) llm_lib_scheme" and G :: "'g net_env" and c0 and s0 :: "('g, 'n) gateway_state_scheme"
  by unfold_locales (auto intro: prefix_order.trans sections_gateway)

subsection \<open>Properties\<close>

text \<open>
  C3: the event log of a gateway that serves many connections at once. In every state the server
  reaches from a started gateway, however the sections of its requests alternate and whichever clients
  go away, the log is what it held before followed by one line per event; the events of each team form
  one hash chain from index 0, each naming the hash of the team's previous event; every event is
  signed by the key the manifest publishes, names the manifest's hash and in attested mode carries the
  gateway's claim; and only events of the log were posted to the event sink.
\<close>

theorem concurrent_gateway_log:
  assumes "sig_law L" "gw_main L G env now seed c w = Inr s" "rate_state_path c \<noteq> event_log_path c"
    and "serve_hyper bind cf s = Inr sv0" "serves L' T cf (gateway_handler L G) sv0 evts sv"
  shows "\<exists>evs. log_of (sv_state sv) = opt_or (bt_get (files w) (event_log_path c)) [] @ concat (map (log_line L) evs)
     \<and> (\<forall>tm. chain_from L 0 ZERO_HASH (team_events tm evs)) \<and> list_all (event_good L s) evs
     \<and> list_all (posted L c evs) (outbox (sv_state sv))"
proof -
  let ?c0 = "opt_or (bt_get (files w) (event_log_path c)) []"
  have "\<exists>evs. prefix [] evs \<and> gw_kept L ?c0 s evs (sv_state sv)"
    by (rule gw_served.server_keeps[OF assms(5)])
       (use gw_main_inv[OF assms(2,3)] serve_hyper_start[OF assms(4)] assms(1) in \<open>simp_all add: gw_kept_def list_all_iff\<close>)
  then obtain evs where i: "gw_log_inv L ?c0 evs (sv_state sv)" and f: "gw_fixed (sv_state sv) = gw_fixed s"
    by (auto simp: gw_kept_def)
  have "cfg s = c" by (rule gw_main_state(1)[OF assms(2)])
  with f have "event_good L (sv_state sv) = event_good L s" "cfg (sv_state sv) = c"
    by (simp_all add: fun_eq_iff event_good_def gw_fixed_def)
  with i show ?thesis by (intro exI[of _ evs]) (auto simp: gw_log_inv_def chain_inv_def)
qed

text \<open>
  Two clients of one team at once: both requests pass the limiter before either is logged, the second
  is logged first, and its client goes away before the sink has the event.
\<close>

definition ref_gw_events :: "(gw_in, bytes) server_event list" where
  "ref_gw_events =
     (let r = \<lparr>raw_method = ''POST'', raw_path_and_query = Some ''/v1/responses'',
                raw_headers = [(''authorization'', ''Bearer key'')], raw_body = Body ''{}''\<rparr>
      in [Acquire, Accept ''10.0.0.1'', Acquire, Accept ''10.0.0.2'', Receive 0 ref_gw_in r, Receive 1 ref_gw_in r,
          RunSection 0, RunSection 1, RunSection 0, RunSection 1, RunSection 0, RunSection 1, RunSection 0, RunSection 1,
          Arrive 1, RunSection 1, Arrive 0, RunSection 0, RunSection 0, Respond 0, Hangup 1])"

definition ref_gw_cfg :: http_server_config where
  "ref_gw_cfg = ref_server_config\<lparr>tls_acceptor := None\<rparr>"

definition ref_gw_server :: "(gw_in, nat gateway_state, gw_error) server" where
  "ref_gw_server = \<lparr>sv_loop = Acquiring, sv_permits = 2, sv_conns = [], sv_accepted = 0, sv_state = ref_gw,
     sv_calls = [], sv_sent = []\<rparr>"

lemma ref_gw_server_starts: "serve_hyper (\<lambda>_. Inr ()) ref_gw_cfg ref_gw = Inr ref_gw_server"
  by (simp add: serve_hyper_def ref_gw_cfg_def ref_server_config_def ref_gw_server_def permits_of_def)

lemma ref_gw_served:
  "\<exists>sv. serves ref_lib ref_tls_lib ref_gw_cfg (gateway_handler ref_llm ref_net_any) ref_gw_server ref_gw_events sv
     \<and> map_option next_index (bt_get (chains (sv_state sv)) ''team_a'') = Some 2"
proof -
  let ?r = "server_run ref_lib ref_tls_lib ref_gw_cfg (gateway_handler ref_llm ref_net_any) ref_gw_events ref_gw_server"
  have "(case ?r of None \<Rightarrow> False | Some sv \<Rightarrow> map_option next_index (bt_get (chains (sv_state sv)) ''team_a'') = Some 2)"
    by code_simp
  then obtain sv where sv: "?r = Some sv" "map_option next_index (bt_get (chains (sv_state sv)) ''team_a'') = Some 2"
    by (auto split: option.splits)
  then show ?thesis using serves_run[OF sv(1) serves.start] by auto
qed

theorem concurrent_gateway_log_witness:
  "\<exists>sv evs. serves ref_lib ref_tls_lib ref_gw_cfg (gateway_handler ref_llm ref_net_any) ref_gw_server ref_gw_events sv
     \<and> map_option next_index (bt_get (chains (sv_state sv)) ''team_a'') = Some 2
     \<and> log_of (sv_state sv) = concat (map (log_line ref_llm) evs) \<and> chain_from ref_llm 0 ZERO_HASH (team_events ''team_a'' evs)"
proof -
  have p: "rate_state_path ref_gw_config \<noteq> event_log_path ref_gw_config"
    by (simp add: ref_gw_config_def gw_args_default_def gw_config.truncate_def)
  have l: "opt_or (bt_get (files ref_fs) (event_log_path ref_gw_config)) [] = []"
    by (simp add: ref_fs_def opt_or_def)
  have "sig_law ref_llm" by (simp add: ref_llm_def ref_lib_sig_law)
  then show ?thesis
    using ref_gw_served concurrent_gateway_log[OF _ ref_gw_main p ref_gw_server_starts] l by (metis append_Nil)
qed

end
