(* ===== verification/Capture_Daemon.thy ===== *)
theory Capture_Daemon
  imports Line_Log Llm_Capture "HOL-Library.Sublist"
begin

section \<open>The capture daemon (\<open>src/bin/llm-capture-daemon.rs\<close>)\<close>

text \<open>
  The local companion of browser extensions and manual reports: a report is completed, signed,
  logged and posted to the event sink; what the sink does not take is queued in a pending file that
  a background loop replays. The state adds to the limiter and the disk the bodies the sink
  acknowledged. The sink's answers, the clock and random bytes are inputs of an operation; the
  delays between attempts are not modelled. The replay is the composition of reading the file,
  posting its lines and rewriting it, between which the program lets other requests run.
\<close>

subsection \<open>Configuration and state\<close>

record cd_config =
  dc_listen :: str
  dc_event_sink_url :: str
  dc_hackathon_id :: str
  dc_team_id :: str
  dc_gateway_id :: str
  dc_manifest_hash :: str
  dc_signing_seed :: "str option"
  dc_event_log_path :: str
  dc_pending_log_path :: str
  dc_rate_state_path :: str
  dc_max_connections :: u64
  dc_requests_per_minute :: u32
  dc_read_timeout_ms :: u64

record 'g daemon_state = "'g service_base" +
  dc_cfg :: cd_config
  dc_signing_key :: bytes
  sink_log :: "bytes list"

record cd_lib = llm_lib +
  de_report :: "bytes \<Rightarrow> capture_report option"

record cd_in =
  di_peer :: str
  di_clock :: "u64 \<times> nat"
  di_now :: u64
  di_random :: bytes
  di_sink :: "nat \<Rightarrow> bytes \<Rightarrow> bool"

datatype cd_error =
    CdDecode | CdSign llm_error | CdHash llm_error | CdEncode llm_error | CdLog str
  | CdPendingRead str | CdPendingDecode | CdPendingWrite str

subsection \<open>Reports\<close>

definition or_default :: "str \<Rightarrow> str \<Rightarrow> str" where
  "or_default x d = (if x = [] then d else x)"

definition fill_report_defaults :: "cd_config \<Rightarrow> str \<Rightarrow> str \<Rightarrow> capture_report \<Rightarrow> capture_report" where
  "fill_report_defaults c cm as r = r\<lparr>
     cr_hackathon_id := or_default (cr_hackathon_id r) (dc_hackathon_id c),
     cr_team_id := or_default (cr_team_id r) (dc_team_id c),
     cr_gateway_id := or_default (cr_gateway_id r) (dc_gateway_id c),
     cr_manifest_hash := or_default (cr_manifest_hash r) (dc_manifest_hash c),
     cr_capture_method := or_default (cr_capture_method r) cm,
     cr_assurance := or_default (cr_assurance r) as,
     cr_evidence := bt_or_insert ''capture_daemon'' ''llm-capture-daemon'' (cr_evidence r)\<rparr>"

definition cd_append_event :: "('m) llm_lib_scheme \<Rightarrow> str \<Rightarrow> contest_event \<Rightarrow> fs \<Rightarrow> cd_error + fs" where
  "cd_append_event L path e w =
     rbind (map_err CdEncode (event_to_cbor L e)) (\<lambda>cbor.
     map_err (\<lambda>_. CdLog path) (fs_append path (b64_encode L cbor @ [CHR 0x0A]) w))"

text \<open>Three attempts; the body that was acknowledged, if one was.\<close>

definition send_event_with_backoff :: "('m) llm_lib_scheme \<Rightarrow> (nat \<Rightarrow> bytes \<Rightarrow> bool) \<Rightarrow> contest_event \<Rightarrow> bytes option" where
  "send_event_with_backoff L sink e =
     (case event_to_cbor L e of
        Inl _ \<Rightarrow> None
      | Inr b \<Rightarrow> if list_ex (\<lambda>i. sink i b) [0, 1, 2] then Some b else None)"

definition capture_answer :: "bool \<Rightarrow> contest_event \<Rightarrow> str \<Rightarrow> json" where
  "capture_answer queued e h = jobj [(''accepted'', JBool True), (''queued'', JBool queued), (''event_id'', JStr (event_id e)),
     (''event_hash'', JStr h), (''capture_method'', JStr (capture_method e)), (''assurance'', JStr (assurance e))]"

definition cd_capture_report ::
    "('m) cd_lib_scheme \<Rightarrow> cd_in \<Rightarrow> http_request \<Rightarrow> str \<Rightarrow> str \<Rightarrow> 'g daemon_state
       \<Rightarrow> (cd_error handler_error + http_response) \<times> 'g daemon_state" where
  "cd_capture_report L inp req cm as s =
     (case rbind (ok_or (de_report L (req_body req)) CdDecode) (\<lambda>report.
           rbind (map_err CdSign (report_sign L (di_now inp) (di_random inp) (dc_signing_key s)
                    (fill_report_defaults (dc_cfg s) cm as report))) (\<lambda>e.
           rbind (map_err CdHash (event_hash L e)) (\<lambda>h.
           rbind (cd_append_event L (dc_event_log_path (dc_cfg s)) e (disk s)) (\<lambda>w. Inr (e, h, w))))) of
        Inl err \<Rightarrow> (Inl (Failed err), s)
      | Inr (e, h, w) \<Rightarrow>
         (case send_event_with_backoff L (di_sink inp) e of
            Some b \<Rightarrow> (write_json L 202 (capture_answer False e h), s\<lparr>disk := w, sink_log := sink_log s @ [b]\<rparr>)
          | None \<Rightarrow>
             (case cd_append_event L (dc_pending_log_path (dc_cfg s)) e w of
                Inl err \<Rightarrow> (Inl (Failed err), s\<lparr>disk := w\<rparr>)
              | Inr w' \<Rightarrow> (write_json L 202 (capture_answer True e h), s\<lparr>disk := w'\<rparr>))))"

definition cd_ip_policy :: "'g daemon_state \<Rightarrow> rate_limit_policy" where
  "cd_ip_policy s = with_backoff 1000 60000
     (per_minute (dc_requests_per_minute (dc_cfg s)) (min (dc_requests_per_minute (dc_cfg s)) 120))"

definition cd_route ::
    "('m) cd_lib_scheme \<Rightarrow> cd_in \<times> http_request \<Rightarrow> 'g daemon_state \<Rightarrow> (cd_error handler_error + http_response) \<times> 'g daemon_state" where
  "cd_route L q s =
     (let req = snd q; inp = fst q in
      if req_method req = ''GET'' \<and> req_path req = ''/healthz'' then (write_json L 200 (jobj [(''ok'', JBool True)]), s)
      else if req_method req = ''OPTIONS'' then (Inr (write_response 204 ''text/plain'' []), s)
      else if req_method req = ''POST'' \<and> req_path req = ''/capture/browser''
      then cd_capture_report L inp req ''browser_extension'' ''participant_controlled'' s
      else if req_method req = ''POST'' \<and> req_path req = ''/capture/manual''
      then cd_capture_report L inp req ''manual_import'' ''self_reported'' s
      else (write_json L 404 (jobj [(''error'', JStr ''not found'')]), s))"

definition cd_handle_connection ::
    "('m) cd_lib_scheme \<Rightarrow> 'g net_env \<Rightarrow> cd_in \<times> http_request \<Rightarrow> 'g daemon_state
       \<Rightarrow> (cd_error handler_error + http_response) \<times> 'g daemon_state" where
  "cd_handle_connection L G q s =
     limited L G (fst (di_clock (fst q))) (snd (di_clock (fst q))) (''capture-daemon:ip:'' @ di_peer (fst q)) (cd_ip_policy s)
       (cd_route L q) s"

subsection \<open>Replay\<close>

text \<open>Reading the pending file: no file, or its lines that are not blank.\<close>

definition replay_read :: "'g daemon_state \<Rightarrow> cd_error + str list option" where
  "replay_read s =
     (let path = dc_pending_log_path (dc_cfg s) in
      if \<not> fs_exists (disk s) path then Inr None
      else rbind (ok_or (read_to_string (disk s) path) (CdPendingRead path)) (\<lambda>body.
           Inr (Some (filter (\<lambda>line. trim line \<noteq> []) (lines body)))))"

text \<open>
  Posting the lines in turn, the \<open>n\<close>-th by the sink's \<open>n\<close>-th answer: the bodies acknowledged, and the
  lines left over or the line that does not decode.
\<close>

fun replay_post ::
    "('m) lib_scheme \<Rightarrow> (nat \<Rightarrow> bytes \<Rightarrow> bool) \<Rightarrow> nat \<Rightarrow> str list \<Rightarrow> bytes list \<times> (cd_error + str list)" where
  "replay_post L sink n [] = ([], Inr [])"
| "replay_post L sink n (line # rest) =
     (case b64_decode L (trim line) of
        None \<Rightarrow> ([], Inl CdPendingDecode)
      | Some b \<Rightarrow>
         (let (sent, r) = replay_post L sink (Suc n) rest in
          if sink n b then (b # sent, r) else (sent, rbind r (\<lambda>rem. Inr (trim line # rem)))))"

definition replay_rewrite :: "str list \<Rightarrow> 'g daemon_state \<Rightarrow> (cd_error + unit) \<times> 'g daemon_state" where
  "replay_rewrite rem s =
     (let path = dc_pending_log_path (dc_cfg s) in
      if rem = [] then (Inr (), s\<lparr>disk := fs_remove path (disk s)\<rparr>)
      else case fs_write path (join [CHR 0x0A] rem @ [CHR 0x0A]) (disk s) of
        Inl _ \<Rightarrow> (Inl (CdPendingWrite path), s)
      | Inr w \<Rightarrow> (Inr (), s\<lparr>disk := w\<rparr>))"

text \<open>The replay, with what other requests do to the state while it posts.\<close>

definition replay_around ::
    "('m) lib_scheme \<Rightarrow> (nat \<Rightarrow> bytes \<Rightarrow> bool) \<Rightarrow> ('g daemon_state \<Rightarrow> 'g daemon_state) \<Rightarrow> 'g daemon_state
       \<Rightarrow> (cd_error + nat) \<times> 'g daemon_state" where
  "replay_around L sink meanwhile s =
     (case replay_read s of
        Inl e \<Rightarrow> (Inl e, s)
      | Inr None \<Rightarrow> (Inr 0, s)
      | Inr (Some ls) \<Rightarrow>
         (let (sent, r) = replay_post L sink 0 ls;
              s1 = meanwhile (s\<lparr>sink_log := sink_log s @ sent\<rparr>)
          in case r of
               Inl e \<Rightarrow> (Inl e, s1)
             | Inr rem \<Rightarrow>
                (case replay_rewrite rem s1 of
                   (Inl e, s2) \<Rightarrow> (Inl e, s2)
                 | (Inr _, s2) \<Rightarrow> (Inr (length sent), s2))))"

definition replay_pending_events ::
    "('m) lib_scheme \<Rightarrow> (nat \<Rightarrow> bytes \<Rightarrow> bool) \<Rightarrow> 'g daemon_state \<Rightarrow> (cd_error + nat) \<times> 'g daemon_state" where
  "replay_pending_events L sink s = replay_around L sink (\<lambda>s. s) s"

subsection \<open>Start-up\<close>

datatype cd_start_error =
    CdNeedsValue str | CdBadNumber str | CdUnknownArg str | CdHelp | CdConfig config_error | CdNoSink
  | CdDir str | CdLimiter net_error

definition cd_config_default :: cd_config where
  "cd_config_default = \<lparr>dc_listen = ''127.0.0.1:8090'', dc_event_sink_url = [], dc_hackathon_id = ''hk_dev'',
     dc_team_id = ''team_dev'', dc_gateway_id = ''capture_daemon'', dc_manifest_hash = ZERO_HASH, dc_signing_seed = None,
     dc_event_log_path = ''./llm-capture-events.cborl'', dc_pending_log_path = ''./llm-capture-pending.cborl'',
     dc_rate_state_path = ''./llm-capture-rate-state.json'', dc_max_connections = 128, dc_requests_per_minute = 600,
     dc_read_timeout_ms = 5000\<rparr>"

fun find_arg_value :: "str list \<Rightarrow> str \<Rightarrow> cd_start_error + str option" where
  "find_arg_value [] name = Inr None"
| "find_arg_value (a # rest) name =
     (if a = name then (case rest of [] \<Rightarrow> Inl (CdNeedsValue name) | v # _ \<Rightarrow> Inr (Some v)) else find_arg_value rest name)"

definition cd_flags :: "str list" where
  "cd_flags = [''--listen'', ''--event-sink-url'', ''--config'', ''--hackathon-id'', ''--team-id'', ''--gateway-id'',
     ''--manifest-hash'', ''--signing-seed'', ''--events'', ''--pending-events'', ''--rate-state'', ''--max-connections'',
     ''--requests-per-minute'', ''--read-timeout-ms'']"

definition cd_set_flag :: "str \<Rightarrow> str \<Rightarrow> cd_config \<Rightarrow> cd_start_error + cd_config" where
  "cd_set_flag f v c =
     (if f = ''--listen'' then Inr (c\<lparr>dc_listen := v\<rparr>)
      else if f = ''--event-sink-url'' then Inr (c\<lparr>dc_event_sink_url := v\<rparr>)
      else if f = ''--config'' then Inr c
      else if f = ''--hackathon-id'' then Inr (c\<lparr>dc_hackathon_id := v\<rparr>)
      else if f = ''--team-id'' then Inr (c\<lparr>dc_team_id := v\<rparr>)
      else if f = ''--gateway-id'' then Inr (c\<lparr>dc_gateway_id := v\<rparr>)
      else if f = ''--manifest-hash'' then Inr (c\<lparr>dc_manifest_hash := v\<rparr>)
      else if f = ''--signing-seed'' then Inr (c\<lparr>dc_signing_seed := Some v\<rparr>)
      else if f = ''--events'' then Inr (c\<lparr>dc_event_log_path := v\<rparr>)
      else if f = ''--pending-events'' then Inr (c\<lparr>dc_pending_log_path := v\<rparr>)
      else if f = ''--rate-state'' then Inr (c\<lparr>dc_rate_state_path := v\<rparr>)
      else if f = ''--max-connections'' then rbind (ok_or (parse_u64 v) (CdBadNumber f)) (\<lambda>n. Inr (c\<lparr>dc_max_connections := n\<rparr>))
      else if f = ''--requests-per-minute''
      then rbind (ok_or (parse_u32 v) (CdBadNumber f)) (\<lambda>n. Inr (c\<lparr>dc_requests_per_minute := n\<rparr>))
      else if f = ''--read-timeout-ms'' then rbind (ok_or (parse_u64 v) (CdBadNumber f)) (\<lambda>n. Inr (c\<lparr>dc_read_timeout_ms := n\<rparr>))
      else Inl (CdUnknownArg f))"

fun cd_parse_loop :: "str list \<Rightarrow> cd_config \<Rightarrow> cd_start_error + cd_config" where
  "cd_parse_loop [] c = Inr c"
| "cd_parse_loop [f] c =
     (if f = ''-h'' \<or> f = ''--help'' then Inl CdHelp
      else if f \<in> set cd_flags then Inl (CdNeedsValue f) else Inl (CdUnknownArg f))"
| "cd_parse_loop (f # v # rest) c =
     (if f = ''-h'' \<or> f = ''--help'' then Inl CdHelp
      else rbind (cd_set_flag f v c) (\<lambda>c'. cd_parse_loop rest c'))"

definition cd_parse_args :: "('m) lib_scheme \<Rightarrow> config_codec \<Rightarrow> fs \<Rightarrow> str list \<Rightarrow> cd_start_error + cd_config" where
  "cd_parse_args L C w args =
     rbind (find_arg_value args ''--config'') (\<lambda>path.
     rbind (case path of
              None \<Rightarrow> Inr cd_config_default
            | Some p \<Rightarrow> rbind (map_err CdConfig (config_load C w p)) (\<lambda>pc.
                Inr (cd_config_default\<lparr>dc_event_sink_url := pc_event_sink_url pc, dc_hackathon_id := pc_event_id pc,
                       dc_team_id := pc_team_id pc\<rparr>))) (\<lambda>c0.
     rbind (cd_parse_loop args c0) (\<lambda>c.
     rbind (ensure (dc_event_sink_url c \<noteq> []) CdNoSink) (\<lambda>_.
     Inr (c\<lparr>dc_manifest_hash := (if starts_with ''sha256:'' (dc_manifest_hash c) then dc_manifest_hash c
               else sha256_prefixed L (dc_manifest_hash c)),
            dc_max_connections := max (dc_max_connections c) 1,
            dc_requests_per_minute := max (dc_requests_per_minute c) 1,
            dc_read_timeout_ms := max (dc_read_timeout_ms c) 1\<rparr>)))))"

text \<open>\<open>run_server\<close> up to the accept loop and the replay loop.\<close>

definition cd_main ::
    "('m) lib_scheme \<Rightarrow> 'g net_env \<Rightarrow> u64 \<Rightarrow> bytes \<Rightarrow> cd_config \<Rightarrow> fs \<Rightarrow> cd_start_error + 'g daemon_state" where
  "cd_main L G now rnd c w =
     rbind (map_err (\<lambda>_. CdDir (path_parent (dc_event_log_path c))) (ensure_parent (dc_event_log_path c) w)) (\<lambda>_.
     rbind (map_err CdLimiter (lim_load G now (dc_rate_state_path c) 100000 w)) (\<lambda>lim.
     Inr \<lparr>limiter = lim, disk = w, dc_cfg = c, dc_signing_key = signing_key_from_seed L rnd (dc_signing_seed c),
          sink_log = []\<rparr>))"

interpretation cd: rate_limited_service L G "\<lambda>q. fst (di_clock (fst q))" "\<lambda>q. snd (di_clock (fst q))"
    "\<lambda>q. ''capture-daemon:ip:'' @ di_peer (fst q)" "\<lambda>q s. cd_ip_policy s" "cd_route L"
    "cd_handle_connection L G"
  for L :: "('m) cd_lib_scheme" and G :: "'g net_env"
  by unfold_locales (simp add: cd_handle_connection_def)

subsection \<open>The pending queue\<close>

text \<open>The bodies queued: what the pending file holds, when it was written by the daemon.\<close>

definition pending_file :: "'g daemon_state \<Rightarrow> bytes" where
  "pending_file s = opt_or (bt_get (files (disk s)) (dc_pending_log_path (dc_cfg s))) []"

definition queued :: "('m) lib_scheme \<Rightarrow> 'g daemon_state \<Rightarrow> bytes list \<Rightarrow> bool" where
  "queued L s bs \<longleftrightarrow> pending_file s = concat (map (capture_line L) bs) \<and> list_all (\<lambda>b. b \<noteq> []) bs"

text \<open>The configured paths keep the queue apart from the log and the limiter's state.\<close>

definition cd_paths_apart :: "'g daemon_state \<Rightarrow> bool" where
  "cd_paths_apart s \<longleftrightarrow> dc_pending_log_path (dc_cfg s) \<noteq> dc_event_log_path (dc_cfg s)
     \<and> dc_pending_log_path (dc_cfg s) \<noteq> lim_path (limiter s)"

definition cd_frame :: "'g daemon_state \<Rightarrow> 'g daemon_state \<Rightarrow> bool" where
  "cd_frame s s' \<longleftrightarrow> dc_cfg s' = dc_cfg s \<and> dc_signing_key s' = dc_signing_key s
     \<and> lim_path (limiter s') = lim_path (limiter s) \<and> faulty (disk s') = faulty (disk s)"

definition nonempty_events :: "('m) llm_lib_scheme \<Rightarrow> bool" where
  "nonempty_events L \<longleftrightarrow> (\<forall>e. ser_event L e \<noteq> Inr [])"

lemma capture_line_ne [simp]: "capture_line L b \<noteq> []"
  by (simp add: capture_line_def)

lemma replay_read_queued:
  assumes "b64_law L" "queued L s bs" "replay_read s = Inr r"
  shows "r = Some (map (b64_encode L) bs) \<or> r = None \<and> bs = []"
proof (cases "bt_get (files (disk s)) (dc_pending_log_path (dc_cfg s))")
  case None
  then show ?thesis using assms(2,3)
    by (auto simp: replay_read_def fs_exists_def Let_def queued_def pending_file_def opt_or_def)
next
  case (Some body)
  then have body: "body = concat (map (capture_line L) bs)" using assms(2) by (simp add: queued_def pending_file_def opt_or_def)
  have "b64_encode L b \<noteq> []" if "b \<in> set bs" for b using assms(1,2) that by (auto simp: b64_law_def queued_def list_all_iff)
  then have "filter (\<lambda>l. trim l \<noteq> []) (lines body) = map (b64_encode L) bs"
    using assms(1) by (auto simp: body lines_log b64_text filter_id_conv)
  moreover have "read_to_string (disk s) (dc_pending_log_path (dc_cfg s)) = Some body" if "read_to_string (disk s) (dc_pending_log_path (dc_cfg s)) \<noteq> None"
    using that Some by (auto simp: read_to_string_def fs_read_def split: if_splits sum.splits)
  ultimately show ?thesis using assms(3) Some
    by (auto simp: replay_read_def Let_def fs_exists_def res_simps split: option.splits)
qed

lemma replay_post_lines:
  assumes "b64_law L"
  shows "replay_post L sink n (map (b64_encode L) bs) =
    (let sel = map (\<lambda>(i, b). sink i b) (enumerate n bs) in
     (map fst (filter snd (zip bs sel)), Inr (map (b64_encode L \<circ> fst) (filter (Not \<circ> snd) (zip bs sel)))))"
proof (induction bs arbitrary: n)
  case (Cons b bs)
  have "b64_decode L (trim (b64_encode L b)) = Some b" "trim (b64_encode L b) = b64_encode L b"
    using assms by (simp_all add: b64_text) (simp add: b64_law_def)
  then show ?case by (simp add: Cons.IH Let_def)
qed simp

lemma join_lines: "bs \<noteq> [] \<Longrightarrow> join [CHR 0x0A] (map (b64_encode L) bs) @ [CHR 0x0A] = concat (map (capture_line L) bs)"
  by (induction bs rule: induct_list012) (simp_all add: capture_line_def)

subsection \<open>What an operation does to the queue\<close>

text \<open>A body the daemon still has: the sink acknowledged it or it is queued.\<close>

definition kept :: "('m) lib_scheme \<Rightarrow> 'g daemon_state \<Rightarrow> bytes \<Rightarrow> bool" where
  "kept L s b \<longleftrightarrow> b \<in> set (sink_log s) \<or> (\<exists>bs. queued L s bs \<and> b \<in> set bs)"

text \<open>Two queues that read the same are the same.\<close>

lemma queued_unique: "b64_law L \<Longrightarrow> queued L s bs \<Longrightarrow> queued L s bs' \<Longrightarrow> bs = bs'"
proof -
  assume L: "b64_law L" and q: "queued L s bs" "queued L s bs'"
  then have "map (b64_encode L) bs = map (b64_encode L) bs'"
    using lines_log[OF L, of bs] lines_log[OF L, of bs'] by (simp add: queued_def)
  moreover have "inj (b64_encode L)" using L by (metis b64_law_def injI option.inject)
  ultimately show ?thesis using inj_map_eq_map by blast
qed

lemma bt_get_removed: "bt_get (bt_retain (\<lambda>k _. k \<noteq> p) m) p = None"
  by (induction m) (auto simp: bt_retain_def)

lemma replay_rewrite_frame:
  assumes "replay_rewrite rem s = (r, s')"
  shows "cd_frame s s'" "sink_log s' = sink_log s"
  using assms
  by (auto simp: replay_rewrite_def Let_def cd_frame_def fs_remove_def fs_write_def split: if_splits sum.splits)

lemma replay_rewrite_queued:
  assumes "replay_rewrite (map (b64_encode L) bs) s = (r, s')" "list_all (\<lambda>b. b \<noteq> []) bs"
  shows "s' = s \<or> queued L s' bs" and "\<not> faulty (disk s) (dc_pending_log_path (dc_cfg s)) \<Longrightarrow> queued L s' bs"
proof -
  have ok: "queued L s' bs" if "\<not> faulty (disk s) (dc_pending_log_path (dc_cfg s))"
    using that assms join_lines[of bs L]
    by (cases "bs = []") (auto simp: replay_rewrite_def Let_def queued_def pending_file_def fs_remove_def fs_write_def
        bt_get_insert bt_get_removed opt_or_def)
  then show "\<not> faulty (disk s) (dc_pending_log_path (dc_cfg s)) \<Longrightarrow> queued L s' bs" .
  have "s' = s" if "faulty (disk s) (dc_pending_log_path (dc_cfg s))"
    using that assms(1) by (auto simp: replay_rewrite_def Let_def fs_remove_def fs_write_def split: if_splits)
  with ok show "s' = s \<or> queued L s' bs" by blast
qed

text \<open>The replay's posts split the queue: each body is acknowledged or left over.\<close>

lemma replay_post_split:
  assumes "b64_law L"
  obtains sent rem where "replay_post L sink n (map (b64_encode L) bs) = (sent, Inr (map (b64_encode L) rem))"
    "mset bs = mset sent + mset rem" "subseq sent bs" "subseq rem bs"
proof -
  let ?z = "zip bs (map (\<lambda>(i, b). sink i b) (enumerate n bs))"
  let ?sent = "map fst (filter snd ?z)" and ?rem = "map fst (filter (Not \<circ> snd) ?z)"
  have z: "map fst ?z = bs" by simp
  have "mset bs = mset ?sent + mset ?rem"
  proof -
    have p: "mset ?z = mset (filter snd ?z) + mset (filter (Not \<circ> snd) ?z)"
      unfolding mset_filter comp_def by (rule multiset_partition)
    have "mset bs = image_mset fst (mset ?z)" unfolding mset_map[symmetric] z ..
    then show ?thesis using p by (metis image_mset_union mset_map)
  qed
  moreover have "subseq ?sent (map fst ?z)" "subseq ?rem (map fst ?z)" by (intro subseq_map subseq_filter_left)+
  ultimately show thesis
    using that[of ?sent ?rem] replay_post_lines[OF assms, of sink n bs] unfolding z by (simp add: Let_def comp_def)
qed

text \<open>What a replay on its own does to the queue.\<close>

lemma replay_effect:
  assumes L: "b64_law L" and q: "queued L s bs" and r: "replay_pending_events L sink s = (res, s')"
  shows "cd_frame s s' \<and> (\<exists>sent rem bs'. sink_log s' = sink_log s @ sent \<and> mset bs = mset sent + mset rem
      \<and> subseq sent bs \<and> subseq rem bs \<and> queued L s' bs' \<and> (bs' = bs \<or> bs' = rem)
      \<and> (\<forall>n. res = Inr n \<longrightarrow> n = length sent))"
proof -
  have same: ?thesis if "s' = s" "\<forall>n. res = Inr n \<longrightarrow> n = 0"
    using that q by (auto simp: cd_frame_def intro!: exI[of _ "[]"] exI[of _ bs])
  show ?thesis
  proof (cases "replay_read s")
    case (Inl e)
    then show ?thesis using r by (intro same) (auto simp: replay_pending_events_def replay_around_def)
  next
    case (Inr x)
    show ?thesis
    proof (cases x)
      case None
      then show ?thesis using r Inr by (intro same) (auto simp: replay_pending_events_def replay_around_def)
    next
      case (Some ls)
      then have ls: "ls = map (b64_encode L) bs" using replay_read_queued[OF L q Inr] by simp
      obtain sent rem where p: "replay_post L sink 0 ls = (sent, Inr (map (b64_encode L) rem))"
          "mset bs = mset sent + mset rem" "subseq sent bs" "subseq rem bs"
        unfolding ls by (rule replay_post_split[OF L])
      define s1 where "s1 = s\<lparr>sink_log := sink_log s @ sent\<rparr>"
      obtain r2 s2 where w: "replay_rewrite (map (b64_encode L) rem) s1 = (r2, s2)" by (rule prod.exhaust)
      have res: "s' = s2" "\<forall>n. res = Inr n \<longrightarrow> n = length sent"
        using r Inr Some p(1) w s1_def by (auto simp: replay_pending_events_def replay_around_def split: sum.splits)
      have ne: "list_all (\<lambda>b. b \<noteq> []) rem"
        using q p(2) unfolding queued_def list_all_iff by (metis set_mset_mset set_mset_union UnCI)
      have q1: "queued L s1 bs" using q by (simp add: queued_def pending_file_def s1_def)
      have "queued L s2 bs \<or> queued L s2 rem" using replay_rewrite_queued(1)[OF w ne] q1 by auto
      moreover have "cd_frame s s2" "sink_log s2 = sink_log s @ sent"
        using replay_rewrite_frame[OF w] by (simp_all add: cd_frame_def s1_def)
      ultimately show ?thesis using res p(2-4) by blast
    qed
  qed
qed

lemma cd_append_event_disk:
  assumes "cd_append_event L p e w = Inr w'" "event_to_cbor L e = Inr b"
  shows "faulty w' = faulty w"
    "bt_get (files w') q = (if q = p then Some (opt_or (bt_get (files w) q) [] @ capture_line L b) else bt_get (files w) q)"
  using assms
  by (auto simp: cd_append_event_def res_simps fs_append_def capture_line_def bt_get_insert opt_or_def split: if_splits option.splits)

text \<open>What a report changes: the event it is made into is logged and then acknowledged or queued.\<close>

definition captured :: "('m) cd_lib_scheme \<Rightarrow> 'g daemon_state \<Rightarrow> 'g daemon_state \<Rightarrow> contest_event \<Rightarrow> bytes \<Rightarrow> bool" where
  "captured L s s' e b \<longleftrightarrow> event_to_cbor L e = Inr b
     \<and> bt_get (files (disk s')) (dc_event_log_path (dc_cfg s))
         = Some (opt_or (bt_get (files (disk s)) (dc_event_log_path (dc_cfg s))) [] @ capture_line L b)
     \<and> (sink_log s' = sink_log s @ [b] \<and> pending_file s' = pending_file s
        \<or> sink_log s' = sink_log s \<and> pending_file s' = pending_file s @ capture_line L b)"

lemma capture_report_effect:
  assumes "cd_capture_report L inp req cm as s = (r, s')" "cd_paths_apart s"
  shows "cd_frame s s'"
    and "r = Inr resp \<Longrightarrow> \<exists>e b report. captured L s s' e b \<and> de_report L (req_body req) = Some report
        \<and> report_sign L (di_now inp) (di_random inp) (dc_signing_key s) (fill_report_defaults (dc_cfg s) cm as report) = Inr e"
    and "sink_log s' = sink_log s \<and> pending_file s' = pending_file s \<or> (\<exists>e b. captured L s s' e b)"
proof -
  let ?log = "dc_event_log_path (dc_cfg s)" and ?pend = "dc_pending_log_path (dc_cfg s)"
  have same: "cd_frame s s" by (simp add: cd_frame_def)
  have "cd_frame s s' \<and> (\<forall>resp. r = Inr resp \<longrightarrow> (\<exists>e b report. captured L s s' e b \<and> de_report L (req_body req) = Some report
        \<and> report_sign L (di_now inp) (di_random inp) (dc_signing_key s) (fill_report_defaults (dc_cfg s) cm as report) = Inr e))
      \<and> (sink_log s' = sink_log s \<and> pending_file s' = pending_file s \<or> (\<exists>e b. captured L s s' e b))"
  proof (cases "rbind (ok_or (de_report L (req_body req)) CdDecode) (\<lambda>report.
           rbind (map_err CdSign (report_sign L (di_now inp) (di_random inp) (dc_signing_key s)
                    (fill_report_defaults (dc_cfg s) cm as report))) (\<lambda>e.
           rbind (map_err CdHash (event_hash L e)) (\<lambda>h.
           rbind (cd_append_event L (dc_event_log_path (dc_cfg s)) e (disk s)) (\<lambda>w. Inr (e, h, w)))))")
    case (Inl err)
    then show ?thesis using assms(1) same by (auto simp: cd_capture_report_def)
  next
    case (Inr x)
    obtain e h w where x: "x = (e, h, w)" by (rule prod_cases3)
    obtain report where rp: "de_report L (req_body req) = Some report"
        "report_sign L (di_now inp) (di_random inp) (dc_signing_key s) (fill_report_defaults (dc_cfg s) cm as report) = Inr e"
        "cd_append_event L ?log e (disk s) = Inr w"
      using Inr x by (auto simp: res_simps)
    obtain b where eb: "event_to_cbor L e = Inr b" using rp(3) by (auto simp: cd_append_event_def res_simps)
    note b = eb cd_append_event_disk[OF rp(3) eb]
    have pd: "bt_get (files w) ?pend = bt_get (files (disk s)) ?pend" using b(3) assms(2) by (auto simp: cd_paths_apart_def)
    show ?thesis
    proof (cases "send_event_with_backoff L (di_sink inp) e")
      case (Some b')
      then have "b' = b" "r = write_json L 202 (capture_answer False e h)" "s' = s\<lparr>disk := w, sink_log := sink_log s @ [b]\<rparr>"
        using assms(1) Inr x b(1) by (auto simp: cd_capture_report_def send_event_with_backoff_def split: if_splits)
      then have "captured L s s' e b" "cd_frame s s'"
        using b pd by (simp_all add: captured_def cd_frame_def pending_file_def)
      with rp show ?thesis by blast
    next
      case None
      show ?thesis
      proof (cases "cd_append_event L ?pend e w")
        case (Inl err)
        then have "s' = s\<lparr>disk := w\<rparr>" "r = Inl (Failed err)" using assms(1) Inr x None by (auto simp: cd_capture_report_def)
        then show ?thesis using b(2) pd by (simp add: cd_frame_def pending_file_def)
      next
        case w': (Inr w')
        then have "s' = s\<lparr>disk := w'\<rparr>" using assms(1) Inr x None by (auto simp: cd_capture_report_def)
        moreover note cd_append_event_disk[OF w' eb]
        ultimately have "captured L s s' e b" "cd_frame s s'"
          using b pd assms(2) by (auto simp: captured_def cd_frame_def pending_file_def cd_paths_apart_def opt_or_def)
        with rp show ?thesis by blast
      qed
    qed
  qed
  then show "cd_frame s s'" "sink_log s' = sink_log s \<and> pending_file s' = pending_file s \<or> (\<exists>e b. captured L s s' e b)"
    "r = Inr resp \<Longrightarrow> \<exists>e b report. captured L s s' e b \<and> de_report L (req_body req) = Some report
        \<and> report_sign L (di_now inp) (di_random inp) (dc_signing_key s) (fill_report_defaults (dc_cfg s) cm as report) = Inr e"
    by blast+
qed






lemma cd_paths_frame: "cd_frame s s' \<Longrightarrow> cd_paths_apart s' = cd_paths_apart s"
  by (simp add: cd_frame_def cd_paths_apart_def)













subsection \<open>Properties\<close>


lemma route_accepts:
  assumes "cd_route L q s = (Inr resp, s')" "status resp = 202"
  shows "\<exists>cm as. cd_capture_report L (fst q) (snd q) cm as s = (Inr resp, s')"
proof -
  have "status p = st" if "write_json L st v = (Inr p :: cd_error handler_error + http_response)" for st v p
    using that by (auto simp: write_json_def write_json_with_headers_def write_response_with_headers_def split: option.splits)
  then show ?thesis
    using assms by (auto simp: cd_route_def Let_def write_response_def write_response_with_headers_def split: if_splits)
qed

lemma accepted_captured:
  assumes "cd_handle_connection L G (inp, req) s = (Inr resp, s1)" "status resp = 202" "cd_paths_apart s"
  obtains e b s0 cm as report where "cd_capture_report L inp req cm as s0 = (Inr resp, s1)" "captured L s0 s1 e b"
    "report_sign L (di_now inp) (di_random inp) (dc_signing_key s) (fill_report_defaults (dc_cfg s) cm as report) = Inr e"
    "cd_frame s s0" "cd_frame s0 s1" "sink_log s0 = sink_log s" "pending_file s0 = pending_file s"
proof -
  obtain l w where f: "lim_path l = lim_path (limiter s)" "faulty w = faulty (disk s)"
      "\<And>q. q \<noteq> lim_path (limiter s) \<Longrightarrow> bt_get (files w) q = bt_get (files (disk s)) q"
      "cd_route L (inp, req) (s\<lparr>limiter := l, disk := w\<rparr>) = (Inr resp, s1)
       \<or> s1 = s\<lparr>limiter := l, disk := w\<rparr> \<and> (\<forall>x. Inr resp = (Inr x :: cd_error handler_error + http_response) \<longrightarrow> status x = 429)"
    using limited_frame[OF assms(1)[unfolded cd_handle_connection_def]] by metis
  define s0 where "s0 = s\<lparr>limiter := l, disk := w\<rparr>"
  have fr: "cd_frame s s0" using f(1,2) by (simp add: cd_frame_def s0_def)
  then have p0: "cd_paths_apart s0" using assms(3) cd_paths_frame by blast
  have pend: "pending_file s0 = pending_file s" using f(3) assms(3) by (simp add: pending_file_def cd_paths_apart_def s0_def)
  have "cd_route L (inp, req) s0 = (Inr resp, s1)" using f(4) assms(2) by (simp add: s0_def)
  then obtain cm as where c: "cd_capture_report L inp req cm as s0 = (Inr resp, s1)"
    using route_accepts assms(2) unfolding fst_conv snd_conv by (metis fst_conv snd_conv)
  obtain e b report where e: "captured L s0 s1 e b"
      "report_sign L (di_now inp) (di_random inp) (dc_signing_key s0) (fill_report_defaults (dc_cfg s0) cm as report) = Inr e"
    using capture_report_effect(2)[OF c p0 refl] by blast
  show thesis
    by (rule that[OF c e(1) _ fr capture_report_effect(1)[OF c p0] _ pend]) (use e(2) in \<open>simp_all add: s0_def\<close>)
qed

lemma refused_capture_queued:
  assumes "b64_law L" "nonempty_events L" "queued L s bs" "cd_paths_apart s"
    and "cd_handle_connection L G (inp, req) s = (Inr resp, s1)" "status resp = 202" "di_sink inp = (\<lambda>_ _. False)"
  shows "\<exists>b. queued L s1 (bs @ [b]) \<and> sink_log s1 = sink_log s \<and> cd_frame s s1"
proof -
  obtain e b s0 cm as report where c: "cd_capture_report L inp req cm as s0 = (Inr resp, s1)" "captured L s0 s1 e b"
      "cd_frame s s0" "cd_frame s0 s1" "sink_log s0 = sink_log s" "pending_file s0 = pending_file s"
    by (rule accepted_captured[OF assms(5,6,4)])
  have "sink_log s1 = sink_log s0"
    using c(1) assms(7) by (auto simp: cd_capture_report_def send_event_with_backoff_def split: sum.splits)
  then have "pending_file s1 = pending_file s @ capture_line L b" using c(2,6) by (simp add: captured_def)
  moreover have "b \<noteq> []" using c(2) assms(2) by (auto simp: captured_def nonempty_events_def event_to_cbor_def res_simps)
  ultimately have "queued L s1 (bs @ [b])" using assms(3) by (simp add: queued_def)
  then show ?thesis using c(3-5) \<open>sink_log s1 = sink_log s0\<close> by (auto simp: cd_frame_def)
qed


text \<open>
  C33: a report queued while a replay is running is lost. When a request is served between the replay's
  posts and its rewriting of the pending file, is answered 202 and its event is queued because
  the sink does not take it, then after the replay the event is neither queued nor acknowledged,
  unless the same body already was.
\<close>

theorem replay_drops_concurrent_capture:
  assumes "b64_law L" "nonempty_events L" "cd_paths_apart s" "queued L s bs" "replay_read s = Inr (Some ls)"
    and "\<not> faulty (disk s) (dc_pending_log_path (dc_cfg s))"
    and "cd_handle_connection L G (inp, req) (s\<lparr>sink_log := sink_log s @ fst (replay_post L sink 0 ls)\<rparr>) = (Inr resp, s1)"
    and "status resp = 202" "di_sink inp = (\<lambda>_ _. False)"
    and "replay_around L sink (\<lambda>x. snd (cd_handle_connection L G (inp, req) x)) s = (r, s')"
  shows "\<exists>b. queued L s1 (bs @ [b]) \<and> (b \<in> set bs \<or> b \<in> set (sink_log s) \<or> \<not> kept L s' b)"
proof -
  have ls: "ls = map (b64_encode L) bs" using replay_read_queued[OF assms(1,4,5)] by simp
  obtain sent rem where p: "replay_post L sink 0 ls = (sent, Inr (map (b64_encode L) rem))" "mset bs = mset sent + mset rem"
    unfolding ls by (rule replay_post_split[OF assms(1)])
  define s0 where "s0 = s\<lparr>sink_log := sink_log s @ sent\<rparr>"
  have h: "cd_handle_connection L G (inp, req) s0 = (Inr resp, s1)" using assms(7) p(1) by (simp add: s0_def)
  have q0: "queued L s0 bs" "cd_paths_apart s0" using assms(3,4) by (simp_all add: queued_def pending_file_def cd_paths_apart_def s0_def)
  obtain b where b: "queued L s1 (bs @ [b])" "sink_log s1 = sink_log s0" "cd_frame s0 s1"
    using refused_capture_queued[OF assms(1,2) q0 h assms(8,9)] by blast
  have nf: "\<not> faulty (disk s1) (dc_pending_log_path (dc_cfg s1))" using assms(6) b(3) by (simp add: cd_frame_def s0_def)
  obtain r2 s2 where w: "replay_rewrite (map (b64_encode L) rem) s1 = (r2, s2)" by (rule prod.exhaust)
  have s': "s' = s2" using assms(5,10) p(1) w h by (cases r2) (simp_all add: replay_around_def s0_def)
  have sets: "set sent \<union> set rem = set bs" using p(2) by (metis set_mset_mset set_mset_union)
  have ne: "list_all (\<lambda>b. b \<noteq> []) rem" using assms(4) sets unfolding queued_def list_all_iff by blast
  have q: "queued L s2 rem" by (rule replay_rewrite_queued(2)[OF w ne nf])
  have "sink_log s2 = sink_log s @ sent" using replay_rewrite_frame(2)[OF w] b(2) by (simp add: s0_def)
  then have "b \<in> set bs \<or> b \<in> set (sink_log s) \<or> \<not> kept L s2 b"
    using sets queued_unique[OF assms(1) q] by (auto simp: kept_def)
  then show ?thesis using b(1) s' by blast
qed

subsection \<open>A reference run\<close>

definition ref_cd :: cd_lib where
  "ref_cd = (llm_lib.extend ref_llm (cd_lib.fields (\<lambda>b. Some (report_new 5 ''llm.call'' ''hk'' ''t'' [] []))))\<lparr>
     ser_event := (\<lambda>e. Inr (''e'' @ event_id e))\<rparr>"

definition ref_cd_state :: "bytes \<Rightarrow> nat daemon_state" where
  "ref_cd_state pend = \<lparr>limiter = ref_limiter [], disk = ref_fs\<lparr>files := [(''./llm-capture-pending.cborl'', pend)]\<rparr>, dc_cfg = cd_config_default\<lparr>dc_event_sink_url := ''sink''\<rparr>,
     dc_signing_key = ''sk'', sink_log = []\<rparr>"

definition ref_cd_in :: cd_in where
  "ref_cd_in = \<lparr>di_peer = ''1.2.3.4'', di_clock = (10, 0), di_now = 10, di_random = ''a'', di_sink = (\<lambda>_ _. False)\<rparr>"

definition ref_cd_req :: http_request where
  "ref_cd_req = \<lparr>req_method = ''POST'', req_path = ''/capture/browser'', req_headers = [], req_body = ''{}''\<rparr>"

lemma ref_cd_laws: "sig_law ref_cd" "b64_law ref_cd" "nonempty_events ref_cd"
proof -
  have "b64_encode ref_cd = b64_encode ref_lib" "b64_decode ref_cd = b64_decode ref_lib" "ed_verify ref_cd = ed_verify ref_lib"
    "ed_public ref_cd = ed_public ref_lib" "ed_sign ref_cd = ed_sign ref_lib" "ed_valid_key ref_cd = ed_valid_key ref_lib"
    "b64url_decode ref_cd = b64url_decode ref_lib" "b64url_encode ref_cd = b64url_encode ref_lib"
    by (simp_all add: ref_cd_def llm_lib.extend_def cd_lib.fields_def ref_llm_def lib.extend_def llm_lib.fields_def)
  then show "sig_law ref_cd" "b64_law ref_cd" using ref_lib_b64_law ref_lib_sig_law by (simp_all add: b64_law_def sig_law_def)
  show "nonempty_events ref_cd" by (simp add: nonempty_events_def ref_cd_def)
qed

lemma capture_browser_queues:
  assumes "lim_check G (fst (di_clock inp)) (snd (di_clock inp)) (''capture-daemon:ip:'' @ di_peer inp) (cd_ip_policy s)
      (limiter s, disk s) = (Inr d, l, w)" "allowed d"
    and "req_method req = ''POST''" "req_path req = ''/capture/browser''" "de_report L (req_body req) = Some report"
    and "report_sign L (di_now inp) (di_random inp) (dc_signing_key s)
      (fill_report_defaults (dc_cfg s) ''browser_extension'' ''participant_controlled'' report) = Inr e"
    and "event_hash L e = Inr h" "cd_append_event L (dc_event_log_path (dc_cfg s)) e w = Inr w1" "di_sink inp = (\<lambda>_ _. False)"
    and "cd_append_event L (dc_pending_log_path (dc_cfg s)) e w1 = Inr w2"
    and "json_pretty L (capture_answer True e h) = Some body"
  shows "\<exists>resp. cd_handle_connection L G (inp, req) s = (Inr resp, s\<lparr>limiter := l, disk := w2\<rparr>) \<and> status resp = 202"
proof -
  have "event_to_cbor L e \<noteq> Inl x" for x using assms(8) by (auto simp: cd_append_event_def res_simps)
  then have none: "send_event_with_backoff L (di_sink inp) e = None"
    using assms(9) by (simp add: send_event_with_backoff_def split: sum.splits)
  show ?thesis
    using assms(1-8,10,11) none
    by (simp add: cd_handle_connection_def limited_def cd_route_def cd_capture_report_def write_json_def
        write_json_with_headers_def write_response_with_headers_def res_simps)
qed

definition ref_cd_event :: contest_event where
  "ref_cd_event = opt_or (res_ok (report_sign ref_cd 10 ''a'' ''sk''
     (fill_report_defaults cd_config_default ''browser_extension'' ''participant_controlled''
        (report_new 5 ''llm.call'' ''hk'' ''t'' [] [])))) ref_event"

lemma ref_cd_signed:
  "report_sign ref_cd 10 ''a'' ''sk'' (fill_report_defaults cd_config_default ''browser_extension'' ''participant_controlled''
     (report_new 5 ''llm.call'' ''hk'' ''t'' [] [])) = Inr ref_cd_event"
  by code_simp

lemma fill_report_sink: "fill_report_defaults (c\<lparr>dc_event_sink_url := u\<rparr>) = fill_report_defaults c"
  by (intro ext) (simp add: fill_report_defaults_def)

lemma ref_cd_run:
  "\<exists>resp s1. cd_handle_connection ref_cd ref_net_any (ref_cd_in, ref_cd_req) (ref_cd_state pend\<lparr>sink_log := sl\<rparr>) = (Inr resp, s1)
     \<and> status resp = 202"
proof -
  let ?s = "ref_cd_state pend\<lparr>sink_log := sl\<rparr>"
  let ?c = "lim_check ref_net_any (fst (di_clock ref_cd_in)) (snd (di_clock ref_cd_in))
     (''capture-daemon:ip:'' @ di_peer ref_cd_in) (cd_ip_policy ?s) (limiter ?s, disk ?s)"
  have "map_option allowed (res_ok (fst ?c)) = Some True" by code_simp
  then obtain d l w where c: "?c = (Inr d, l, w)" "allowed d" by (cases ?c) (auto simp: res_simps)
  have w: "faulty w = (\<lambda>_. False)" using lim_check_faulty[OF c(1)] by (simp add: ref_cd_state_def ref_fs_def)
  have e: "event_to_cbor ref_cd ref_cd_event = Inr (''e'' @ event_id ref_cd_event)" by (simp add: ref_cd_def event_to_cbor_def)
  have app: "\<exists>w2. cd_append_event ref_cd p ref_cd_event w1 = Inr w2 \<and> faulty w2 = (\<lambda>_. False)" if "faulty w1 = (\<lambda>_. False)" for p w1
    using e that by (simp add: cd_append_event_def res_simps fs_append_def)
  obtain w1 where w1: "cd_append_event ref_cd (dc_event_log_path (dc_cfg ?s)) ref_cd_event w = Inr w1" "faulty w1 = (\<lambda>_. False)"
    using app[OF w] by blast
  obtain w2 where w2: "cd_append_event ref_cd (dc_pending_log_path (dc_cfg ?s)) ref_cd_event w1 = Inr w2"
    using app[OF w1(2)] by blast
  obtain h where h: "event_hash ref_cd ref_cd_event = Inr h" using e by (simp add: event_hash_def res_simps)
  have j: "json_pretty ref_cd x = Some ''{}''" for x
    by (simp add: ref_cd_def llm_lib.extend_def cd_lib.fields_def ref_llm_def lib.extend_def llm_lib.fields_def ref_lib_def)
  have sg: "report_sign ref_cd (di_now ref_cd_in) (di_random ref_cd_in) (dc_signing_key ?s)
      (fill_report_defaults (dc_cfg ?s) ''browser_extension'' ''participant_controlled''
        (report_new 5 ''llm.call'' ''hk'' ''t'' [] [])) = Inr ref_cd_event"
    using ref_cd_signed by (simp add: ref_cd_in_def ref_cd_state_def fill_report_sink)
  have dr: "de_report ref_cd (req_body ref_cd_req) = Some (report_new 5 ''llm.call'' ''hk'' ''t'' [] [])"
    by (simp add: ref_cd_def llm_lib.extend_def cd_lib.fields_def)
  show ?thesis
    using capture_browser_queues[OF c _ _ dr sg h w1(1) _ w2 j] by (auto simp: ref_cd_req_def ref_cd_in_def)
qed

lemma ref_cd_queue: "queued ref_cd (ref_cd_state (concat (map (capture_line ref_cd) bs))) bs"
  if "list_all (\<lambda>b. b \<noteq> []) bs"
  using that by (simp add: queued_def pending_file_def ref_cd_state_def ref_fs_def opt_or_def cd_config_default_def)

lemma ref_cd_paths: "cd_paths_apart (ref_cd_state pend)"
  by (simp add: cd_paths_apart_def ref_cd_state_def cd_config_default_def ref_limiter_def)


theorem replay_drops_concurrent_capture_witness:
  "\<exists>resp s1 r s' b. let s = ref_cd_state (capture_line ref_cd ''x'') in
     cd_handle_connection ref_cd ref_net_any (ref_cd_in, ref_cd_req) (s\<lparr>sink_log := [''x'']\<rparr>) = (Inr resp, s1) \<and> status resp = 202
     \<and> replay_around ref_cd (\<lambda>_ _. True) (\<lambda>x. snd (cd_handle_connection ref_cd ref_net_any (ref_cd_in, ref_cd_req) x)) s = (r, s')
     \<and> queued ref_cd s1 [''x'', b] \<and> (b = ''x'' \<or> \<not> kept ref_cd s' b)"
proof -
  let ?s = "ref_cd_state (capture_line ref_cd ''x'')"
  have q: "queued ref_cd ?s [''x'']" using ref_cd_queue[of "[''x'']"] by simp
  have rd: "replay_read ?s = Inr (Some [b64_encode ref_cd ''x''])" by code_simp
  have nf: "\<not> faulty (disk ?s) (dc_pending_log_path (dc_cfg ?s))" by (simp add: ref_cd_state_def ref_fs_def)
  obtain r s' where ra: "replay_around ref_cd (\<lambda>_ _. True) (\<lambda>x. snd (cd_handle_connection ref_cd ref_net_any (ref_cd_in, ref_cd_req) x)) ?s = (r, s')"
    by (rule prod.exhaust)
  have "sink_log ?s @ fst (replay_post ref_cd (\<lambda>_ _. True) 0 [b64_encode ref_cd ''x'']) = [''x'']" "sink_log ?s = []" by code_simp+
  moreover obtain resp s1 where c: "cd_handle_connection ref_cd ref_net_any (ref_cd_in, ref_cd_req) (?s\<lparr>sink_log := [''x'']\<rparr>) = (Inr resp, s1)"
      "status resp = 202" using ref_cd_run by blast
  ultimately have "\<exists>b. queued ref_cd s1 ([''x''] @ [b]) \<and> (b \<in> set [''x''] \<or> b \<in> set (sink_log ?s) \<or> \<not> kept ref_cd s' b)"
    using replay_drops_concurrent_capture[OF ref_cd_laws(2,3) ref_cd_paths q rd nf _ c(2) _ ra, of s1] by (simp add: ref_cd_in_def)
  then show ?thesis using c ra \<open>sink_log ?s = []\<close> unfolding Let_def by auto
qed

end
