(* ===== verification/Daemon_Replay.thy ===== *)
theory Daemon_Replay
  imports Capture_Daemon
begin

section \<open>The replay loop of the capture daemon\<close>

text \<open>
  \<open>replay_loop\<close> of \<open>src/bin/llm-capture-daemon.rs\<close>: every five seconds the pending file is replayed and
  the outcome only logged. A run of the loop is a list of sinks, one per round: what the event sink
  answers in that round. The rounds here are on their own; what a capture between the reading and the
  rewriting of the file loses is shown beside the captures.
\<close>

definition replay_loop :: "('m) lib_scheme \<Rightarrow> (nat \<Rightarrow> bytes \<Rightarrow> bool) list \<Rightarrow> 'g daemon_state \<Rightarrow> 'g daemon_state" where
  "replay_loop L sinks s = fold (\<lambda>sink s. snd (replay_pending_events L sink s)) sinks s"

lemma replay_loop_simps [simp]:
  "replay_loop L [] s = s"
  "replay_loop L (sink # sinks) s = replay_loop L sinks (snd (replay_pending_events L sink s))"
  by (simp_all add: replay_loop_def)

lemma replay_loop_append: "replay_loop L (xs @ ys) s = replay_loop L ys (replay_loop L xs s)"
  by (simp add: replay_loop_def)

subsection \<open>Delivery\<close>

text \<open>Each queued body is still queued or was acknowledged, and the file stays as readable as it was.\<close>

definition replayed :: "('m) lib_scheme \<Rightarrow> 'g daemon_state \<Rightarrow> bytes list \<Rightarrow> 'g daemon_state \<Rightarrow> bytes list \<Rightarrow> bool" where
  "replayed L s bs s' bs' \<longleftrightarrow> cd_frame s s' \<and> queued L s' bs' \<and> set bs \<subseteq> set bs' \<union> set (sink_log s')
     \<and> set (sink_log s) \<subseteq> set (sink_log s') \<and> set bs' \<subseteq> set bs"

lemma replayed_trans: "replayed L a xs b ys \<Longrightarrow> replayed L b ys c zs \<Longrightarrow> replayed L a xs c zs"
  unfolding replayed_def cd_frame_def by auto

lemma replay_round:
  assumes "b64_law L" "queued L s bs"
  shows "\<exists>bs'. replayed L s bs (snd (replay_pending_events L sink s)) bs'"
proof -
  obtain res s' where r: "replay_pending_events L sink s = (res, s')" by (rule prod.exhaust)
  obtain sent rem bs' where e: "cd_frame s s'" "sink_log s' = sink_log s @ sent" "mset bs = mset sent + mset rem" "queued L s' bs'"
      "bs' = bs \<or> bs' = rem"
    using replay_effect[OF assms r] by blast
  have "set bs = set sent \<union> set rem" using e(3) by (metis set_mset_mset set_mset_union)
  then show ?thesis using e r by (auto simp: replayed_def)
qed

lemma replay_rounds:
  assumes "b64_law L" "queued L s bs"
  shows "\<exists>bs'. replayed L s bs (replay_loop L sinks s) bs'"
  using assms(2)
proof (induction sinks arbitrary: s bs)
  case Nil
  then show ?case by (auto simp: replayed_def cd_frame_def)
next
  case (Cons sink sinks)
  obtain bs1 where 1: "replayed L s bs (snd (replay_pending_events L sink s)) bs1"
    using replay_round[OF assms(1) Cons.prems] by blast
  then have "queued L (snd (replay_pending_events L sink s)) bs1" by (simp add: replayed_def)
  from Cons.IH[OF this] obtain bs2 where "replayed L (snd (replay_pending_events L sink s)) bs1
      (replay_loop L sinks (snd (replay_pending_events L sink s))) bs2" by blast
  with 1 show ?case by (auto intro: replayed_trans)
qed

lemma replay_read_ok:
  assumes "b64_law L" "queued L s bs" "\<not> faulty (disk s) (dc_pending_log_path (dc_cfg s))"
  shows "\<exists>r. replay_read s = Inr r"
proof -
  let ?p = "dc_pending_log_path (dc_cfg s)"
  have "read_to_string (disk s) ?p \<noteq> None" if "bt_get (files (disk s)) ?p = Some body" for body
  proof -
    have "body = concat (map (capture_line L) bs)" using assms(2) that by (simp add: queued_def pending_file_def opt_or_def)
    then show ?thesis
      using that assms(3) utf8_valid_ascii[OF is_ascii_log[OF assms(1)]] by (simp add: read_to_string_def fs_read_def)
  qed
  then show ?thesis by (auto simp: replay_read_def Let_def fs_exists_def split: option.splits)
qed

lemma replay_all_accepted:
  assumes "b64_law L" "queued L s bs" "\<not> faulty (disk s) (dc_pending_log_path (dc_cfg s))" "\<And>i b. sink i b"
  shows "queued L (snd (replay_pending_events L sink s)) [] \<and> set bs \<subseteq> set (sink_log (snd (replay_pending_events L sink s)))"
proof -
  obtain r where r: "replay_read s = Inr r" using replay_read_ok[OF assms(1-3)] by blast
  from replay_read_queued[OF assms(1,2) r] show ?thesis
  proof (elim disjE conjE)
    assume ls: "r = Some (map (b64_encode L) bs)"
    have post: "replay_post L sink 0 (map (b64_encode L) bs) = (bs, Inr [])"
      using assms(4) by (simp add: replay_post_lines[OF assms(1)] Let_def split_beta zip_map2 filter_map comp_def)
    let ?s = "s\<lparr>sink_log := sink_log s @ bs\<rparr>"
    obtain res s' where w: "replay_rewrite [] ?s = (res, s')" by (rule prod.exhaust)
    then have "queued L s' []" "sink_log s' = sink_log s @ bs"
      using replay_rewrite_queued(2)[of L "[]" ?s] replay_rewrite_frame(2)[of "[]" ?s] assms(3) by simp_all
    moreover have "snd (replay_pending_events L sink s) = s'"
      using r ls post w by (simp add: replay_pending_events_def replay_around_def split: sum.split)
    ultimately show ?thesis by simp
  next
    assume "r = None" "bs = []"
    then show ?thesis using r assms(2) by (simp add: replay_pending_events_def replay_around_def)
  qed
qed

text \<open>
  C26: what was queued while the event sink was away is delivered when it is back. From any queue the
  daemon wrote, on a disk it can use, once one round of the loop meets a sink that accepts, every
  queued body has been acknowledged and the queue is empty, whatever the rounds before and after met.
\<close>

theorem replay_loop_delivers:
  assumes "b64_law L" "queued L s bs" "\<not> faulty (disk s) (dc_pending_log_path (dc_cfg s))"
    and "sink \<in> set sinks" "\<And>i b. sink i b"
  shows "queued L (replay_loop L sinks s) [] \<and> set bs \<subseteq> set (sink_log (replay_loop L sinks s))"
proof -
  obtain xs ys where sinks: "sinks = xs @ sink # ys" using assms(4) split_list by metis
  let ?s1 = "replay_loop L xs s"
  let ?s2 = "snd (replay_pending_events L sink ?s1)"
  obtain b1 where 1: "replayed L s bs ?s1 b1" using replay_rounds[OF assms(1,2)] by blast
  have "\<not> faulty (disk ?s1) (dc_pending_log_path (dc_cfg ?s1))" using 1 assms(3) by (simp add: replayed_def cd_frame_def)
  then have 2: "queued L ?s2 []" "set b1 \<subseteq> set (sink_log ?s2)"
    using replay_all_accepted[of L ?s1 b1] assms(1,5) 1 by (auto simp: replayed_def)
  have "queued L ?s1 b1" using 1 by (simp add: replayed_def)
  then obtain b2 where "replayed L ?s1 b1 ?s2 b2" using replay_round[OF assms(1)] by blast
  then have s2: "set bs \<subseteq> set (sink_log ?s2)" using 1 2(2) by (auto simp: replayed_def)
  obtain b3 where "replayed L ?s2 [] (replay_loop L ys ?s2) b3" using replay_rounds[OF assms(1) 2(1)] by blast
  then show ?thesis using s2 by (auto simp: sinks replay_loop_append replayed_def)
qed

subsection \<open>A line that does not decode\<close>

lemma replay_post_stuck:
  assumes "b64_decode L (trim bad) = None"
  shows "\<exists>sent. replay_post L sink n (good @ bad # after) = (sent, Inl CdPendingDecode)
     \<and> set sent \<subseteq> {b. \<exists>l\<in>set good. b64_decode L (trim l) = Some b}"
  using assms
proof (induction good arbitrary: n)
  case (Cons l good)
  then obtain sent where "replay_post L sink (Suc n) (good @ bad # after) = (sent, Inl CdPendingDecode)"
      "set sent \<subseteq> {b. \<exists>l\<in>set good. b64_decode L (trim l) = Some b}"
    by blast
  then show ?case by (auto split: option.split)
qed simp

text \<open>
  C35: one line of the pending file that is not base64 stops delivery for good. However many rounds the
  loop runs and whatever the sink answers, the file stays as it is, every round fails, and nothing but
  the lines before the bad one is ever posted, those again in each round.
\<close>

theorem corrupt_line_blocks_replay:
  assumes "replay_read s = Inr (Some (good @ bad # after))" "b64_decode L (trim bad) = None"
  shows "disk (replay_loop L sinks s) = disk s
    \<and> (\<exists>sent. sink_log (replay_loop L sinks s) = sink_log s @ sent
         \<and> set sent \<subseteq> {b. \<exists>l\<in>set good. b64_decode L (trim l) = Some b})"
  using assms(1)
proof (induction sinks arbitrary: s)
  case (Cons sink sinks)
  obtain sent where p: "replay_post L sink 0 (good @ bad # after) = (sent, Inl CdPendingDecode)"
      "set sent \<subseteq> {b. \<exists>l\<in>set good. b64_decode L (trim l) = Some b}"
    using replay_post_stuck[OF assms(2)] by blast
  let ?s = "s\<lparr>sink_log := sink_log s @ sent\<rparr>"
  have s1: "snd (replay_pending_events L sink s) = ?s"
    using Cons.prems p(1) by (simp add: replay_pending_events_def replay_around_def)
  have "disk ?s = disk s" "dc_cfg ?s = dc_cfg s" by simp_all
  then have "replay_read ?s = replay_read s" unfolding replay_read_def by (simp only:)
  then have "replay_read ?s = Inr (Some (good @ bad # after))" using Cons.prems by simp
  from Cons.IH[OF this] show ?case using p(2) by (auto simp: s1)
qed simp

subsection \<open>Reference runs\<close>

theorem replay_loop_delivers_witness:
  "let s = replay_loop ref_cd [\<lambda>_ _. False, \<lambda>_ _. True, \<lambda>_ _. False] (ref_cd_state (capture_line ref_cd ''x'' @ capture_line ref_cd ''y'')) in
   queued ref_cd s [] \<and> {''x'', ''y''} \<subseteq> set (sink_log s)"
proof -
  let ?s = "ref_cd_state (capture_line ref_cd ''x'' @ capture_line ref_cd ''y'')"
  have q: "queued ref_cd ?s [''x'', ''y'']" using ref_cd_queue[of "[''x'', ''y'']"] by simp
  have "\<not> faulty (disk ?s) (dc_pending_log_path (dc_cfg ?s))" by (simp add: ref_cd_state_def ref_fs_def)
  from replay_loop_delivers[OF ref_cd_laws(2) q this, of "\<lambda>_ _. True" "[\<lambda>_ _. False, \<lambda>_ _. True, \<lambda>_ _. False]"]
  show ?thesis by simp
qed

theorem corrupt_line_blocks_replay_witness:
  "let s = ref_cd_state (capture_line ref_cd ''x'' @ ''?'' @ [CHR 0x0A] @ capture_line ref_cd ''y'') in
   disk (replay_loop ref_cd [\<lambda>_ _. True, \<lambda>_ _. True] s) = disk s
   \<and> ''y'' \<notin> set (sink_log (replay_loop ref_cd [\<lambda>_ _. True, \<lambda>_ _. True] s))"
proof -
  let ?s = "ref_cd_state (capture_line ref_cd ''x'' @ ''?'' @ [CHR 0x0A] @ capture_line ref_cd ''y'')"
  have r: "replay_read ?s = Inr (Some ([b64_encode ref_cd ''x''] @ ''?'' # [b64_encode ref_cd ''y'']))" by code_simp
  have b: "b64_decode ref_cd (trim ''?'') = None" "b64_decode ref_cd (trim (b64_encode ref_cd ''x'')) = Some ''x''" "sink_log ?s = []"
    by code_simp+
  from corrupt_line_blocks_replay[OF r b(1), of "[\<lambda>_ _. True, \<lambda>_ _. True]"] b(2,3)
  show ?thesis unfolding Let_def by auto
qed

end
