(* ===== verification/Tool_Gate.thy ===== *)
theory Tool_Gate
  imports Http_Service
begin

section \<open>The tool gate (\<open>src/tool_gate/\<close>, \<open>src/bin/tool-gate.rs\<close>, \<open>src/cmd_tool.rs\<close>)\<close>

text \<open>
  The gate that sends mail for an attested agent against a one-time token. The crates
  \<open>eat_pass_core\<close>, \<open>reqwest\<close> and \<open>lettre\<close> are the record \<open>tg_env\<close>: what a token, a challenge and an
  issuer key are to the crate is abstract except for the fields the sources read. The issuer, the
  redeemer and the mail server are one outside world of type \<open>'w\<close> that every network call
  threads.

  A request runs in the phases the source separates by awaits: admission against the recent
  challenges, the key lookup, the spend at the redeemer, and the mail. The handler composes them;
  the step relation below interleaves the phases of concurrent requests.
\<close>

subsection \<open>Data\<close>

record token_challenge =
  ch_issuer_name :: str
  ch_origin_info :: str
  ch_redemption_context :: "bytes option"

record token =
  tok_challenge_digest :: bytes
  tok_token_key_id :: bytes
  tok_nonce :: bytes
  tok_authenticator :: bytes

record issuer_public_key =
  key_version :: u32
  key_bytes :: bytes

record key_record =
  kr_token_key_id :: str
  kr_key_version :: u32

record kt_response =
  log_pub :: str
  kt_records :: "key_record list"
  signed_head :: bytes

record redeem_body =
  rb_key_epoch :: u32
  rb_nonce :: str

record email_send_request =
  es_to :: str
  es_subject :: str
  es_body :: str

record smtp_config =
  smtp_host :: str
  smtp_port :: u16
  smtp_username :: str
  smtp_password :: str
  smtp_from :: str
  allowed_to :: "str list"
  dry_run :: bool

record key_entry =
  ke_verifier :: issuer_public_key
  ke_epoch :: u32

record eat_pass_gate =
  issuer_base :: str
  gate_issuer_name :: str
  gate_origin_info :: str
  kt_log_pub :: bytes
  redeemer :: str
  keys :: "(bytes \<times> key_entry) list"
  current_pk :: issuer_public_key
  recent_challenges :: "token_challenge list"

datatype gate_reject =
    MissingToken
  | Malformed str
  | UnknownKey
  | InvalidToken str
  | UnknownChallenge
  | DoubleSpend
  | RedeemerDown

datatype tg_error = TgExt str | NoRecipient str | NotAllowed str | IssueChallenge str | SendFailed

datatype spend_outcome = SpendOk | SpendDouble | SpendDown

record 'w tg_env = lib +
  parse_authorization :: "str \<Rightarrow> str + token"
  challenge_digest :: "token_challenge \<Rightarrow> bytes"
  www_authenticate :: "token_challenge \<Rightarrow> issuer_public_key \<Rightarrow> str + str"
  token_key_id :: "issuer_public_key \<Rightarrow> str + bytes"
  verifier_verify :: "issuer_public_key \<Rightarrow> token \<Rightarrow> token_challenge \<Rightarrow> str + bytes"
  verify_log :: "bytes \<Rightarrow> key_record list \<Rightarrow> bytes \<Rightarrow> str + unit"
  get_kt :: "str \<Rightarrow> 'w \<Rightarrow> (str + kt_response) \<times> 'w"
  get_issuer_key :: "str \<Rightarrow> 'w \<Rightarrow> (str + issuer_public_key) \<times> 'w"
  post_redeem :: "str \<Rightarrow> redeem_body \<Rightarrow> 'w \<Rightarrow> (str + nat) \<times> 'w"
  build_message :: "str \<Rightarrow> str \<Rightarrow> str \<Rightarrow> str \<Rightarrow> str + bytes"
  smtp_send :: "smtp_config \<Rightarrow> bytes \<Rightarrow> 'w \<Rightarrow> (str + unit) \<times> 'w"
  url_query_pairs :: "str \<Rightarrow> (str \<times> str) list option"
  form_encode :: "str \<Rightarrow> str"
  decode_email_request :: "bytes \<Rightarrow> str + email_send_request"
  json_to_vec :: "json \<Rightarrow> bytes option"

subsection \<open>Intents and recipients (\<open>intent.rs\<close>)\<close>

definition EMAIL_INTENT_DOMAIN :: bytes where
  "EMAIL_INTENT_DOMAIN = ''cvm/tool-gate/email/v1'' @ [CHR 0x00]"

definition email_redemption_context_bound :: "('m) lib_scheme \<Rightarrow> bytes \<Rightarrow> str \<Rightarrow> str \<Rightarrow> str \<Rightarrow> bytes" where
  "email_redemption_context_bound L nonce to subject body =
     sha256 L (EMAIL_INTENT_DOMAIN @ nonce @ to @ [CHR 0x00] @ subject @ [CHR 0x00] @ body)"

definition email_redemption_context :: "('m) lib_scheme \<Rightarrow> str \<Rightarrow> str \<Rightarrow> str \<Rightarrow> bytes" where
  "email_redemption_context L to subject body =
     email_redemption_context_bound L (replicate 32 (CHR 0x00)) to subject body"

text \<open>\<open>std::env::var\<close> is the argument \<open>env\<close>.\<close>

definition resolve_recipient :: "(str \<Rightarrow> str option) \<Rightarrow> str \<Rightarrow> tg_error + str" where
  "resolve_recipient env raw =
     (let trimmed = trim raw in
      if CHR ''@'' \<in> set trimmed then Inr trimmed
      else let key = ''TOOL_GATE_CONTACT_'' @ replace_char (CHR ''-'') ''_'' (to_ascii_uppercase trimmed) in
        case env key of
          Some email \<Rightarrow> if trim email \<noteq> [] then Inr (trim email) else Inl (NoRecipient trimmed)
        | None \<Rightarrow> Inl (NoRecipient trimmed))"

subsection \<open>Mail (\<open>email.rs\<close>)\<close>

definition smtp_from_env :: "(str \<Rightarrow> str option) \<Rightarrow> tg_error + smtp_config" where
  "smtp_from_env env =
     rbind (ok_or (env ''TOOL_GATE_SMTP_HOST'') (TgExt ''TOOL_GATE_SMTP_HOST is required'')) (\<lambda>host.
     rbind (ok_or (parse_u16 (case env ''TOOL_GATE_SMTP_PORT'' of None \<Rightarrow> ''587'' | Some p \<Rightarrow> p))
              (TgExt ''TOOL_GATE_SMTP_PORT'')) (\<lambda>port.
     rbind (ok_or (case env ''TOOL_GATE_SMTP_USER'' of Some u \<Rightarrow> Some u | None \<Rightarrow> env ''TOOL_GATE_IMAP_USER'')
              (TgExt ''TOOL_GATE_SMTP_USER (or TOOL_GATE_IMAP_USER) is required'')) (\<lambda>user.
     rbind (ok_or (case env ''TOOL_GATE_SMTP_PASSWORD'' of Some u \<Rightarrow> Some u | None \<Rightarrow> env ''TOOL_GATE_IMAP_PASSWORD'')
              (TgExt ''TOOL_GATE_SMTP_PASSWORD (or TOOL_GATE_IMAP_PASSWORD) is required'')) (\<lambda>pw.
     rbind (ok_or (env ''TOOL_GATE_FROM'') (TgExt ''TOOL_GATE_FROM is required'')) (\<lambda>from.
     Inr \<lparr>smtp_host = host, smtp_port = port, smtp_username = user, smtp_password = pw, smtp_from = from,
          allowed_to = (case env ''TOOL_GATE_ALLOWED_TO'' of None \<Rightarrow> []
             | Some s \<Rightarrow> filter (\<lambda>p. p \<noteq> []) (map trim (split_on (CHR '','') s))),
          dry_run = (case env ''TOOL_GATE_DRY_RUN'' of None \<Rightarrow> False
             | Some v \<Rightarrow> v = ''1'' \<or> eq_ignore_ascii_case v ''true'')\<rparr>)))))"

definition check_allowed :: "smtp_config \<Rightarrow> str \<Rightarrow> tg_error + unit" where
  "check_allowed cfg to =
     (if allowed_to cfg = [] then Inr ()
      else ensure (list_ex (\<lambda>a. eq_ignore_ascii_case a to) (allowed_to cfg)) (NotAllowed to))"

definition mailer_send ::
    "('w, 'm) tg_env_scheme \<Rightarrow> (str \<Rightarrow> str option) \<Rightarrow> smtp_config \<Rightarrow> str \<Rightarrow> str \<Rightarrow> str \<Rightarrow> 'w \<Rightarrow> (tg_error + str) \<times> 'w" where
  "mailer_send E env cfg to_raw subject body w =
     (case rbind (resolve_recipient env to_raw) (\<lambda>to. rbind (check_allowed cfg to) (\<lambda>_. Inr to)) of
        Inl e \<Rightarrow> (Inl e, w)
      | Inr to \<Rightarrow>
         if dry_run cfg
         then (Inr (''dry-run-'' @ hex_encode E (take 8 (sha256 E (to @ subject @ body)))), w)
         else (case build_message E (smtp_from cfg) to subject body of
             Inl e \<Rightarrow> (Inl (TgExt e), w)
           | Inr msg \<Rightarrow>
              (case smtp_send E cfg msg w of
                 (Inl e, w') \<Rightarrow> (Inl (TgExt e), w')
               | (Inr _, w') \<Rightarrow>
                   (Inr (''sent-'' @ hex_encode E (take 12 (sha256 E (to @ ''|'' @ subject @ ''|'' @ body)))), w'))))"

subsection \<open>The gate (\<open>origin.rs\<close>)\<close>

definition MAX_RECENT_CHALLENGES :: nat where
  "MAX_RECENT_CHALLENGES = 128"

definition bootstrap ::
    "('w, 'm) tg_env_scheme \<Rightarrow> str \<Rightarrow> str \<Rightarrow> str \<Rightarrow> str \<Rightarrow> bytes \<Rightarrow> 'w \<Rightarrow> (tg_error + eat_pass_gate) \<times> 'w" where
  "bootstrap E issuer_url issuer_nm origin redeemer_url pin w =
     (let base = trim_end_matches ''/'' issuer_url in
      case get_issuer_key E (base @ ''/keys'') w of
        (Inl e, w') \<Rightarrow> (Inl (TgExt e), w')
      | (Inr pk, w') \<Rightarrow>
         (case token_key_id E pk of
            Inl e \<Rightarrow> (Inl (TgExt e), w')
          | Inr tkid \<Rightarrow>
             (Inr \<lparr>issuer_base = base, gate_issuer_name = issuer_nm, gate_origin_info = origin,
                   kt_log_pub = pin, redeemer = trim_end_matches ''/'' redeemer_url,
                   keys = bt_insert tkid \<lparr>ke_verifier = pk, ke_epoch = key_version pk\<rparr> [],
                   current_pk = pk, recent_challenges = []\<rparr>, w')))"

definition register_challenge :: "token_challenge \<Rightarrow> eat_pass_gate \<Rightarrow> eat_pass_gate" where
  "register_challenge ch g =
     (let r = recent_challenges g @ [ch]
      in g\<lparr>recent_challenges :=
            (if MAX_RECENT_CHALLENGES < length r then drop (length r - MAX_RECENT_CHALLENGES) r else r)\<rparr>)"

definition issue_email_challenge ::
    "('w, 'm) tg_env_scheme \<Rightarrow> bytes \<Rightarrow> str \<Rightarrow> str \<Rightarrow> str \<Rightarrow> eat_pass_gate \<Rightarrow> (str + token_challenge \<times> str) \<times> eat_pass_gate" where
  "issue_email_challenge E nonce to subject body g =
     (let ch = \<lparr>ch_issuer_name = gate_issuer_name g, ch_origin_info = gate_origin_info g,
                ch_redemption_context = Some (email_redemption_context_bound E nonce to subject body)\<rparr>;
          g' = register_challenge ch g
      in (rbind (www_authenticate E ch (current_pk g')) (\<lambda>www. Inr (ch, www)), g'))"

definition challenge_for_digest :: "('w, 'm) tg_env_scheme \<Rightarrow> eat_pass_gate \<Rightarrow> bytes \<Rightarrow> token_challenge option" where
  "challenge_for_digest E g d = find (\<lambda>c. challenge_digest E c = d) (recent_challenges g)"

text \<open>Phase 1 of \<open>verify_and_spend\<close>: the checks before the first await.\<close>

definition admit_token ::
    "('w, 'm) tg_env_scheme \<Rightarrow> eat_pass_gate \<Rightarrow> str option \<Rightarrow> bytes \<Rightarrow> gate_reject + token \<times> token_challenge" where
  "admit_token E g auth_header digest =
     rbind (ok_or auth_header MissingToken) (\<lambda>auth.
     rbind (map_err Malformed (parse_authorization E auth)) (\<lambda>tok.
     rbind (ensure (tok_challenge_digest tok = digest)
              (InvalidToken ''token challenge_digest does not match issued challenge'')) (\<lambda>_.
     rbind (ok_or (challenge_for_digest E g digest) UnknownChallenge) (\<lambda>ch.
     Inr (tok, ch)))))"

text \<open>
  \<open>resolve_via_kt\<close> makes two requests: the log, whose head must verify under the pinned key, and
  the key of the record found in it.
\<close>

definition kt_lookup ::
    "('w, 'm) tg_env_scheme \<Rightarrow> eat_pass_gate \<Rightarrow> bytes \<Rightarrow> 'w \<Rightarrow> (str + key_record option) \<times> 'w" where
  "kt_lookup E g tkid w =
     (case get_kt E (issuer_base g @ ''/kt'') w of
        (Inl e, w1) \<Rightarrow> (Inl e, w1)
      | (Inr kt, w1) \<Rightarrow>
         (let served = (case hex_decode E (trim (log_pub kt)) of None \<Rightarrow> [] | Some b \<Rightarrow> b) in
          if served \<noteq> kt_log_pub g then (Inl ''kt log pubkey mismatch'', w1)
          else case verify_log E (kt_log_pub g) (kt_records kt) (signed_head kt) of
            Inl e \<Rightarrow> (Inl e, w1)
          | Inr _ \<Rightarrow>
             (Inr (find (\<lambda>r. eq_ignore_ascii_case (kr_token_key_id r) (hex_encode E tkid)) (kt_records kt)), w1)))"

definition kt_fetch_key ::
    "('w, 'm) tg_env_scheme \<Rightarrow> eat_pass_gate \<Rightarrow> bytes \<Rightarrow> key_record \<Rightarrow> 'w \<Rightarrow> (str + key_entry) \<times> 'w" where
  "kt_fetch_key E g tkid rec w =
     (case get_issuer_key E (issuer_base g @ ''/keys/'' @ show_u32 (kr_key_version rec)) w of
        (Inl e, w') \<Rightarrow> (Inl e, w')
      | (Inr pk, w') \<Rightarrow>
         (case token_key_id E pk of
            Inl e \<Rightarrow> (Inl e, w')
          | Inr k \<Rightarrow>
             if k \<noteq> tkid then (Inl ''issuer key disagrees with transparency log'', w')
             else (Inr \<lparr>ke_verifier = pk, ke_epoch = kr_key_version rec\<rparr>, w')))"

definition resolve_via_kt ::
    "('w, 'm) tg_env_scheme \<Rightarrow> eat_pass_gate \<Rightarrow> bytes \<Rightarrow> 'w \<Rightarrow> (str + key_entry option) \<times> 'w" where
  "resolve_via_kt E g tkid w =
     (case kt_lookup E g tkid w of
        (Inl e, w1) \<Rightarrow> (Inl e, w1)
      | (Inr None, w1) \<Rightarrow> (Inr None, w1)
      | (Inr (Some rec), w1) \<Rightarrow>
         (case kt_fetch_key E g tkid rec w1 of
            (Inl e, w2) \<Rightarrow> (Inl e, w2)
          | (Inr entry, w2) \<Rightarrow> (Inr (Some entry), w2)))"

text \<open>Phase 2: the key of the token, from the cache or from the transparency log.\<close>

definition key_for ::
    "('w, 'm) tg_env_scheme \<Rightarrow> bytes \<Rightarrow> eat_pass_gate \<times> 'w \<Rightarrow> key_entry option \<times> eat_pass_gate \<times> 'w" where
  "key_for E tkid = (\<lambda>(g, w).
     case bt_get (keys g) tkid of
       Some e \<Rightarrow> (Some e, g, w)
     | None \<Rightarrow>
        (case resolve_via_kt E g tkid w of
           (Inr (Some entry), w') \<Rightarrow> (Some entry, g\<lparr>keys := bt_insert tkid entry (keys g)\<rparr>, w')
         | (Inr None, w') \<Rightarrow> (None, g, w')
         | (Inl _, w') \<Rightarrow> (None, g, w')))"

definition spend_centrally ::
    "('w, 'm) tg_env_scheme \<Rightarrow> eat_pass_gate \<Rightarrow> u32 \<Rightarrow> bytes \<Rightarrow> 'w \<Rightarrow> spend_outcome \<times> 'w" where
  "spend_centrally E g epoch nonce w =
     (case post_redeem E (redeemer g @ ''/redeem'') \<lparr>rb_key_epoch = epoch, rb_nonce = hex_encode E nonce\<rparr> w of
        (Inr st, w') \<Rightarrow>
          (if 200 \<le> st \<and> st < 300 then SpendOk else if st = 409 then SpendDouble else SpendDown, w')
      | (Inl _, w') \<Rightarrow> (SpendDown, w'))"

text \<open>Phase 3: the token verifies under the key and the challenge, and its nonce is spent.\<close>

definition verify_spend ::
    "('w, 'm) tg_env_scheme \<Rightarrow> eat_pass_gate \<Rightarrow> key_entry \<Rightarrow> token \<Rightarrow> token_challenge \<Rightarrow> 'w \<Rightarrow> (gate_reject + bytes) \<times> 'w" where
  "verify_spend E g entry tok ch w =
     (case verifier_verify E (ke_verifier entry) tok ch of
        Inl e \<Rightarrow> (Inl (InvalidToken e), w)
      | Inr nonce \<Rightarrow>
         (case spend_centrally E g (ke_epoch entry) nonce w of
            (SpendOk, w') \<Rightarrow> (Inr nonce, w')
          | (SpendDouble, w') \<Rightarrow> (Inl DoubleSpend, w')
          | (SpendDown, w') \<Rightarrow> (Inl RedeemerDown, w')))"

definition verify_and_spend ::
    "('w, 'm) tg_env_scheme \<Rightarrow> str option \<Rightarrow> bytes \<Rightarrow> eat_pass_gate \<times> 'w \<Rightarrow> (gate_reject + bytes) \<times> eat_pass_gate \<times> 'w" where
  "verify_and_spend E auth_header digest = (\<lambda>(g, w).
     case admit_token E g auth_header digest of
       Inl e \<Rightarrow> (Inl e, g, w)
     | Inr (tok, ch) \<Rightarrow>
        (case key_for E (tok_token_key_id tok) (g, w) of
           (None, g', w') \<Rightarrow> (Inl UnknownKey, g', w')
         | (Some entry, g', w') \<Rightarrow>
            (case verify_spend E g' entry tok ch w' of (r, w'') \<Rightarrow> (r, g', w''))))"

subsection \<open>The service (\<open>bin/tool-gate.rs\<close>)\<close>

record 'w tool_gate_state =
  gate :: eat_pass_gate
  mailer :: smtp_config
  attester_url :: "str option"
  world :: 'w

definition TOOL_EMAIL_SEND :: str where
  "TOOL_EMAIL_SEND = ''/v1/tools/email.send''"

definition query_last :: "str \<Rightarrow> (str \<times> str) list \<Rightarrow> str option" where
  "query_last k pairs = map_of (rev pairs) k"

definition challenge_query :: "('w, 'm) tg_env_scheme \<Rightarrow> str \<Rightarrow> (str \<times> str \<times> str) option" where
  "challenge_query E path_and_query =
     (case url_query_pairs E (''http://tool-gate.local'' @ path_and_query) of
        None \<Rightarrow> None
      | Some pairs \<Rightarrow>
         (case (query_last ''to'' pairs, query_last ''subject'' pairs, query_last ''body'' pairs) of
            (Some to, Some subject, Some body) \<Rightarrow> Some (to, subject, body)
          | _ \<Rightarrow> None))"

text \<open>\<open>ToolChallengeInfo\<close> as serde writes it: the struct's fields in order.\<close>

definition tool_challenge_info :: "('w, 'm) tg_env_scheme \<Rightarrow> 'w tool_gate_state \<Rightarrow> json" where
  "tool_challenge_info E s =
     JObj [(''tool'', JStr ''email.send''), (''issuer_name'', JStr (gate_issuer_name (gate s))),
           (''origin_info'', JStr (gate_origin_info (gate s))), (''issuer_url'', JStr (issuer_base (gate s))),
           (''redeemer_url'', JStr (redeemer (gate s))),
           (''kt_log_pub'', JStr (hex_encode E (kt_log_pub (gate s)))),
           (''attester_url'', (case attester_url s of None \<Rightarrow> JNull | Some u \<Rightarrow> JStr u)),
           (''note'', JStr (''Mint a PrivateToken whose challenge binds to this email intent + gate nonce. ''
              @ ''Fetch this URL before minting; POST the token to /v1/tools/email.send with the same to/subject/body.''))]"

definition challenge_response ::
    "('w, 'm) tg_env_scheme \<Rightarrow> bytes \<Rightarrow> str \<Rightarrow> 'w tool_gate_state \<Rightarrow> (tg_error handler_error + http_response) \<times> 'w tool_gate_state" where
  "challenge_response E nonce path s =
     (case challenge_query E path of
        None \<Rightarrow>
          (write_json E 400 (jobj [(''error'', JStr ''challenge requires query params: to, subject, body''),
             (''example'', JStr ''/.well-known/eat-pass/challenge?to=a@b.c&subject=hi&body=hello'')]), s)
      | Some (to, subject, body) \<Rightarrow>
         (case issue_email_challenge E nonce to subject body (gate s) of
            (Inl e, g) \<Rightarrow> (Inl (Failed (IssueChallenge e)), s\<lparr>gate := g\<rparr>)
          | (Inr (ch, www), g) \<Rightarrow>
             (case json_to_vec E (tool_challenge_info E (s\<lparr>gate := g\<rparr>)) of
                None \<Rightarrow> (Inl EncodeJson, s\<lparr>gate := g\<rparr>)
              | Some b \<Rightarrow>
                 (Inr (write_response_with_headers 401 ''application/json''
                    [(''www-authenticate'', www),
                     (''x-tool-gate-proof'', ''attested-build + eat-pass token required''),
                     (''x-challenge-digest'', hex_encode E (challenge_digest E ch))] b), s\<lparr>gate := g\<rparr>))))"

definition no_recipient_message :: "str \<Rightarrow> str" where
  "no_recipient_message raw =
     ''recipient '' @ [CHR 0x27] @ trim raw @ [CHR 0x27] @ '' is not an email address and no env TOOL_GATE_CONTACT_''
     @ replace_char (CHR ''-'') ''_'' (to_ascii_uppercase (trim raw))
     @ '' is set (set TOOL_GATE_CONTACT_RYAN=ryan@example.com for named contacts)''"

text \<open>The challenge an unauthenticated send is answered with.\<close>

definition send_challenge_path :: "('w, 'm) tg_env_scheme \<Rightarrow> email_send_request \<Rightarrow> str" where
  "send_challenge_path E b = TOOL_EMAIL_SEND @ ''?to='' @ form_encode E (trim (es_to b))
     @ ''&subject='' @ form_encode E (es_subject b) @ ''&body='' @ form_encode E (es_body b)"

definition reject_response ::
    "('w, 'm) tg_env_scheme \<Rightarrow> bytes \<Rightarrow> email_send_request \<Rightarrow> gate_reject \<Rightarrow> 'w tool_gate_state
       \<Rightarrow> (tg_error handler_error + http_response) \<times> 'w tool_gate_state" where
  "reject_response E nonce b r s =
     (case r of
        MissingToken \<Rightarrow> challenge_response E nonce (send_challenge_path E b) s
      | Malformed _ \<Rightarrow> challenge_response E nonce (send_challenge_path E b) s
      | UnknownChallenge \<Rightarrow> (write_json E 403 (jobj [(''error'',
          JStr (''token challenge unknown or expired '' @ [CHR 0xE2, CHR 0x80, CHR 0x94]
            @ '' fetch GET /.well-known/eat-pass/challenge with the same to/subject/body before minting''))]), s)
      | InvalidToken e \<Rightarrow> (write_json E 403 (jobj [(''error'', JStr e)]), s)
      | UnknownKey \<Rightarrow> (write_json E 403 (jobj [(''error'', JStr ''issuer key not in transparency log'')]), s)
      | DoubleSpend \<Rightarrow> (write_json E 409 (jobj [(''error'',
          JStr (''token already spent '' @ [CHR 0xE2, CHR 0x80, CHR 0x94] @ '' one email per capability''))]), s)
      | RedeemerDown \<Rightarrow> (write_json E 503 (jobj [(''error'', JStr ''redeemer unavailable (fail-closed)'')]), s))"

definition email_send_response :: "('w, 'm) tg_env_scheme \<Rightarrow> str \<Rightarrow> str \<Rightarrow> str \<Rightarrow> bytes \<Rightarrow> json" where
  "email_send_response E message_id to subject nonce =
     JObj [(''ok'', JBool True), (''message_id'', JStr message_id), (''to'', JStr to), (''subject'', JStr subject),
           (''proof'', JStr (''eat-pass nonce '' @ hex_encode E nonce @ '' spent; mail sent from gated mailbox''))]"

text \<open>What precedes the gate: the decoded body, its resolved recipient and the parsed token.\<close>

datatype send_admission =
    BadRequest str
  | NeedChallenge email_send_request
  | Try email_send_request str str token

definition admit_send ::
    "('w, 'm) tg_env_scheme \<Rightarrow> (str \<Rightarrow> str option) \<Rightarrow> http_request \<Rightarrow> send_admission" where
  "admit_send E env req =
     (case decode_email_request E (req_body req) of
        Inl e \<Rightarrow> BadRequest (''invalid JSON body: '' @ e)
      | Inr b \<Rightarrow>
         if trim (es_to b) = [] \<or> trim (es_subject b) = [] then BadRequest ''to and subject are required''
         else case resolve_recipient env (es_to b) of
           Inl _ \<Rightarrow> BadRequest (no_recipient_message (es_to b))
         | Inr to \<Rightarrow>
            (case bt_get (req_headers req) ''authorization'' of
               None \<Rightarrow> NeedChallenge b
             | Some auth \<Rightarrow>
                (case parse_authorization E auth of
                   Inl _ \<Rightarrow> NeedChallenge b
                 | Inr tok \<Rightarrow> Try b to auth tok)))"

definition finish_send ::
    "('w, 'm) tg_env_scheme \<Rightarrow> (str \<Rightarrow> str option) \<Rightarrow> email_send_request \<Rightarrow> str \<Rightarrow> bytes \<Rightarrow> 'w tool_gate_state
       \<Rightarrow> (tg_error handler_error + http_response) \<times> 'w tool_gate_state" where
  "finish_send E env b to nonce s =
     (case mailer_send E env (mailer s) (es_to b) (es_subject b) (es_body b) (world s) of
        (Inl _, w) \<Rightarrow> (Inl (Failed SendFailed), s\<lparr>world := w\<rparr>)
      | (Inr mid, w) \<Rightarrow> (write_json E 200 (email_send_response E mid to (es_subject b) nonce), s\<lparr>world := w\<rparr>))"

definition email_send ::
    "('w, 'm) tg_env_scheme \<Rightarrow> (str \<Rightarrow> str option) \<Rightarrow> bytes \<Rightarrow> http_request \<Rightarrow> 'w tool_gate_state
       \<Rightarrow> (tg_error handler_error + http_response) \<times> 'w tool_gate_state" where
  "email_send E env nonce req s =
     (case admit_send E env req of
        BadRequest e \<Rightarrow> (write_json E 400 (jobj [(''error'', JStr e)]), s)
      | NeedChallenge b \<Rightarrow> challenge_response E nonce (send_challenge_path E b) s
      | Try b to auth tok \<Rightarrow>
         (case verify_and_spend E (Some auth) (tok_challenge_digest tok) (gate s, world s) of
            (Inl r, g, w) \<Rightarrow> reject_response E nonce b r (s\<lparr>gate := g, world := w\<rparr>)
          | (Inr n, g, w) \<Rightarrow> finish_send E env b to n (s\<lparr>gate := g, world := w\<rparr>)))"

definition tg_handle_request ::
    "('w, 'm) tg_env_scheme \<Rightarrow> (str \<Rightarrow> str option) \<Rightarrow> bytes \<Rightarrow> bytes \<Rightarrow> http_request \<Rightarrow> 'w tool_gate_state
       \<Rightarrow> (tg_error handler_error + http_response) \<times> 'w tool_gate_state" where
  "tg_handle_request E env page nonce req s =
     (if req_method req = ''OPTIONS'' then (Inr (write_response 204 ''text/plain'' []), s)
      else if req_method req = ''GET'' \<and> req_path req = ''/healthz''
      then (write_json E 200 (jobj [(''ok'', JBool True), (''service'', JStr ''tool-gate''),
              (''tool'', JStr TOOL_EMAIL_SEND)]), s)
      else if req_method req = ''GET'' \<and> req_path req = ''/''
      then (Inr (write_response 200 ''text/html; charset=utf-8'' page), s)
      else if req_method req = ''GET'' \<and> starts_with ''/.well-known/eat-pass/challenge'' (req_path req)
      then challenge_response E nonce (req_path req) s
      else if req_method req = ''GET'' \<and> req_path req = TOOL_EMAIL_SEND
      then challenge_response E nonce (req_path req) s
      else if req_method req = ''POST'' \<and> req_path req = TOOL_EMAIL_SEND
      then email_send E env nonce req s
      else (write_json E 404 (jobj [(''error'', JStr ''not found'')]), s))"

text \<open>The page at the root, and the handler the server calls, which does not read the peer.\<close>

definition landing_html :: bytes where
  "landing_html = join [CHR 0x0A]
     [''<!DOCTYPE html>'',
      ''<html lang='' @ [CHR 0x22] @ ''en'' @ [CHR 0x22] @ ''>'',
      ''<head><meta charset='' @ [CHR 0x22] @ ''utf-8'' @ [CHR 0x22] @ ''><title>tool-gate</title>'',
      ''<style>'',
      ''  body{font-family:ui-monospace,monospace;max-width:52rem;margin:3rem auto;padding:0 1rem;line-height:1.5}'',
      ''  h1{font-size:1.4rem} .dim{color:#666} code{background:#f4f4f4;padding:.1rem .3rem}'',
      ''</style></head>'',
      ''<body>'',
      ''<h1>tool-gate</h1>'',
      ''<p>The <strong>IMAP/SMTP mailbox password lives here</strong> '' @ [CHR 0xE2, CHR 0x80, CHR 0x94] @ '' not in your agent, not in the LLM, not in env vars on the CVM client.</p>'',
      ''<p>An attested agent mints a one-time <code>PrivateToken</code> (eat-pass) bound to the exact email intent, spends it here, and this gate sends the mail.</p>'',
      ''<p class='' @ [CHR 0x22] @ ''dim'' @ [CHR 0x22] @ ''>Tool: <code>POST /v1/tools/email.send</code> '' @ [CHR 0xC2, CHR 0xB7] @ '' Challenge: <code>GET /.well-known/eat-pass/challenge?to=&amp;subject=&amp;body=</code></p>'',
      ''<p class='' @ [CHR 0x22] @ ''dim'' @ [CHR 0x22] @ ''>Agent: <code>cvm tool send-email --to ryan --subject '' @ [CHR 0x22] @ [CHR 0xE2, CHR 0x80, CHR 0xA6] @ [CHR 0x22] @ '' --body '' @ [CHR 0x22] @ [CHR 0xE2, CHR 0x80, CHR 0xA6] @ [CHR 0x22] @ ''</code></p>'',
      ''</body></html>'']"

definition tool_gate_handler ::
    "('w, 'm) tg_env_scheme \<Rightarrow> (str \<Rightarrow> str option) \<Rightarrow> bytes \<Rightarrow> str \<Rightarrow> http_request \<Rightarrow> 'w tool_gate_state
       \<Rightarrow> (tg_error handler_error + http_response) \<times> 'w tool_gate_state" where
  "tool_gate_handler E env nonce peer req s = tg_handle_request E env landing_html nonce req s"

subsection \<open>Start-up (\<open>bin/tool-gate.rs\<close>)\<close>

record tg_config =
  tc_listen :: str
  tc_issuer :: str
  tc_redeemer :: str
  tc_issuer_name :: str
  tc_origin_info :: str
  tc_kt_log_pub :: str
  tc_attester :: "str option"
  tc_tls_cert :: "str option"
  tc_tls_key :: "str option"
  tc_insecure_tls :: bool

datatype args_error = MissingValue str | UnknownArg str | MissingRequired | HelpExit

definition tg_config_default :: tg_config where
  "tg_config_default = \<lparr>tc_listen = ''127.0.0.1:8787'', tc_issuer = [], tc_redeemer = [],
     tc_issuer_name = ''issuer.eat-pass.dev'', tc_origin_info = ''tool-gate.secure.build/v1/tools/email.send'',
     tc_kt_log_pub = [], tc_attester = None, tc_tls_cert = None, tc_tls_key = None, tc_insecure_tls = False\<rparr>"

fun tg_set_flag :: "str \<Rightarrow> str \<Rightarrow> tg_config \<Rightarrow> tg_config option" where
  "tg_set_flag f v c =
     (if f = ''--listen'' then Some (c\<lparr>tc_listen := v\<rparr>)
      else if f = ''--issuer'' then Some (c\<lparr>tc_issuer := v\<rparr>)
      else if f = ''--redeemer'' then Some (c\<lparr>tc_redeemer := v\<rparr>)
      else if f = ''--issuer-name'' then Some (c\<lparr>tc_issuer_name := v\<rparr>)
      else if f = ''--origin-info'' then Some (c\<lparr>tc_origin_info := v\<rparr>)
      else if f = ''--kt-log-pub'' then Some (c\<lparr>tc_kt_log_pub := v\<rparr>)
      else if f = ''--attester'' then Some (c\<lparr>tc_attester := Some v\<rparr>)
      else if f = ''--tls-cert'' then Some (c\<lparr>tc_tls_cert := Some v\<rparr>)
      else if f = ''--tls-key'' then Some (c\<lparr>tc_tls_key := Some v\<rparr>)
      else None)"

declare tg_set_flag.simps [simp del]

definition tg_valued :: "str \<Rightarrow> bool" where
  "tg_valued f \<longleftrightarrow> tg_set_flag f [] tg_config_default \<noteq> None"

fun tg_parse_loop :: "str list \<Rightarrow> tg_config \<Rightarrow> args_error + tg_config" where
  "tg_parse_loop [] c = Inr c"
| "tg_parse_loop [a] c =
     (if tg_valued a then Inl (MissingValue a)
      else if a = ''--insecure-tls'' then Inr (c\<lparr>tc_insecure_tls := True\<rparr>)
      else if a = ''--help'' \<or> a = ''-h'' then Inl HelpExit
      else Inl (UnknownArg a))"
| "tg_parse_loop (a # b # as) c =
     (case tg_set_flag a b c of
        Some c' \<Rightarrow> tg_parse_loop as c'
      | None \<Rightarrow>
         if a = ''--insecure-tls'' then tg_parse_loop (b # as) (c\<lparr>tc_insecure_tls := True\<rparr>)
         else if a = ''--help'' \<or> a = ''-h'' then Inl HelpExit
         else Inl (UnknownArg a))"

definition tg_parse_args :: "str list \<Rightarrow> args_error + tg_config" where
  "tg_parse_args args =
     rbind (tg_parse_loop args tg_config_default) (\<lambda>c.
     rbind (ensure (tc_issuer c \<noteq> [] \<and> tc_redeemer c \<noteq> [] \<and> tc_kt_log_pub c \<noteq> []) MissingRequired) (\<lambda>_. Inr c))"

definition parse_hex32 :: "('m) lib_scheme \<Rightarrow> str \<Rightarrow> unit + bytes" where
  "parse_hex32 L s = rbind (ok_or (hex_decode L (trim s)) ()) (\<lambda>b. rbind (ensure (length b = 32) ()) (\<lambda>_. Inr b))"

datatype tg_start_error =
    BadPin | BootFailed tg_error | BadSmtp tg_error | TlsSetup tls_error | BadListen str | NeedsTls | HalfTls

text \<open>
  \<open>main\<close> up to the accept loop. \<open>parse_addr\<close> is \<open>SocketAddr::from_str\<close> followed by
  \<open>ip().is_loopback()\<close>.
\<close>

definition tg_main ::
    "('w, 'm) tg_env_scheme \<Rightarrow> (str \<Rightarrow> str option) \<Rightarrow> (str \<Rightarrow> str \<Rightarrow> str option \<Rightarrow> str + 'a) \<Rightarrow> (str \<Rightarrow> bool option)
       \<Rightarrow> tg_config \<Rightarrow> 'w \<Rightarrow> tg_start_error + ('w tool_gate_state \<times> 'a option)" where
  "tg_main E env load parse_addr cfg w =
     rbind (map_err (\<lambda>_. BadPin) (parse_hex32 E (tc_kt_log_pub cfg))) (\<lambda>pin.
     (case bootstrap E (tc_issuer cfg) (tc_issuer_name cfg) (tc_origin_info cfg) (tc_redeemer cfg) pin w of
        (Inl e, _) \<Rightarrow> Inl (BootFailed e)
      | (Inr g, w') \<Rightarrow>
         rbind (map_err BadSmtp (smtp_from_env env)) (\<lambda>smtp.
         rbind (case (tc_tls_cert cfg, tc_tls_key cfg) of
                  (Some c, Some k) \<Rightarrow> map_err TlsSetup (rustls_acceptor_from_paths load (Some c) (Some k) None)
                | (None, None) \<Rightarrow>
                    rbind (ok_or (parse_addr (tc_listen cfg)) (BadListen (tc_listen cfg))) (\<lambda>loopback.
                    rbind (ensure loopback NeedsTls) (\<lambda>_. Inr None))
                | _ \<Rightarrow> Inl HalfTls) (\<lambda>tls.
         Inr (\<lparr>gate = g, mailer = smtp, attester_url = tc_attester cfg, world = w'\<rparr>, tls)))))"

end
