(* ===== verification/Tool_Gate_Safety.thy ===== *)
theory Tool_Gate_Safety
  imports Tool_Gate
begin

section \<open>What the tool gate guarantees under concurrency\<close>

text \<open>
  The requests of the tool gate run concurrently. \<open>tg_step\<close> interleaves their phases with challenge
  issuing and with other gates' redemptions; three invariants (redemptions, credentials, keys)
  hold in every reachable state, and the handler \<open>email_send\<close> is one of the runs.
\<close>

subsection \<open>Concurrent requests\<close>

text \<open>
  A send request in flight, by what it has got so far. The phases are cut at the awaits of
  \<open>verify_and_spend\<close> and \<open>email_send\<close>, so that between any two of them other requests may run.
\<close>

datatype phase =
    Idle
  | Admitted email_send_request str token token_challenge
  | Looked email_send_request str token token_challenge key_record
  | Resolved email_send_request str token token_challenge key_entry
  | Keyed email_send_request str token token_challenge key_entry
  | Spent email_send_request str token token_challenge key_entry bytes
  | Done

record mail_record =
  mr_request :: email_send_request
  mr_token :: token
  mr_challenge :: token_challenge
  mr_entry :: key_entry
  mr_nonce :: bytes

text \<open>
  The system: the service state, the requests in flight, and two histories, the challenges issued
  and the mails handed to the mailer.
\<close>

record 'w tg_sys =
  srv :: "'w tool_gate_state"
  threads :: "nat \<Rightarrow> phase"
  issued :: "token_challenge list"
  mails :: "mail_record list"

definition set_thread :: "nat \<Rightarrow> phase \<Rightarrow> 'w tg_sys \<Rightarrow> 'w tg_sys" where
  "set_thread i p c = c\<lparr>threads := (threads c)(i := p)\<rparr>"

definition set_world :: "'w \<Rightarrow> 'w tg_sys \<Rightarrow> 'w tg_sys" where
  "set_world w c = c\<lparr>srv := (srv c)\<lparr>world := w\<rparr>\<rparr>"

definition set_gate :: "eat_pass_gate \<Rightarrow> 'w tg_sys \<Rightarrow> 'w tg_sys" where
  "set_gate g c = c\<lparr>srv := (srv c)\<lparr>gate := g\<rparr>\<rparr>"

text \<open>
  \<open>spent w\<close> is the set of redemptions the redeemer holds in world \<open>w\<close>. Other gates may redeem at
  any time (\<open>outside\<close>).
\<close>

inductive tg_step ::
    "('w, 'm) tg_env_scheme \<Rightarrow> (str \<Rightarrow> str option) \<Rightarrow> ('w \<Rightarrow> redeem_body set) \<Rightarrow> 'w tg_sys \<Rightarrow> 'w tg_sys \<Rightarrow> bool"
  for E env spent where
  issue: "issue_email_challenge E nonce to subject body (gate (srv c)) = (r, g) \<Longrightarrow>
    tg_step E env spent c ((set_gate g c)\<lparr>issued := issued c @ [last (recent_challenges g)]\<rparr>)"
| outside: "spent (world (srv c)) \<subseteq> spent w \<Longrightarrow> tg_step E env spent c (set_world w c)"
| admit: "threads c i = Idle \<Longrightarrow> admit_send E env req = Try b to auth tok \<Longrightarrow>
    admit_token E (gate (srv c)) (Some auth) (tok_challenge_digest tok) = Inr (tok', ch) \<Longrightarrow>
    tg_step E env spent c (set_thread i (Admitted b to tok' ch) c)"
| key_hit: "threads c i = Admitted b to tok ch \<Longrightarrow> bt_get (keys (gate (srv c))) (tok_token_key_id tok) = Some e \<Longrightarrow>
    tg_step E env spent c (set_thread i (Keyed b to tok ch e) c)"
| key_lookup: "threads c i = Admitted b to tok ch \<Longrightarrow>
    kt_lookup E (gate (srv c)) (tok_token_key_id tok) (world (srv c)) = (Inr (Some rec), w) \<Longrightarrow>
    tg_step E env spent c (set_thread i (Looked b to tok ch rec) (set_world w c))"
| key_lookup_failed: "threads c i = Admitted b to tok ch \<Longrightarrow>
    kt_lookup E (gate (srv c)) (tok_token_key_id tok) (world (srv c)) = (r, w) \<Longrightarrow> (\<nexists>rec. r = Inr (Some rec)) \<Longrightarrow>
    tg_step E env spent c (set_thread i Done (set_world w c))"
| key_fetch: "threads c i = Looked b to tok ch rec \<Longrightarrow>
    kt_fetch_key E (gate (srv c)) (tok_token_key_id tok) rec (world (srv c)) = (Inr e, w) \<Longrightarrow>
    tg_step E env spent c (set_thread i (Resolved b to tok ch e) (set_world w c))"
| key_fetch_failed: "threads c i = Looked b to tok ch rec \<Longrightarrow>
    kt_fetch_key E (gate (srv c)) (tok_token_key_id tok) rec (world (srv c)) = (Inl err, w) \<Longrightarrow>
    tg_step E env spent c (set_thread i Done (set_world w c))"
| key_cache: "threads c i = Resolved b to tok ch e \<Longrightarrow>
    tg_step E env spent c (set_thread i (Keyed b to tok ch e) (set_gate
      ((gate (srv c))\<lparr>keys := bt_insert (tok_token_key_id tok) e (keys (gate (srv c)))\<rparr>) c))"
| spend: "threads c i = Keyed b to tok ch e \<Longrightarrow>
    verify_spend E (gate (srv c)) e tok ch (world (srv c)) = (Inr nonce, w) \<Longrightarrow>
    tg_step E env spent c (set_thread i (Spent b to tok ch e nonce) (set_world w c))"
| spend_refused: "threads c i = Keyed b to tok ch e \<Longrightarrow>
    verify_spend E (gate (srv c)) e tok ch (world (srv c)) = (Inl err, w) \<Longrightarrow>
    tg_step E env spent c (set_thread i Done (set_world w c))"
| send: "threads c i = Spent b to tok ch e nonce \<Longrightarrow> finish_send E env b to nonce (srv c) = (r, s') \<Longrightarrow>
    tg_step E env spent c (set_thread i Done (c\<lparr>srv := s',
      mails := mails c @ [\<lparr>mr_request = b, mr_token = tok, mr_challenge = ch, mr_entry = e, mr_nonce = nonce\<rparr>]\<rparr>))"

text \<open>The start: no request in flight, nothing issued or sent, the keys as bootstrapped.\<close>

definition tg_init :: "'w tg_sys \<Rightarrow> bool" where
  "tg_init c \<longleftrightarrow> threads c = (\<lambda>_. Idle) \<and> issued c = [] \<and> mails c = [] \<and> recent_challenges (gate (srv c)) = []"

inductive tg_reach ::
    "('w, 'm) tg_env_scheme \<Rightarrow> (str \<Rightarrow> str option) \<Rightarrow> ('w \<Rightarrow> redeem_body set) \<Rightarrow> 'w tg_sys \<Rightarrow> 'w tg_sys \<Rightarrow> bool"
  for E env spent c0 where
  reach_init: "tg_reach E env spent c0 c0"
| reach_step: "tg_reach E env spent c0 c \<Longrightarrow> tg_step E env spent c c' \<Longrightarrow> tg_reach E env spent c0 c'"

text \<open>
  The redeemer's contract, as its service documents it: a redemption succeeds at most once, and
  what was redeemed stays redeemed, whatever else is asked of the outside world.
\<close>

definition redeemer_law :: "('w, 'm) tg_env_scheme \<Rightarrow> ('w \<Rightarrow> redeem_body set) \<Rightarrow> bool" where
  "redeemer_law E spent \<longleftrightarrow>
     (\<forall>u rb w st w'. post_redeem E u rb w = (Inr st, w') \<and> 200 \<le> st \<and> st < 300 \<longrightarrow> rb \<notin> spent w \<and> rb \<in> spent w')
   \<and> (\<forall>u rb w. spent w \<subseteq> spent (snd (post_redeem E u rb w)))
   \<and> (\<forall>u w. spent w \<subseteq> spent (snd (get_kt E u w)))
   \<and> (\<forall>u w. spent w \<subseteq> spent (snd (get_issuer_key E u w)))
   \<and> (\<forall>cfg m w. spent w \<subseteq> spent (snd (smtp_send E cfg m w)))"

subsection \<open>One mail per capability\<close>

definition capability :: "('m) lib_scheme \<Rightarrow> key_entry \<Rightarrow> bytes \<Rightarrow> redeem_body" where
  "capability L e n = \<lparr>rb_key_epoch = ke_epoch e, rb_nonce = hex_encode L n\<rparr>"

fun phase_cap :: "('m) lib_scheme \<Rightarrow> phase \<Rightarrow> redeem_body option" where
  "phase_cap L (Spent b to tok ch e n) = Some (capability L e n)"
| "phase_cap L _ = None"

definition mail_cap :: "('m) lib_scheme \<Rightarrow> mail_record \<Rightarrow> redeem_body" where
  "mail_cap L m = capability L (mr_entry m) (mr_nonce m)"

text \<open>
  \<open>S\<close> are the redemptions the redeemer holds, \<open>ms\<close> those of the mails sent, \<open>h i\<close> the one
  request \<open>i\<close> holds and has not used.
\<close>

definition spend_core :: "redeem_body set \<Rightarrow> redeem_body list \<Rightarrow> (nat \<Rightarrow> redeem_body option) \<Rightarrow> bool" where
  "spend_core S ms h \<longleftrightarrow> distinct ms \<and> set ms \<subseteq> S
     \<and> (\<forall>i r. h i = Some r \<longrightarrow> r \<in> S \<and> r \<notin> set ms)
     \<and> (\<forall>i j r. h i = Some r \<and> h j = Some r \<longrightarrow> i = j)"

lemma spend_core_drop: "spend_core S ms h \<Longrightarrow> S \<subseteq> S' \<Longrightarrow> spend_core S' ms (h(i := None))"
  unfolding spend_core_def by auto

lemma spend_core_mono: "spend_core S ms h \<Longrightarrow> S \<subseteq> S' \<Longrightarrow> spend_core S' ms h"
  unfolding spend_core_def by blast

lemma spend_core_gain:
  "spend_core S ms h \<Longrightarrow> S \<subseteq> S' \<Longrightarrow> r \<notin> S \<Longrightarrow> r \<in> S' \<Longrightarrow> spend_core S' ms (h(i := Some r))"
  unfolding spend_core_def by auto

lemma spend_core_use:
  "spend_core S ms h \<Longrightarrow> S \<subseteq> S' \<Longrightarrow> h i = Some r \<Longrightarrow> spend_core S' (ms @ [r]) (h(i := None))"
  unfolding spend_core_def by auto

definition held :: "('m) lib_scheme \<Rightarrow> (nat \<Rightarrow> phase) \<Rightarrow> nat \<Rightarrow> redeem_body option" where
  "held L t = (\<lambda>i. phase_cap L (t i))"

lemma held_upd [simp]: "held L (t(i := p)) = (held L t)(i := phase_cap L p)"
  by (auto simp: held_def)

definition spend_inv :: "('w, 'm) tg_env_scheme \<Rightarrow> ('w \<Rightarrow> redeem_body set) \<Rightarrow> 'w tg_sys \<Rightarrow> bool" where
  "spend_inv E spent c \<longleftrightarrow> spend_core (spent (world (srv c))) (map (mail_cap E) (mails c)) (held E (threads c))"

text \<open>What each call does to the redeemer's set.\<close>

lemma kt_lookup_spent: "redeemer_law E spent \<Longrightarrow> kt_lookup E g k w = (r, w') \<Longrightarrow> spent w \<subseteq> spent w'"
proof -
  assume law: "redeemer_law E spent" and k: "kt_lookup E g k w = (r, w')"
  have "w' = snd (get_kt E (issuer_base g @ ''/kt'') w)"
    using k by (auto simp: kt_lookup_def Let_def split: prod.splits sum.splits if_splits)
  with law show ?thesis by (simp add: redeemer_law_def)
qed

lemma kt_fetch_key_spent: "redeemer_law E spent \<Longrightarrow> kt_fetch_key E g k rec w = (r, w') \<Longrightarrow> spent w \<subseteq> spent w'"
proof -
  assume law: "redeemer_law E spent" and k: "kt_fetch_key E g k rec w = (r, w')"
  have "w' = snd (get_issuer_key E (issuer_base g @ ''/keys/'' @ show_u32 (kr_key_version rec)) w)"
    using k by (auto simp: kt_fetch_key_def split: prod.splits sum.splits if_splits)
  with law show ?thesis by (simp add: redeemer_law_def)
qed

lemma spend_centrally_spent:
  assumes "redeemer_law E spent" "spend_centrally E g ep n w = (o', w')"
  shows "spent w \<subseteq> spent w'"
    and "o' = SpendOk \<Longrightarrow> \<lparr>rb_key_epoch = ep, rb_nonce = hex_encode E n\<rparr> \<notin> spent w
           \<and> \<lparr>rb_key_epoch = ep, rb_nonce = hex_encode E n\<rparr> \<in> spent w'"
proof -
  obtain r w1 where p: "post_redeem E (redeemer g @ ''/redeem'') \<lparr>rb_key_epoch = ep, rb_nonce = hex_encode E n\<rparr> w = (r, w1)"
    by (rule prod.exhaust)
  have w1: "w1 = w'" using assms(2) p by (auto simp: spend_centrally_def split: sum.splits)
  have "spent w \<subseteq> spent (snd (post_redeem E (redeemer g @ ''/redeem'') \<lparr>rb_key_epoch = ep, rb_nonce = hex_encode E n\<rparr> w))"
    using assms(1) unfolding redeemer_law_def by blast
  then show "spent w \<subseteq> spent w'" using p w1 by simp
  assume ok: "o' = SpendOk"
  obtain st where "r = Inr st" "200 \<le> st" "st < 300"
    using assms(2) p ok by (cases r) (auto simp: spend_centrally_def split: if_splits)
  then have "post_redeem E (redeemer g @ ''/redeem'') \<lparr>rb_key_epoch = ep, rb_nonce = hex_encode E n\<rparr> w = (Inr st, w')
      \<and> 200 \<le> st \<and> st < 300"
    using p w1 by simp
  then show "\<lparr>rb_key_epoch = ep, rb_nonce = hex_encode E n\<rparr> \<notin> spent w
      \<and> \<lparr>rb_key_epoch = ep, rb_nonce = hex_encode E n\<rparr> \<in> spent w'"
    using assms(1)[unfolded redeemer_law_def, THEN conjunct1] by blast
qed

lemma verify_spend_spent:
  assumes "redeemer_law E spent" "verify_spend E g e tok ch w = (r, w')"
  shows "spent w \<subseteq> spent w'"
    and "r = Inr n \<Longrightarrow> capability E e n \<notin> spent w \<and> capability E e n \<in> spent w'
           \<and> verifier_verify E (ke_verifier e) tok ch = Inr n"
  using assms spend_centrally_spent[OF assms(1)]
  by (auto simp: verify_spend_def capability_def split: sum.splits prod.splits spend_outcome.splits)

lemma mailer_send_spent:
  assumes "redeemer_law E spent" "mailer_send E env cfg to subject body w = (r, w')"
  shows "spent w \<subseteq> spent w'"
proof -
  have "w' = w \<or> (\<exists>msg. w' = snd (smtp_send E cfg msg w))"
    using assms(2) by (auto simp: mailer_send_def split: sum.splits prod.splits if_splits) (metis snd_conv)+
  moreover have "spent w \<subseteq> spent (snd (smtp_send E cfg msg w))" for msg
    using assms(1) by (simp add: redeemer_law_def)
  ultimately show ?thesis by blast
qed

lemma finish_send_world:
  assumes "finish_send E env b to n s = (r, s')"
  shows "\<exists>q. mailer_send E env (mailer s) (es_to b) (es_subject b) (es_body b) (world s) = (q, world s')
     \<and> s' = s\<lparr>world := world s'\<rparr>"
  using assms by (auto simp: finish_send_def split: sum.splits prod.splits)

lemma finish_send_spent:
  assumes "redeemer_law E spent" "finish_send E env b to n s = (r, s')"
  shows "spent (world s) \<subseteq> spent (world s')"
  using finish_send_world[OF assms(2)] mailer_send_spent[OF assms(1)] by blast

lemma finish_send_gate: "finish_send E env b to n s = (r, s') \<Longrightarrow> gate s' = gate s"
  by (auto simp: finish_send_def split: sum.splits prod.splits)

lemma step_simps [simp]:
  "world (srv (set_thread i p c)) = world (srv c)" "world (srv (set_world w c)) = w"
  "world (srv (set_gate g c)) = world (srv c)" "gate (srv (set_gate g c)) = g"
  "gate (srv (set_thread i p c)) = gate (srv c)" "gate (srv (set_world w c)) = gate (srv c)"
  "threads (set_thread i p c) = (threads c)(i := p)" "threads (set_world w c) = threads c"
  "threads (set_gate g c) = threads c" "mails (set_thread i p c) = mails c"
  "mails (set_world w c) = mails c" "mails (set_gate g c) = mails c" "issued (set_thread i p c) = issued c"
  "issued (set_world w c) = issued c" "issued (set_gate g c) = issued c"
  by (simp_all add: set_thread_def set_world_def set_gate_def)

lemma spend_inv_step:
  assumes law: "redeemer_law E spent" and step: "tg_step E env spent c c'" and inv: "spend_inv E spent c"
  shows "spend_inv E spent c'"
  using step
proof cases
  case (issue nonce to subject body r g)
  then show ?thesis using inv by (simp add: spend_inv_def)
next
  case (outside w)
  then show ?thesis using inv spend_core_mono by (auto simp: spend_inv_def)
next
  case (admit i req b to auth tok tok' ch)
  then show ?thesis using inv spend_core_drop[OF _ order.refl] by (simp add: spend_inv_def)
next
  case (key_hit i b to tok ch e)
  then show ?thesis using inv spend_core_drop[OF _ order.refl] by (simp add: spend_inv_def)
next
  case (key_lookup i b to tok ch rec w)
  then show ?thesis using inv spend_core_drop[OF _ kt_lookup_spent[OF law]] by (simp add: spend_inv_def)
next
  case (key_lookup_failed i b to tok ch r w)
  then show ?thesis using inv spend_core_drop[OF _ kt_lookup_spent[OF law]] by (simp add: spend_inv_def)
next
  case (key_fetch i b to tok ch rec e w)
  then show ?thesis using inv spend_core_drop[OF _ kt_fetch_key_spent[OF law]] by (simp add: spend_inv_def)
next
  case (key_fetch_failed i b to tok ch rec err w)
  then show ?thesis using inv spend_core_drop[OF _ kt_fetch_key_spent[OF law]] by (simp add: spend_inv_def)
next
  case (key_cache i b to tok ch e)
  then show ?thesis using inv spend_core_drop[OF _ order.refl] by (simp add: spend_inv_def)
next
  case (spend i b to tok ch e nonce w)
  note vs = verify_spend_spent[OF law spend(3)]
  show ?thesis
    using inv spend_core_gain[OF _ vs(1), of _ _ "capability E e nonce" i] vs(2)[OF refl] spend(1)
    by (simp add: spend_inv_def)
next
  case (spend_refused i b to tok ch e err w)
  then show ?thesis using inv spend_core_drop[OF _ verify_spend_spent(1)[OF law]] by (simp add: spend_inv_def)
next
  case (send i b to tok ch e nonce r s')
  have "held E (threads c) i = Some (capability E e nonce)" using send(2) by (simp add: held_def)
  then show ?thesis
    using inv spend_core_use[OF _ finish_send_spent[OF law send(3)], of _ "held E (threads c)" i] send(1)
    by (simp add: spend_inv_def mail_cap_def)
qed

subsection \<open>Credentials in flight\<close>

fun phase_cred :: "phase \<Rightarrow> (token \<times> token_challenge) option" where
  "phase_cred (Admitted b to tok ch) = Some (tok, ch)"
| "phase_cred (Looked b to tok ch rec) = Some (tok, ch)"
| "phase_cred (Resolved b to tok ch e) = Some (tok, ch)"
| "phase_cred (Keyed b to tok ch e) = Some (tok, ch)"
| "phase_cred (Spent b to tok ch e n) = Some (tok, ch)"
| "phase_cred _ = None"

definition good_cred :: "('w, 'm) tg_env_scheme \<Rightarrow> token_challenge list \<Rightarrow> token \<times> token_challenge \<Rightarrow> bool" where
  "good_cred E iss p \<longleftrightarrow> snd p \<in> set iss \<and> challenge_digest E (snd p) = tok_challenge_digest (fst p)"

definition cred_inv :: "('w, 'm) tg_env_scheme \<Rightarrow> 'w tg_sys \<Rightarrow> bool" where
  "cred_inv E c \<longleftrightarrow> set (recent_challenges (gate (srv c))) \<subseteq> set (issued c)
     \<and> (\<forall>i p. phase_cred (threads c i) = Some p \<longrightarrow> good_cred E (issued c) p)
     \<and> (\<forall>m\<in>set (mails c). good_cred E (issued c) (mr_token m, mr_challenge m))"

lemma admit_token_good:
  assumes "admit_token E g (Some auth) d = Inr (tok, ch)"
  shows "ch \<in> set (recent_challenges g)" "challenge_digest E ch = tok_challenge_digest tok"
  using assms by (auto simp: admit_token_def challenge_for_digest_def res_simps find_Some_iff)

lemma register_recent:
  "recent_challenges (register_challenge ch g)
   = drop (Suc (length (recent_challenges g)) - MAX_RECENT_CHALLENGES) (recent_challenges g @ [ch])"
  by (simp add: register_challenge_def Let_def)

text \<open>Keeping the last \<open>m\<close> elements commutes with appending.\<close>

lemma drop_window:
  assumes "0 < m"
  shows "drop (Suc (length (drop (length ys - m) ys)) - m) (drop (length ys - m) ys @ [x])
     = drop (Suc (length ys) - m) (ys @ [x])"
proof -
  have "drop (length ys - m) ys @ [x] = drop (length ys - m) (ys @ [x])" by simp
  then show ?thesis using assms
    by (cases "length ys \<le> m") (simp_all del: drop_append add: Suc_diff_le)
qed

lemma register_last: "last (recent_challenges (register_challenge ch g)) = ch"
  by (subst register_recent, subst last_drop) (simp_all add: MAX_RECENT_CHALLENGES_def)

lemma issue_is_register:
  assumes "issue_email_challenge E nonce to subject body g = (r, g')"
  obtains ch where "g' = register_challenge ch g"
    "ch_redemption_context ch = Some (email_redemption_context_bound E nonce to subject body)"
  using assms by (auto simp: issue_email_challenge_def Let_def)

lemma issue_recent:
  assumes "issue_email_challenge E nonce to subject body g = (r, g')"
  shows "set (recent_challenges g') \<subseteq> set (recent_challenges g) \<union> {last (recent_challenges g')}"
    "keys g' = keys g" "kt_log_pub g' = kt_log_pub g"
proof -
  obtain ch where g': "g' = register_challenge ch g" using issue_is_register[OF assms] .
  show "set (recent_challenges g') \<subseteq> set (recent_challenges g) \<union> {last (recent_challenges g')}"
    using set_drop_subset[of "Suc (length (recent_challenges g)) - MAX_RECENT_CHALLENGES" "recent_challenges g @ [ch]"]
    unfolding g' register_last by (simp only: register_recent) auto
  show "keys g' = keys g" "kt_log_pub g' = kt_log_pub g"
    by (simp_all add: g' register_challenge_def Let_def)
qed

lemma good_cred_mono: "good_cred E iss p \<Longrightarrow> set iss \<subseteq> set iss' \<Longrightarrow> good_cred E iss' p"
  by (auto simp: good_cred_def)

lemma cred_inv_thread:
  assumes "cred_inv E c" "\<And>p. phase_cred ph = Some p \<Longrightarrow> good_cred E (issued c) p"
  shows "cred_inv E (set_thread i ph c)"
  using assms by (auto simp: cred_inv_def)

lemma cred_inv_world: "cred_inv E c \<Longrightarrow> cred_inv E (set_world w c)"
  by (simp add: cred_inv_def)

lemma cred_inv_advance:
  assumes "cred_inv E c" "phase_cred (threads c i) = Some p" "phase_cred ph = Some p \<or> phase_cred ph = None"
  shows "cred_inv E (set_thread i ph c)"
  using assms by (intro cred_inv_thread) (auto simp: cred_inv_def)

lemma cred_inv_step:
  assumes step: "tg_step E env spent c c'" and inv: "cred_inv E c"
  shows "cred_inv E c'"
  using step
proof cases
  case (issue nonce to subject body r g)
  then show ?thesis using inv issue_recent(1)[OF issue(2)]
    by (auto simp: cred_inv_def intro: good_cred_mono[of E "issued c"])
next
  case (outside w)
  then show ?thesis using cred_inv_world[OF inv] by simp
next
  case (admit i req b to auth tok tok' ch)
  then show ?thesis using inv admit_token_good[OF admit(4)]
    by (auto intro!: cred_inv_thread simp: good_cred_def cred_inv_def)
next
  case (key_hit i b to tok ch e)
  then show ?thesis using cred_inv_advance[OF inv, where i = i] by simp
next
  case (key_lookup i b to tok ch rec w)
  then show ?thesis using cred_inv_advance[OF cred_inv_world[OF inv], where i = i] by simp
next
  case (key_lookup_failed i b to tok ch r w)
  then show ?thesis using cred_inv_advance[OF cred_inv_world[OF inv], where i = i] by simp
next
  case (key_fetch i b to tok ch rec e w)
  then show ?thesis using cred_inv_advance[OF cred_inv_world[OF inv], where i = i] by simp
next
  case (key_fetch_failed i b to tok ch rec err w)
  then show ?thesis using cred_inv_advance[OF cred_inv_world[OF inv], where i = i] by simp
next
  case (key_cache i b to tok ch e)
  have "cred_inv E (set_gate ((gate (srv c))\<lparr>keys := bt_insert (tok_token_key_id tok) e (keys (gate (srv c)))\<rparr>) c)"
    using inv by (simp add: cred_inv_def)
  from cred_inv_advance[OF this, where i = i] key_cache show ?thesis by simp
next
  case (spend i b to tok ch e nonce w)
  then show ?thesis using cred_inv_advance[OF cred_inv_world[OF inv], where i = i] by simp
next
  case (spend_refused i b to tok ch e err w)
  then show ?thesis using cred_inv_advance[OF cred_inv_world[OF inv], where i = i] by simp
next
  case (send i b to tok ch e nonce r s')
  have "good_cred E (issued c) (tok, ch)" using inv send(2) unfolding cred_inv_def by (metis phase_cred.simps(5))
  then show ?thesis using inv send(1) finish_send_gate[OF send(3)] by (auto simp: cred_inv_def)
qed

subsection \<open>Keys\<close>

text \<open>
  A key the gate may trust for a token key id: the one it was bootstrapped with, or the key the
  issuer serves under that id, at the version a record of a log verified under the pinned key gives.
\<close>

definition logged :: "('w, 'm) tg_env_scheme \<Rightarrow> bytes \<Rightarrow> bytes \<Rightarrow> key_record \<Rightarrow> bool" where
  "logged E pin tkid rec \<longleftrightarrow> (\<exists>records head. verify_log E pin records head = Inr () \<and> rec \<in> set records
     \<and> eq_ignore_ascii_case (kr_token_key_id rec) (hex_encode E tkid))"

definition trusted_key :: "('w, 'm) tg_env_scheme \<Rightarrow> bytes \<Rightarrow> (bytes \<times> key_entry) list \<Rightarrow> bytes \<Rightarrow> key_entry \<Rightarrow> bool" where
  "trusted_key E pin boot tkid e \<longleftrightarrow> bt_get boot tkid = Some e
     \<or> (token_key_id E (ke_verifier e) = Inr tkid \<and> (\<exists>rec. logged E pin tkid rec \<and> ke_epoch e = kr_key_version rec))"

fun phase_trusted :: "('w, 'm) tg_env_scheme \<Rightarrow> bytes \<Rightarrow> (bytes \<times> key_entry) list \<Rightarrow> phase \<Rightarrow> bool" where
  "phase_trusted E pin boot (Looked b to tok ch rec) = logged E pin (tok_token_key_id tok) rec"
| "phase_trusted E pin boot (Resolved b to tok ch e) = trusted_key E pin boot (tok_token_key_id tok) e"
| "phase_trusted E pin boot (Keyed b to tok ch e) = trusted_key E pin boot (tok_token_key_id tok) e"
| "phase_trusted E pin boot (Spent b to tok ch e n) =
     (trusted_key E pin boot (tok_token_key_id tok) e \<and> verifier_verify E (ke_verifier e) tok ch = Inr n)"
| "phase_trusted E pin boot _ = True"

definition mail_trusted :: "('w, 'm) tg_env_scheme \<Rightarrow> bytes \<Rightarrow> (bytes \<times> key_entry) list \<Rightarrow> mail_record \<Rightarrow> bool" where
  "mail_trusted E pin boot m \<longleftrightarrow> trusted_key E pin boot (tok_token_key_id (mr_token m)) (mr_entry m)
     \<and> verifier_verify E (ke_verifier (mr_entry m)) (mr_token m) (mr_challenge m) = Inr (mr_nonce m)"

definition key_inv :: "('w, 'm) tg_env_scheme \<Rightarrow> bytes \<Rightarrow> (bytes \<times> key_entry) list \<Rightarrow> 'w tg_sys \<Rightarrow> bool" where
  "key_inv E pin boot c \<longleftrightarrow> kt_log_pub (gate (srv c)) = pin
     \<and> (\<forall>k e. bt_get (keys (gate (srv c))) k = Some e \<longrightarrow> trusted_key E pin boot k e)
     \<and> (\<forall>i. phase_trusted E pin boot (threads c i)) \<and> (\<forall>m\<in>set (mails c). mail_trusted E pin boot m)"

lemma kt_lookup_logged:
  "kt_lookup E g tkid w = (Inr (Some rec), w') \<Longrightarrow> logged E (kt_log_pub g) tkid rec"
  by (auto simp: kt_lookup_def logged_def Let_def find_Some_iff split: prod.splits sum.splits if_splits)

lemma kt_fetch_key_trusted:
  "kt_fetch_key E g tkid rec w = (Inr e, w') \<Longrightarrow> logged E pin tkid rec \<Longrightarrow> trusted_key E pin boot tkid e"
  by (auto simp: kt_fetch_key_def trusted_key_def split: prod.splits sum.splits if_splits)

lemma key_inv_thread:
  "key_inv E pin boot c \<Longrightarrow> phase_trusted E pin boot ph \<Longrightarrow> key_inv E pin boot (set_thread i ph c)"
  by (simp add: key_inv_def)

lemma key_inv_world: "key_inv E pin boot c \<Longrightarrow> key_inv E pin boot (set_world w c)"
  by (simp add: key_inv_def)

lemma key_inv_phase: "key_inv E pin boot c \<Longrightarrow> threads c i = ph \<Longrightarrow> phase_trusted E pin boot ph"
  by (auto simp: key_inv_def)

lemma key_inv_step:
  assumes step: "tg_step E env spent c c'" and inv: "key_inv E pin boot c"
  shows "key_inv E pin boot c'"
  using step
proof cases
  case (issue nonce to subject body r g)
  then show ?thesis using inv issue_recent(2,3)[OF issue(2)] by (simp add: key_inv_def)
next
  case (outside w)
  then show ?thesis using key_inv_world[OF inv] by simp
next
  case (admit i req b to auth tok tok' ch)
  then show ?thesis using key_inv_thread[OF inv] by simp
next
  case (key_hit i b to tok ch e)
  then show ?thesis using key_inv_thread[OF inv, of "Keyed b to tok ch e" i] inv by (simp add: key_inv_def)
next
  case (key_lookup i b to tok ch rec w)
  have "kt_log_pub (gate (srv c)) = pin" using inv by (simp add: key_inv_def)
  then show ?thesis
    using key_lookup key_inv_thread[OF key_inv_world[OF inv]] kt_lookup_logged[OF key_lookup(3)] by simp
next
  case (key_lookup_failed i b to tok ch r w)
  then show ?thesis using key_inv_thread[OF key_inv_world[OF inv]] by simp
next
  case (key_fetch i b to tok ch rec e w)
  then show ?thesis
    using key_inv_thread[OF key_inv_world[OF inv]] kt_fetch_key_trusted[OF key_fetch(3)] key_inv_phase[OF inv key_fetch(2)] by simp
next
  case (key_fetch_failed i b to tok ch rec err w)
  then show ?thesis using key_inv_thread[OF key_inv_world[OF inv]] by simp
next
  case (key_cache i b to tok ch e)
  have t: "trusted_key E pin boot (tok_token_key_id tok) e" using key_inv_phase[OF inv key_cache(2)] by simp
  have "key_inv E pin boot (set_gate ((gate (srv c))\<lparr>keys := bt_insert (tok_token_key_id tok) e (keys (gate (srv c)))\<rparr>) c)"
    using inv t by (auto simp: key_inv_def bt_get_insert split: if_splits)
  from key_inv_thread[OF this, of "Keyed b to tok ch e" i] t key_cache(1) show ?thesis by simp
next
  case (spend i b to tok ch e nonce w)
  have "verifier_verify E (ke_verifier e) tok ch = Inr nonce"
    using spend(3) by (auto simp: verify_spend_def split: sum.splits prod.splits spend_outcome.splits)
  then show ?thesis
    using key_inv_thread[OF key_inv_world[OF inv], of "Spent b to tok ch e nonce"] key_inv_phase[OF inv spend(2)] spend(1) by simp
next
  case (spend_refused i b to tok ch e err w)
  then show ?thesis using key_inv_thread[OF key_inv_world[OF inv]] by simp
next
  case (send i b to tok ch e nonce r s')
  then show ?thesis
    using inv key_inv_phase[OF inv send(2)] finish_send_gate[OF send(3)] by (auto simp: key_inv_def mail_trusted_def)
qed

lemma tg_reach_invs:
  assumes "tg_reach E env spent c0 c" "redeemer_law E spent"
    and "spend_inv E spent c0" "cred_inv E c0" "key_inv E pin boot c0"
  shows "spend_inv E spent c \<and> cred_inv E c \<and> key_inv E pin boot c"
  using assms(1)
proof (induction rule: tg_reach.induct)
  case reach_init
  then show ?case using assms by simp
next
  case (reach_step c c')
  then show ?case using spend_inv_step[OF assms(2)] cred_inv_step key_inv_step by blast
qed

lemma tg_init_invs:
  assumes "tg_init c"
  shows "spend_inv E spent c \<and> cred_inv E c
    \<and> key_inv E (kt_log_pub (gate (srv c))) (keys (gate (srv c))) c"
  using assms
  by (auto simp: tg_init_def spend_inv_def spend_core_def held_def cred_inv_def key_inv_def trusted_key_def)

subsection \<open>The handler is a run of the system\<close>

lemma reach_trans: "tg_reach E env spent c0 c1 \<Longrightarrow> tg_reach E env spent c1 c2 \<Longrightarrow> tg_reach E env spent c0 c2"
  by (rotate_tac, induction rule: tg_reach.induct) (auto intro: tg_reach.intros)

lemma reach_one: "tg_step E env spent c c' \<Longrightarrow> tg_reach E env spent c c'"
  by (rule reach_step[OF reach_init])

lemma set_world_same [simp]: "set_world (world (srv c)) c = c"
  by (simp add: set_world_def)

lemma srv_simps [simp]:
  "srv (set_thread i p c) = srv c" "srv (set_world w c) = (srv c)\<lparr>world := w\<rparr>"
  "srv (set_gate g c) = (srv c)\<lparr>gate := g\<rparr>"
  by (simp_all add: set_thread_def set_world_def set_gate_def)

text \<open>The key lookup of a lone request: at most three steps.\<close>

lemma key_for_runs:
  assumes "threads c i = Admitted b to tok ch"
    and "key_for E (tok_token_key_id tok) (gate (srv c), world (srv c)) = (r, g, w)"
  shows "\<exists>c'. tg_reach E env spent c c' \<and> srv c' = (srv c)\<lparr>gate := g, world := w\<rparr> \<and> mails c' = mails c
     \<and> issued c' = issued c \<and> threads c' i = (case r of Some e \<Rightarrow> Keyed b to tok ch e | None \<Rightarrow> Done)"
proof (cases "bt_get (keys (gate (srv c))) (tok_token_key_id tok)")
  case (Some e)
  then have "r = Some e" "g = gate (srv c)" "w = world (srv c)" using assms(2) by (simp_all add: key_for_def)
  then show ?thesis using reach_one[OF key_hit[OF assms(1) Some]]
    by (intro exI[of _ "set_thread i (Keyed b to tok ch e) c"]) auto
next
  case None
  let ?k = "tok_token_key_id tok"
  obtain q w1 where lk: "kt_lookup E (gate (srv c)) ?k (world (srv c)) = (q, w1)" by (rule prod.exhaust)
  show ?thesis
  proof (cases "\<exists>rec. q = Inr (Some rec)")
    case False
    then have r: "r = None" "g = gate (srv c)" "w = w1"
      using assms(2) None lk by (auto simp: key_for_def resolve_via_kt_def split: sum.splits option.splits)
    from reach_one[OF key_lookup_failed[OF assms(1) lk False]] r show ?thesis
      by (intro exI[of _ "set_thread i Done (set_world w1 c)"]) auto
  next
    case True
    then obtain rec where q: "q = Inr (Some rec)" by blast
    let ?c1 = "set_thread i (Looked b to tok ch rec) (set_world w1 c)"
    have s1: "tg_reach E env spent c ?c1" using reach_one[OF key_lookup[OF assms(1)]] lk q by simp
    obtain e2 w2 where ft: "kt_fetch_key E (gate (srv c)) ?k rec w1 = (e2, w2)" by (rule prod.exhaust)
    have t1: "threads ?c1 i = Looked b to tok ch rec" by simp
    show ?thesis
    proof (cases e2)
      case (Inl err)
      then have r: "r = None" "g = gate (srv c)" "w = w2"
        using assms(2) None lk q ft by (auto simp: key_for_def resolve_via_kt_def)
      have "tg_reach E env spent ?c1 (set_thread i Done (set_world w2 ?c1))"
        using reach_one[OF key_fetch_failed[OF t1]] ft Inl by simp
      from reach_trans[OF s1 this] r show ?thesis
        by (intro exI[of _ "set_thread i Done (set_world w2 ?c1)"]) auto
    next
      case (Inr e)
      then have r: "r = Some e" "g = (gate (srv c))\<lparr>keys := bt_insert ?k e (keys (gate (srv c)))\<rparr>" "w = w2"
        using assms(2) None lk q ft by (auto simp: key_for_def resolve_via_kt_def)
      let ?c2 = "set_thread i (Resolved b to tok ch e) (set_world w2 ?c1)"
      let ?c3 = "set_thread i (Keyed b to tok ch e) (set_gate g ?c2)"
      have s2: "tg_reach E env spent ?c1 ?c2" using reach_one[OF key_fetch[OF t1]] ft Inr by simp
      have "tg_reach E env spent ?c2 ?c3"
        using reach_one[OF key_cache[where c = ?c2 and i = i and b = b and to = to and tok = tok and ch = ch and e = e]] r(2)
        by simp
      from reach_trans[OF reach_trans[OF s1 s2] this] r show ?thesis by (intro exI[of _ ?c3]) auto
    qed
  qed
qed

lemma verify_and_spend_runs:
  assumes "threads c i = Idle" "admit_send E env req = Try b to auth tok0"
    and "verify_and_spend E (Some auth) (tok_challenge_digest tok0) (gate (srv c), world (srv c)) = (r, g, w)"
  shows "\<exists>c' tok ch e. tg_reach E env spent c c' \<and> srv c' = (srv c)\<lparr>gate := g, world := w\<rparr> \<and> mails c' = mails c
     \<and> issued c' = issued c \<and> (\<forall>n. r = Inr n \<longrightarrow> threads c' i = Spent b to tok ch e n)"
proof (cases "admit_token E (gate (srv c)) (Some auth) (tok_challenge_digest tok0)")
  case (Inl err)
  then show ?thesis using assms(3) reach_init by (intro exI[of _ c]) (auto simp: verify_and_spend_def)
next
  case (Inr p)
  obtain tok ch where p: "p = (tok, ch)" by (rule prod.exhaust)
  let ?c1 = "set_thread i (Admitted b to tok ch) c"
  have s1: "tg_reach E env spent c ?c1" using reach_one[OF admit[OF assms(1,2)]] Inr p by simp
  obtain ke g1 w1 where kf: "key_for E (tok_token_key_id tok) (gate (srv c), world (srv c)) = (ke, g1, w1)"
    by (metis prod_cases3)
  obtain c2 where c2: "tg_reach E env spent ?c1 c2" "srv c2 = (srv c)\<lparr>gate := g1, world := w1\<rparr>" "mails c2 = mails c"
      "issued c2 = issued c" "threads c2 i = (case ke of Some e \<Rightarrow> Keyed b to tok ch e | None \<Rightarrow> Done)"
    using key_for_runs[of ?c1 i b to tok ch E ke g1 w1 env spent] kf by auto
  note s2 = reach_trans[OF s1 c2(1)]
  show ?thesis
  proof (cases ke)
    case None
    then show ?thesis using assms(3) Inr p kf s2 c2 by (intro exI[of _ c2]) (auto simp: verify_and_spend_def)
  next
    case (Some e)
    obtain r3 w3 where vs: "verify_spend E g1 e tok ch w1 = (r3, w3)" by (rule prod.exhaust)
    have eqs: "r = r3" "g = g1" "w = w3"
      using assms(3) Inr p kf vs Some by (auto simp: verify_and_spend_def)
    let ?ph = "case r3 of Inl _ \<Rightarrow> Done | Inr n \<Rightarrow> Spent b to tok ch e n"
    have "tg_reach E env spent c2 (set_thread i ?ph (set_world w3 c2))"
    proof (cases r3)
      case (Inl err)
      then show ?thesis using reach_one[OF spend_refused[of c2 i b to tok ch e]] c2 Some vs by simp
    next
      case (Inr n)
      then show ?thesis using reach_one[OF spend[of c2 i b to tok ch e]] c2 Some vs by simp
    qed
    from reach_trans[OF s2 this] show ?thesis
      using c2 eqs by (intro exI[of _ "set_thread i ?ph (set_world w3 c2)"] exI[of _ tok] exI[of _ ch] exI[of _ e]) auto
  qed
qed

declare write_json_status [simp]

lemma challenge_response_runs:
  assumes "challenge_response E nonce path (srv c) = (r, s')"
  shows "\<exists>c'. tg_reach E env spent c c' \<and> srv c' = s' \<and> mails c' = mails c
     \<and> (\<forall>resp. r = Inr resp \<longrightarrow> status resp \<noteq> 200)"
proof (cases "challenge_query E path")
  case None
  then have "s' = srv c" "\<forall>resp. r = Inr resp \<longrightarrow> status resp \<noteq> 200"
    using assms by (auto simp: challenge_response_def dest!: write_json_status[OF sym])
  then show ?thesis using reach_init by blast
next
  case (Some q)
  obtain to subject body where q: "q = (to, subject, body)" by (metis prod_cases3)
  obtain ir g where isu: "issue_email_challenge E nonce to subject body (gate (srv c)) = (ir, g)" by (rule prod.exhaust)
  let ?c' = "(set_gate g c)\<lparr>issued := issued c @ [last (recent_challenges g)]\<rparr>"
  have "s' = (srv c)\<lparr>gate := g\<rparr>" "\<forall>resp. r = Inr resp \<longrightarrow> status resp \<noteq> 200"
    using assms Some q isu
    by (auto simp: challenge_response_def write_response_with_headers_def split: sum.splits option.splits)
  then show ?thesis using reach_one[OF issue[OF isu]] by (intro exI[of _ ?c']) auto
qed

lemma reject_response_runs:
  assumes "reject_response E nonce b rej (srv c) = (r, s')"
  shows "\<exists>c'. tg_reach E env spent c c' \<and> srv c' = s' \<and> mails c' = mails c
     \<and> (\<forall>resp. r = Inr resp \<longrightarrow> status resp \<noteq> 200)"
proof (cases "rej = MissingToken \<or> (\<exists>m. rej = Malformed m)")
  case True
  then have "challenge_response E nonce (send_challenge_path E b) (srv c) = (r, s')"
    using assms by (auto simp: reject_response_def)
  then show ?thesis by (rule challenge_response_runs)
next
  case False
  then have "s' = srv c" "\<forall>resp. r = Inr resp \<longrightarrow> status resp \<noteq> 200"
    using assms by (auto simp: reject_response_def split: gate_reject.splits dest!: write_json_status[OF sym])
  then show ?thesis using reach_init by blast
qed

lemma email_send_runs:
  assumes "threads c i = Idle" "email_send E env nonce req (srv c) = (r, s')"
  shows "\<exists>c'. tg_reach E env spent c c' \<and> srv c' = s'
     \<and> (mails c' = mails c \<or> (\<exists>m. mails c' = mails c @ [m] \<and> decode_email_request E (req_body req) = Inr (mr_request m)))
     \<and> (\<forall>resp. r = Inr resp \<and> status resp = 200 \<longrightarrow> mails c' \<noteq> mails c)"
proof (cases "admit_send E env req")
  case (BadRequest e)
  then have "s' = srv c" "\<forall>resp. r = Inr resp \<longrightarrow> status resp \<noteq> 200"
    using assms(2) by (auto simp: email_send_def dest!: write_json_status[OF sym])
  then show ?thesis using reach_init by blast
next
  case (NeedChallenge b)
  then have "challenge_response E nonce (send_challenge_path E b) (srv c) = (r, s')"
    using assms(2) by (simp add: email_send_def)
  from challenge_response_runs[OF this, of env spent] show ?thesis by blast
next
  case (Try b to auth tok0)
  have dec: "decode_email_request E (req_body req) = Inr b"
    using Try by (auto simp: admit_send_def split: sum.splits if_splits option.splits)
  obtain vr g w where vs: "verify_and_spend E (Some auth) (tok_challenge_digest tok0) (gate (srv c), world (srv c)) = (vr, g, w)"
    by (metis prod_cases3)
  obtain c1 tok ch e where c1: "tg_reach E env spent c c1" "srv c1 = (srv c)\<lparr>gate := g, world := w\<rparr>" "mails c1 = mails c"
      "\<forall>n. vr = Inr n \<longrightarrow> threads c1 i = Spent b to tok ch e n"
    using verify_and_spend_runs[OF assms(1) Try vs, of spent] by blast
  show ?thesis
  proof (cases vr)
    case (Inl rej)
    then have "reject_response E nonce b rej (srv c1) = (r, s')"
      using assms(2) Try vs c1(2) by (simp add: email_send_def)
    from reject_response_runs[OF this, of env spent] c1 show ?thesis using reach_trans by metis
  next
    case (Inr n)
    then have fs: "finish_send E env b to n (srv c1) = (r, s')"
      using assms(2) Try vs c1(2) by (simp add: email_send_def)
    have t: "threads c1 i = Spent b to tok ch e n" using c1(4) Inr by simp
    let ?m = "\<lparr>mr_request = b, mr_token = tok, mr_challenge = ch, mr_entry = e, mr_nonce = n\<rparr>"
    let ?c2 = "set_thread i Done (c1\<lparr>srv := s', mails := mails c1 @ [?m]\<rparr>)"
    have "tg_reach E env spent c ?c2"
      using reach_trans[OF c1(1) reach_one[OF send[OF t fs]]] .
    then show ?thesis using c1(3) dec by (intro exI[of _ ?c2]) auto
  qed
qed

subsection \<open>A reference environment\<close>

text \<open>
  The outside world is the list of redemptions made. A token is written as its challenge digest; it
  verifies under any key against a challenge with that digest, and the digest of a challenge is
  its redemption context.
\<close>

definition ref_pk :: issuer_public_key where
  "ref_pk = \<lparr>key_version = 1, key_bytes = ''pk''\<rparr>"

definition ref_tg :: "redeem_body list tg_env" where
  "ref_tg = lib.extend ref_lib
     (tg_env.fields
       (\<lambda>s. Inr \<lparr>tok_challenge_digest = s, tok_token_key_id = ''kid'', tok_nonce = s, tok_authenticator = []\<rparr>)
       (\<lambda>ch. case ch_redemption_context ch of None \<Rightarrow> [] | Some c \<Rightarrow> c)
       (\<lambda>_ _. Inr ''PrivateToken'') (\<lambda>_. Inr ''kid'') (\<lambda>_ tok _. Inr (tok_nonce tok)) (\<lambda>_ _ _. Inr ())
       (\<lambda>_ w. (Inl ''down'', w)) (\<lambda>_ w. (Inr ref_pk, w))
       (\<lambda>_ rb w. (Inr (if rb \<in> set w then 409 else 200), rb # w))
       (\<lambda>f t s b. Inr b) (\<lambda>_ _ w. (Inr (), w))
       (\<lambda>u. Some []) id (\<lambda>b. Inr \<lparr>es_to = b, es_subject = ''hi'', es_body = ''text''\<rparr>) (\<lambda>_. Some ''{}''))"

lemma ref_tg_simps [simp]:
  "sha256 ref_tg = pad 32" "hex_encode ref_tg = ref_hex" "json_pretty ref_tg = (\<lambda>_. Some ''{}'')"
  "parse_authorization ref_tg = (\<lambda>s. Inr \<lparr>tok_challenge_digest = s, tok_token_key_id = ''kid'', tok_nonce = s, tok_authenticator = []\<rparr>)"
  "challenge_digest ref_tg = (\<lambda>ch. case ch_redemption_context ch of None \<Rightarrow> [] | Some c \<Rightarrow> c)"
  "www_authenticate ref_tg = (\<lambda>_ _. Inr ''PrivateToken'')" "token_key_id ref_tg = (\<lambda>_. Inr ''kid'')"
  "verifier_verify ref_tg = (\<lambda>_ tok _. Inr (tok_nonce tok))" "verify_log ref_tg = (\<lambda>_ _ _. Inr ())"
  "get_kt ref_tg = (\<lambda>_ w. (Inl ''down'', w))" "get_issuer_key ref_tg = (\<lambda>_ w. (Inr ref_pk, w))"
  "post_redeem ref_tg = (\<lambda>_ rb w. (Inr (if rb \<in> set w then 409 else 200), rb # w))"
  "build_message ref_tg = (\<lambda>f t s b. Inr b)" "smtp_send ref_tg = (\<lambda>_ _ w. (Inr (), w))"
  "url_query_pairs ref_tg = (\<lambda>u. Some [])" "decode_email_request ref_tg = (\<lambda>b. Inr \<lparr>es_to = b, es_subject = ''hi'', es_body = ''text''\<rparr>)"
  by (simp_all add: ref_tg_def lib.extend_def tg_env.fields_def ref_lib_def)

definition ref_gate :: eat_pass_gate where
  "ref_gate = \<lparr>issuer_base = ''https://i'', gate_issuer_name = ''issuer'', gate_origin_info = ''origin'', kt_log_pub = ''pin'',
     redeemer = ''https://r'', keys = [(''kid'', \<lparr>ke_verifier = ref_pk, ke_epoch = 1\<rparr>)], current_pk = ref_pk, recent_challenges = []\<rparr>"

definition ref_smtp :: smtp_config where
  "ref_smtp = \<lparr>smtp_host = ''h'', smtp_port = 587, smtp_username = ''u'', smtp_password = ''p'', smtp_from = ''f@x'',
     allowed_to = [], dry_run = False\<rparr>"

definition ref_srv :: "redeem_body list tool_gate_state" where
  "ref_srv = \<lparr>gate = ref_gate, mailer = ref_smtp, attester_url = None, world = []\<rparr>"

definition ref_sys :: "redeem_body list tg_sys" where
  "ref_sys = \<lparr>srv = ref_srv, threads = (\<lambda>_. Idle), issued = [], mails = []\<rparr>"

definition ref_intent :: bytes where
  "ref_intent = email_redemption_context_bound ref_tg ''nonce'' ''a@b.c'' ''hi'' ''text''"

definition ref_send :: "str \<Rightarrow> http_request" where
  "ref_send to = \<lparr>req_method = ''POST'', req_path = TOOL_EMAIL_SEND, req_headers = [(''authorization'', ref_intent)], req_body = to\<rparr>"

lemma ref_redeemer_law: "redeemer_law ref_tg set"
  by (auto simp: redeemer_law_def split: if_splits)

definition ref_issued :: "redeem_body list tool_gate_state" where
  "ref_issued = ref_srv\<lparr>gate := snd (issue_email_challenge ref_tg ''nonce'' ''a@b.c'' ''hi'' ''text'' ref_gate)\<rparr>"

subsection \<open>Properties\<close>

text \<open>
  C1: no capability sends two mails, whatever concurrent requests the gate serves and however
  their phases interleave with each other and with redemptions at other gates. Every mail was
  sent for a token that names a challenge this gate issued and verifies against it under a key
  that was bootstrapped or found in a log verified under the pinned key.
\<close>

theorem one_mail_per_capability:
  assumes "redeemer_law E spent" "tg_init c0" "tg_reach E env spent c0 c"
  shows "distinct (map (\<lambda>m. (ke_epoch (mr_entry m), mr_nonce m)) (mails c)) \<and>
    (\<forall>m\<in>set (mails c). mr_challenge m \<in> set (issued c)
       \<and> challenge_digest E (mr_challenge m) = tok_challenge_digest (mr_token m)
       \<and> verifier_verify E (ke_verifier (mr_entry m)) (mr_token m) (mr_challenge m) = Inr (mr_nonce m)
       \<and> trusted_key E (kt_log_pub (gate (srv c0))) (keys (gate (srv c0))) (tok_token_key_id (mr_token m)) (mr_entry m))"
proof -
  note i0 = tg_init_invs[OF assms(2), of E spent]
  have inv: "spend_inv E spent c \<and> cred_inv E c \<and> key_inv E (kt_log_pub (gate (srv c0))) (keys (gate (srv c0))) c"
    using i0 by (intro tg_reach_invs[OF assms(3,1)]) simp_all
  then have "distinct (map (mail_cap E) (mails c))" by (simp add: spend_inv_def spend_core_def)
  then have "inj_on (mail_cap E) (set (mails c))" "distinct (mails c)" by (simp_all add: distinct_map)
  then have "distinct (map (\<lambda>m. (ke_epoch (mr_entry m), mr_nonce m)) (mails c))"
    unfolding distinct_map inj_on_def by (simp add: mail_cap_def capability_def)
  moreover have "mr_challenge m \<in> set (issued c)
      \<and> challenge_digest E (mr_challenge m) = tok_challenge_digest (mr_token m)" if "m \<in> set (mails c)" for m
    using inv that by (auto simp: cred_inv_def good_cred_def)
  moreover have "mail_trusted E (kt_log_pub (gate (srv c0))) (keys (gate (srv c0))) m" if "m \<in> set (mails c)" for m
    using inv that by (simp add: key_inv_def)
  ultimately show ?thesis unfolding mail_trusted_def by blast
qed

lemma ref_send_ok:
  "fst (email_send ref_tg (\<lambda>_. None) [] (ref_send ''x@y.z'') ref_issued)
     = Inr \<lparr>status = 200, content_type = ''application/json'', resp_headers = [], resp_body = ''{}''\<rparr>"
  by code_simp

lemma ref_reaches_mail:
  "\<exists>c. tg_reach ref_tg (\<lambda>_. None) set ref_sys c \<and> mails c \<noteq> []"
proof -
  obtain r g where ig: "issue_email_challenge ref_tg ''nonce'' ''a@b.c'' ''hi'' ''text'' ref_gate = (r, g)"
    by (rule prod.exhaust)
  define c1 where "c1 = (set_gate g ref_sys)\<lparr>issued := issued ref_sys @ [last (recent_challenges g)]\<rparr>"
  have "gate (srv ref_sys) = ref_gate" by (simp add: ref_sys_def ref_srv_def)
  then have r1: "tg_reach ref_tg (\<lambda>_. None) set ref_sys c1"
    unfolding c1_def using ig by (intro reach_one issue) simp
  have s1: "srv c1 = ref_issued" "threads c1 0 = Idle" "mails c1 = []"
    by (simp_all add: c1_def ref_issued_def ig) (simp_all add: ref_sys_def)
  obtain rr s2 where es: "email_send ref_tg (\<lambda>_. None) [] (ref_send ''x@y.z'') (srv c1) = (rr, s2)"
    by (rule prod.exhaust)
  have ok: "rr = Inr \<lparr>status = 200, content_type = ''application/json'', resp_headers = [], resp_body = ''{}''\<rparr>"
    using ref_send_ok es s1(1) by simp
  from email_send_runs[OF s1(2) es, of set]
  obtain c2 where "tg_reach ref_tg (\<lambda>_. None) set c1 c2" "mails c2 \<noteq> mails c1"
    using ok by auto
  then show ?thesis using reach_trans[OF r1] s1(3) by metis
qed

theorem one_mail_per_capability_witness:
  "\<exists>c. tg_reach ref_tg (\<lambda>_. None) set ref_sys c \<and> mails c \<noteq> []
     \<and> distinct (map (\<lambda>m. (ke_epoch (mr_entry m), mr_nonce m)) (mails c))"
proof -
  obtain c where c: "tg_reach ref_tg (\<lambda>_. None) set ref_sys c" "mails c \<noteq> []" using ref_reaches_mail by blast
  have "tg_init ref_sys" by (simp add: tg_init_def ref_sys_def ref_srv_def ref_gate_def)
  from one_mail_per_capability[OF ref_redeemer_law this c(1)] c show ?thesis by blast
qed

text \<open>
  C22: the sequential handler is one of the interleavings: serving a send request takes the
  concurrent system, by steps of that system, to the state the handler leaves; it hands the mailer at
  most one mail, the one decoded from the request, and an answer with status 200 means it did.
\<close>

theorem email_send_is_a_run:
  assumes "threads c i = Idle" "email_send E env nonce req (srv c) = (r, s')"
  shows "\<exists>c'. tg_reach E env spent c c' \<and> srv c' = s'
     \<and> (mails c' = mails c \<or> (\<exists>m. mails c' = mails c @ [m] \<and> decode_email_request E (req_body req) = Inr (mr_request m)))
     \<and> (\<forall>resp. r = Inr resp \<and> status resp = 200 \<longrightarrow> mails c' \<noteq> mails c)"
  by (rule email_send_runs[OF assms])

text \<open>
  The recent challenges are always the newest 128 issued: a challenge is accepted until 128
  newer ones have been issued, and the store never grows beyond that.
\<close>

lemma recent_challenges_window:
  "recent_challenges (fold register_challenge chs g)
   = (if chs = [] then recent_challenges g
      else drop (length (recent_challenges g @ chs) - MAX_RECENT_CHALLENGES) (recent_challenges g @ chs))"
proof (induction chs rule: rev_induct)
  case Nil
  show ?case by simp
next
  case (snoc ch chs)
  then show ?case
    using drop_window[of MAX_RECENT_CHALLENGES "recent_challenges g @ chs" ch]
    by (cases "chs = []") (simp_all add: register_recent MAX_RECENT_CHALLENGES_def del: drop_append)
qed

text \<open>
  C38: the gate does not bind a token to the mail it was minted for. The authorization header of
  one accepted request is accepted, in the same state, with any other recipient, subject and body
  that resolves and can be delivered: only the token's own challenge digest is compared, never the
  redemption context of the posted intent.
\<close>

theorem token_accepts_any_intent:
  assumes "fst (email_send E env nonce req1 s) = Inr r1" "status r1 = 200"
    and "req_headers req2 = req_headers req1"
    and "decode_email_request E (req_body req2) = Inr b2" "trim (es_to b2) \<noteq> []" "trim (es_subject b2) \<noteq> []"
    and "resolve_recipient env (es_to b2) = Inr to2"
    and "\<And>w. \<exists>mid w'. mailer_send E env (mailer s) (es_to b2) (es_subject b2) (es_body b2) w = (Inr mid, w')"
    and "\<And>v. json_pretty E v \<noteq> None"
  shows "\<exists>r2. fst (email_send E env nonce req2 s) = Inr r2 \<and> status r2 = 200"
proof -
  obtain c :: "'a tg_sys" where c: "srv c = s" by (metis tg_sys.select_convs(1))
  have nc: "fst (challenge_response E nonce path s0) \<noteq> Inr r1" for path s0
    using challenge_response_runs[of E nonce path "c\<lparr>srv := s0\<rparr>" "Inr r1"] assms(2)
    by (metis prod.collapse tg_sys.select_convs(1) tg_sys.surjective tg_sys.update_convs(1))
  obtain b1 to1 auth tok where t1: "admit_send E env req1 = Try b1 to1 auth tok"
    using assms(1,2) nc by (cases "admit_send E env req1") (auto simp: email_send_def)
  have auth: "bt_get (req_headers req1) ''authorization'' = Some auth" "parse_authorization E auth = Inr tok"
    using t1 by (auto simp: admit_send_def split: sum.splits if_splits option.splits)
  have t2: "admit_send E env req2 = Try b2 to2 auth tok"
    using assms(3-7) auth by (simp add: admit_send_def)
  obtain vr g w where vs: "verify_and_spend E (Some auth) (tok_challenge_digest tok) (gate s, world s) = (vr, g, w)"
    by (metis prod_cases3)
  have "\<exists>n. vr = Inr n"
  proof (cases vr)
    case (Inl rej)
    then have "fst (reject_response E nonce b1 rej (s\<lparr>gate := g, world := w\<rparr>)) = Inr r1"
      using assms(1) t1 vs by (simp add: email_send_def)
    then show ?thesis
      using reject_response_runs[of E nonce b1 rej "c\<lparr>srv := s\<lparr>gate := g, world := w\<rparr>\<rparr>" "Inr r1"] assms(2)
      by (metis prod.collapse tg_sys.select_convs(1) tg_sys.surjective tg_sys.update_convs(1))
  qed simp
  then obtain n where n: "vr = Inr n" by blast
  obtain mid w' where "mailer_send E env (mailer s) (es_to b2) (es_subject b2) (es_body b2) w = (Inr mid, w')"
    using assms(8) by blast
  then have "fst (email_send E env nonce req2 s) = write_json E 200 (email_send_response E mid to2 (es_subject b2) n)"
    using t2 vs n by (simp add: email_send_def finish_send_def)
  moreover obtain body where "json_pretty E (email_send_response E mid to2 (es_subject b2) n) = Some body"
    using assms(9) by blast
  ultimately show ?thesis
    by (simp add: write_json_def write_json_with_headers_def write_response_with_headers_def)
qed

theorem email_send_is_a_run_witness:
  "\<exists>c'. tg_reach ref_tg (\<lambda>_. None) set (ref_sys\<lparr>srv := ref_issued\<rparr>) c'
     \<and> srv c' = snd (email_send ref_tg (\<lambda>_. None) [] (ref_send ''x@y.z'') ref_issued) \<and> length (mails c') = 1"
proof -
  let ?c = "ref_sys\<lparr>srv := ref_issued\<rparr>"
  obtain r s' where e: "email_send ref_tg (\<lambda>_. None) [] (ref_send ''x@y.z'') (srv ?c) = (r, s')" by (rule prod.exhaust)
  have "threads ?c 0 = Idle" "mails ?c = []" by (simp_all add: ref_sys_def)
  with email_send_is_a_run[OF this(1) e, of set] ref_send_ok e show ?thesis by auto
qed

theorem token_accepts_any_intent_witness:
  "ch_redemption_context (last (recent_challenges (gate ref_issued)))
     = Some (email_redemption_context_bound ref_tg ''nonce'' ''a@b.c'' ''hi'' ''text'')
   \<and> (\<exists>r2. fst (email_send ref_tg (\<lambda>_. None) [] (ref_send ''eve@evil'') ref_issued) = Inr r2 \<and> status r2 = 200)"
proof
  show "ch_redemption_context (last (recent_challenges (gate ref_issued)))
     = Some (email_redemption_context_bound ref_tg ''nonce'' ''a@b.c'' ''hi'' ''text'')"
    by code_simp
  have res: "resolve_recipient (\<lambda>_. None) ''eve@evil'' = Inr ''eve@evil''" by code_simp
  have "\<exists>mid w'. mailer_send ref_tg (\<lambda>_. None) (mailer ref_issued) ''eve@evil'' ''hi'' ''text'' w = (Inr mid, w')" for w
    by (simp add: mailer_send_def res check_allowed_def ref_issued_def ref_srv_def ref_smtp_def)
  then show "\<exists>r2. fst (email_send ref_tg (\<lambda>_. None) [] (ref_send ''eve@evil'') ref_issued) = Inr r2 \<and> status r2 = 200"
  proof (intro token_accepts_any_intent[OF ref_send_ok, where ?b2.0 = "\<lparr>es_to = ''eve@evil'', es_subject = ''hi'', es_body = ''text''\<rparr>"
        and ?to2.0 = "''eve@evil''"])
    show "trim (es_to \<lparr>es_to = ''eve@evil'', es_subject = ''hi'', es_body = ''text''\<rparr>) \<noteq> []"
      "trim (es_subject \<lparr>es_to = ''eve@evil'', es_subject = ''hi'', es_body = ''text''\<rparr>) \<noteq> []"
      by code_simp+
  qed (simp_all add: ref_send_def res)
qed

text \<open>
  The mailer only ever mails a recipient the request resolves to, and with a non-empty
  allowlist only one that the list has, up to ASCII case; in a dry run nothing is sent.
\<close>

lemma mailer_respects_allowlist:
  assumes "mailer_send E env cfg to_raw subject body w = (Inr mid, w')"
  shows "\<exists>to. resolve_recipient env to_raw = Inr to
     \<and> (allowed_to cfg = [] \<or> (\<exists>a\<in>set (allowed_to cfg). eq_ignore_ascii_case a to))
     \<and> (if dry_run cfg then w' = w
        else \<exists>msg. build_message E (smtp_from cfg) to subject body = Inr msg \<and> smtp_send E cfg msg w = (Inr (), w'))"
proof -
  obtain to where to: "resolve_recipient env to_raw = Inr to" "check_allowed cfg to = Inr ()"
    using assms by (auto simp: mailer_send_def res_simps split: sum.splits)
  have "allowed_to cfg = [] \<or> (\<exists>a\<in>set (allowed_to cfg). eq_ignore_ascii_case a to)"
    using to(2) by (auto simp: check_allowed_def res_simps list_ex_iff split: if_splits)
  moreover have "if dry_run cfg then w' = w
      else \<exists>msg. build_message E (smtp_from cfg) to subject body = Inr msg \<and> smtp_send E cfg msg w = (Inr (), w')"
    using assms to by (auto simp: mailer_send_def split: sum.splits prod.splits if_splits)
  ultimately show ?thesis using to(1) by blast
qed

text \<open>
  A GET on the send route never yields a challenge. The router compares the path together
  with its query string, so with a query the request falls through to 404, and without one the
  challenge has no intent and is refused with 400; the gate's state does not change either way.
\<close>

lemma get_send_route_has_no_challenge:
  assumes "\<And>u. CHR ''?'' \<notin> set u \<Longrightarrow> url_query_pairs E u = None \<or> url_query_pairs E u = Some []"
    and "req_method req = ''GET''" "starts_with TOOL_EMAIL_SEND (req_path req)"
  shows "snd (tg_handle_request E env html nonce req s) = s
     \<and> (\<forall>resp. fst (tg_handle_request E env html nonce req s) = Inr resp \<longrightarrow> status resp = 400 \<or> status resp = 404)"
proof -
  have p: "req_path req \<noteq> ''/healthz''" "req_path req \<noteq> ''/''" "\<not> starts_with ''/.well-known/eat-pass/challenge'' (req_path req)"
    using assms(3) by (auto simp: starts_with_iff TOOL_EMAIL_SEND_def)
  show ?thesis
  proof (cases "req_path req = TOOL_EMAIL_SEND")
    case True
    have "challenge_query E TOOL_EMAIL_SEND = None"
      using assms(1)[of "''http://tool-gate.local'' @ TOOL_EMAIL_SEND"]
      by (auto simp: challenge_query_def query_last_def TOOL_EMAIL_SEND_def)
    then show ?thesis using assms(2) p True
      by (auto simp: tg_handle_request_def challenge_response_def)
  next
    case False
    then show ?thesis using assms(2) p by (auto simp: tg_handle_request_def)
  qed
qed

end
