(* ===== verification/Serving.thy ===== *)
theory Serving
  imports Event_Concurrency Gateway_Concurrency Daemon_Replay Tool_Gate_Safety
begin

section \<open>The binaries on the server\<close>

text \<open>
  The four services as their \<open>main\<close> functions start them: the state their start-up gives and the
  configuration they hand to \<open>serve_hyper\<close>. The event service and the tool gate take TLS from their
  flags; the gateway and the capture daemon serve plain HTTP behind a proxy or on the local machine.
\<close>

definition es_http_config :: "es_config \<Rightarrow> server_tls option \<Rightarrow> http_server_config" where
  "es_http_config c tls = \<lparr>service_name = ''llm-event-service'', listen = ec_listen c, max_connections = ec_max_connections c,
     read_timeout_ms = ec_read_timeout_ms c, body_limit_bytes = 1024 * 1024,
     cors = \<lparr>allow_headers = ''content-type'', expose_headers = None\<rparr>, tls_acceptor = tls\<rparr>"

definition gw_http_config :: "gw_config \<Rightarrow> http_server_config" where
  "gw_http_config c = \<lparr>service_name = ''llm-gateway'', listen = gc_listen c, max_connections = gc_max_connections c,
     read_timeout_ms = gc_read_timeout_ms c, body_limit_bytes = 10 * 1024 * 1024,
     cors = \<lparr>allow_headers = ''authorization, content-type, x-llm-attested-agent'',
             expose_headers = Some ''x-llm-attested-event-id, x-llm-attested-team-root''\<rparr>, tls_acceptor = None\<rparr>"

definition cd_http_config :: "cd_config \<Rightarrow> http_server_config" where
  "cd_http_config c = \<lparr>service_name = ''llm-capture-daemon'', listen = dc_listen c, max_connections = dc_max_connections c,
     read_timeout_ms = dc_read_timeout_ms c, body_limit_bytes = 1024 * 1024,
     cors = \<lparr>allow_headers = ''content-type'', expose_headers = None\<rparr>, tls_acceptor = None\<rparr>"

definition tg_http_config :: "tg_config \<Rightarrow> server_tls option \<Rightarrow> http_server_config" where
  "tg_http_config c tls = \<lparr>service_name = ''tool-gate'', listen = tc_listen c, max_connections = 256,
     read_timeout_ms = 30000, body_limit_bytes = 256 * 1024,
     cors = \<lparr>allow_headers = ''authorization, content-type'', expose_headers = None\<rparr>, tls_acceptor = tls\<rparr>"

text \<open>The tool gate from its configuration to its server.\<close>

definition tg_serve ::
    "('w, 'm) tg_env_scheme \<Rightarrow> (str \<Rightarrow> str option) \<Rightarrow> 'c tls_lib \<Rightarrow> fs \<Rightarrow> (str \<Rightarrow> bool option) \<Rightarrow> (str \<Rightarrow> str + unit)
       \<Rightarrow> tg_config \<Rightarrow> 'w \<Rightarrow> (tg_start_error + str) + http_server_config \<times> ('i, 'w tool_gate_state, tg_error) server" where
  "tg_serve E env T d parse_addr bind c w =
     rbind (map_err Inl (tg_main E env (load_rustls_server_config T d) parse_addr c w)) (\<lambda>(s, tls).
     rbind (map_err Inr (serve_hyper bind (tg_http_config c tls) s)) (\<lambda>sv.
     Inr (tg_http_config c tls, sv)))"

lemma tg_main_tls:
  assumes "tg_main E env load parse_addr c w = Inr (s, tls)"
  shows "(tls = None \<and> tc_tls_cert c = None \<and> parse_addr (tc_listen c) = Some True)
    \<or> (\<exists>a cert key. tls = Some a \<and> tc_tls_cert c = Some cert \<and> tc_tls_key c = Some key \<and> load cert key None = Inr a)"
proof -
  obtain pin where pin: "parse_hex32 E (tc_kt_log_pub c) = Inr pin" using assms by (auto simp: tg_main_def res_simps)
  obtain r w' where b: "bootstrap E (tc_issuer c) (tc_issuer_name c) (tc_origin_info c) (tc_redeemer c) pin w = (r, w')"
    by (rule prod.exhaust)
  show ?thesis
    using assms pin b
    by (cases r; cases "tc_tls_cert c"; cases "tc_tls_key c")
       (auto simp: tg_main_def res_simps rustls_acceptor_from_paths_def ensure_simps)
qed

subsection \<open>Properties\<close>

text \<open>
  C11: the gate that holds the mailbox never reads a request in the clear from the network. Whatever its
  flags, when the tool gate comes up and a request arrives on one of its connections, the gate listens
  on a loopback address, or that connection completed a TLS handshake before with the configured
  certificate.
\<close>

theorem tool_gate_not_in_clear:
  assumes "tg_serve E env T d parse_addr bind c w = Inr (cf, sv0)"
    and "serves L T cf h sv0 (pre @ Receive i inp r # post) sv"
  shows "parse_addr (tc_listen c) = Some True
    \<or> (\<exists>a cert key hello. tc_tls_cert c = Some cert \<and> tc_tls_key c = Some key
         \<and> load_rustls_server_config T d cert key None = Inr a \<and> Hello i hello \<in> set pre \<and> tls_accept T a hello)"
proof -
  obtain s tls where m: "tg_main E env (load_rustls_server_config T d) parse_addr c w = Inr (s, tls)"
      "serve_hyper bind (tg_http_config c tls) s = Inr sv0" "cf = tg_http_config c tls"
    using assms(1) by (auto simp: tg_serve_def res_simps)
  from tg_main_tls[OF m(1)] show ?thesis
  proof (elim disjE exE conjE)
    fix a cert key
    assume t: "tls = Some a" "tc_tls_cert c = Some cert" "tc_tls_key c = Some key" "load_rustls_server_config T d cert key None = Inr a"
    have "tls_acceptor cf = Some a" using t(1) m(3) by (simp add: tg_http_config_def)
    from received_after_hello[OF assms(2) this] serve_hyper_start[OF m(2)] have "greeted T a pre i" by blast
    with t show ?thesis by (auto simp: greeted_def)
  qed simp
qed

subsection \<open>A reference gate on a public address\<close>

definition ref_tg_config :: tg_config where
  "ref_tg_config = tg_config_default\<lparr>tc_listen := ''0.0.0.0:8787'', tc_kt_log_pub := ref_hex (pad 32 []),
     tc_tls_cert := Some ''cert.pem'', tc_tls_key := Some ''key.pem''\<rparr>"

definition ref_tg_serve :: "(tg_start_error + str) + http_server_config \<times> (unit, redeem_body list tool_gate_state, tg_error) server" where
  "ref_tg_serve = tg_serve ref_tg (\<lambda>k. Some (if k = ''TOOL_GATE_SMTP_PORT'' then ''587'' else ''x'')) ref_tls_lib ref_tls_files
     (\<lambda>_. Some False) (\<lambda>_. Inr ()) ref_tg_config []"

definition ref_any_handler :: "(unit, redeem_body list tool_gate_state, tg_error) handler" where
  "ref_any_handler _ peer req = atomically (tool_gate_handler ref_tg (\<lambda>_. None) [] peer req)"

definition ref_tg_events :: "(unit, bytes) server_event list" where
  "ref_tg_events = [Acquire, Accept ''198.51.100.7'', Hello 0 ''any'']"

lemma ref_tg_served:
  "\<exists>cf sv0 sv. ref_tg_serve = Inr (cf, sv0)
     \<and> serves ref_lib ref_tls_lib cf ref_any_handler sv0 (ref_tg_events @ Receive 0 () ref_get # []) sv"
proof -
  have "case ref_tg_serve of Inl _ \<Rightarrow> False
      | Inr (cf, sv0) \<Rightarrow> server_run ref_lib ref_tls_lib cf ref_any_handler (ref_tg_events @ [Receive 0 () ref_get]) sv0 \<noteq> None"
    by code_simp
  then obtain cf sv0 sv where "ref_tg_serve = Inr (cf, sv0)"
      "server_run ref_lib ref_tls_lib cf ref_any_handler (ref_tg_events @ [Receive 0 () ref_get]) sv0 = Some sv"
    by (auto split: sum.splits prod.splits)
  then show ?thesis using serves_run[OF _ serves.start] by fastforce
qed

theorem tool_gate_not_in_clear_witness:
  "\<exists>cf sv0 a hello. ref_tg_serve = Inr (cf, sv0) \<and> load_rustls_server_config ref_tls_lib ref_tls_files ''cert.pem'' ''key.pem'' None = Inr a
     \<and> Hello 0 hello \<in> set ref_tg_events \<and> tls_accept ref_tls_lib a hello"
proof -
  obtain cf sv0 sv where s: "ref_tg_serve = Inr (cf, sv0)"
      "serves ref_lib ref_tls_lib cf ref_any_handler sv0 (ref_tg_events @ Receive 0 () ref_get # []) sv"
    using ref_tg_served by blast
  from tool_gate_not_in_clear[OF s(1)[unfolded ref_tg_serve_def] s(2)] s(1)
  show ?thesis by (auto simp: ref_tg_config_def)
qed

end
