(* ===== verification/Tool_Agent.thy ===== *)
theory Tool_Agent
  imports Tool_Gate Text_Codec
begin

section \<open>The agent's side of the tool gate (\<open>src/tool_gate/mint.rs\<close>, \<open>src/cmd_tool.rs\<close>)\<close>

text \<open>
  \<open>cvm tool send-email\<close> mints a one-time token for one mail and posts the mail to the gate with it: the gate's
  challenge for the mail is fetched, the issuer's key is checked against a transparency log with a pinned key, evidence is
  collected over the binding of a blinded request, the attester authorizes it, the issuer signs it and the
  token is unblinded. The client of \<open>eat_pass_core\<close>, evidence collection and the network calls are
  parameters (\<open>agent_env\<close>, on top of those of the gate); the world they thread has type \<open>'w\<close>.
\<close>

subsection \<open>Data\<close>

datatype evidence_input = EvidenceFile str | AzureCommand str

record mint_config =
  mc_gate_url :: str
  mc_issuer_url :: str
  mc_attester_url :: str
  mc_issuer_name :: str
  mc_origin_info :: str
  mc_kt_log_pub :: bytes
  mc_evidence :: evidence_input
  mc_insecure_tls :: bool

record minted_tool_token =
  mt_token :: token
  mt_authorization_header :: str
  mt_binding_hex :: str
  mt_challenge_digest_hex :: str

record authorize_body =
  ab_eat_b64 :: str
  ab_binding :: str
  ab_max_batch :: u32

record appraisal_wire =
  ap_pass :: bool
  ap_policy_id :: str
  ap_class_label :: str
  ap_notes :: "str option"

record authorize_response =
  ar_authorization_b64 :: str
  ar_appraisal :: "appraisal_wire option"

record sign_body =
  sb_req :: bytes
  sb_authorization_b64 :: str

record 'w agent_env = "'w tg_env" +
  http_client_built :: "bool \<Rightarrow> bool"
  url_with_pairs :: "str \<Rightarrow> (str \<times> str) list \<Rightarrow> str option"
  gate_get :: "str \<Rightarrow> 'w \<Rightarrow> (str + http_response) \<times> 'w"
  gate_post :: "str \<Rightarrow> (str \<times> str) list \<Rightarrow> bytes \<Rightarrow> 'w \<Rightarrow> (str + http_response) \<times> 'w"
  parse_www_authenticate :: "str \<Rightarrow> str + token_challenge"
  verify_inclusion :: "key_record list \<Rightarrow> bytes \<Rightarrow> str + unit"
  client_begin :: "bytes \<Rightarrow> issuer_public_key \<Rightarrow> token_challenge \<Rightarrow> nat \<Rightarrow> str + bytes \<times> bytes"
  request_binding :: "bytes \<Rightarrow> bytes"
  collect_evidence :: "evidence_input \<Rightarrow> bytes \<Rightarrow> str + bytes"
  post_authorize :: "str \<Rightarrow> authorize_body \<Rightarrow> 'w \<Rightarrow> (str + authorize_response) \<times> 'w"
  post_sign :: "str \<Rightarrow> sign_body \<Rightarrow> 'w \<Rightarrow> (str + bytes) \<times> 'w"
  pending_finalize :: "bytes \<Rightarrow> issuer_public_key \<Rightarrow> bytes \<Rightarrow> str + token list"
  authorization :: "token \<Rightarrow> str"
  ser_email :: "email_send_request \<Rightarrow> bytes"

datatype mint_error =
    ClientFailed
  | BadGateUrl
  | GateCall str
  | NotAChallenge nat
  | NoChallengeHeader
  | BadChallenge str
  | IssuerCall str
  | LogKeyMismatch
  | LogInvalid str
  | NotIncluded str
  | BeginFailed str
  | EvidenceFailed str
  | AttesterCall str
  | SignCall str
  | FinalizeFailed str
  | NoToken

text \<open>A call that may fail, then the rest of the computation in the world it left.\<close>

definition call_then :: "('e + 'a) \<times> 'w \<Rightarrow> ('a \<Rightarrow> 'w \<Rightarrow> ('e + 'b) \<times> 'w) \<Rightarrow> ('e + 'b) \<times> 'w" where
  "call_then r k = (case r of (Inl e, w) \<Rightarrow> (Inl e, w) | (Inr x, w) \<Rightarrow> k x w)"

definition failing :: "('e \<Rightarrow> 'f) \<Rightarrow> ('e + 'a) \<times> 'w \<Rightarrow> ('f + 'a) \<times> 'w" where
  "failing f r = (map_err f (fst r), snd r)"

subsection \<open>Minting\<close>

definition challenge_of_response :: "('w, 'm) agent_env_scheme \<Rightarrow> http_response \<Rightarrow> mint_error + token_challenge" where
  "challenge_of_response A r =
     rbind (ensure (status r = 401) (NotAChallenge (status r))) (\<lambda>_.
     rbind (ok_or (Option.bind (map_of (resp_headers r) ''www-authenticate'') (header_to_str A)) NoChallengeHeader) (\<lambda>hdr.
     map_err BadChallenge (parse_www_authenticate A hdr)))"

definition fetch_email_challenge ::
    "('w, 'm) agent_env_scheme \<Rightarrow> str \<Rightarrow> str \<Rightarrow> str \<Rightarrow> str \<Rightarrow> 'w \<Rightarrow> (mint_error + token_challenge) \<times> 'w" where
  "fetch_email_challenge A gate_base to subject body w =
     (case url_with_pairs A (gate_base @ ''/.well-known/eat-pass/challenge'') [(''to'', to), (''subject'', subject), (''body'', body)] of
        None \<Rightarrow> (Inl BadGateUrl, w)
      | Some url \<Rightarrow>
          call_then (failing GateCall (gate_get A url w)) (\<lambda>r w. (challenge_of_response A r, w)))"

definition check_log :: "('w, 'm) agent_env_scheme \<Rightarrow> bytes \<Rightarrow> bytes \<Rightarrow> kt_response \<Rightarrow> mint_error + unit" where
  "check_log A pin tkid kt =
     rbind (ensure (opt_or (hex_decode A (trim (log_pub kt))) [] = pin) LogKeyMismatch) (\<lambda>_.
     rbind (map_err LogInvalid (verify_log A pin (kt_records kt) (signed_head kt))) (\<lambda>_.
     map_err NotIncluded (verify_inclusion A (kt_records kt) tkid)))"

definition finish_mint ::
    "('w, 'm) agent_env_scheme \<Rightarrow> bytes \<Rightarrow> issuer_public_key \<Rightarrow> bytes \<Rightarrow> bytes \<Rightarrow> mint_error + minted_tool_token" where
  "finish_mint A pending pk binding resp =
     rbind (map_err FinalizeFailed (pending_finalize A pending pk resp)) (\<lambda>toks.
     rbind (ok_or (case toks of [] \<Rightarrow> None | t # _ \<Rightarrow> Some t) NoToken) (\<lambda>tok.
     Inr \<lparr>mt_token = tok, mt_authorization_header = authorization A tok, mt_binding_hex = hex_encode A binding,
          mt_challenge_digest_hex = hex_encode A (tok_challenge_digest tok)\<rparr>))"

text \<open>\<open>rnd\<close> is the randomness of the blinded request.\<close>

definition mint_email_send_token ::
    "('w, 'm) agent_env_scheme \<Rightarrow> bytes \<Rightarrow> mint_config \<Rightarrow> str \<Rightarrow> str \<Rightarrow> str \<Rightarrow> 'w \<Rightarrow> (mint_error + minted_tool_token) \<times> 'w" where
  "mint_email_send_token A rnd cfg to subject body w0 =
     (let gate_base = trim_end_matches ''/'' (mc_gate_url cfg);
          issuer_base = trim_end_matches ''/'' (mc_issuer_url cfg);
          attester_base = trim_end_matches ''/'' (mc_attester_url cfg) in
      if \<not> http_client_built A (mc_insecure_tls cfg) then (Inl ClientFailed, w0)
      else
        call_then (fetch_email_challenge A gate_base to subject body w0) (\<lambda>challenge w.
        call_then (failing IssuerCall (get_issuer_key A (issuer_base @ ''/keys'') w)) (\<lambda>pk w.
        call_then (map_err IssuerCall (token_key_id A pk), w) (\<lambda>tkid w.
        call_then (failing IssuerCall (get_kt A (issuer_base @ ''/kt'') w)) (\<lambda>kt w.
        call_then (check_log A (mc_kt_log_pub cfg) tkid kt, w) (\<lambda>_ w.
        call_then (map_err BeginFailed (client_begin A rnd pk challenge 1), w) (\<lambda>(req, pending) w.
        call_then (map_err EvidenceFailed (collect_evidence A (mc_evidence cfg) (request_binding A req)), w) (\<lambda>eat w.
        call_then (failing AttesterCall (post_authorize A (attester_base @ ''/authorize'')
            \<lparr>ab_eat_b64 = b64_encode A eat, ab_binding = hex_encode A (request_binding A req), ab_max_batch = 1\<rparr> w)) (\<lambda>auth w.
        call_then (failing SignCall (post_sign A (issuer_base @ ''/sign'')
            \<lparr>sb_req = req, sb_authorization_b64 = ar_authorization_b64 auth\<rparr> w)) (\<lambda>resp w.
        (finish_mint A pending pk (request_binding A req) resp, w)))))))))))"

subsection \<open>The command\<close>

record send_email_args =
  sa_to :: "str option"
  sa_subject :: "str option"
  sa_body :: "str option"
  sa_gate :: str
  sa_issuer :: str
  sa_attester :: str
  sa_issuer_name :: str
  sa_origin_info :: str
  sa_kt_log_pub :: str
  sa_evidence :: "str option"
  sa_uq_collect :: "str option"
  sa_insecure_tls :: bool

datatype tool_error =
    ToolUsage str
  | ToolFlagValue str
  | ToolUnknownFlag str
  | ToolNoRecipient
  | ToolNoPin
  | ToolBadPin
  | ToolMint mint_error
  | ToolClient
  | ToolPost str
  | ToolRejected nat str

text \<open>What the program prints: its usage, or the gate's answer.\<close>

datatype tool_output = ToolHelp | ToolSent str

definition send_email_defaults :: send_email_args where
  "send_email_defaults = \<lparr>sa_to = None, sa_subject = None, sa_body = None, sa_gate = ''http://127.0.0.1:8787'',
     sa_issuer = ''http://127.0.0.1:8088'', sa_attester = ''http://127.0.0.1:8087'', sa_issuer_name = ''issuer.eat-pass.dev'',
     sa_origin_info = ''tool-gate.secure.build/v1/tools/email.send'', sa_kt_log_pub = [], sa_evidence = None,
     sa_uq_collect = None, sa_insecure_tls = False\<rparr>"

definition set_send_flag :: "str \<Rightarrow> str \<Rightarrow> send_email_args \<Rightarrow> send_email_args option" where
  "set_send_flag f v a =
     (if f = ''--to'' then Some (a\<lparr>sa_to := Some v\<rparr>)
      else if f = ''--subject'' then Some (a\<lparr>sa_subject := Some v\<rparr>)
      else if f = ''--body'' then Some (a\<lparr>sa_body := Some v\<rparr>)
      else if f = ''--gate'' then Some (a\<lparr>sa_gate := v\<rparr>)
      else if f = ''--issuer'' then Some (a\<lparr>sa_issuer := v\<rparr>)
      else if f = ''--attester'' then Some (a\<lparr>sa_attester := v\<rparr>)
      else if f = ''--issuer-name'' then Some (a\<lparr>sa_issuer_name := v\<rparr>)
      else if f = ''--origin-info'' then Some (a\<lparr>sa_origin_info := v\<rparr>)
      else if f = ''--kt-log-pub'' then Some (a\<lparr>sa_kt_log_pub := v\<rparr>)
      else if f = ''--evidence'' then Some (a\<lparr>sa_evidence := Some v\<rparr>)
      else if f = ''--uq-collect'' then Some (a\<lparr>sa_uq_collect := Some v\<rparr>)
      else None)"

text \<open>The flag loop; \<open>None\<close> is the usage text, with which the command ends well.\<close>

fun send_email_loop :: "str list \<Rightarrow> send_email_args \<Rightarrow> tool_error + send_email_args option" where
  "send_email_loop [] a = Inr (Some a)"
| "send_email_loop [f] a =
     (if f = ''--insecure-tls'' then Inr (Some (a\<lparr>sa_insecure_tls := True\<rparr>))
      else if f = ''--help'' \<or> f = ''-h'' then Inr None
      else if set_send_flag f [] a \<noteq> None then Inl (ToolFlagValue f)
      else Inl (ToolUnknownFlag f))"
| "send_email_loop (f # v # rest) a =
     (if f = ''--insecure-tls'' then send_email_loop (v # rest) (a\<lparr>sa_insecure_tls := True\<rparr>)
      else if f = ''--help'' \<or> f = ''-h'' then Inr None
      else case set_send_flag f v a of
        Some a' \<Rightarrow> send_email_loop rest a'
      | None \<Rightarrow> Inl (ToolUnknownFlag f))"

definition send_email_plan :: "('m) lib_scheme \<Rightarrow> str \<Rightarrow> send_email_args \<Rightarrow> tool_error + mint_config \<times> email_send_request" where
  "send_email_plan L default_collect a =
     rbind (ok_or (sa_to a) ToolNoRecipient) (\<lambda>to.
     rbind (ensure (sa_kt_log_pub a \<noteq> []) ToolNoPin) (\<lambda>_.
     rbind (map_err (\<lambda>_. ToolBadPin) (parse_hex32 L (sa_kt_log_pub a))) (\<lambda>pin.
     Inr (\<lparr>mc_gate_url = sa_gate a, mc_issuer_url = sa_issuer a, mc_attester_url = sa_attester a,
           mc_issuer_name = sa_issuer_name a, mc_origin_info = sa_origin_info a, mc_kt_log_pub = pin,
           mc_evidence = (case sa_evidence a of Some p \<Rightarrow> EvidenceFile p
             | None \<Rightarrow> AzureCommand (opt_or (sa_uq_collect a) default_collect)),
           mc_insecure_tls = sa_insecure_tls a\<rparr>,
          \<lparr>es_to = to, es_subject = opt_or (sa_subject a) ''Message from attested agent'',
           es_body = opt_or (sa_body a) ''Sent via cvm tool-gate (eat-pass gated).''\<rparr>))))"

definition post_mail ::
    "('w, 'm) agent_env_scheme \<Rightarrow> mint_config \<Rightarrow> email_send_request \<Rightarrow> minted_tool_token \<Rightarrow> 'w \<Rightarrow> (tool_error + str) \<times> 'w" where
  "post_mail A cfg mail t w =
     (if \<not> http_client_built A (mc_insecure_tls cfg) then (Inl ToolClient, w)
      else call_then (failing ToolPost (gate_post A (trim_end_matches ''/'' (mc_gate_url cfg) @ TOOL_EMAIL_SEND)
             [(''authorization'', mt_authorization_header t), (''content-type'', ''application/json'')] (ser_email A mail) w)) (\<lambda>r w.
           (if 200 \<le> status r \<and> status r < 300 then Inr (utf8_lossy (resp_body r))
            else Inl (ToolRejected (status r) (utf8_lossy (resp_body r))), w)))"

definition cmd_send_email ::
    "('w, 'm) agent_env_scheme \<Rightarrow> bytes \<Rightarrow> str \<Rightarrow> str list \<Rightarrow> 'w \<Rightarrow> (tool_error + tool_output) \<times> 'w" where
  "cmd_send_email A rnd default_collect args w =
     (case send_email_loop args send_email_defaults of
        Inl e \<Rightarrow> (Inl e, w)
      | Inr None \<Rightarrow> (Inr ToolHelp, w)
      | Inr (Some a) \<Rightarrow>
         call_then (send_email_plan A default_collect a, w) (\<lambda>(cfg, mail) w.
         call_then (failing ToolMint (mint_email_send_token A rnd cfg (es_to mail) (es_subject mail) (es_body mail) w)) (\<lambda>t w.
         call_then (post_mail A cfg mail t w) (\<lambda>text w. (Inr (ToolSent text), w)))))"

definition cmd_tool ::
    "('w, 'm) agent_env_scheme \<Rightarrow> bytes \<Rightarrow> str \<Rightarrow> str list \<Rightarrow> 'w \<Rightarrow> (tool_error + tool_output) \<times> 'w" where
  "cmd_tool A rnd default_collect args w =
     (case args of
        [] \<Rightarrow> (Inl (ToolUsage ''missing tool subcommand''), w)
      | c # rest \<Rightarrow>
         if c = ''send-email'' then cmd_send_email A rnd default_collect rest w
         else (Inl (ToolUsage (''unknown tool subcommand: '' @ c)), w))"

end
