(* ===== verification/Tool_Agent_Safety.thy ===== *)
theory Tool_Agent_Safety
  imports Tool_Agent Tool_Gate_Safety
begin

section \<open>What a minted token is worth\<close>

text \<open>
  The agent of \<open>mint.rs\<close> against the gate of \<open>origin.rs\<close>: a mint that succeeds has checked the issuer's key in
  the pinned log, and where the challenge came from a gate of this model the token it returns passes every
  check that gate makes on its own, so that only the redeemer's answer is left open.
\<close>

subsection \<open>Chains of calls\<close>

lemma call_then_Inr [res_simps]:
  "call_then r k = (Inr y, w) \<longleftrightarrow> (\<exists>x v. r = (Inr x, v) \<and> k x v = (Inr y, w))"
  by (cases r; cases "fst r") (auto simp: call_then_def)

lemma failing_Inr [res_simps]: "failing f r = (Inr x, w) \<longleftrightarrow> r = (Inr x, w)"
  by (cases r) (auto simp: failing_def res_simps)

text \<open>What each stage of a successful mint contributed, in the order of the calls.\<close>

lemma mint_stages:
  assumes "mint_email_send_token A rnd cfg to subject body w0 = (Inr t, w1)"
  obtains ch pk tkid kt req pending eat auth resp wa wb wc wd where
    "fetch_email_challenge A (trim_end_matches ''/'' (mc_gate_url cfg)) to subject body w0 = (Inr ch, wa)"
    "get_issuer_key A (trim_end_matches ''/'' (mc_issuer_url cfg) @ ''/keys'') wa = (Inr pk, wb)"
    "token_key_id A pk = Inr tkid"
    "get_kt A (trim_end_matches ''/'' (mc_issuer_url cfg) @ ''/kt'') wb = (Inr kt, wc)"
    "check_log A (mc_kt_log_pub cfg) tkid kt = Inr ()"
    "client_begin A rnd pk ch 1 = Inr (req, pending)"
    "collect_evidence A (mc_evidence cfg) (request_binding A req) = Inr eat"
    "post_authorize A (trim_end_matches ''/'' (mc_attester_url cfg) @ ''/authorize'')
       \<lparr>ab_eat_b64 = b64_encode A eat, ab_binding = hex_encode A (request_binding A req), ab_max_batch = 1\<rparr> wc = (Inr auth, wd)"
    "post_sign A (trim_end_matches ''/'' (mc_issuer_url cfg) @ ''/sign'')
       \<lparr>sb_req = req, sb_authorization_b64 = ar_authorization_b64 auth\<rparr> wd = (Inr resp, w1)"
    "finish_mint A pending pk (request_binding A req) resp = Inr t"
  using assms
  by (simp add: mint_email_send_token_def Let_def res_simps split: if_splits prod.splits) blast

lemma first_Some_iff: "(case xs of [] \<Rightarrow> None | x # _ \<Rightarrow> Some x) = Some y \<longleftrightarrow> (\<exists>ys. xs = y # ys)"
  by (cases xs) auto

lemma finish_mint_token:
  assumes "finish_mint A pending pk b resp = Inr t"
  shows "\<exists>toks. pending_finalize A pending pk resp = Inr toks \<and> mt_token t \<in> set toks"
    "mt_authorization_header t = authorization A (mt_token t)" "mt_binding_hex t = hex_encode A b"
  using assms by (auto simp: finish_mint_def res_simps first_Some_iff)

subsection \<open>A gate that is reached\<close>

text \<open>
  \<open>gate_reached\<close>: a GET of the agent under the gate's address is answered by the gate's handler, with a nonce of
  the handler's own, and the address \<open>url\<close> builds for a query is read by the gate as the pairs it was built from.
\<close>

definition served_by ::
    "('g, 'm) tg_env_scheme \<Rightarrow> (str \<Rightarrow> str option) \<Rightarrow> bytes \<Rightarrow> bytes \<Rightarrow> http_request \<Rightarrow> 'g tool_gate_state
       \<Rightarrow> (str + http_response) \<times> 'g tool_gate_state" where
  "served_by G env landing nonce req s =
     (case tg_handle_request G env landing nonce req s of (r, s') \<Rightarrow> (map_err (\<lambda>_. ''connection closed'') r, s'))"

definition gate_reached ::
    "('g tool_gate_state, 'n) agent_env_scheme \<Rightarrow> ('g, 'm) tg_env_scheme \<Rightarrow> (str \<Rightarrow> str option) \<Rightarrow> bytes \<Rightarrow> bytes \<Rightarrow> str \<Rightarrow> bool" where
  "gate_reached A G env landing nonce base \<longleftrightarrow>
     (\<forall>p s. gate_get A (base @ p) s
        = served_by G env landing nonce \<lparr>req_method = ''GET'', req_path = p, req_headers = [], req_body = []\<rparr> s)
     \<and> (\<forall>to subject body. \<exists>q.
          url_with_pairs A (base @ ''/.well-known/eat-pass/challenge'') [(''to'', to), (''subject'', subject), (''body'', body)]
            = Some (base @ ''/.well-known/eat-pass/challenge'' @ q)
          \<and> url_query_pairs G (''http://tool-gate.local'' @ ''/.well-known/eat-pass/challenge'' @ q)
            = Some [(''to'', to), (''subject'', subject), (''body'', body)])"

text \<open>
  The token crate on both sides: a challenge is read from the header it was written to; a token
  is read from the header it was written to; a token finalized from a request carries the digest of the
  request's challenge and the identifier of the issuer's key, and verifies, yielding its nonce, under that key for
  any challenge with that digest.
\<close>

definition pass_law :: "('w, 'n) agent_env_scheme \<Rightarrow> ('g, 'm) tg_env_scheme \<Rightarrow> bool" where
  "pass_law A G \<longleftrightarrow>
     (\<forall>ch pk h. www_authenticate G ch pk = Inr h \<longrightarrow> header_to_str A h = Some h \<and> parse_www_authenticate A h = Inr ch)
     \<and> (\<forall>t. parse_authorization G (authorization A t) = Inr t)
     \<and> (\<forall>rnd pk tkid ch n req pending resp toks t. client_begin A rnd pk ch n = Inr (req, pending)
          \<longrightarrow> pending_finalize A pending pk resp = Inr toks \<longrightarrow> token_key_id A pk = Inr tkid \<longrightarrow> t \<in> set toks \<longrightarrow>
          tok_challenge_digest t = challenge_digest G ch \<and> tok_token_key_id t = tkid
          \<and> (\<forall>c. challenge_digest G c = challenge_digest G ch \<longrightarrow> verifier_verify G pk t c = Inr (tok_nonce t)))"

text \<open>The calls to issuer and attester leave the gate as it is, and the issuer serves one key, which the gate has.\<close>

definition issuer_known :: "('g tool_gate_state, 'n) agent_env_scheme \<Rightarrow> eat_pass_gate \<Rightarrow> u32 \<Rightarrow> bool" where
  "issuer_known A g epoch \<longleftrightarrow>
     (\<forall>u s pk tkid. fst (get_issuer_key A u s) = Inr pk \<longrightarrow> token_key_id A pk = Inr tkid
        \<longrightarrow> bt_get (keys g) tkid = Some \<lparr>ke_verifier = pk, ke_epoch = epoch\<rparr>)
     \<and> (\<forall>u s. gate (snd (get_issuer_key A u s)) = gate s) \<and> (\<forall>u s. gate (snd (get_kt A u s)) = gate s)
     \<and> (\<forall>u b s. gate (snd (post_authorize A u b s)) = gate s) \<and> (\<forall>u b s. gate (snd (post_sign A u b s)) = gate s)"

lemma challenge_path_routes:
  "tg_handle_request G env landing nonce
     \<lparr>req_method = ''GET'', req_path = ''/.well-known/eat-pass/challenge'' @ q, req_headers = [], req_body = []\<rparr> s
   = challenge_response G nonce (''/.well-known/eat-pass/challenge'' @ q) s"
  by (simp add: tg_handle_request_def starts_with_def)

lemma challenge_response_Inr:
  assumes "challenge_response G nonce p s = (Inr r, s')" "status r = 401"
  obtains to subject body ch www where "challenge_query G p = Some (to, subject, body)"
    "issue_email_challenge G nonce to subject body (gate s) = (Inr (ch, www), gate s')"
    "map_of (resp_headers r) ''www-authenticate'' = Some www"
  using assms
  by (auto simp: challenge_response_def write_response_with_headers_def
      split: option.splits prod.splits sum.splits)

lemma issued_is_recent:
  assumes "issue_email_challenge G nonce to subject body g = (Inr (ch, www), g')"
  shows "ch \<in> set (recent_challenges g')" "www_authenticate G ch (current_pk g') = Inr www" "keys g' = keys g"
    "ch_redemption_context ch = Some (email_redemption_context_bound G nonce to subject body)"
  using assms issue_recent(2)[OF assms] register_last[of ch g] last_in_set[of "recent_challenges g'"]
  by (auto simp: issue_email_challenge_def Let_def res_simps register_recent MAX_RECENT_CHALLENGES_def)

text \<open>The challenge the agent reads is one the gate has just issued for the mail.\<close>

lemma fetched_challenge_issued:
  assumes "gate_reached A G env landing nonce base" "pass_law A G"
    and "fetch_email_challenge A base to subject body s = (Inr ch, s')"
  shows "ch \<in> set (recent_challenges (gate s'))" "keys (gate s') = keys (gate s)"
    "ch_redemption_context ch = Some (email_redemption_context_bound G nonce to subject body)"
proof -
  define p where p: "p = ''/.well-known/eat-pass/challenge''"
  let ?kvs = "[(''to'', to), (''subject'', subject), (''body'', body)]"
  obtain q where q: "url_with_pairs A (base @ p) ?kvs = Some (base @ p @ q)"
    "url_query_pairs G (''http://tool-gate.local'' @ p @ q) = Some ?kvs"
    using assms(1) unfolding gate_reached_def p by blast
  have "gate_get A (base @ p @ q) s = served_by G env landing nonce
      \<lparr>req_method = ''GET'', req_path = p @ q, req_headers = [], req_body = []\<rparr> s"
    using assms(1) unfolding gate_reached_def by blast
  then obtain r where r: "challenge_response G nonce (p @ q) s = (Inr r, s')" "challenge_of_response A r = Inr ch"
    using assms(3) q(1) challenge_path_routes[of G env landing nonce q s] unfolding fetch_email_challenge_def p[symmetric]
    by (auto simp: res_simps served_by_def split: prod.splits)
  have query: "challenge_query G (p @ q) = Some (to, subject, body)"
    using q(2) by (simp add: challenge_query_def query_last_def)
  have "status r = 401" using r(2) by (simp add: challenge_of_response_def res_simps)
  then obtain ch' www where i: "issue_email_challenge G nonce to subject body (gate s) = (Inr (ch', www), gate s')"
    and h: "map_of (resp_headers r) ''www-authenticate'' = Some www"
    using challenge_response_Inr[OF r(1)] query by (metis option.inject prod.inject)
  note issued = issued_is_recent[OF i]
  have "ch = ch'" using r(2) h issued(2) assms(2)
    by (auto simp: challenge_of_response_def res_simps pass_law_def)
  then show "ch \<in> set (recent_challenges (gate s'))" "keys (gate s') = keys (gate s)"
    "ch_redemption_context ch = Some (email_redemption_context_bound G nonce to subject body)"
    using issued by simp_all
qed

lemma recent_digest_found:
  assumes "ch \<in> set (recent_challenges g)" "challenge_digest G ch = d"
  obtains c where "challenge_for_digest G g d = Some c" "challenge_digest G c = d"
  using assms unfolding challenge_for_digest_def
  by (cases "find (\<lambda>c. challenge_digest G c = d) (recent_challenges g)") (auto simp: find_None_iff find_Some_iff)

subsection \<open>A reference instance\<close>

text \<open>
  The gate of the reference instance with a challenge header that carries the redemption context and a query that carries
  its values in frames, and an agent whose issuer signs whatever the attester lets through.
\<close>

definition frame :: "str \<Rightarrow> str" where
  "frame b = replicate (length b) CHR ''x'' @ CHR ''.'' # b"

definition unframe :: "str \<Rightarrow> str \<times> str" where
  "unframe s = (let n = length (takeWhile (\<lambda>c. c = CHR ''x'') s) in (take n (drop (Suc n) s), drop (Suc n + n) s))"

lemma unframe_frame [simp]: "unframe (frame b @ r) = (b, r)" "unframe (frame b) = (b, [])"
proof -
  have *: "takeWhile (\<lambda>c. c = CHR ''x'') (frame b @ r) = replicate (length b) CHR ''x''" for r
    by (simp add: frame_def takeWhile_append)
  then show 1: "unframe (frame b @ r) = (b, r)" for r by (simp only: unframe_def Let_def *) (simp add: frame_def)
  show "unframe (frame b) = (b, [])" using 1[of "[]"] by simp
qed

definition ref_token :: "bytes \<Rightarrow> token" where
  "ref_token d = \<lparr>tok_challenge_digest = d, tok_token_key_id = ''kid'', tok_nonce = d, tok_authenticator = []\<rparr>"

definition write_token :: "token \<Rightarrow> str" where
  "write_token t = frame (tok_challenge_digest t) @ frame (tok_token_key_id t) @ frame (tok_nonce t) @ frame (tok_authenticator t)"

definition read_token :: "str \<Rightarrow> str + token" where
  "read_token s = (let (d, s1) = unframe s; (k, s2) = unframe s1; (n, s3) = unframe s2; (a, _) = unframe s3 in
     Inr \<lparr>tok_challenge_digest = d, tok_token_key_id = k, tok_nonce = n, tok_authenticator = a\<rparr>)"

lemma read_write_token [simp]: "read_token (write_token t) = Inr t"
  by (simp add: read_token_def write_token_def)

definition read_query :: "str \<Rightarrow> (str \<times> str) list option" where
  "read_query u = (let (to, s1) = unframe (drop (length (''http://tool-gate.local/.well-known/eat-pass/challenge'' :: str)) u);
     (subject, s2) = unframe s1; (body, _) = unframe s2 in Some [(''to'', to), (''subject'', subject), (''body'', body)])"

definition ref_gate_env :: "redeem_body list tg_env" where
  "ref_gate_env = ref_tg
     \<lparr>parse_authorization := read_token, url_query_pairs := read_query,
      www_authenticate := (\<lambda>ch _. if ch_issuer_name ch = ''issuer'' \<and> ch_origin_info ch = ''origin''
        then ok_or (ch_redemption_context ch) ''no context'' else Inl ''other origin'')\<rparr>"

definition ref_agent :: "redeem_body list tool_gate_state agent_env" where
  "ref_agent = tg_env.extend
       (lib.extend ref_lib (tg_env.fields read_token (challenge_digest ref_tg) (\<lambda>_ _. Inl ''agent'') (\<lambda>_. Inr ''kid'') (\<lambda>_ tok _. Inr (tok_nonce tok))
         (\<lambda>_ _ _. Inr ()) (\<lambda>_ s. (Inr \<lparr>log_pub = ref_hex ''pin'', kt_records = [], signed_head = []\<rparr>, s)) (\<lambda>_ s. (Inr ref_pk, s))
         (\<lambda>_ _ s. (Inl ''agent'', s)) (\<lambda>_ _ _ _. Inl ''agent'') (\<lambda>_ _ s. (Inl ''agent'', s)) (\<lambda>_. None) id (\<lambda>_. Inl ''agent'') (\<lambda>_. None)))
       (agent_env.fields (\<lambda>_. True) (\<lambda>u kvs. Some (u @ concat (map (frame \<circ> snd) kvs)))
         (\<lambda>u s. served_by ref_gate_env (\<lambda>_. None) [] ''nonce''
            \<lparr>req_method = ''GET'', req_path = drop 11 u, req_headers = [], req_body = []\<rparr> s)
         (\<lambda>_ _ _ s. (Inl ''agent'', s))
         (\<lambda>h. Inr \<lparr>ch_issuer_name = ''issuer'', ch_origin_info = ''origin'', ch_redemption_context = Some h\<rparr>)
         (\<lambda>_ _. Inr ()) (\<lambda>_ _ ch _. Inr (challenge_digest ref_tg ch, challenge_digest ref_tg ch)) id (\<lambda>_ b. Inr b)
         (\<lambda>_ b s. (Inr \<lparr>ar_authorization_b64 = ''ok'', ar_appraisal = None\<rparr>, s)) (\<lambda>_ b s. (Inr (sb_req b), s))
         (\<lambda>d _ _. Inr [ref_token d]) write_token (\<lambda>_. ''{}''))"

lemma ref_gate_env_simps [simp]:
  "parse_authorization ref_gate_env = read_token" "url_query_pairs ref_gate_env = read_query"
  "www_authenticate ref_gate_env = (\<lambda>ch _. if ch_issuer_name ch = ''issuer'' \<and> ch_origin_info ch = ''origin''
     then ok_or (ch_redemption_context ch) ''no context'' else Inl ''other origin'')"
  "challenge_digest ref_gate_env = challenge_digest ref_tg" "verifier_verify ref_gate_env = verifier_verify ref_tg"
  "sha256 ref_gate_env = sha256 ref_tg" "hex_encode ref_gate_env = ref_hex" "json_to_vec ref_gate_env = (\<lambda>_. Some ''{}'')"
  "post_redeem ref_gate_env = post_redeem ref_tg"
  by (simp_all add: ref_gate_env_def ref_tg_def lib.extend_def tg_env.fields_def ref_lib_def)

lemma ref_agent_simps [simp]:
  "header_to_str ref_agent = Some" "hex_decode ref_agent = hex_decode ref_lib" "hex_encode ref_agent = ref_hex"
  "token_key_id ref_agent = (\<lambda>_. Inr ''kid'')" "verify_log ref_agent = (\<lambda>_ _ _. Inr ())"
  "get_kt ref_agent = (\<lambda>_ s. (Inr \<lparr>log_pub = ref_hex ''pin'', kt_records = [], signed_head = []\<rparr>, s))"
  "get_issuer_key ref_agent = (\<lambda>_ s. (Inr ref_pk, s))" "http_client_built ref_agent = (\<lambda>_. True)"
  "url_with_pairs ref_agent = (\<lambda>u kvs. Some (u @ concat (map (frame \<circ> snd) kvs)))"
  "gate_get ref_agent = (\<lambda>u s. served_by ref_gate_env (\<lambda>_. None) [] ''nonce''
     \<lparr>req_method = ''GET'', req_path = drop 11 u, req_headers = [], req_body = []\<rparr> s)"
  "parse_www_authenticate ref_agent
     = (\<lambda>h. Inr \<lparr>ch_issuer_name = ''issuer'', ch_origin_info = ''origin'', ch_redemption_context = Some h\<rparr>)"
  "verify_inclusion ref_agent = (\<lambda>_ _. Inr ())" "request_binding ref_agent = id" "collect_evidence ref_agent = (\<lambda>_ b. Inr b)"
  "client_begin ref_agent = (\<lambda>_ _ ch _. Inr (challenge_digest ref_tg ch, challenge_digest ref_tg ch))"
  "post_authorize ref_agent = (\<lambda>_ b s. (Inr \<lparr>ar_authorization_b64 = ''ok'', ar_appraisal = None\<rparr>, s))"
  "post_sign ref_agent = (\<lambda>_ b s. (Inr (sb_req b), s))" "pending_finalize ref_agent = (\<lambda>d _ _. Inr [ref_token d])"
  "authorization ref_agent = write_token"
  by (simp_all add: ref_agent_def lib.extend_def tg_env.extend_def tg_env.fields_def agent_env.fields_def ref_lib_def)

lemma ref_reached: "gate_reached ref_agent ref_gate_env (\<lambda>_. None) [] ''nonce'' ''https://tg1''"
  by (simp add: gate_reached_def read_query_def)

lemma ref_pass_law: "pass_law ref_agent ref_gate_env"
  by (auto simp: pass_law_def ref_token_def res_simps split: if_splits)

lemma ref_issuer_known: "issuer_known ref_agent (gate ref_srv) 1"
  by (simp add: issuer_known_def ref_srv_def ref_gate_def)

definition ref_mint :: mint_config where
  "ref_mint = \<lparr>mc_gate_url = ''https://tg1/'', mc_issuer_url = ''https://i'', mc_attester_url = ''https://a'', mc_issuer_name = ''issuer'',
     mc_origin_info = ''origin'', mc_kt_log_pub = ''pin'', mc_evidence = EvidenceFile ''eat.bin'', mc_insecure_tls = False\<rparr>"

definition ref_minted :: minted_tool_token where
  "ref_minted = (let d = email_redemption_context_bound ref_gate_env ''nonce'' ''a@b.c'' ''hi'' ''text'' in
     \<lparr>mt_token = ref_token d, mt_authorization_header = write_token (ref_token d), mt_binding_hex = ref_hex d, mt_challenge_digest_hex = ref_hex d\<rparr>)"

lemma ref_fetch:
  "fetch_email_challenge ref_agent ''https://tg1'' ''a@b.c'' ''hi'' ''text'' ref_srv
   = (Inr \<lparr>ch_issuer_name = ''issuer'', ch_origin_info = ''origin'',
        ch_redemption_context = Some (email_redemption_context_bound ref_gate_env ''nonce'' ''a@b.c'' ''hi'' ''text'')\<rparr>,
      ref_srv\<lparr>gate := snd (issue_email_challenge ref_gate_env ''nonce'' ''a@b.c'' ''hi'' ''text'' ref_gate)\<rparr>)"
proof -
  define p where p: "p = ''/.well-known/eat-pass/challenge''"
  define q where q: "q = frame ''a@b.c'' @ frame ''hi'' @ frame ''text''"
  have query: "challenge_query ref_gate_env (p @ q) = Some (''a@b.c'', ''hi'', ''text'')"
    by (simp add: challenge_query_def p q query_last_def read_query_def)
  have "drop 11 (''https://tg1'' @ p @ q) = p @ q" by simp
  then have get: "gate_get ref_agent (''https://tg1'' @ p @ q) ref_srv = served_by ref_gate_env (\<lambda>_. None) [] ''nonce''
      \<lparr>req_method = ''GET'', req_path = p @ q, req_headers = [], req_body = []\<rparr> ref_srv"
    by (simp only: ref_agent_simps)
  show ?thesis
    unfolding fetch_email_challenge_def p[symmetric]
    using query get challenge_path_routes[of ref_gate_env "\<lambda>_. None" "[]" "''nonce''" q ref_srv, folded p]
    by (simp add: served_by_def q[symmetric] challenge_response_def issue_email_challenge_def Let_def ref_srv_def ref_gate_def
        call_then_def failing_def challenge_of_response_def write_response_with_headers_def)
qed

lemma ref_mints:
  "mint_email_send_token ref_agent [] ref_mint ''a@b.c'' ''hi'' ''text'' ref_srv
   = (Inr ref_minted, ref_srv\<lparr>gate := snd (issue_email_challenge ref_gate_env ''nonce'' ''a@b.c'' ''hi'' ''text'' ref_gate)\<rparr>)"
proof -
  have "trim_end_matches ''/'' ''https://tg1/'' = ''https://tg1''" by code_simp
  moreover have "check_log ref_agent ''pin'' ''kid'' \<lparr>log_pub = ref_hex ''pin'', kt_records = [], signed_head = []\<rparr> = Inr ()"
    by code_simp
  ultimately show ?thesis
    by (simp add: mint_email_send_token_def ref_mint_def ref_fetch call_then_def failing_def ref_minted_def finish_mint_def Let_def
        ref_token_def)
qed

subsection \<open>Properties\<close>

text \<open>
  C10: a token the agent minted through a gate buys its mail there. Where the agent's request for a challenge was
  answered by the gate and the gate knows the issuer's key, the gate finds the token's challenge among
  the ones it issued, accepts key and token, and its answer to the first use is the redeemer's alone; the
  challenge was issued for exactly the recipient, subject and body the token was minted for.
\<close>

theorem minted_token_buys_mail:
  assumes "gate_reached A G env landing nonce (trim_end_matches ''/'' (mc_gate_url cfg))"
    and "pass_law A G" and "issuer_known A (gate s0) epoch"
    and "mint_email_send_token A rnd cfg to subject body s0 = (Inr t, s1)"
  shows "verify_and_spend G (Some (mt_authorization_header t)) (tok_challenge_digest (mt_token t)) (gate s1, w)
     = (case spend_centrally G (gate s1) epoch (tok_nonce (mt_token t)) w of (r, w') \<Rightarrow>
         (case r of SpendOk \<Rightarrow> Inr (tok_nonce (mt_token t)) | SpendDouble \<Rightarrow> Inl DoubleSpend | SpendDown \<Rightarrow> Inl RedeemerDown,
          gate s1, w'))
    \<and> (\<exists>ch\<in>set (recent_challenges (gate s1)). challenge_digest G ch = tok_challenge_digest (mt_token t)
       \<and> ch_redemption_context ch = Some (email_redemption_context_bound G nonce to subject body))"
proof (intro conjI)
  obtain ch pk tkid kt req pending eat auth resp wa wb wc wd where st:
    "fetch_email_challenge A (trim_end_matches ''/'' (mc_gate_url cfg)) to subject body s0 = (Inr ch, wa)"
    "get_issuer_key A (trim_end_matches ''/'' (mc_issuer_url cfg) @ ''/keys'') wa = (Inr pk, wb)"
    "token_key_id A pk = Inr tkid" "client_begin A rnd pk ch 1 = Inr (req, pending)"
    "finish_mint A pending pk (request_binding A req) resp = Inr t" and same: "gate wa = gate s1"
    using mint_stages[OF assms(4)] assms(3) unfolding issuer_known_def by (metis snd_conv)
  note issued = fetched_challenge_issued[OF assms(1,2) st(1)] and fin = finish_mint_token[OF st(5)]
  have tok: "tok_challenge_digest (mt_token t) = challenge_digest G ch" "tok_token_key_id (mt_token t) = tkid"
    "\<And>c. challenge_digest G c = challenge_digest G ch \<Longrightarrow> verifier_verify G pk (mt_token t) c = Inr (tok_nonce (mt_token t))"
    "parse_authorization G (mt_authorization_header t) = Inr (mt_token t)"
    using assms(2) st(3,4) fin unfolding pass_law_def by metis+
  have key: "bt_get (keys (gate s1)) tkid = Some \<lparr>ke_verifier = pk, ke_epoch = epoch\<rparr>"
    using assms(3) st(2,3) issued(2) same unfolding issuer_known_def by (metis fst_conv)
  obtain c where c: "challenge_for_digest G (gate s1) (challenge_digest G ch) = Some c" "challenge_digest G c = challenge_digest G ch"
    using recent_digest_found[of ch "gate s1" G] issued(1) same by auto
  show "verify_and_spend G (Some (mt_authorization_header t)) (tok_challenge_digest (mt_token t)) (gate s1, w)
     = (case spend_centrally G (gate s1) epoch (tok_nonce (mt_token t)) w of (r, w') \<Rightarrow>
         (case r of SpendOk \<Rightarrow> Inr (tok_nonce (mt_token t)) | SpendDouble \<Rightarrow> Inl DoubleSpend | SpendDown \<Rightarrow> Inl RedeemerDown,
          gate s1, w'))"
    by (auto simp: verify_and_spend_def admit_token_def tok c key key_for_def verify_spend_def
        split: prod.splits spend_outcome.splits)
  show "\<exists>ch\<in>set (recent_challenges (gate s1)). challenge_digest G ch = tok_challenge_digest (mt_token t)
       \<and> ch_redemption_context ch = Some (email_redemption_context_bound G nonce to subject body)"
    using issued tok(1) same by auto
qed

theorem minted_token_buys_mail_witness:
  "fst (verify_and_spend ref_gate_env (Some (mt_authorization_header ref_minted)) (tok_challenge_digest (mt_token ref_minted))
     (snd (issue_email_challenge ref_gate_env ''nonce'' ''a@b.c'' ''hi'' ''text'' ref_gate), []))
   = Inr (tok_nonce (mt_token ref_minted))"
proof -
  have "trim_end_matches ''/'' (mc_gate_url ref_mint) = ''https://tg1''" unfolding ref_mint_def by code_simp
  then show ?thesis
    using conjunct1[OF minted_token_buys_mail[OF _ ref_pass_law ref_issuer_known ref_mints], of "\<lambda>_. None" "[]" "''nonce''" "[]"] ref_reached
    by (simp add: spend_centrally_def ref_srv_def split: prod.splits)
qed

end
