(* ===== verification/Capture_Path.thy ===== *)
theory Capture_Path
  imports Gateway_Log Event_Service_Safety
begin

section \<open>From the gateway to the event service\<close>

text \<open>
  The two services together: what an attested gateway posts to its event sink is what the event
  service accepts as attested, once the service can fetch the manifest and the receipt from the
  gateway's own routes.
\<close>

text \<open>The derived CBOR codecs of manifests and events: what they encode decodes to the same value.\<close>

definition codec_law :: "('m) llm_lib_scheme \<Rightarrow> bool" where
  "codec_law L \<longleftrightarrow> (\<forall>m b. ser_manifest L m = Inr b \<longrightarrow> de_manifest L b = Inr m)
     \<and> (\<forall>e b. ser_event L e = Inr b \<longrightarrow> de_event L b = Inr e \<and> b \<noteq> [])"

definition get_request :: "str \<Rightarrow> http_request" where
  "get_request path = \<lparr>req_method = ''GET'', req_path = path, req_headers = [], req_body = []\<rparr>"

text \<open>What the gateway serves at its well-known addresses.\<close>

lemma gw_serves_manifest:
  assumes "gw_route L G gi (get_request ''/.well-known/llm-attested/manifest.cbor'') g = (Inr r, g')"
  shows "manifest_to_cbor L (manifest g) = Inr (resp_body r)"
  using assms by (auto simp: gw_route_def get_request_def res_simps write_response_def write_response_with_headers_def)

lemma gw_serves_receipt:
  assumes "gw_route L G gi (get_request ''/.well-known/cvm/receipt'') g = (Inr r, g')" "cvm_receipt_body (cfg g) = Some b"
  shows "resp_body r = b"
  using assms by (auto simp: gw_route_def get_request_def write_response_def write_response_with_headers_def)

lemma event_round_trip:
  assumes "codec_law L" "event_to_cbor L e = Inr b" "ev_version e = 1" "ev_profile e = EVENT_PROFILE"
  shows "event_from_cbor L b = Inr e" "b \<noteq> []"
  using assms by (auto simp: codec_law_def event_to_cbor_def event_from_cbor_def res_simps)

lemma manifest_round_trip:
  assumes "codec_law L" "manifest_to_cbor L m = Inr b" "man_version m = 1" "man_profile m = MANIFEST_PROFILE"
  shows "manifest_from_cbor L b = Inr m"
  using assms by (auto simp: codec_law_def manifest_to_cbor_def manifest_from_cbor_def res_simps)

text \<open>An event of an attested gateway passes validation.\<close>

lemma gateway_event_validates:
  assumes laws: "sig_law L" "codec_law L"
    and start: "gw_main L G env now seed c w = Inr g" "gc_assurance c = ''attested''" and good: "event_good L g ev"
    and man: "http (er_gateway_manifest_url e) = Fetched mb" "manifest_to_cbor L (manifest g) = Inr mb"
    and rcpt: "http (gc_cvm_receipt_url c) = Fetched receipt" "cvm_receipt_body c = Some receipt"
  shows "assurance ev = ''attested''" "validate_attested_capture_event L http e ev = Inr ()"
proof -
  note m = gw_main_state[OF start(1)]
  obtain claim where claim: "ra_claim g = Some claim" "build_capture_ra_claim L (gw_manifest L c seed) (gw_manifest_hash g) receipt
      (gc_capture_method c) (gc_assurance c) (gc_enforcement_mode c) = Inr claim"
    using m(9)[OF start(2)] rcpt(2) by auto
  note f = build_claim_fields[OF claim(2)]
  have ev: "event_matches_capture_ra_claim ev claim" "manifest_hash ev = gw_manifest_hash g"
      "event_verify L (ed_public L seed) ev = Inr ()"
    using good claim(1) m(4) by (simp_all add: event_good_def)
  then have evf: "assurance ev = ''attested''" "capture_method ev = gc_capture_method c"
      "bt_get (evidence ev) ''enforcement_mode'' = Some (gc_enforcement_mode c)"
    using f start(2) by (simp_all add: event_matches_capture_ra_claim_def)
  show "assurance ev = ''attested''" by (rule evf(1))
  have dec: "manifest_from_cbor L mb = Inr (gw_manifest L c seed)"
    using manifest_round_trip[OF laws(2), of "gw_manifest L c seed" mb] man(2) m(5)
    by (simp add: gw_manifest_def manifest_new_def)
  have key: "event_verifying_key L (gw_manifest L c seed) = Inr (ed_public L seed)"
    using laws(1) by (simp add: event_verifying_key_def gw_manifest_def manifest_new_def from_verifying_key_def
        to_verifying_key_def sig_law_def)
  have url: "cvm_receipt_url (man_trust_policy (gw_manifest L c seed)) = gc_cvm_receipt_url c"
    by (simp add: gw_manifest_def manifest_new_def self_hosted_def)
  show "validate_attested_capture_event L http e ev = Inr ()"
    using man(1) rcpt(1) dec key url m(6) ev evf claim(2) start(2)
    by (simp add: validate_attested_capture_event_def Let_def fetched_def)
qed

text \<open>The event service can keep what it accepts.\<close>

definition es_available :: "('m) es_lib_scheme \<Rightarrow> str \<Rightarrow> 'g app_state \<Rightarrow> bool" where
  "es_available L eid s \<longleftrightarrow> log_id_ok eid \<and> (\<forall>p. \<not> faulty (disk s) p)
     \<and> (\<forall>st. ser_store L st \<noteq> None) \<and> (\<forall>v. json_pretty L v \<noteq> None)"

lemma commit_store_available:
  assumes "es_available L eid s"
  shows "\<exists>w. commit_store L ans s = (ans, s\<lparr>disk := w\<rparr>)"
proof -
  obtain b where "ser_store L (es_store s) = Some b" using assms unfolding es_available_def by blast
  then show ?thesis using assms by (auto simp: es_available_def commit_store_def save_store_def ensure_parent_def Let_def fs_write_def)
qed

lemma write_json_available: "\<forall>v. json_pretty L v \<noteq> None \<Longrightarrow> \<exists>resp. write_json L st v = Inr resp \<and> status resp = st"
  by (auto simp: write_json_def write_json_with_headers_def write_response_with_headers_def split: option.splits)

lemma ingest_available:
  assumes "ingest_admit L inp eid req (es_store s) = Inr ev" "es_available L eid s"
  shows "\<exists>resp. fst (ingest_event L inp eid req s) = Inr resp \<and> status resp = 202"
proof -
  have e: "bt_get (st_events (es_store s)) eid \<noteq> None"
    using assms(1) by (auto simp: ingest_admit_def res_simps)
  have w: "\<exists>resp. write_json L 202 v = (Inr resp :: es_error handler_error + http_response) \<and> status resp = 202" for v
    using assms(2) by (intro write_json_available) (simp add: es_available_def)
  have c: "fst (commit_store L ans s1) = ans" if "es_cfg s1 = es_cfg s" "faulty (disk s1) = faulty (disk s)" for ans s1
    using commit_store_available[of L eid s1 ans] assms(2) that by (auto simp: es_available_def)
  obtain w' where ap: "append_captured_event (ec_event_log_dir (es_cfg s)) eid b (disk s) = Inr (w' b)"
      "faulty (w' b) = faulty (disk s)" for b
    using assms(2) by (auto simp: es_available_def append_captured_event_def fs_append_def)
  show ?thesis
    using assms(1) e w ap by (auto simp: ingest_event_def ingest_commit_def Let_def c)
qed

text \<open>
  C6: what an attested gateway captures is accepted as attested. Whatever requests a gateway served
  since it started in attested mode, each body it posted to its event sink is one the event service
  accepts for an event whose record leads to that gateway: the service decodes it to an attested
  event, finds it signed by the key of the manifest it fetches from the gateway's manifest address
  and backed by the receipt it fetches from the gateway's receipt address, and, where it can write
  its files, answers 202.
\<close>

theorem gateway_events_accepted:
  assumes "sig_law L" "codec_law L"
    and "gw_main L G env now seed c w = Inr g0" "gc_assurance c = ''attested''" "rate_state_path c \<noteq> event_log_path c"
    and "g = gw_run L G qs g0" "(url, req_body req) \<in> set (outbox g)"
    and "bt_get (st_events (es_store s)) eid = Some e"
    and "gw_route L G gi (get_request ''/.well-known/llm-attested/manifest.cbor'') g = (Inr r1, g1)"
    and "ei_fetch inp (er_gateway_manifest_url e) = Fetched (resp_body r1)"
    and "gw_route L G gi (get_request ''/.well-known/cvm/receipt'') g = (Inr r2, g2)"
    and "ei_fetch inp (gc_cvm_receipt_url c) = Fetched (resp_body r2)"
    and "es_available L eid s"
  shows "\<exists>ev resp. event_from_cbor L (req_body req) = Inr ev \<and> assurance ev = ''attested''
     \<and> ingest_admit L inp eid req (es_store s) = Inr ev
     \<and> fst (ingest_event L inp eid req s) = Inr resp \<and> status resp = 202"
proof -
  note m = gw_main_state[OF assms(3)]
  obtain evs where evs: "list_all (event_good L g0) evs" "list_all (posted L c evs) (outbox g)"
    using gw_log_run[OF assms(1,3,5), of qs] assms(6) by blast
  then obtain ev where ev: "event_good L g0 ev" "event_to_cbor L ev = Inr (req_body req)"
    using assms(7) by (fastforce simp: list_all_iff list_ex_iff posted_def)
  then have dec: "event_from_cbor L (req_body req) = Inr ev" "req_body req \<noteq> []"
    using event_round_trip[OF assms(2) ev(2)] by (auto simp: event_good_def)
  have fix_g: "manifest g = manifest g0" "cfg g = c"
    using gw_run_fixed[of L G qs g0] assms(6) m(1) by (simp_all add: gw_fixed_def)
  obtain receipt where rc: "cvm_receipt_body c = Some receipt" using m(9)[OF assms(4)] by blast
  have "manifest_to_cbor L (manifest g0) = Inr (resp_body r1)" "resp_body r2 = receipt"
    using gw_serves_manifest[OF assms(9)] gw_serves_receipt[OF assms(11)] fix_g rc by simp_all
  with gateway_event_validates[OF assms(1-4) ev(1), where http = "ei_fetch inp" and e = e] assms(10,12) rc
  have v: "assurance ev = ''attested''" "validate_attested_capture_event L (ei_fetch inp) e ev = Inr ()" by simp_all
  have "ingest_admit L inp eid req (es_store s) = Inr ev"
    using dec v(2) assms(8) by (simp add: ingest_admit_def)
  with ingest_available[OF this assms(13)] dec(1) v(1) show ?thesis by blast
qed

subsection \<open>A reference run\<close>

definition cp_config :: gw_config where
  "cp_config = ref_attested_config\<lparr>gc_event_sink_url := Some ''sink'', gc_cvm_receipt_url := ''receipt-url''\<rparr>"

text \<open>The manifest of that gateway and the event it builds for the reference request.\<close>

definition cp_manifest :: contest_manifest where
  "cp_manifest = \<lparr>man_version = 1,
    man_profile = ''https://cvm.dev/llm-contest-manifest/v1'',
    issuer = ''self-hosted'', man_hackathon_id = ''hk_dev'',
    man_gateway_id = ''gw_67'', competition_url = [],
    gateway_manifest_url = [],
    man_cvm_receipt_hash =
      ''sha256:7265636569707430303030303030303030303030303030303030303030303030'',
    man_value_x = ''sha384:7678'',
    policy_hash =
      ''sha256:616c6c6f772d616c6c2d64657630303030303030303030303030303030303030'',
    scoring_rule_hash =
      ''sha256:6d696e2d746f74616c2d746f6b656e7330303030303030303030303030303030'',
    enforcement_mode = ''routed'',
    start_url = ''http://localhost:8080/events/local/join'',
    capture_methods = [''gateway_proxy''],
    man_trust_policy =
      \<lparr>required = True,
         accepted_tee_platforms = [''tdx'', ''sev-snp'', ''nitro''],
         cvm_receipt_url = ''receipt-url'', registry_url = [],
         tp_verifier_profile = ''cvm-eat-v2''\<rparr>,
    event_signing_jwk =
      \<lparr>kty = ''OKP'', crv = ''Ed25519'',
         jwk_x =
           ''7365656430303030303030303030303030303030303030303030303030303030''\<rparr>,
    event_kinds = [''llm.call'', ''submission'']\<rparr>"

definition cp_unsigned :: contest_event where
  "cp_unsigned = \<lparr>ev_version = 1, ev_profile = ''https://cvm.dev/contest-event/v1'',
    event_id = ''evt_72'', kind = ''llm.call'', hackathon_id = ''hk_dev'',
    team_id = ''team_a'', gateway_id = ''gw_67'',
    manifest_hash =
      ''sha256:6d616e3030303030303030303030303030303030303030303030303030303030'',
    capture_method = ''gateway_proxy'', assurance = ''attested'',
    event_index = 0,
    previous_team_event_hash =
      ''sha256:0000000000000000000000000000000000000000000000000000000000000000'',
    started_at_ms = 10, completed_at_ms = 30,
    actor = \<lparr>actor_kind = ''agent'', agent_session_id = ''agent_default''\<rparr>,
    subject =
      [(''api_family'', ''openai-responses''), (''model'', ''unknown''),
       (''provider'', ''generic''), (''provider_request_id'', [])],
    metrics =
      [(''input_tokens'', 0), (''latency_ms'', 20), (''output_tokens'', 0),
       (''tool_call_count'', 0), (''total_tokens'', 0)],
    hashes =
      [(''request'',
        ''sha256:7b7d303030303030303030303030303030303030303030303030303030303030''),
       (''response'',
        ''sha256:6f6b303030303030303030303030303030303030303030303030303030303030'')],
    evidence =
      [(''enforcement_mode'', ''routed''),
       (''gateway_usage'', ''provider-reported''),
       (''ra_assurance'', ''attested''),
       (''ra_capture_method'', ''gateway_proxy''),
       (''ra_chain_depth'', ''1''),
       (''ra_cvm_receipt_hash'',
        ''sha256:7265636569707430303030303030303030303030303030303030303030303030''),
       (''ra_enforcement'', ''routed''),
       (''ra_event_signing_key_hash'',
        ''sha256:3733363536353634333033303330333033303330333033303330333033303330''),
       (''ra_manifest_hash'',
        ''sha256:6d616e3030303030303030303030303030303030303030303030303030303030''),
       (''ra_platform'', ''tdx''), (''ra_platform_measurement'', ''6d''),
       (''ra_profile'', ''https://cvm.dev/llm-capture-ra/v1''),
       (''ra_quote_binding_hash'',
        ''sha256:7678303030303030303030303030303030303030303030303030303030303030''),
       (''ra_requirement'',
        ''gateway endpoint serves manifest and model API from a Cvm-verified TEE''),
       (''ra_value_x'', ''sha384:7678''),
       (''ra_verifier_profile'', ''cvm-eat-v2'')],
    signature = []\<rparr>"

definition cp_signed :: contest_event where
  "cp_signed = cp_unsigned\<lparr>signature := b64url_encode ref_lib (ed_sign ref_lib ''seed'' ''unsigned'')\<rparr>"

definition cp_lib :: es_lib where
  "cp_lib = ref_es\<lparr>eat_from_cbor := (\<lambda>_. Inr ref_eat),
     ser_manifest := (\<lambda>m. if m = cp_manifest then Inr ''man'' else Inl ''no''),
     de_manifest := (\<lambda>b. if b = ''man'' then Inr cp_manifest else Inl ''no''),
     ser_event := (\<lambda>e. if e = cp_unsigned then Inr ''unsigned'' else if e = cp_signed then Inr ''signed'' else Inl ''no''),
     de_event := (\<lambda>b. if b = ''unsigned'' then Inr cp_unsigned else if b = ''signed'' then Inr cp_signed else Inl ''no'')\<rparr>"

lemma cp_codec: "codec_law cp_lib"
  by (auto simp: codec_law_def cp_lib_def split: if_splits)

lemma cp_sig: "sig_law cp_lib"
proof -
  have "sig_law ref_lib" by (rule ref_lib_sig_law)
  then show ?thesis
    by (simp add: sig_law_def cp_lib_def ref_es_def llm_lib.extend_def es_lib.fields_def ref_llm_def
        lib.extend_def llm_lib.fields_def)
qed

definition cp_gateway :: "nat gateway_state" where
  "cp_gateway = (case gw_main cp_lib ref_net_any (\<lambda>_. None) 0 ''seed'' cp_config ref_fs of Inr s \<Rightarrow> s | Inl _ \<Rightarrow> undefined)"

definition cp_after :: "nat gateway_state" where
  "cp_after = gw_run cp_lib ref_net_any [(ref_gw_in, ref_gw_req)] cp_gateway"

definition cp_in :: es_in where
  "cp_in = ref_es_in\<lparr>ei_fetch := (\<lambda>u. if u = ''receipt-url'' then Fetched ''receipt'' else Fetched ''man'')\<rparr>"

definition cp_req :: http_request where
  "cp_req = \<lparr>req_method = ''POST'', req_path = ''/e/hk_72/events'', req_headers = [], req_body = ''signed''\<rparr>"

lemma cp_posts: "outbox cp_after = [(''sink'', ''signed'')]"
  by code_simp

lemma cp_starts: "gw_main cp_lib ref_net_any (\<lambda>_. None) 0 ''seed'' cp_config ref_fs = Inr cp_gateway"
proof -
  have "\<not> Option.is_none (res_ok (gw_main cp_lib ref_net_any (\<lambda>_. None) 0 ''seed'' cp_config ref_fs))" by code_simp
  then show ?thesis
    by (cases "gw_main cp_lib ref_net_any (\<lambda>_. None) 0 ''seed'' cp_config ref_fs") (simp_all add: cp_gateway_def)
qed

lemma cp_serves:
  "map_option resp_body (res_ok (fst (gw_route cp_lib ref_net_any ref_gw_in (get_request ''/.well-known/llm-attested/manifest.cbor'') cp_after)))
   = Some ''man''"
  "map_option resp_body (res_ok (fst (gw_route cp_lib ref_net_any ref_gw_in (get_request ''/.well-known/cvm/receipt'') cp_after)))
   = Some ''receipt''"
proof -
  have "gw_manifest cp_lib cp_config ''seed'' = cp_manifest" by code_simp
  moreover have "cvm_receipt_body cp_config = Some ''receipt''" by (simp add: cp_config_def ref_attested_config_def)
  moreover have "manifest cp_after = manifest cp_gateway" "cfg cp_after = cfg cp_gateway"
    using gw_run_fixed[of cp_lib ref_net_any _ cp_gateway] by (simp_all add: gw_fixed_def cp_after_def)
  ultimately have "manifest cp_after = cp_manifest" "cvm_receipt_body (cfg cp_after) = Some ''receipt''"
    using gw_main_state(1,5)[OF cp_starts] by simp_all
  moreover have "manifest_to_cbor cp_lib cp_manifest = Inr ''man''" by (simp add: manifest_to_cbor_def cp_lib_def)
  ultimately show
    "map_option resp_body (res_ok (fst (gw_route cp_lib ref_net_any ref_gw_in (get_request ''/.well-known/llm-attested/manifest.cbor'') cp_after)))
     = Some ''man''"
    "map_option resp_body (res_ok (fst (gw_route cp_lib ref_net_any ref_gw_in (get_request ''/.well-known/cvm/receipt'') cp_after)))
     = Some ''receipt''"
    by (simp_all add: gw_route_def get_request_def write_response_def write_response_with_headers_def)
qed

lemma cp_available: "es_available cp_lib ''hk_72'' ref_served"
proof -
  have "faulty (disk ref_served) = faulty (disk ref_es_state)"
    using es_run_confined[OF ref_es_paths, of ref_es ref_net_any "[ref_es_create]"]
    by (simp add: es_confined_def es_frame_def ref_served_def)
  then have "\<not> faulty (disk ref_served) p" for p by (simp add: ref_es_state_def ref_fs_def)
  moreover have "log_id_ok ''hk_72''" by code_simp
  ultimately show ?thesis
    by (simp add: es_available_def cp_lib_def ref_es_def llm_lib.extend_def es_lib.fields_def ref_llm_def lib.extend_def
        llm_lib.fields_def ref_lib_def)
qed

theorem gateway_events_accepted_witness:
  "\<exists>resp. fst (ingest_event cp_lib cp_in ''hk_72'' cp_req ref_served) = Inr resp \<and> status resp = 202"
proof -
  let ?man = "get_request ''/.well-known/llm-attested/manifest.cbor''" and ?rc = "get_request ''/.well-known/cvm/receipt''"
  obtain r1 g1 where 1: "gw_route cp_lib ref_net_any ref_gw_in ?man cp_after = (Inr r1, g1)" "resp_body r1 = ''man''"
    using cp_serves(1) by (cases "gw_route cp_lib ref_net_any ref_gw_in ?man cp_after") (auto simp: res_simps)
  obtain r2 g2 where 2: "gw_route cp_lib ref_net_any ref_gw_in ?rc cp_after = (Inr r2, g2)" "resp_body r2 = ''receipt''"
    using cp_serves(2) by (cases "gw_route cp_lib ref_net_any ref_gw_in ?rc cp_after") (auto simp: res_simps)
  have "\<not> Option.is_none (bt_get (st_events (es_store ref_served)) ''hk_72'')" by code_simp
  then obtain e where e: "bt_get (st_events (es_store ref_served)) ''hk_72'' = Some e" by (auto simp: Option.is_none_def)
  have "er_gateway_manifest_url (the (bt_get (st_events (es_store ref_served)) ''hk_72'')) \<noteq> ''receipt-url''" by code_simp
  then have f: "ei_fetch cp_in (er_gateway_manifest_url e) = Fetched (resp_body r1)" "ei_fetch cp_in (gc_cvm_receipt_url cp_config) = Fetched (resp_body r2)"
    using 1(2) 2(2) e by (simp_all add: cp_in_def cp_config_def)
  have c: "gc_assurance cp_config = ''attested''" "rate_state_path cp_config \<noteq> event_log_path cp_config" by code_simp+
  have o: "(''sink'', req_body cp_req) \<in> set (outbox cp_after)" by (simp add: cp_posts cp_req_def)
  from gateway_events_accepted[OF cp_sig cp_codec cp_starts c cp_after_def o e 1(1) f(1) 2(1) f(2) cp_available]
  show ?thesis by blast
qed

end
