(* ===== verification/Event_Documents.thy ===== *)
theory Event_Documents
  imports Event_Pages Event_Service_Safety
begin

section \<open>What the event service publishes\<close>

text \<open>
  The documents computed from a team's captured events: they agree with each other and with what an
  auditor recomputes from the receipts, the card's statistics are those of the events, the
  visibility flags decide what is listed, the payload a team is given configures the participant's
  tool, and no value can add markup to a page.
\<close>

subsection \<open>Reading an object back\<close>

named_theorems doc_simps \<open>reading the fields of a document\<close>

lemmas [doc_simps] = jget_jobj jidx_jobj Let_def

lemma card_fields [doc_simps]:
  "jidx (jidx (team_cvm_document L e t evs) ''integrity'') ''event_log_root''
   = JStr (event_log_root L (event_hashes_for_team L (es_team_events t evs)))"
  "jidx (jidx (team_cvm_document L e t evs) ''integrity'') ''event_count'' = JInt (int (length (es_team_events t evs)))"
  "jidx (team_cvm_document L e t evs) ''stats''
   = card_stats (er_cvm_visibility e) (length (es_team_events t evs)) (fold card_step (es_team_events t evs) card_start)"
  "jidx (team_cvm_document L e t evs) ''labels''
   = card_labels (er_cvm_visibility e) (fold card_step (es_team_events t evs) card_start)"
  "jidx (jidx (team_cvm_document L e t evs) ''share'') ''oembed_url'' = JStr (oembed_link e (cvm_url e (tr_team_id t)))"
  "jidx (jidx (team_cvm_document L e t evs) ''share'') ''headline''
   = JStr (tr_team_name t @ '' used '' @ show_int (ca_total_tokens (fold card_step (es_team_events t evs) card_start))
       @ '' captured tokens across '' @ show_int (ca_llm_calls (fold card_step (es_team_events t evs) card_start)) @ '' LLM events'')"
  by (simp_all add: team_cvm_document_def jidx_jobj Let_def event_hashes_for_team_def)

lemma proof_fields [doc_simps]:
  "jidx (cvm_proof_document L e t evs doc) ''event_log_root''
   = JStr (event_log_root L (event_hashes_for_team L (es_team_events t evs)))"
  "jidx (cvm_proof_document L e t evs doc) ''event_hashes'' = JArr (map JStr (event_hashes_for_team L (es_team_events t evs)))"
  "jidx (cvm_proof_document L e t evs doc) ''cvm_json_hash'' = JStr (sha256_prefixed L (json_compact L doc))"
  by (simp_all add: cvm_proof_document_def jidx_jobj Let_def)

lemma credential_fields [doc_simps]:
  "jidx (jidx (cvm_credential_document L now e t evs doc) ''proof'') ''proofValue''
   = JStr (event_log_root L (event_hashes_for_team L (es_team_events t evs)))"
  "jidx (jidx (cvm_credential_document L now e t evs doc) ''credentialSubject'') ''result'' = jidx doc ''stats''"
  by (simp_all add: cvm_credential_document_def jidx_jobj Let_def)

lemma receipt_fields [doc_simps]:
  "jidx (receipt_value L c) ''event_hash'' = JStr (event_hash_or_id L c)"
  "jidx (receipt_value L c) ''receipt_cbor_b64'' = JStr (b64_encode L (case event_to_cbor L c of Inr b \<Rightarrow> b | Inl _ \<Rightarrow> []))"
  by (simp_all add: receipt_value_def jidx_jobj)

lemma receipts_fields [doc_simps]:
  "jidx (cvm_receipts_document L e t evs) ''receipts'' = JArr (map (receipt_value L) (es_team_events t evs))"
  "jidx (cvm_receipts_document L e t evs) ''event_log_root''
   = JStr (event_log_root L (event_hashes_for_team L (es_team_events t evs)))"
proof -
  have "List.map_filter (\<lambda>r. as_str (jidx r ''event_hash'')) (map (receipt_value L) xs) = event_hashes_for_team L xs" for xs
    by (induction xs) (simp_all add: map_filter_simps receipt_fields event_hashes_for_team_def)
  then show "jidx (cvm_receipts_document L e t evs) ''event_log_root''
      = JStr (event_log_root L (event_hashes_for_team L (es_team_events t evs)))"
    by (simp add: cvm_receipts_document_def jidx_jobj Let_def)
qed (simp add: cvm_receipts_document_def jidx_jobj Let_def)

subsection \<open>Auditing a card\<close>

text \<open>What an auditor computes: decode each receipt of a receipts document, hash it, and hash the list.\<close>

definition audit_root :: "('m) es_lib_scheme \<Rightarrow> json \<Rightarrow> str option" where
  "audit_root L receipts =
     (case as_array (jidx receipts ''receipts'') of
        None \<Rightarrow> None
      | Some rs \<Rightarrow>
         map_option (\<lambda>bs. event_log_root L (map (sha256_prefixed L) bs))
           (those (map (\<lambda>r. Option.bind (as_str (jidx r ''receipt_cbor_b64'')) (b64_decode L)) rs)))"

lemma those_map_Some: "(\<And>x. x \<in> set xs \<Longrightarrow> f x = Some (g x)) \<Longrightarrow> those (map f xs) = Some (map g xs)"
  by (induction xs) simp_all

lemma audit_receipts:
  assumes "b64_law L" "\<And>c. c \<in> set (es_team_events t evs) \<Longrightarrow> \<exists>b. event_to_cbor L c = Inr b"
  shows "audit_root L (cvm_receipts_document L e t evs) = Some (event_log_root L (event_hashes_for_team L (es_team_events t evs)))"
proof -
  let ?bytes = "\<lambda>c. case event_to_cbor L c of Inr b \<Rightarrow> b | Inl _ \<Rightarrow> []"
  have d: "those (map ((\<lambda>r. Option.bind (as_str (jidx r ''receipt_cbor_b64'')) (b64_decode L)) \<circ> receipt_value L)
      (es_team_events t evs)) = Some (map ?bytes (es_team_events t evs))"
    using assms(1) by (intro those_map_Some) (simp add: receipt_fields b64_law_def)
  have "sha256_prefixed L (?bytes c) = event_hash_or_id L c" if "c \<in> set (es_team_events t evs)" for c
    using assms(2)[OF that] by (auto simp: event_hash_or_id_def event_hash_def)
  then have "map (sha256_prefixed L \<circ> ?bytes) (es_team_events t evs) = event_hashes_for_team L (es_team_events t evs)"
    by (simp add: event_hashes_for_team_def)
  then show ?thesis by (simp add: audit_root_def receipts_fields d)
qed

text \<open>
  C17: the documents of a team agree. Whatever was captured, the card, the proof bundle, the receipts
  and the credential name the same root of the event log; the proof lists the hashes that root is
  of and pins the card as it was served; the credential's result is the card's statistics; and an
  auditor who decodes the receipts and hashes them recomputes exactly the published root.
\<close>

theorem documents_agree:
  assumes "b64_law L" "\<forall>c. \<exists>b. event_to_cbor L c = Inr b"
    and "card_doc = team_cvm_document L e t evs"
  shows "\<exists>root hs. root = event_log_root L hs \<and> length hs = length (es_team_events t evs)
     \<and> jidx (jidx card_doc ''integrity'') ''event_log_root'' = JStr root
     \<and> jidx (cvm_proof_document L e t evs card_doc) ''event_log_root'' = JStr root
     \<and> jidx (cvm_proof_document L e t evs card_doc) ''event_hashes'' = JArr (map JStr hs)
     \<and> jidx (cvm_proof_document L e t evs card_doc) ''cvm_json_hash'' = JStr (sha256_prefixed L (json_compact L card_doc))
     \<and> jidx (cvm_receipts_document L e t evs) ''event_log_root'' = JStr root
     \<and> jidx (jidx (cvm_credential_document L now e t evs card_doc) ''proof'') ''proofValue'' = JStr root
     \<and> jidx (jidx (cvm_credential_document L now e t evs card_doc) ''credentialSubject'') ''result'' = jidx card_doc ''stats''
     \<and> audit_root L (cvm_receipts_document L e t evs) = Some root"
  using audit_receipts[OF assms(1), of t evs e] assms(2)
  by (intro exI[of _ "event_log_root L (event_hashes_for_team L (es_team_events t evs))"]
      exI[of _ "event_hashes_for_team L (es_team_events t evs)"])
     (simp add: card_fields(1) proof_fields credential_fields receipts_fields assms(3) event_hashes_for_team_def)

subsection \<open>The card's statistics\<close>

lemma i64_add_sum: "in_i64 x \<Longrightarrow> fold (\<lambda>e n. i64_add n (f e)) evs x = wrap_i64 (x + sum_list (map f evs))"
proof (induction evs arbitrary: x)
  case Nil
  then show ?case by (simp add: wrap_i64_id)
next
  case (Cons e evs)
  have "fold (\<lambda>e n. i64_add n (f e)) evs (i64_add x (f e)) = wrap_i64 (i64_add x (f e) + sum_list (map f evs))"
    by (rule Cons.IH) (simp add: i64_add_def in_i64_wrap)
  then show ?case by (simp add: i64_add_def wrap_i64_add_left add.assoc)
qed

text \<open>A field of the accumulator that the step updates on its own.\<close>

lemma fold_field:
  assumes "\<And>e a. fld (step e a) = g e (fld a)"
  shows "fld (fold step evs a) = fold g evs (fld a)"
  by (induction evs arbitrary: a) (simp_all add: assms)

lemma count_key_get: "opt_or (bt_get (count_key k m) x) 0 = opt_or (bt_get m x) 0 + (if x = k then 1 else 0)"
  by (simp add: count_key_def bt_add_def bt_get_insert opt_or_def split: option.splits)

lemma count_opt_get: "opt_or (bt_get (count_opt k m) x) 0 = opt_or (bt_get m x) 0 + (if k = Some x then 1 else 0)"
  by (auto simp: count_opt_def count_key_get split: option.splits)

lemma count_key_opt: "count_key k = count_opt (Some k)"
  by (simp add: count_opt_def fun_eq_iff)

lemma count_opt_fold:
  "opt_or (bt_get (fold (\<lambda>e. count_opt (f e)) evs m) x) (0 :: u64)
   = opt_or (bt_get m x) 0 + word_of_nat (length (filter (\<lambda>e. f e = Some x) evs))"
  by (induction evs arbitrary: m) (simp_all add: count_opt_get)

lemma card_calls: "in_i64 (ca_llm_calls a) \<Longrightarrow> ca_llm_calls (card_step e a) = i64_add (ca_llm_calls a) (captured_llm_calls e)"
  by (simp add: card_step_def Let_def captured_llm_calls_def opt_or_def i64_add_def wrap_i64_id split: option.splits)

lemma card_calls_sum: "in_i64 (ca_llm_calls a) \<Longrightarrow>
  ca_llm_calls (fold card_step evs a) = wrap_i64 (ca_llm_calls a + sum_list (map captured_llm_calls evs))"
proof (induction evs arbitrary: a)
  case Nil
  then show ?case by (simp add: wrap_i64_id)
next
  case (Cons e evs)
  have "in_i64 (ca_llm_calls (card_step e a))" using card_calls[OF Cons.prems] by (simp add: i64_add_def in_i64_wrap)
  from Cons.IH[OF this] show ?case
    using card_calls[OF Cons.prems] by (simp add: i64_add_def wrap_i64_add_left add.assoc)
qed

lemma card_extremes:
  "ca_min_tokens (fold card_step evs a) = (if evs = [] then ca_min_tokens a else
     Some (Min (total_tokens ` set evs \<union> set_option (ca_min_tokens a))))"
  "ca_max_tokens (fold card_step evs a) = (if evs = [] then ca_max_tokens a else
     Some (Max (total_tokens ` set evs \<union> set_option (ca_max_tokens a))))"
proof (induction evs arbitrary: a)
  case (Cons e evs)
  { case 1
    show ?case using Cons(1)[of "card_step e a"]
      by (cases "ca_min_tokens a") (auto simp: card_step_def Let_def min.commute insert_commute intro!: arg_cong[where f = Min]) }
  { case 2
    show ?case using Cons(2)[of "card_step e a"]
      by (cases "ca_max_tokens a") (auto simp: card_step_def Let_def max.commute insert_commute intro!: arg_cong[where f = Max]) }
qed simp_all

lemma in_i64_0 [simp]: "in_i64 0"
  by (simp add: in_i64_def)

lemma card_total: "ca_total_tokens (fold card_step evs card_start) = wrap_i64 (sum_list (map total_tokens evs))"
  using fold_field[where fld = ca_total_tokens and step = card_step and g = "\<lambda>e n. i64_add n (total_tokens e)" and a = card_start]
  by (simp add: card_step_def Let_def i64_add_sum card_start_def)

lemma card_calls_total: "ca_llm_calls (fold card_step evs card_start) = wrap_i64 (sum_list (map captured_llm_calls evs))"
  using card_calls_sum[of card_start evs] by (simp add: card_start_def)

lemma card_min_max:
  "ca_min_tokens (fold card_step evs card_start) = (if evs = [] then None else Some (Min (total_tokens ` set evs)))"
  "ca_max_tokens (fold card_step evs card_start) = (if evs = [] then None else Some (Max (total_tokens ` set evs)))"
  by (simp_all add: card_extremes) (simp_all add: card_start_def)

lemma card_counts:
  "ca_capture_methods (fold card_step evs card_start) = fold (\<lambda>e. count_opt (Some (capture_method e))) evs []"
  "ca_assurance (fold card_step evs card_start) = fold (\<lambda>e. count_opt (Some (assurance e))) evs []"
  "ca_enforcement (fold card_step evs card_start) = fold (\<lambda>e. count_opt (bt_get (evidence e) ''enforcement_mode'')) evs []"
  "ca_models (fold card_step evs card_start) = fold (\<lambda>e. count_opt (bt_get (subject e) ''model'')) evs []"
  "ca_providers (fold card_step evs card_start) = fold (\<lambda>e. count_opt (bt_get (subject e) ''provider'')) evs []"
  using fold_field[where fld = ca_capture_methods and step = card_step and a = card_start]
    fold_field[where fld = ca_assurance and step = card_step and a = card_start]
    fold_field[where fld = ca_enforcement and step = card_step and a = card_start]
    fold_field[where fld = ca_models and step = card_step and a = card_start]
    fold_field[where fld = ca_providers and step = card_step and a = card_start]
  by (simp_all add: card_step_def Let_def card_start_def count_key_opt)

lemma signal_counts:
  "sa_total_tokens (fold (signal_step d) evs signal_start) = wrap_i64 (sum_list (map total_tokens evs))"
  "sa_llm_calls (fold (signal_step d) evs signal_start) = wrap_i64 (sum_list (map captured_llm_calls evs))"
  "sa_capture_methods (fold (signal_step d) evs signal_start) = fold (\<lambda>e. count_opt (Some (capture_method e))) evs []"
  "sa_assurance (fold (signal_step d) evs signal_start) = fold (\<lambda>e. count_opt (Some (assurance e))) evs []"
  "sa_enforcement (fold (signal_step d) evs signal_start) = fold (\<lambda>e. count_opt (bt_get (evidence e) ''enforcement_mode'')) evs []"
  using fold_field[where fld = sa_total_tokens and step = "signal_step d" and a = signal_start]
    fold_field[where fld = sa_llm_calls and step = "signal_step d" and a = signal_start]
    fold_field[where fld = sa_capture_methods and step = "signal_step d" and a = signal_start]
    fold_field[where fld = sa_assurance and step = "signal_step d" and a = signal_start]
    fold_field[where fld = sa_enforcement and step = "signal_step d" and a = signal_start]
  by (simp_all add: signal_step_def Let_def signal_start_def count_key_opt i64_add_sum)

lemma fold_if_filter: "fold (\<lambda>e n. if P e then g e n else n) evs x = fold g (filter P evs) x"
  by (induction evs arbitrary: x) simp_all

lemma signal_today:
  "sa_today_tokens (fold (signal_step d) evs signal_start)
   = wrap_i64 (sum_list (map total_tokens (filter (\<lambda>e. d \<le> completed_at_ms e) evs)))"
  "sa_today_llm_calls (fold (signal_step d) evs signal_start)
   = wrap_i64 (sum_list (map captured_llm_calls (filter (\<lambda>e. d \<le> completed_at_ms e) evs)))"
  using fold_field[where fld = sa_today_tokens and step = "signal_step d" and a = signal_start
      and g = "\<lambda>e n. if d \<le> completed_at_ms e then i64_add n (total_tokens e) else n"]
    fold_field[where fld = sa_today_llm_calls and step = "signal_step d" and a = signal_start
      and g = "\<lambda>e n. if d \<le> completed_at_ms e then i64_add n (captured_llm_calls e) else n"]
  by (simp_all add: signal_step_def Let_def signal_start_def i64_add_sum fold_if_filter)

text \<open>The same events for the card whatever order the log has them in.\<close>

lemma mset_es_team_events: "mset (es_team_events t evs) = mset (filter (\<lambda>c. team_id c = tr_team_id t) evs)"
  by (simp add: es_team_events_def)

text \<open>
  The card's numbers are those of the team's events. The total and the calls are the sums over
  the events of the team, as 64-bit integers, the extremes are the least and the greatest count,
  and each label is counted once for each event that carries it, none of them depending on the order of
  the log; and the signal of an agent counts the same way over that agent's events.
\<close>

lemma card_counts_events:
  "let mine = filter (\<lambda>c. team_id c = tr_team_id t) evs; a = fold card_step (es_team_events t evs) card_start;
       sel = signal_events agent (es_team_events t evs); b = fold (signal_step d) sel signal_start;
       theirs = filter (\<lambda>c. agent = Some (agent_session_id (actor c))) mine
   in ca_total_tokens a = wrap_i64 (sum_list (map total_tokens mine))
    \<and> ca_llm_calls a = wrap_i64 (sum_list (map captured_llm_calls mine))
    \<and> ca_min_tokens a = (if mine = [] then None else Some (Min (set (map total_tokens mine))))
    \<and> ca_max_tokens a = (if mine = [] then None else Some (Max (set (map total_tokens mine))))
    \<and> (\<forall>x. opt_or (bt_get (ca_models a) x) 0 = word_of_nat (length (filter (\<lambda>c. bt_get (subject c) ''model'' = Some x) mine))
         \<and> opt_or (bt_get (ca_assurance a) x) 0 = word_of_nat (length (filter (\<lambda>c. assurance c = x) mine))
         \<and> opt_or (bt_get (ca_enforcement a) x) 0
             = word_of_nat (length (filter (\<lambda>c. bt_get (evidence c) ''enforcement_mode'' = Some x) mine)))
    \<and> length sel = length theirs
    \<and> sa_total_tokens b = wrap_i64 (sum_list (map total_tokens theirs))
    \<and> sa_llm_calls b = wrap_i64 (sum_list (map captured_llm_calls theirs))
    \<and> sa_today_tokens b = wrap_i64 (sum_list (map total_tokens (filter (\<lambda>c. d \<le> completed_at_ms c) theirs)))"
proof -
  let ?mine = "filter (\<lambda>c. team_id c = tr_team_id t) evs" and ?tevs = "es_team_events t evs"
  let ?theirs = "filter (\<lambda>c. agent = Some (agent_session_id (actor c))) ?mine"
  have m: "mset ?tevs = mset ?mine" by (rule mset_es_team_events)
  have sums: "sum_list (map f xs) = sum_list (map f ys)" if "mset xs = mset ys" for f :: "contest_event \<Rightarrow> int" and xs ys
    using that by (metis mset_map sum_mset_sum_list)
  have len: "length (filter P xs) = length (filter P ys)" if "mset xs = mset ys" for P and xs ys :: "contest_event list"
    using that by (metis mset_filter size_mset)
  have e: "?tevs = [] \<longleftrightarrow> ?mine = []" "set ?tevs = set ?mine" using m mset_zero_iff set_mset_mset by metis+
  have s: "mset (signal_events agent ?tevs) = mset ?theirs"
    using m by (cases agent) (simp_all add: signal_events_def filter_filter_mset eq_commute)
  have sd: "mset (filter (\<lambda>c. d \<le> completed_at_ms c) (signal_events agent ?tevs)) = mset (filter (\<lambda>c. d \<le> completed_at_ms c) ?theirs)"
    using s by (metis mset_filter)
  show ?thesis
    using sums[OF m] sums[OF s] sums[OF sd] len[OF m] e s[THEN mset_eq_length]
    by (simp add: Let_def card_total card_calls_total card_min_max card_counts count_opt_fold
        signal_counts signal_today opt_or_def[of None])
qed

definition ref_record :: event_record where
  "ref_record = new_event_record ref_lib ref_es_config ref_es_in \<lparr>ce_name = None, ce_event_type = None,
     ce_gateway_base_url = None, ce_gateway_manifest_url = None, ce_cvm_receipt_url = None, ce_scoring = None,
     ce_cvm_visibility = None\<rparr>"

definition ref_team :: team_record where
  "ref_team = new_team_record ref_lib ref_es_in (er_event_id ref_record) \<lparr>ct_team_name = Some ''Reds''\<rparr>"

definition ref_captures :: "contest_event list" where
  "ref_captures = [ref_event\<lparr>team_id := tr_team_id ref_team\<rparr>, ref_event]"

lemma length_ref_hex [simp]: "length (ref_hex b) = 2 * length b"
  by (induction b rule: ref_hex.induct) simp_all

theorem documents_agree_witness:
  "\<exists>root. audit_root ref_es (cvm_receipts_document ref_es ref_record ref_team ref_captures) = Some root
     \<and> jidx (jidx (team_cvm_document ref_es ref_record ref_team ref_captures) ''integrity'') ''event_log_root'' = JStr root
     \<and> root \<noteq> ''sha256:empty''"
proof -
  have "\<forall>c. \<exists>b. event_to_cbor ref_es c = Inr b"
    by (simp add: event_to_cbor_def ref_es_def llm_lib.extend_def es_lib.fields_def ref_llm_def lib.extend_def llm_lib.fields_def)
  from documents_agree[OF ref_es_b64 this refl, where e = ref_record and t = ref_team and evs = ref_captures]
  obtain root hs where r: "root = event_log_root ref_es hs" "length hs = length (es_team_events ref_team ref_captures)"
    "audit_root ref_es (cvm_receipts_document ref_es ref_record ref_team ref_captures) = Some root"
    "jidx (jidx (team_cvm_document ref_es ref_record ref_team ref_captures) ''integrity'') ''event_log_root'' = JStr root"
    by blast
  have "length (es_team_events ref_team ref_captures) = 1" by code_simp
  moreover have "sha256_prefixed ref_es b \<noteq> ''sha256:empty''" for b
  proof
    assume "sha256_prefixed ref_es b = ''sha256:empty''"
    then have "length (sha256_prefixed ref_es b) = 12" by simp
    then show False by (simp add: sha256_prefixed_def ref_es_def llm_lib.extend_def es_lib.fields_def ref_llm_def
        lib.extend_def llm_lib.fields_def ref_lib_def)
  qed
  ultimately show ?thesis using r by (auto simp: event_log_root_def)
qed

subsection \<open>Visibility\<close>

lemma card_stats_get: "jget (card_stats v n a) k = map_of (rev (
     [(''captured_events'', JInt (int n)), (''llm_calls'', JInt (ca_llm_calls a))]
     @ (if show_token_stats v then
          [(''total_tokens'', JInt (ca_total_tokens a)), (''min_call_tokens'', JInt (opt_or (ca_min_tokens a) 0)),
           (''max_call_tokens'', JInt (opt_or (ca_max_tokens a) 0))] else [])
     @ (if show_models v then [(''models'', counts_value (ca_models a))] else [])
     @ (if show_providers v then [(''providers'', counts_value (ca_providers a))] else [])
     @ (if show_agent_sessions v then
          [(''agent_sessions'', JInt (int (length (ca_agent_sessions a)))),
           (''agent_session_counts'', counts_value (ca_agent_sessions a))] else []))) k"
  unfolding card_stats_def using jget_jobj unfolding jobj_def .

text \<open>
  An event's visibility flags decide what the card lists. Token statistics, models, providers and
  agent sessions are in the statistics, and the capture labels on the card, exactly when their flag
  is set; the number of events and of calls always is.
\<close>

lemma visibility_controls_listing:
  "let doc = team_cvm_document L e t evs; v = er_cvm_visibility e; stats = jidx doc ''stats'' in
   (jget stats ''total_tokens'' \<noteq> None \<longleftrightarrow> show_token_stats v)
   \<and> (jget stats ''min_call_tokens'' \<noteq> None \<longleftrightarrow> show_token_stats v)
   \<and> (jget stats ''max_call_tokens'' \<noteq> None \<longleftrightarrow> show_token_stats v)
   \<and> (jget stats ''models'' \<noteq> None \<longleftrightarrow> show_models v)
   \<and> (jget stats ''providers'' \<noteq> None \<longleftrightarrow> show_providers v)
   \<and> (jget stats ''agent_sessions'' \<noteq> None \<longleftrightarrow> show_agent_sessions v)
   \<and> (jget stats ''agent_session_counts'' \<noteq> None \<longleftrightarrow> show_agent_sessions v)
   \<and> (jidx doc ''labels'' = JObj [] \<longleftrightarrow> \<not> show_capture_labels v)
   \<and> jget stats ''captured_events'' = Some (JInt (int (length (es_team_events t evs))))
   \<and> jget stats ''llm_calls'' = Some (JInt (wrap_i64 (sum_list (map captured_llm_calls (es_team_events t evs)))))"
proof -
  have "jget (jobj [(''capture_methods'', v)]) ''capture_methods'' = Some v" for v by (simp add: jget_jobj)
  have "card_labels v a = JObj [] \<longleftrightarrow> \<not> show_capture_labels v" for v a
  proof -
    have "jget (jobj kvs) k \<noteq> None \<Longrightarrow> jobj kvs \<noteq> JObj []" for kvs k by (auto simp: jobj_def)
    from this[of _ "''capture_methods''"] show ?thesis
      by (auto simp: card_labels_def jget_jobj) (simp add: jobj_def bt_of_list_def)
  qed
  then show ?thesis by (simp add: Let_def card_fields card_stats_get card_calls_total)
qed

text \<open>
  The flags do not reach the headline and the signal. Whatever the visibility, the card's shared
  headline (and the page, the image and the credential's description, which repeat it) spells out
  the total of captured tokens, and the signal of an agent shows the tokens, the capture labels and the
  session.
\<close>

lemma visibility_not_in_headline:
  "jidx (jidx (team_cvm_document L (e\<lparr>er_cvm_visibility := v\<rparr>) t evs) ''share'') ''headline''
     = JStr (tr_team_name t @ '' used '' @ show_int (wrap_i64 (sum_list (map total_tokens (es_team_events t evs))))
         @ '' captured tokens across ''
         @ show_int (wrap_i64 (sum_list (map captured_llm_calls (es_team_events t evs)))) @ '' LLM events'')
   \<and> individual_signal_document L now (e\<lparr>er_cvm_visibility := v\<rparr>) t evs req = individual_signal_document L now e t evs req"
proof -
  have "cvm_url (e\<lparr>er_cvm_visibility := v\<rparr>) = cvm_url e" by (simp add: cvm_url_def service_base_url_def fun_eq_iff split: option.split)
  then show ?thesis
    by (simp add: card_fields card_total card_calls_total individual_signal_document_def Let_def individual_signal_base_url_def)
qed

subsection \<open>From the join page to the participant's tool\<close>

text \<open>
  The payload a team is given configures the participant's tool: reading it gives a configuration
  with the event, team, key and addresses the service keeps for them, whose model endpoint is the
  one the payload advertises and whose links are those of the card. Only an empty team name, gateway
  or manifest address can make it unreadable.
\<close>

lemma team_payload_configures:
  assumes "b = ec_public_base_url cfg" "e = new_event_record L cfg inp b1" "t = new_team_record L inp2 (er_event_id e) b2"
    and "tr_team_name t \<noteq> []" "er_gateway_base_url e \<noteq> []" "er_gateway_manifest_url e \<noteq> []"
  shows "\<exists>c. from_team_payload (team_start_payload e t) = Inr c
     \<and> pc_event_id c = er_event_id e \<and> pc_team_id c = tr_team_id t \<and> pc_team_api_key c = tr_api_key t
     \<and> pc_event_sink_url c = b @ ''/e/'' @ er_event_id e @ ''/events''
     \<and> JStr (openai_base_url c) = jidx (jidx (team_start_payload e t) ''openai_compatible'') ''OPENAI_BASE_URL''
     \<and> pc_cvm_url c = cvm_url e (tr_team_id t) \<and> pc_cvm_json_url c = cvm_url e (tr_team_id t) @ ''.json''
     \<and> pc_capture_methods c = er_capture_methods e"
proof -
  have strs: "List.map_filter as_str (map JStr xs) = xs" for xs by (induction xs) (simp_all add: map_filter_simps)
  have ne: "er_event_id e \<noteq> []" "tr_team_id t \<noteq> []" "tr_api_key t \<noteq> []" "er_event_sink_url e = b @ ''/e/'' @ er_event_id e @ ''/events''"
    "er_bootstrap_url e \<noteq> []" "cvm_url e (tr_team_id t) \<noteq> []"
    using assms(1-3) by (simp_all add: new_event_record_def new_team_record_def random_id_def Let_def cvm_url_def)
  have opt: "optional_string (team_start_payload e t) k = (case map_of (rev kvs) k of Some (JStr s) \<Rightarrow> if s \<noteq> [] then Some s else None | _ \<Rightarrow> None)"
    if "team_start_payload e t = jobj kvs" for kvs k
    using that by (auto simp: optional_string_def jget_jobj split: option.splits json.splits)
  show ?thesis
    unfolding from_team_payload_def required_string_def opt[OF team_start_payload_def[unfolded Let_def, of e t]]
    using ne assms(4-6) strs
    by (simp add: team_start_payload_def Let_def jget_jobj jidx_jobj openai_base_url_def opt_or_def)
qed

subsection \<open>oEmbed\<close>

lemma trim_end_matches_keeps: "\<not> starts_with (rev p) (rev s) \<Longrightarrow> trim_end_matches p s = s"
  by (simp add: trim_end_matches_def strip_lead.simps[of _ "rev s"] lead_def)

text \<open>An event record as the service makes it: the service's base is its public address.\<close>

lemma service_base_new: "service_base_url (new_event_record L c inp b) = trim_end_matches ''/'' (ec_public_base_url c)"
proof -
  have ss: "strip_suffix p (x @ p) = Some x" for x p by (simp add: strip_suffix_def)
  show ?thesis
    using ss[of "''/e/'' @ random_id L (ei_random inp) ''hk'' @ ''/join''" "ec_public_base_url c"]
    by (simp add: service_base_url_def new_event_record_def Let_def)
qed

definition oembed_answer :: "('m) es_lib_scheme \<Rightarrow> str \<Rightarrow> 'g app_state \<Rightarrow> es_error handler_error + http_response" where
  \<open>oembed_answer L frame s = write_json L 200 (jobj [(''version'', JStr ''1.0''), (''type'', JStr ''rich''),
     (''provider_name'', JStr ''Cvm''), (''provider_url'', JStr (ec_public_base_url (es_cfg s))),
     (''title'', JStr ''LLM Attested cvm''),
     (''html'', JStr (''<iframe src="'' @ html_escape frame
        @ ''" width="420" height="520" loading="lazy" referrerpolicy="no-referrer"></iframe>'')),
     (''width'', JInt 420), (''height'', JInt 520), (''cache_age'', JInt 30)])\<close>

lemma oembed_prefix:
  assumes "utf8_valid url"
  shows "oembed_document L (''/oembed?url='' @ url_encode_component url) s =
    (if starts_with (trim_end_matches ''/'' (ec_public_base_url (es_cfg s))) url
     then oembed_answer L (trim_end_matches ''.json'' url @ ''.embed'') s
     else write_json L 400 (jobj [(''error'', JStr ''url must belong to this cvm host'')]))"
proof -
  have "query_param (''/oembed?url='' @ url_encode_component url) ''url'' = Some url"
    using query_param_encoded[OF assms, of "''/oembed''" "''url''"] by (simp add: url_unreserved_def ascii_alnum_def)
  then show ?thesis by (simp add: oembed_document_def oembed_answer_def)
qed

text \<open>
  The oEmbed link of a card leads to the card. The link an event's card advertises is the service's
  \<open>/oembed\<close> endpoint, and what that endpoint answers there is a frame on the card's embeddable page.
\<close>

theorem oembed_of_card:
  assumes "e = new_event_record L (es_cfg s) inp b" "utf8_valid (cvm_url e tm)"
  shows "\<exists>path. oembed_link e (cvm_url e tm) = trim_end_matches ''/'' (ec_public_base_url (es_cfg s)) @ path
     \<and> oembed_document L path s = oembed_answer L (cvm_url e tm @ ''.embed'') s"
proof -
  have "trim_end_matches ''.json'' (cvm_url e tm) = cvm_url e tm"
    by (rule trim_end_matches_keeps) (simp add: cvm_url_def starts_with_Cons)
  moreover have "starts_with (trim_end_matches ''/'' (ec_public_base_url (es_cfg s))) (cvm_url e tm)"
    by (simp add: cvm_url_def assms(1) service_base_new)
  moreover have "oembed_link e (cvm_url e tm)
      = trim_end_matches ''/'' (ec_public_base_url (es_cfg s)) @ ''/oembed?url='' @ url_encode_component (cvm_url e tm)"
    by (simp add: oembed_link_def assms(1) service_base_new)
  ultimately show ?thesis using oembed_prefix[OF assms(2), of L s] by metis
qed

text \<open>
  The check that a URL belongs to the host compares text, not the host. Any continuation of the
  service's address is framed, also one that makes it the beginning of another host's name.
\<close>

lemma oembed_frames_any_extension:
  assumes "utf8_valid (trim_end_matches ''/'' (ec_public_base_url (es_cfg s)) @ rest)"
  shows "oembed_document L (''/oembed?url='' @ url_encode_component (trim_end_matches ''/'' (ec_public_base_url (es_cfg s)) @ rest)) s
    = oembed_answer L (trim_end_matches ''.json'' (trim_end_matches ''/'' (ec_public_base_url (es_cfg s)) @ rest) @ ''.embed'') s"
  using oembed_prefix[OF assms, of L s] by simp

subsection \<open>Pages\<close>

text \<open>The markup of a text: its angle brackets and double quotes.\<close>

definition markup :: "str \<Rightarrow> str" where
  "markup v = filter (\<lambda>c. c = CHR ''<'' \<or> c = CHR ''>'' \<or> c = CHR 0x22) v"

lemma markup_append: "markup (a @ b) = markup a @ markup b"
  by (simp add: markup_def)

lemma markup_escaped [simp]: "markup (html_escape v) = []" "markup (xml_escape v) = []"
  using set_html_escape[of v] set_xml_escape[of v] by (auto simp: markup_def filter_empty_conv)

lemma markup_digit: "0 \<le> d \<Longrightarrow> d < 10 \<Longrightarrow> markup [char_of (48 + d :: int)] = []"
proof -
  assume "0 \<le> d" "d < 10"
  then have o: "of_char (char_of (48 + d) :: char) = 48 + d" by simp
  have "char_of (48 + d) \<noteq> c" if "of_char c \<noteq> 48 + d" for c :: char using o that by auto
  from this[of "CHR ''<''"] this[of "CHR ''>''"] this[of "CHR 0x22"] have "char_of (48 + d) \<notin> {CHR ''<'', CHR ''>'', CHR 0x22}"
    using \<open>d < 10\<close> \<open>0 \<le> d\<close> by auto
  then show ?thesis by (simp add: markup_def)
qed

lemma markup_show_digits: "0 \<le> n \<Longrightarrow> markup (show_digits n) = []"
proof (induction n rule: show_digits.induct)
  case (1 n)
  then show ?case
    by (subst show_digits.simps) (auto simp: markup_append markup_digit)
qed

lemma markup_show_int [simp]: "markup (show_int n) = []"
proof -
  have "markup ''-'' = []" by (simp add: markup_def)
  then show ?thesis using markup_append[of "''-''"] by (simp add: show_int_def markup_show_digits)
qed

lemma markup_show_nat [simp]: "markup (show_nat n) = []"
  by (simp add: show_nat_def)

lemma render_Cons:
  "render (Lit s # t) vals = s @ render t vals" "render (Hole h # t) vals = opt_or (map_of vals h) [] @ render t vals"
  by (simp_all add: render_def)

lemma markup_render:
  assumes "\<And>h. Hole h \<in> set t \<Longrightarrow> markup (opt_or (map_of vals h) []) = []"
  shows "markup (render t vals) = markup (render t [])"
  using assms
proof (induction t)
  case (Cons p t)
  have "markup (opt_or None []) = []" by (simp add: opt_or_def markup_def)
  with Cons show ?case by (cases p) (simp_all add: render_Cons markup_append)
qed (simp add: render_def)

lemma render_split: "render (a @ Hole h # b) vals = render a vals @ opt_or (map_of vals h) [] @ render b vals"
  by (simp add: render_def)

lemma markup_values:
  "list_all (\<lambda>(h, v). markup v = []) vals \<Longrightarrow> markup (opt_or (map_of vals h) []) = []"
  by (cases "map_of vals h") (auto simp: opt_or_def markup_def list_all_iff dest!: map_of_SomeD)

text \<open>The card page around its embedded metadata.\<close>

definition page_before_script :: "piece list" where
  "page_before_script = takeWhile (\<lambda>p. p \<noteq> Hole ''json_ld'') cvm_page_template"

definition page_after_script :: "piece list" where
  "page_after_script = tl (dropWhile (\<lambda>p. p \<noteq> Hole ''json_ld'') cvm_page_template)"

lemma page_split: "cvm_page_template = page_before_script @ Hole ''json_ld'' # page_after_script"
proof -
  have "dropWhile (\<lambda>p. p \<noteq> Hole ''json_ld'') cvm_page_template = Hole ''json_ld'' # page_after_script"
    unfolding page_after_script_def by (simp add: cvm_page_template_def)
  then show ?thesis unfolding page_before_script_def by (metis takeWhile_dropWhile_id)
qed

lemma render_last: "t \<noteq> [] \<Longrightarrow> last t = Lit (a @ s) \<Longrightarrow> \<exists>b. render t vals = b @ s"
  by (cases t rule: rev_cases) (auto simp: render_def)

lemma render_hd: "t \<noteq> [] \<Longrightarrow> hd t = Lit (s @ a) \<Longrightarrow> \<exists>b. render t vals = s @ b"
  by (cases t) (auto simp: render_def)

lemma page_script_tags:
  "\<exists>a. render page_before_script vals = a @ ''<script type=\"application/ld+json\">''"
  "\<exists>b. render page_after_script vals = ''</script>'' @ b"
proof -
  let ?open = "''<script type=\"application/ld+json\">''"
  have ne: "page_before_script \<noteq> []" "page_after_script \<noteq> []" by code_simp+
  have o: "case last page_before_script of Lit s \<Rightarrow> take (length s - length ?open) s @ ?open = s | _ \<Rightarrow> False" by code_simp
  have c: "case hd page_after_script of Lit s \<Rightarrow> ''</script>'' @ drop 9 s = s | _ \<Rightarrow> False" by code_simp
  obtain s where "last page_before_script = Lit s" "take (length s - length ?open) s @ ?open = s"
    using o by (cases "last page_before_script") (simp_all only: piece.case)
  then have "last page_before_script = Lit (take (length s - length ?open) s @ ?open)" by (simp only:)
  then show "\<exists>a. render page_before_script vals = a @ ?open" by (rule render_last[OF ne(1)])
  obtain s where "hd page_after_script = Lit s" "''</script>'' @ drop 9 s = s"
    using c by (cases "hd page_after_script") (simp_all only: piece.case)
  then have "hd page_after_script = Lit (''</script>'' @ drop 9 s)" by (simp only:)
  then show "\<exists>b. render page_after_script vals = ''</script>'' @ b" by (rule render_hd[OF ne(2)])
qed

text \<open>
  C37: what participants and organizers call themselves cannot add markup to a page. Whatever the
  event, the team and the captured events contain, the embeddable card has the markup of its
  template with the holes left empty. The card page is its embedded metadata between two parts, of which
  the first ends with the opening tag of the metadata's script and the second starts with the closing
  one; both have the markup of their templates with the holes left empty, and the metadata neither
  ends the script nor opens a comment in it, since it holds no \<open></\<close> and no \<open><!--\<close>.
\<close>

theorem card_pages_inert:
  "let script = script_escape (cvm_json_ld L (context_card L x));
       before = render page_before_script (cvm_page_values L x);
       after = render page_after_script (cvm_page_values L x)
   in markup (render cvm_embed_template (cvm_embed_values L x)) = markup (render cvm_embed_template [])
    \<and> render cvm_page_template (cvm_page_values L x) = before @ script @ after
    \<and> (\<exists>a. before = a @ ''<script type=\"application/ld+json\">'') \<and> (\<exists>b. after = ''</script>'' @ b)
    \<and> markup before = markup (render page_before_script []) \<and> markup after = markup (render page_after_script [])
    \<and> \<not> occurs ''</'' script \<and> \<not> occurs ''<!--'' script"
proof -
  let ?script = "script_escape (cvm_json_ld L (context_card L x))"
  have embed: "markup (render cvm_embed_template (cvm_embed_values L x)) = markup (render cvm_embed_template [])"
    by (intro markup_render markup_values) (simp_all add: cvm_embed_values_def Let_def u64_or_0_def i64_or_0_def)
  obtain vals where v: "cvm_page_values L x = vals @ [(''json_ld'', ?script)]" "list_all (\<lambda>(h, v). markup v = []) vals"
      "''json_ld'' \<notin> set (map fst vals)"
    by (rule that[of "butlast (cvm_page_values L x)"]) (simp_all add: cvm_page_values_def Let_def u64_or_0_def i64_or_0_def)
  have other: "markup (opt_or (map_of (cvm_page_values L x) h) []) = []" if "h \<noteq> ''json_ld''" for h
  proof -
    have "map_of (cvm_page_values L x) h = map_of vals h" using that by (simp add: v(1) map_add_def split: option.split)
    then show ?thesis using markup_values[OF v(2)] by simp
  qed
  have "Hole ''json_ld'' \<notin> set page_before_script" unfolding page_before_script_def by (auto dest: set_takeWhileD)
  moreover have "Hole ''json_ld'' \<notin> set page_after_script" unfolding page_after_script_def by (simp add: cvm_page_template_def)
  ultimately have parts: "markup (render page_before_script (cvm_page_values L x)) = markup (render page_before_script [])"
      "markup (render page_after_script (cvm_page_values L x)) = markup (render page_after_script [])"
    using other by (intro markup_render, metis)+
  have "map_of vals ''json_ld'' = None" using v(3) by (simp add: map_of_eq_None_iff)
  then have "opt_or (map_of (cvm_page_values L x) ''json_ld'') [] = ?script" by (simp add: v(1) map_add_def opt_or_def)
  then have page: "render cvm_page_template (cvm_page_values L x)
      = render page_before_script (cvm_page_values L x) @ ?script @ render page_after_script (cvm_page_values L x)"
    by (subst page_split) (simp add: render_split)
  show ?thesis
    unfolding Let_def using embed page parts page_script_tags script_escape_avoids by blast
qed

end
