(* ===== verification/Registry.thy ===== *)
theory Registry
  imports Text_Codec
begin

section \<open>The registry of approved measurements (\<open>src/registry.rs\<close>)\<close>

text \<open>
  Entries that say which Value X was reviewed, each a JSON file with an optional detached signature,
  classified against the identities a consumer trusts. The derived decoders of an entry and a
  sidecar, the X.509 and DER decoders and ECDSA are parameters; the traversal of the directory, the
  parsing of sidecars and PEM blocks, the matching of a certificate's identity and the glob matcher
  are the source's.
\<close>

subsection \<open>Data\<close>

datatype reg_status = Recommended | Deprecated | Revoked

record platform_measurements =
  nitro_pcr0 :: "str option"
  tdx_mrtd :: "str option"
  snp_measurement :: "str option"

record reg_entry =
  re_value_x :: str
  re_source_commit :: "str option"
  re_platform_measurements :: platform_measurements
  re_status :: reg_status
  re_approved_at :: str
  re_deprecated_at :: "str option"
  re_revoked_at :: "str option"
  re_notes :: str

datatype signature_state = Verified | Untrusted | Missing

datatype reg_lookup = Found reg_entry signature_state | Unknown

datatype trusted_identity =
    SigstoreKeyless str str
  | RawPublicKey str bytes str

record trust_root =
  identities :: "trusted_identity list"

record registry =
  rg_entries :: "(str \<times> reg_entry \<times> signature_state) list"
  rg_trust_root :: trust_root

record sidecar =
  sc_sig :: bytes
  sc_cert_pem :: "str option"

text \<open>What the source reads of a certificate: its key and its extensions, by object identifier.\<close>

record x509_cert =
  subject_public_key_info :: "bytes option"
  extensions :: "(str \<times> bytes) list option"

record reg_lib = lib +
  de_entry :: "str \<Rightarrow> reg_entry option"
  de_sidecar :: "str \<Rightarrow> (str \<times> str option) option"
  spki_from_der :: "bytes \<Rightarrow> (str \<times> bytes option) option"
  cert_from_der :: "bytes \<Rightarrow> x509_cert option"
  san_uris :: "bytes \<Rightarrow> str list option"
  utf8_string_from_der :: "bytes \<Rightarrow> str option"
  p256_verify :: "bytes \<Rightarrow> bytes \<Rightarrow> bytes \<Rightarrow> bool"

datatype reg_error =
    RegDir | RegRead str | RegDecode str | LegacyDecode str | LegacyNoEntries str | LegacyNoValueX str

text \<open>\<open>read_dir\<close>: no directory, a failed listing, or the file names in the order listed.\<close>

datatype dir_listing = NoDir | DirFailed | Listed "(io_error + str) list"

definition trust_root_empty :: trust_root where
  "trust_root_empty = \<lparr>identities = []\<rparr>"

definition trust_root_with :: "trust_root \<Rightarrow> trusted_identity \<Rightarrow> trust_root" where
  "trust_root_with r i = r\<lparr>identities := identities r @ [i]\<rparr>"

definition cvms_default :: trust_root where
  "cvms_default = trust_root_with trust_root_empty (SigstoreKeyless ''https://token.actions.githubusercontent.com''
     ''https://github.com/maceip/cvm-agent/.github/workflows/registry-sign.yml@refs/heads/main'')"

subsection \<open>Signatures\<close>

text \<open>
  \<open>glob_match\<close>: the source skips a run of stars and tries every suffix; the loop over suffixes is
  here a search in \<open>suffixes_of\<close>.
\<close>

fun suffixes_of :: "'a list \<Rightarrow> 'a list list" where
  "suffixes_of [] = [[]]"
| "suffixes_of (x # xs) = (x # xs) # suffixes_of xs"

function glob_match :: "str \<Rightarrow> str \<Rightarrow> bool" where
  "glob_match [] v = (v = [])"
| "glob_match (c # p) v =
     (if c = CHR ''*'' then
        (let rest = dropWhile (\<lambda>c. c = CHR ''*'') p
         in rest = [] \<or> list_ex (\<lambda>s. glob_match rest s) (suffixes_of v))
      else (case v of [] \<Rightarrow> False | d # v' \<Rightarrow> c = d \<and> glob_match p v'))"
  by pat_completeness auto
termination
  by (relation "measure (\<lambda>(p, v). length p)") (auto intro: le_imp_less_Suc length_dropWhile_le)

text \<open>The base64 text between the first \<open>BEGIN\<close> and the first \<open>END\<close> line.\<close>

fun pem_block :: "bool \<Rightarrow> str list \<Rightarrow> str" where
  "pem_block in_block [] = []"
| "pem_block in_block (line # rest) =
     (let t = trim line in
      if starts_with ''-----BEGIN'' t then pem_block True rest
      else if starts_with ''-----END'' t then []
      else (if in_block then t else []) @ pem_block in_block rest)"

definition pem_to_der :: "('m) reg_lib_scheme \<Rightarrow> str \<Rightarrow> bytes option" where
  "pem_to_der L pem = (let b64 = pem_block False (lines pem) in if b64 = [] then None else b64_decode L b64)"

definition sidecar_parse :: "('m) reg_lib_scheme \<Rightarrow> bytes \<Rightarrow> sidecar option" where
  "sidecar_parse L raw =
     (if \<not> utf8_valid raw then None
      else let text = trim raw in
        if starts_with ''{'' text then
          Option.bind (de_sidecar L text) (\<lambda>(sig, cert).
          Option.bind (b64_decode L (trim sig)) (\<lambda>s. Some \<lparr>sc_sig = s, sc_cert_pem = cert\<rparr>))
        else Option.bind (b64_decode L text) (\<lambda>s. Some \<lparr>sc_sig = s, sc_cert_pem = None\<rparr>))"

definition verify_ed25519 :: "('m) lib_scheme \<Rightarrow> bytes \<Rightarrow> bytes \<Rightarrow> bytes \<Rightarrow> bool" where
  "verify_ed25519 L key msg sig \<longleftrightarrow>
     length key = 32 \<and> ed_valid_key L key \<and> length sig = 64 \<and> ed_verify L key msg sig"

definition verify_sig_with_spki :: "('m) reg_lib_scheme \<Rightarrow> bytes \<Rightarrow> bytes \<Rightarrow> bytes \<Rightarrow> bool" where
  "verify_sig_with_spki L spki_der msg sig =
     (case spki_from_der L spki_der of
        None \<Rightarrow> False
      | Some (oid, None) \<Rightarrow> False
      | Some (oid, Some key) \<Rightarrow>
          if oid = ''1.3.101.112'' then verify_ed25519 L key msg sig
          else if oid = ''1.2.840.10045.2.1'' then p256_verify L key msg sig
          else False)"

text \<open>One extension against the pinned identity: what it says of the subject and of the issuer.\<close>

definition ext_san_ok :: "('m) reg_lib_scheme \<Rightarrow> str \<Rightarrow> str \<times> bytes \<Rightarrow> bool" where
  "ext_san_ok L pattern ext \<longleftrightarrow> fst ext = ''2.5.29.17'' \<and>
     (case san_uris L (snd ext) of None \<Rightarrow> False | Some uris \<Rightarrow> list_ex (glob_match pattern) uris)"

definition ext_issuer_ok :: "('m) reg_lib_scheme \<Rightarrow> str \<Rightarrow> str \<times> bytes \<Rightarrow> bool" where
  "ext_issuer_ok L iss ext \<longleftrightarrow>
     fst ext = ''1.3.6.1.4.1.57264.1.1'' \<and> utf8_valid (snd ext) \<and> snd ext = iss
     \<or> fst ext = ''1.3.6.1.4.1.57264.1.8'' \<and> utf8_string_from_der L (snd ext) = Some iss"

definition cert_identity_matches :: "('m) reg_lib_scheme \<Rightarrow> x509_cert \<Rightarrow> str \<Rightarrow> str \<Rightarrow> bool" where
  "cert_identity_matches L cert iss pattern =
     (case extensions cert of
        None \<Rightarrow> False
      | Some exts \<Rightarrow> list_ex (ext_san_ok L pattern) exts \<and> list_ex (ext_issuer_ok L iss) exts)"

fun verify_against :: "('m) reg_lib_scheme \<Rightarrow> trusted_identity \<Rightarrow> bytes \<Rightarrow> sidecar \<Rightarrow> bool" where
  "verify_against L (RawPublicKey algorithm spki label) msg sc = verify_sig_with_spki L spki msg (sc_sig sc)"
| "verify_against L (SigstoreKeyless iss pattern) msg sc =
     (case Option.bind (Option.bind (sc_cert_pem sc) (pem_to_der L)) (cert_from_der L) of
        None \<Rightarrow> False
      | Some cert \<Rightarrow>
         (case subject_public_key_info cert of
            None \<Rightarrow> False
          | Some spki \<Rightarrow> verify_sig_with_spki L spki msg (sc_sig sc) \<and> cert_identity_matches L cert iss pattern))"

subsection \<open>Loading\<close>

definition check_sidecar :: "('m) reg_lib_scheme \<Rightarrow> fs \<Rightarrow> str \<Rightarrow> str \<Rightarrow> trust_root \<Rightarrow> reg_error + signature_state" where
  "check_sidecar L w json_path body root =
     (let sig_path = json_path @ ''.sig'' in
      if \<not> fs_exists w sig_path then Inr Missing
      else rbind (map_err (\<lambda>_. RegRead sig_path) (fs_read w sig_path)) (\<lambda>raw.
           Inr (case sidecar_parse L raw of
                  None \<Rightarrow> Untrusted
                | Some sc \<Rightarrow> if list_ex (\<lambda>i. verify_against L i body sc) (identities root) then Verified else Untrusted)))"

text \<open>\<open>Path::extension\<close> of a file name: what follows its last dot, unless the dot starts the name.\<close>

definition file_extension :: "str \<Rightarrow> str option" where
  "file_extension f =
     (let r = rev f; ext = takeWhile (\<lambda>c. c \<noteq> CHR ''.'') r; stem = drop (Suc (length ext)) r
      in if length ext < length r \<and> stem \<noteq> [] \<and> f \<noteq> ''..'' then Some (rev ext) else None)"

definition load_file ::
    "('m) reg_lib_scheme \<Rightarrow> fs \<Rightarrow> str \<Rightarrow> trust_root \<Rightarrow> str \<Rightarrow> reg_error + (reg_entry \<times> signature_state) option" where
  "load_file L w dir root f =
     (let path = path_join dir f in
      if file_extension f \<noteq> Some ''json'' then Inr None
      else rbind (ok_or (read_to_string w path) (RegRead path)) (\<lambda>body.
           rbind (ok_or (de_entry L body) (RegDecode path)) (\<lambda>e.
           rbind (check_sidecar L w path body root) (\<lambda>sg. Inr (Some (e, sg))))))"

fun load_files ::
    "('m) reg_lib_scheme \<Rightarrow> fs \<Rightarrow> str \<Rightarrow> trust_root \<Rightarrow> (io_error + str) list
       \<Rightarrow> (str \<times> reg_entry \<times> signature_state) list \<Rightarrow> reg_error + (str \<times> reg_entry \<times> signature_state) list" where
  "load_files L w dir root [] m = Inr m"
| "load_files L w dir root (Inl _ # fs) m = Inl RegDir"
| "load_files L w dir root (Inr f # fs) m =
     rbind (load_file L w dir root f) (\<lambda>r.
     load_files L w dir root fs (case r of None \<Rightarrow> m | Some (e, sg) \<Rightarrow> bt_insert (re_value_x e) (e, sg) m))"

definition registry_load :: "('m) reg_lib_scheme \<Rightarrow> fs \<Rightarrow> (str \<Rightarrow> dir_listing) \<Rightarrow> str \<Rightarrow> trust_root \<Rightarrow> reg_error + registry" where
  "registry_load L w ls dir root =
     (case ls dir of
        NoDir \<Rightarrow> Inr \<lparr>rg_entries = [], rg_trust_root = root\<rparr>
      | DirFailed \<Rightarrow> Inl RegDir
      | Listed fs \<Rightarrow> rbind (load_files L w dir root fs []) (\<lambda>m. Inr \<lparr>rg_entries = m, rg_trust_root = root\<rparr>))"

text \<open>The root file of older releases: unsigned entries that never replace one of the directory.\<close>

definition legacy_entry :: "json \<Rightarrow> str \<Rightarrow> reg_entry" where
  "legacy_entry raw vx =
     (let flag = (\<lambda>k. opt_or (Option.bind (jget raw k) as_bool) False);
          alt = (\<lambda>a b. Option.bind (case jget raw a of Some v \<Rightarrow> Some v | None \<Rightarrow> jget raw b) as_str);
          pm = opt_or (jget raw ''platform_measurements'') JNull;
          meas = (\<lambda>k. Option.bind (jget pm k) as_str)
      in \<lparr>re_value_x = vx, re_source_commit = alt ''source_commit'' ''git_commit'',
          re_platform_measurements = \<lparr>nitro_pcr0 = meas ''nitro_pcr0'', tdx_mrtd = meas ''tdx_mrtd'',
            snp_measurement = meas ''snp_measurement''\<rparr>,
          re_status = (if flag ''deprecated'' then Deprecated else if flag ''recommended'' then Recommended else Revoked),
          re_approved_at = opt_or (alt ''approved_at'' ''registered_at'') ''unknown'',
          re_deprecated_at = None, re_revoked_at = None,
          re_notes = opt_or (Option.bind (jget raw ''notes'') as_str) []\<rparr>)"

fun legacy_entries ::
    "str \<Rightarrow> json list \<Rightarrow> (str \<times> reg_entry \<times> signature_state) list \<Rightarrow> reg_error + (str \<times> reg_entry \<times> signature_state) list" where
  "legacy_entries path [] m = Inr m"
| "legacy_entries path (raw # rest) m =
     rbind (ok_or (Option.bind (jget raw ''value_x'') as_str) (LegacyNoValueX path)) (\<lambda>vx.
     legacy_entries path rest (bt_or_insert vx (legacy_entry raw vx, Missing) m))"

definition load_legacy_registry_json :: "('m) lib_scheme \<Rightarrow> fs \<Rightarrow> str \<Rightarrow> registry \<Rightarrow> reg_error + registry" where
  "load_legacy_registry_json L w path r =
     rbind (ok_or (read_to_string w path) (RegRead path)) (\<lambda>body.
     rbind (ok_or (json_parse L body) (LegacyDecode path)) (\<lambda>v.
     rbind (ok_or (Option.bind (jget v ''entries'') as_array) (LegacyNoEntries path)) (\<lambda>es.
     rbind (legacy_entries path es (rg_entries r)) (\<lambda>m. Inr (r\<lparr>rg_entries := m\<rparr>)))))"

definition load_default :: "('m) reg_lib_scheme \<Rightarrow> fs \<Rightarrow> (str \<Rightarrow> dir_listing) \<Rightarrow> reg_error + registry" where
  "load_default L w ls =
     (let merged = \<lparr>rg_entries = [], rg_trust_root = cvms_default\<rparr> in
      rbind (if ls ''registry'' = NoDir then Inr merged
             else rbind (registry_load L w ls ''registry'' cvms_default) (\<lambda>loaded.
                  Inr (merged\<lparr>rg_entries := bt_extend (rg_entries merged) (rg_entries loaded)\<rparr>))) (\<lambda>m.
      if fs_exists w ''registry.json'' then load_legacy_registry_json L w ''registry.json'' m else Inr m))"

definition lookup :: "registry \<Rightarrow> str \<Rightarrow> reg_lookup" where
  "lookup r vx = (case bt_get (rg_entries r) vx of None \<Rightarrow> Unknown | Some (e, sg) \<Rightarrow> Found e sg)"

definition registry_len :: "registry \<Rightarrow> nat" where
  "registry_len r = length (rg_entries r)"

fun describe_signature :: "signature_state \<Rightarrow> str" where
  "describe_signature Verified = ''signed''"
| "describe_signature Untrusted = ''signature present but UNTRUSTED''"
| "describe_signature Missing = ''UNSIGNED''"

fun describe_status :: "reg_status \<Rightarrow> str" where
  "describe_status Recommended = ''RECOMMENDED''"
| "describe_status Deprecated = ''DEPRECATED''"
| "describe_status Revoked = ''REVOKED''"

fun describe :: "reg_lookup \<Rightarrow> str" where
  "describe (Found e sg) = describe_status (re_status e) @ '' ('' @ describe_signature sg @ '') ''
     @ [CHR 0xE2, CHR 0x80, CHR 0x94] @ '' approved '' @ re_approved_at e"
| "describe Unknown = ''UNKNOWN (not in registry)''"

subsection \<open>The glob matcher\<close>

text \<open>What a pattern means: a star stands for any run of characters, any other character for itself.\<close>

inductive glob :: "str \<Rightarrow> str \<Rightarrow> bool" where
  glob_end: "glob [] []"
| glob_char: "c \<noteq> CHR ''*'' \<Longrightarrow> glob p v \<Longrightarrow> glob (c # p) (c # v)"
| glob_star: "glob p v \<Longrightarrow> glob (CHR ''*'' # p) (w @ v)"

inductive_simps glob_Nil: "glob [] v"
inductive_cases glob_starE: "glob (CHR ''*'' # p) v"
inductive_cases glob_ConsE: "glob (c # p) v"

lemma set_suffixes_of: "s \<in> set (suffixes_of v) \<longleftrightarrow> (\<exists>w. v = w @ s)"
  by (induction v) (auto simp: Cons_eq_append_conv)

lemma glob_stars: "glob (dropWhile (\<lambda>c. c = CHR ''*'') p) s \<Longrightarrow> v = w @ s \<Longrightarrow> glob (CHR ''*'' # p) v"
proof (induction p arbitrary: v w)
  case Nil
  then show ?case by (auto intro: glob_star)
next
  case (Cons c p)
  then show ?case
  proof (cases "c = CHR ''*''")
    case True
    with Cons.prems Cons.IH[of s "[]"] have "glob (CHR ''*'' # p) s" by simp
    with True Cons.prems(2) show ?thesis by (auto intro: glob_star)
  qed (auto intro: glob_star)
qed

lemma stars_glob: "glob (CHR ''*'' # p) v \<Longrightarrow> \<exists>w s. v = w @ s \<and> glob (dropWhile (\<lambda>c. c = CHR ''*'') p) s"
proof (induction p arbitrary: v)
  case Nil
  then show ?case by (auto elim!: glob_starE)
next
  case (Cons c p)
  from Cons.prems obtain w s where ws: "v = w @ s" "glob (c # p) s" by (auto elim!: glob_starE)
  show ?case
  proof (cases "c = CHR ''*''")
    case True
    with Cons.IH[of s] ws obtain w' s' where "s = w' @ s'" "glob (dropWhile (\<lambda>c. c = CHR ''*'') p) s'" by auto
    with ws(1) True show ?thesis by (intro exI[of _ "w @ w'"] exI[of _ s']) simp
  next
    case False
    with ws show ?thesis by (intro exI[of _ w] exI[of _ s]) simp
  qed
qed

lemma glob_match_iff: "glob_match p v \<longleftrightarrow> glob p v"
proof (induction p v rule: glob_match.induct)
  case (1 v)
  show ?case by (auto simp: glob_Nil)
next
  case (2 c p v)
  let ?rest = "dropWhile (\<lambda>c. c = CHR ''*'') p"
  show ?case
  proof (cases "c = CHR ''*''")
    case True
    have "glob_match ?rest s \<longleftrightarrow> glob ?rest s" if "s \<in> set (suffixes_of v)" for s
      using 2(1)[OF True refl that] .
    then have "list_ex (glob_match ?rest) (suffixes_of v) \<longleftrightarrow> (\<exists>s w. v = w @ s \<and> glob ?rest s)"
      unfolding list_ex_iff by (metis set_suffixes_of)
    moreover have "\<exists>s w. v = w @ s \<and> glob ?rest s" if "?rest = []"
      unfolding that by (intro exI[of _ "[]"] exI[of _ v]) (simp add: glob_Nil)
    ultimately have "glob_match (c # p) v \<longleftrightarrow> (\<exists>s w. v = w @ s \<and> glob ?rest s)"
      unfolding glob_match.simps Let_def if_P[OF True] by blast
    moreover have "(\<exists>s w. v = w @ s \<and> glob ?rest s) \<longleftrightarrow> glob (CHR ''*'' # p) v"
      using glob_stars[of p _ v] stars_glob[of p v] by metis
    ultimately show ?thesis unfolding True by simp
  next
    case False
    then show ?thesis using 2(2)[OF False] by (cases v) (auto intro: glob_char elim!: glob_ConsE)
  qed
qed

text \<open>
  C39: the glob matcher terminates and decides the pattern language: a value matches exactly when it is
  the pattern with each star replaced by some text.
\<close>

theorem glob_match_correct: "glob_match p v \<longleftrightarrow> glob p v"
  by (rule glob_match_iff)

subsection \<open>What a loaded registry says\<close>

text \<open>A file of the directory backs an entry with a state.\<close>

definition backed_by ::
    "('m) reg_lib_scheme \<Rightarrow> fs \<Rightarrow> str \<Rightarrow> trust_root \<Rightarrow> (io_error + str) list \<Rightarrow> str \<Rightarrow> reg_entry \<Rightarrow> signature_state \<Rightarrow> bool" where
  "backed_by L w dir root fs vx e sg \<longleftrightarrow> (\<exists>f body. Inr f \<in> set fs \<and> file_extension f = Some ''json''
     \<and> read_to_string w (path_join dir f) = Some body \<and> de_entry L body = Some e \<and> re_value_x e = vx
     \<and> check_sidecar L w (path_join dir f) body root = Inr sg)"

lemma load_files_backed:
  assumes "load_files L w dir root fs m0 = Inr m" "bt_get m vx = Some (e, sg)"
  shows "bt_get m0 vx = Some (e, sg) \<or> backed_by L w dir root fs vx e sg"
  using assms
proof (induction L w dir root fs m0 rule: load_files.induct)
  case (3 L w dir root f fs m0)
  obtain r where r: "load_file L w dir root f = Inr r" using 3(2) by (auto simp: res_simps)
  let ?m = "case r of None \<Rightarrow> m0 | Some (e, sg) \<Rightarrow> bt_insert (re_value_x e) (e, sg) m0"
  have l: "load_files L w dir root fs ?m = Inr m" using 3(2) r by simp
  have mono: "backed_by L w dir root fs vx e sg \<Longrightarrow> backed_by L w dir root (Inr f # fs) vx e sg"
    by (auto simp: backed_by_def)
  from 3(1)[OF l 3(3)] show ?case
  proof
    assume "bt_get ?m vx = Some (e, sg)"
    then consider "bt_get m0 vx = Some (e, sg)" | "r = Some (e, sg)" "re_value_x e = vx"
      by (auto simp: bt_get_insert split: option.splits prod.splits if_splits)
    then show ?thesis
    proof cases
      case 2
      then have "backed_by L w dir root (Inr f # fs) vx e sg"
        using r by (fastforce simp: backed_by_def load_file_def Let_def res_simps split: if_splits)
      then show ?thesis by simp
    qed simp
  qed (use mono in blast)
qed simp_all

lemma legacy_entries_keep:
  assumes "legacy_entries path es m0 = Inr m" "bt_get m vx = Some (e, sg)"
  shows "bt_get m0 vx = Some (e, sg) \<or> sg = Missing \<and> bt_get m0 vx = None"
  using assms
proof (induction path es m0 rule: legacy_entries.induct)
  case (2 path raw rest m0)
  then obtain x where x: "legacy_entries path rest (bt_or_insert x (legacy_entry raw x, Missing) m0) = Inr m"
    by (auto simp: res_simps)
  from 2(1)[OF x 2(3)] show ?case
    by (auto simp: bt_get_or_insert split: option.splits if_splits)
qed simp_all

lemma check_sidecar_verified:
  assumes "check_sidecar L w p body root = Inr Verified"
  shows "\<exists>raw sc i. fs_read w (p @ ''.sig'') = Inr raw \<and> sidecar_parse L raw = Some sc
    \<and> i \<in> set (identities root) \<and> verify_against L i body sc"
proof -
  have "fs_exists w (p @ ''.sig'')" using assms by (auto simp: check_sidecar_def Let_def split: if_splits)
  then obtain raw where r: "fs_read w (p @ ''.sig'') = Inr raw"
      "(case sidecar_parse L raw of None \<Rightarrow> Untrusted
        | Some sc \<Rightarrow> if list_ex (\<lambda>i. verify_against L i body sc) (identities root) then Verified else Untrusted) = Verified"
    using assms by (auto simp: check_sidecar_def Let_def rbind_Inr_iff map_err_Inr_iff)
  then show ?thesis by (auto simp: list_ex_iff split: option.splits if_splits)
qed

lemma load_files_ok: "load_files L w dir root fs m0 = Inr m \<Longrightarrow> bt_ok m0 \<Longrightarrow> bt_ok m"
proof (induction L w dir root fs m0 rule: load_files.induct)
  case (3 L w dir root f fs m0)
  then obtain r where r: "load_files L w dir root fs (case r of None \<Rightarrow> m0 | Some (e, sg) \<Rightarrow> bt_insert (re_value_x e) (e, sg) m0) = Inr m"
    by (auto simp: rbind_Inr_iff)
  show ?case by (rule 3(1)[OF r]) (simp add: 3(3) bt_ok_insert split: option.split prod.split)
qed simp_all

lemma load_default_backed:
  assumes "load_default L w ls = Inr r" "bt_get (rg_entries r) vx = Some (e, sg)" "sg \<noteq> Missing"
  shows "\<exists>fs. ls ''registry'' = Listed fs \<and> backed_by L w ''registry'' cvms_default fs vx e sg"
proof -
  define m0 :: registry where "m0 = \<lparr>rg_entries = [], rg_trust_root = cvms_default\<rparr>"
  obtain m where m: "(if ls ''registry'' = NoDir then Inr m0
       else rbind (registry_load L w ls ''registry'' cvms_default) (\<lambda>loaded.
            Inr (m0\<lparr>rg_entries := bt_extend (rg_entries m0) (rg_entries loaded)\<rparr>))) = Inr m"
    "(if fs_exists w ''registry.json'' then load_legacy_registry_json L w ''registry.json'' m else Inr m) = Inr r"
    using assms(1) unfolding load_default_def Let_def m0_def[symmetric] rbind_Inr_iff by blast
  have e: "bt_get (rg_entries m) vx = Some (e, sg)"
    using m(2) assms(2,3) legacy_entries_keep[of "''registry.json''" _ "rg_entries m" _ vx e sg]
    by (auto simp: load_legacy_registry_json_def rbind_Inr_iff split: if_splits)
  then obtain loaded where l: "registry_load L w ls ''registry'' cvms_default = Inr loaded"
      "rg_entries m = bt_extend [] (rg_entries loaded)"
    using m(1) by (auto simp: m0_def rbind_Inr_iff split: if_splits)
  then obtain fs where fs: "ls ''registry'' = Listed fs" "load_files L w ''registry'' cvms_default fs [] = Inr (rg_entries loaded)"
    using e by (auto simp: registry_load_def rbind_Inr_iff bt_extend_def split: dir_listing.splits)
  have "bt_get (rg_entries loaded) vx = Some (e, sg)"
    using e l(2) map_of_rev_ok[OF load_files_ok[OF fs(2) bt_ok_Nil]] by (simp add: bt_get_extend)
  with load_files_backed[OF fs(2)] fs(1) show ?thesis by auto
qed

text \<open>
  C24: the registry says \<open>Verified\<close> of an entry only on a signature. When the default registry reports
  an entry as verified for a measurement, a JSON file of the registry directory holds that entry under
  that measurement, and the sidecar beside it carries a signature that one of the pinned identities
  verifies over the exact bytes of the file; an entry of the legacy file is never verified and
  never replaces one of the directory.
\<close>

theorem registry_verified_sound:
  assumes "load_default L w ls = Inr r" "lookup r vx = Found e Verified"
  shows "\<exists>fs f body raw sc i. ls ''registry'' = Listed fs \<and> Inr f \<in> set fs \<and> file_extension f = Some ''json''
     \<and> read_to_string w (path_join ''registry'' f) = Some body \<and> de_entry L body = Some e \<and> re_value_x e = vx
     \<and> fs_read w (path_join ''registry'' f @ ''.sig'') = Inr raw \<and> sidecar_parse L raw = Some sc
     \<and> i \<in> set (identities cvms_default) \<and> verify_against L i body sc"
proof -
  have "bt_get (rg_entries r) vx = Some (e, Verified)" using assms(2) by (auto simp: lookup_def split: option.splits prod.splits)
  from load_default_backed[OF assms(1) this] obtain fs f body where
    "ls ''registry'' = Listed fs" "Inr f \<in> set fs" "file_extension f = Some ''json''"
    "read_to_string w (path_join ''registry'' f) = Some body" "de_entry L body = Some e" "re_value_x e = vx"
    "check_sidecar L w (path_join ''registry'' f) body cvms_default = Inr Verified"
    by (auto simp: backed_by_def)
  with check_sidecar_verified[OF this(7)] show ?thesis by blast
qed

text \<open>
  C31: a keyless signature is bound to no certificate authority. Whoever makes a certificate with a key
  of their own, naming the pinned issuer and subject in its extensions, and signs an entry with
  that key, has a sidecar the default trust root verifies: who issued the certificate is not looked
  at.
\<close>

theorem self_issued_certificate_verifies:
  assumes "sig_law L"
    and "pem_to_der L pem = Some der" "cert_from_der L der = Some cert" "subject_public_key_info cert = Some spki"
    and "spki_from_der L spki = Some (''1.3.101.112'', Some (ed_public L sk))"
    and "extensions cert = Some exts" "(''2.5.29.17'', san) \<in> set exts"
      "san_uris L san = Some [''https://github.com/maceip/cvm-agent/.github/workflows/registry-sign.yml@refs/heads/main'']"
    and "(''1.3.6.1.4.1.57264.1.1'', ''https://token.actions.githubusercontent.com'') \<in> set exts"
    and "fs_read w (p @ ''.sig'') = Inr raw"
    and "sidecar_parse L raw = Some \<lparr>sc_sig = ed_sign L sk body, sc_cert_pem = Some pem\<rparr>"
  shows "check_sidecar L w p body cvms_default = Inr Verified"
proof -
  let ?uri = "''https://github.com/maceip/cvm-agent/.github/workflows/registry-sign.yml@refs/heads/main''"
  have lit: "CHR ''*'' \<notin> set v \<Longrightarrow> glob v v" for v by (induction v) (auto intro: glob.intros)
  have "glob_match ?uri ?uri" unfolding glob_match_iff by (rule lit) simp
  then have "ext_san_ok L ?uri (''2.5.29.17'', san)" using assms(8) by (simp add: ext_san_ok_def)
  moreover have "utf8_valid ''https://token.actions.githubusercontent.com''" by code_simp
  then have "ext_issuer_ok L ''https://token.actions.githubusercontent.com''
      (''1.3.6.1.4.1.57264.1.1'', ''https://token.actions.githubusercontent.com'')" by (simp add: ext_issuer_ok_def)
  ultimately have "cert_identity_matches L cert ''https://token.actions.githubusercontent.com'' ?uri"
    using assms(6,7,9) by (auto simp: cert_identity_matches_def list_ex_iff)
  moreover have "verify_sig_with_spki L spki body (ed_sign L sk body)"
    using assms(1,5) by (simp add: verify_sig_with_spki_def verify_ed25519_def sig_law_def)
  moreover have "fs_exists w (p @ ''.sig'')" using assms(10) by (auto simp: fs_exists_def fs_read_def res_simps split: if_splits)
  ultimately show ?thesis
    using assms(2-4,10,11) by (simp add: check_sidecar_def Let_def cvms_default_def trust_root_with_def trust_root_empty_def)
qed

subsection \<open>A reference instance\<close>

definition ref_reg_entry :: reg_entry where
  "ref_reg_entry = \<lparr>re_value_x = ''vx'', re_source_commit = None,
     re_platform_measurements = \<lparr>nitro_pcr0 = None, tdx_mrtd = None, snp_measurement = None\<rparr>,
     re_status = Recommended, re_approved_at = ''2026'', re_deprecated_at = None, re_revoked_at = None, re_notes = []\<rparr>"

definition ref_pem :: str where
  "ref_pem = ''-----BEGIN CERTIFICATE-----'' @ [CHR 0x0A] @ ''64'' @ [CHR 0x0A] @ ''-----END CERTIFICATE-----''"

definition ref_cert :: x509_cert where
  "ref_cert = \<lparr>subject_public_key_info = Some ''spki'',
     extensions = Some [(''2.5.29.17'', ''san''), (''1.3.6.1.4.1.57264.1.1'', ''https://token.actions.githubusercontent.com'')]\<rparr>"

definition ref_reg :: reg_lib where
  "ref_reg = lib.extend ref_lib (reg_lib.fields (\<lambda>_. Some ref_reg_entry)
     (\<lambda>_. Some (ref_hex (ed_sign ref_lib ''mallory'' ''body''), Some ref_pem))
     (\<lambda>_. Some (''1.3.101.112'', Some (ed_public ref_lib ''mallory''))) (\<lambda>_. Some ref_cert)
     (\<lambda>_. Some [''https://github.com/maceip/cvm-agent/.github/workflows/registry-sign.yml@refs/heads/main''])
     (\<lambda>_. None) (\<lambda>_ _ _. False))"

definition ref_reg_fs :: fs where
  "ref_reg_fs = \<lparr>files = [(''registry/a.json'', ''body''), (''registry/a.json.sig'', ''{'')], faulty = (\<lambda>_. False)\<rparr>"

definition ref_reg_ls :: "str \<Rightarrow> dir_listing" where
  "ref_reg_ls d = Listed [Inr ''a.json'']"

theorem registry_verified_sound_witness:
  "\<exists>r. load_default ref_reg ref_reg_fs ref_reg_ls = Inr r \<and> lookup r ''vx'' = Found ref_reg_entry Verified
     \<and> (\<exists>f body. file_extension f = Some ''json'' \<and> read_to_string ref_reg_fs (path_join ''registry'' f) = Some body
          \<and> de_entry ref_reg body = Some ref_reg_entry)"
proof -
  have "\<not> Option.is_none (res_ok (load_default ref_reg ref_reg_fs ref_reg_ls))" by code_simp
  then obtain r where r: "load_default ref_reg ref_reg_fs ref_reg_ls = Inr r"
    by (cases "load_default ref_reg ref_reg_fs ref_reg_ls") auto
  have "map_option (\<lambda>r. lookup r ''vx'') (res_ok (load_default ref_reg ref_reg_fs ref_reg_ls)) = Some (Found ref_reg_entry Verified)"
    by code_simp
  with r have l: "lookup r ''vx'' = Found ref_reg_entry Verified" by simp
  from registry_verified_sound[OF r l] r l show ?thesis by blast
qed

theorem self_issued_certificate_verifies_witness:
  "check_sidecar ref_reg ref_reg_fs ''registry/a.json'' ''body'' cvms_default = Inr Verified"
proof -
  have law: "sig_law ref_reg" by (simp add: sig_law_def ref_reg_def reg_lib.fields_def lib.extend_def) (use ref_lib_sig_law in \<open>simp add: sig_law_def\<close>)
  have 1: "pem_to_der ref_reg ref_pem = Some ''d''" by code_simp
  have 2: "cert_from_der ref_reg ''d'' = Some ref_cert" "subject_public_key_info ref_cert = Some ''spki''"
    "spki_from_der ref_reg ''spki'' = Some (''1.3.101.112'', Some (ed_public ref_reg ''mallory''))"
    "san_uris ref_reg ''san'' = Some [''https://github.com/maceip/cvm-agent/.github/workflows/registry-sign.yml@refs/heads/main'']"
    by (simp_all add: ref_reg_def reg_lib.fields_def lib.extend_def ref_cert_def)
  obtain exts where e: "extensions ref_cert = Some exts" "(''2.5.29.17'', ''san'') \<in> set exts"
    "(''1.3.6.1.4.1.57264.1.1'', ''https://token.actions.githubusercontent.com'') \<in> set exts"
    by (simp add: ref_cert_def)
  have s: "sidecar_parse ref_reg ''{'' = Some \<lparr>sc_sig = ed_sign ref_reg ''mallory'' ''body'', sc_cert_pem = Some ref_pem\<rparr>"
    by code_simp
  have f: "fs_read ref_reg_fs (''registry/a.json'' @ ''.sig'') = Inr ''{''" by code_simp
  from self_issued_certificate_verifies[OF law 1 2(1-3) e(1,2) 2(4) e(3) f s] show ?thesis .
qed

end
