(* ===== verification/Build_Tree.thy ===== *)
theory Build_Tree
  imports Registry
begin

section \<open>Source trees and the build workspace (helpers of \<open>src/main.rs\<close>)\<close>

text \<open>
  An attested build freezes its source: the tree is copied, without the entries that do not count
  for its identity, into a workspace where every file and directory is read-only. A tree is here a
  nested datatype with what the source looks at: the contents and permissions of files, the
  entries of directories in the order \<open>read_dir\<close> lists them, and symbolic links with what they resolve to.
  The names left out (\<open>value_x::SKIP_NAMES\<close>) and the paths on which I/O fails are parameters.
\<close>

subsection \<open>Trees\<close>

datatype node =
    NFile bytes (executable: bool) (readonly: bool)
  | NDir (entries: "(str \<times> node) list") (readonly: bool)
  | NLink "node option"
  | NOther

text \<open>What a path resolves to once symbolic links are followed; \<open>None\<close> for a dangling link.\<close>

fun follow :: "node \<Rightarrow> node option" where
  "follow (NLink None) = None"
| "follow (NLink (Some n)) = follow n"
| "follow n = Some n"

definition child :: "node option \<Rightarrow> str \<Rightarrow> node option" where
  "child d name = (case Option.bind d follow of Some (NDir es _) \<Rightarrow> map_of es name | _ \<Rightarrow> None)"

definition path_exists :: "node option \<Rightarrow> bool" where
  "path_exists n \<longleftrightarrow> Option.bind n follow \<noteq> None"

definition file_bytes :: "node option \<Rightarrow> bytes option" where
  "file_bytes n = (case Option.bind n follow of Some (NFile b _ _) \<Rightarrow> Some b | _ \<Rightarrow> None)"

subsection \<open>Freezing the source\<close>

datatype copy_error = CopyIo str | SymlinkInSource str | NotADirectory str

definition name_str :: "str \<Rightarrow> str" where
  "name_str name = (if utf8_valid name then name else [])"

text \<open>The loop of \<open>copy_dir_readonly\<close>: the entries copied, directories by recursion.\<close>

function copy_entries ::
    "str list \<Rightarrow> (str \<Rightarrow> bool) \<Rightarrow> str \<Rightarrow> (str \<times> node) list \<Rightarrow> copy_error + (str \<times> node) list" where
  "copy_entries skip io p [] = Inr []"
| "copy_entries skip io p ((name, n) # rest) =
     (let q = path_join p name in
      if name_str name \<in> set skip then copy_entries skip io p rest
      else if io q then Inl (CopyIo q)
      else case n of
        NLink _ \<Rightarrow> Inl (SymlinkInSource q)
      | NDir es _ \<Rightarrow>
          rbind (copy_entries skip io q es) (\<lambda>es'.
          rbind (copy_entries skip io p rest) (\<lambda>rest'. Inr ((name, NDir es' True) # rest')))
      | NFile b x _ \<Rightarrow>
          rbind (copy_entries skip io p rest) (\<lambda>rest'. Inr ((name, NFile b x True) # rest'))
      | NOther \<Rightarrow> copy_entries skip io p rest)"
  by pat_completeness auto
termination
  by (relation "measure (\<lambda>(skip, io, p, es). size_list (size_prod (\<lambda>_. 0) size) es)") auto

definition copy_dir_readonly ::
    "str list \<Rightarrow> (str \<Rightarrow> bool) \<Rightarrow> str \<Rightarrow> node option \<Rightarrow> copy_error + node" where
  "copy_dir_readonly skip io src n =
     (if io src then Inl (CopyIo src)
      else case Option.bind n follow of
        Some (NDir es _) \<Rightarrow> rbind (copy_entries skip io src es) (\<lambda>es'. Inr (NDir es' True))
      | _ \<Rightarrow> Inl (NotADirectory src))"

subsection \<open>What to build and what was built\<close>

definition detect_build_cmd :: "node option \<Rightarrow> str" where
  "detect_build_cmd dir =
     (if path_exists (child dir ''Cargo.toml'') then ''cargo build --release''
      else if path_exists (child dir ''Dockerfile'') then ''docker build -t cvm-build .''
      else if path_exists (child dir ''package.json'') then ''npm ci && npm run build''
      else if path_exists (child dir ''Makefile'') then ''make''
      else if path_exists (child dir ''go.mod'') then ''go build ./...''
      else ''make'')"

definition is_artifact :: "str \<times> node \<Rightarrow> bool" where
  "is_artifact e = (case follow (snd e) of
       Some (NFile _ x _) \<Rightarrow> x \<and> file_extension (fst e) \<noteq> Some ''d'' \<and> file_extension (fst e) \<noteq> Some ''rmeta''
     | _ \<Rightarrow> False)"

definition profile_artifact :: "node option \<Rightarrow> str \<Rightarrow> node option" where
  "profile_artifact build profile =
     (case Option.bind (child build profile) follow of
        Some (NDir es _) \<Rightarrow> map_option snd (find is_artifact es)
      | _ \<Rightarrow> None)"

definition find_artifact :: "node option \<Rightarrow> node option \<Rightarrow> node option" where
  "find_artifact build src =
     (case List.map_filter (profile_artifact build) [''release'', ''debug''] of
        n # _ \<Rightarrow> Some n
      | [] \<Rightarrow>
         (case filter (\<lambda>c. path_exists (child src c)) [''dist'', ''build'', ''out'', ''bin''] of
            c # _ \<Rightarrow> child src c
          | [] \<Rightarrow> build))"

subsection \<open>What the frozen copy holds\<close>

text \<open>A node at a path of names, through real directories only.\<close>

inductive holds :: "(str \<times> node) list \<Rightarrow> str list \<Rightarrow> node \<Rightarrow> bool" where
  here: "(name, n) \<in> set es \<Longrightarrow> holds es [name] n"
| below: "(name, NDir ds ro) \<in> set es \<Longrightarrow> holds ds ps n \<Longrightarrow> holds es (name # ps) n"

inductive_cases holds_Nil: "holds es [] n"
inductive_simps holds_Cons: "holds es (name # ps) n"

lemma holds_nonempty: "holds es ps n \<Longrightarrow> ps \<noteq> []"
  by (erule holds.cases) auto

text \<open>The entries of a copied directory.\<close>

lemma copy_entries_mem:
  assumes "copy_entries skip io p es = Inr es'"
  shows "(name, NFile b x ro) \<in> set es' \<longleftrightarrow> ro \<and> name_str name \<notin> set skip \<and> (\<exists>r. (name, NFile b x r) \<in> set es)"
    and "(name, NDir ds' ro) \<in> set es' \<longleftrightarrow> ro \<and> name_str name \<notin> set skip
       \<and> (\<exists>ds r. (name, NDir ds r) \<in> set es \<and> copy_entries skip io (path_join p name) ds = Inr ds')"
    and "(name, NLink t) \<notin> set es'" "(name, NOther) \<notin> set es'"
    and "(name, NLink t) \<in> set es \<Longrightarrow> name_str name \<in> set skip"
    and "(name, NDir ds r) \<in> set es \<Longrightarrow> name_str name \<notin> set skip
       \<Longrightarrow> \<exists>ds'. copy_entries skip io (path_join p name) ds = Inr ds'"
proof -
  have "((name, NFile b x ro) \<in> set es' \<longleftrightarrow> ro \<and> name_str name \<notin> set skip \<and> (\<exists>r. (name, NFile b x r) \<in> set es))
     \<and> ((name, NDir ds' ro) \<in> set es' \<longleftrightarrow> ro \<and> name_str name \<notin> set skip
       \<and> (\<exists>ds r. (name, NDir ds r) \<in> set es \<and> copy_entries skip io (path_join p name) ds = Inr ds'))
     \<and> (name, NLink t) \<notin> set es' \<and> (name, NOther) \<notin> set es'
     \<and> ((name, NLink t) \<in> set es \<longrightarrow> name_str name \<in> set skip)
     \<and> ((name, NDir ds r) \<in> set es \<longrightarrow> name_str name \<notin> set skip \<longrightarrow> (\<exists>ds'. copy_entries skip io (path_join p name) ds = Inr ds'))"
    using assms
  proof (induction es arbitrary: es')
    case (Cons e es)
    obtain n nd where e: "e = (n, nd)" by (cases e)
    show ?case
    proof (cases "name_str n \<in> set skip")
      case True
      then have "copy_entries skip io p es = Inr es'" using Cons.prems e by simp
      from Cons.IH[OF this] True show ?thesis unfolding e by auto
    next
      case False
      show ?thesis
      proof (cases nd)
        case (NFile c y ro')
        then obtain rest where "copy_entries skip io p es = Inr rest" "es' = (n, NFile c y True) # rest"
          using Cons.prems e False by (auto simp: Let_def res_simps split: if_splits)
        with Cons.IH[of rest] NFile False show ?thesis unfolding e by auto
      next
        case (NDir cs ro')
        then obtain cs' rest where "copy_entries skip io (path_join p n) cs = Inr cs'" "copy_entries skip io p es = Inr rest"
            "es' = (n, NDir cs' True) # rest"
          using Cons.prems e False by (auto simp: Let_def res_simps split: if_splits)
        with Cons.IH[of rest] NDir False show ?thesis unfolding e by auto
      next
        case (NLink t')
        then show ?thesis using Cons.prems e False by (auto simp: Let_def split: if_splits)
      next
        case NOther
        then have "copy_entries skip io p es = Inr es'" using Cons.prems e False by (auto simp: Let_def split: if_splits)
        from Cons.IH[OF this] NOther show ?thesis unfolding e by auto
      qed
    qed
  qed auto
  then show "(name, NFile b x ro) \<in> set es' \<longleftrightarrow> ro \<and> name_str name \<notin> set skip \<and> (\<exists>r. (name, NFile b x r) \<in> set es)"
    "(name, NDir ds' ro) \<in> set es' \<longleftrightarrow> ro \<and> name_str name \<notin> set skip
       \<and> (\<exists>ds r. (name, NDir ds r) \<in> set es \<and> copy_entries skip io (path_join p name) ds = Inr ds')"
    "(name, NLink t) \<notin> set es'" "(name, NOther) \<notin> set es'"
    "(name, NLink t) \<in> set es \<Longrightarrow> name_str name \<in> set skip"
    "(name, NDir ds r) \<in> set es \<Longrightarrow> name_str name \<notin> set skip
       \<Longrightarrow> \<exists>ds'. copy_entries skip io (path_join p name) ds = Inr ds'"
    by blast+
qed

lemma copy_entries_holds:
  "copy_entries skip io p es = Inr es' \<Longrightarrow>
   holds es' ps (NFile b x ro) \<longleftrightarrow>
     ro \<and> list_all (\<lambda>name. name_str name \<notin> set skip) ps \<and> (\<exists>r. holds es ps (NFile b x r))"
proof (induction ps arbitrary: p es es')
  case Nil
  then show ?case by (auto elim: holds_Nil)
next
  case (Cons name ps)
  show ?case
  proof (cases "ps = []")
    case True
    then show ?thesis
      using copy_entries_mem(1)[OF Cons.prems, of name b x ro] by (auto simp: holds_Cons elim: holds_Nil)
  next
    case False
    have "holds es' (name # ps) (NFile b x ro) \<longleftrightarrow> (\<exists>ds' r. (name, NDir ds' r) \<in> set es' \<and> holds ds' ps (NFile b x ro))"
      using False by (auto simp: holds_Cons)
    also have "\<dots> \<longleftrightarrow> name_str name \<notin> set skip \<and> (\<exists>ds r ds'. (name, NDir ds r) \<in> set es
        \<and> copy_entries skip io (path_join p name) ds = Inr ds' \<and> holds ds' ps (NFile b x ro))"
      using copy_entries_mem(2)[OF Cons.prems] by blast
    also have "\<dots> \<longleftrightarrow> name_str name \<notin> set skip \<and> (\<exists>ds r. (name, NDir ds r) \<in> set es
        \<and> ro \<and> list_all (\<lambda>name. name_str name \<notin> set skip) ps \<and> (\<exists>r. holds ds ps (NFile b x r)))"
      using Cons.IH copy_entries_mem(6)[OF Cons.prems] by blast
    finally show ?thesis using False by (auto simp: holds_Cons)
  qed
qed

text \<open>The same for directories, and the links that a copy does not get past.\<close>

lemma copy_entries_dirs:
  "copy_entries skip io p es = Inr es' \<Longrightarrow>
   (\<exists>ds' ro. holds es' ps (NDir ds' ro)) \<longleftrightarrow>
     list_all (\<lambda>name. name_str name \<notin> set skip) ps \<and> (\<exists>ds r. holds es ps (NDir ds r))"
proof (induction ps arbitrary: p es es')
  case Nil
  then show ?case by (auto elim: holds_Nil)
next
  case (Cons name ps)
  show ?case
  proof (cases "ps = []")
    case True
    have one: "holds xs [name] n \<longleftrightarrow> (name, n) \<in> set xs" for xs n by (auto simp: holds_Cons elim: holds_Nil)
    have "(\<exists>ds' ro. (name, NDir ds' ro) \<in> set es') \<longleftrightarrow> name_str name \<notin> set skip
        \<and> (\<exists>ds r. (name, NDir ds r) \<in> set es \<and> (\<exists>ds'. copy_entries skip io (path_join p name) ds = Inr ds'))"
      unfolding copy_entries_mem(2)[OF Cons.prems] by auto
    also have "\<dots> \<longleftrightarrow> name_str name \<notin> set skip \<and> (\<exists>ds r. (name, NDir ds r) \<in> set es)"
      using copy_entries_mem(6)[OF Cons.prems, of name] by blast
    finally show ?thesis unfolding True one by simp
  next
    case False
    have ih: "(\<exists>cs'. copy_entries skip io (path_join p name) cs = Inr cs' \<and> (\<exists>ds' ro. holds cs' ps (NDir ds' ro)))
        \<longleftrightarrow> list_all (\<lambda>name. name_str name \<notin> set skip) ps \<and> (\<exists>ds r. holds cs ps (NDir ds r))"
      if sub: "(name, NDir cs r) \<in> set es" "name_str name \<notin> set skip" for cs r
    proof -
      obtain cs' where c: "copy_entries skip io (path_join p name) cs = Inr cs'"
        using copy_entries_mem(6)[OF Cons.prems sub] by blast
      then show ?thesis using Cons.IH[OF c] by simp
    qed
    have "(\<exists>ds' ro. holds es' (name # ps) (NDir ds' ro))
        \<longleftrightarrow> (\<exists>cs' r. (name, NDir cs' r) \<in> set es' \<and> (\<exists>ds' ro. holds cs' ps (NDir ds' ro)))"
      using False by (auto simp: holds_Cons)
    also have "\<dots> \<longleftrightarrow> name_str name \<notin> set skip \<and> (\<exists>cs r cs'. (name, NDir cs r) \<in> set es
        \<and> copy_entries skip io (path_join p name) cs = Inr cs' \<and> (\<exists>ds' ro. holds cs' ps (NDir ds' ro)))"
      using copy_entries_mem(2)[OF Cons.prems] by blast
    also have "\<dots> \<longleftrightarrow> name_str name \<notin> set skip \<and> (\<exists>cs r. (name, NDir cs r) \<in> set es
        \<and> list_all (\<lambda>name. name_str name \<notin> set skip) ps \<and> (\<exists>ds r. holds cs ps (NDir ds r)))"
      using ih by blast
    finally show ?thesis using False by (auto simp: holds_Cons)
  qed
qed

lemma copy_entries_no_link:
  "holds es ps n \<Longrightarrow> copy_entries skip io p es = Inr es' \<Longrightarrow> list_all (\<lambda>name. name_str name \<notin> set skip) ps \<Longrightarrow> n \<noteq> NLink t"
proof (induction arbitrary: p es' rule: holds.induct)
  case (here name n es)
  then show ?case using copy_entries_mem(5)[OF here.prems(1), of name] by auto
next
  case (below name ds ro es ps n)
  then show ?case using copy_entries_mem(6)[OF below.prems(1), of name ds ro] by auto
qed

lemma copy_entries_plain:
  "holds es' ps n \<Longrightarrow> copy_entries skip io p es = Inr es' \<Longrightarrow> \<exists>b x ds. n = NFile b x True \<or> n = NDir ds True"
proof (induction arbitrary: p es rule: holds.induct)
  case (here name n es')
  then show ?case
    using copy_entries_mem(1,3,4)[OF here.prems, of name] copy_entries_mem(2)[OF here.prems, of name]
    by (cases n) auto
next
  case (below name ds ro es' ps n)
  then show ?case using copy_entries_mem(2)[OF below.prems, of name ds ro] by blast
qed

text \<open>
  C30: the frozen copy is the source. Once \<open>copy_dir_readonly\<close> succeeds, a file is in the copy exactly when
  it is at the same path in the source and no name on the path is one the source's identity leaves out,
  with the same contents and executable bit; a directory is in the copy, empty or not, exactly when
  it is in the source at such a path; the source has no link at such a path, a link makes the
  copy fail; and whatever the copy holds is a read-only file or directory, so no link leads out of it.
  Devices, sockets and pipes are left out.
\<close>

theorem frozen_copy_faithful:
  assumes "copy_dir_readonly skip io src n = Inr frozen"
  shows "\<exists>es w es'. Option.bind n follow = Some (NDir es w) \<and> frozen = NDir es' True
     \<and> (\<forall>ps b x ro. holds es' ps (NFile b x ro) \<longleftrightarrow>
          ro \<and> list_all (\<lambda>name. name_str name \<notin> set skip) ps \<and> (\<exists>r. holds es ps (NFile b x r)))
     \<and> (\<forall>ps. (\<exists>ds ro. holds es' ps (NDir ds ro)) \<longleftrightarrow>
          list_all (\<lambda>name. name_str name \<notin> set skip) ps \<and> (\<exists>ds r. holds es ps (NDir ds r)))
     \<and> (\<forall>ps t. list_all (\<lambda>name. name_str name \<notin> set skip) ps \<longrightarrow> \<not> holds es ps (NLink t))
     \<and> (\<forall>ps n. holds es' ps n \<longrightarrow> (\<exists>b x ds. n = NFile b x True \<or> n = NDir ds True))"
proof -
  obtain es ro es' where d: "Option.bind n follow = Some (NDir es ro)" "copy_entries skip io src es = Inr es'" "frozen = NDir es' True"
    using assms by (auto simp: copy_dir_readonly_def res_simps split: if_splits option.splits node.splits)
  have "holds es' ps (NFile b x ro) \<longleftrightarrow>
      ro \<and> list_all (\<lambda>name. name_str name \<notin> set skip) ps \<and> (\<exists>r. holds es ps (NFile b x r))" for ps b x ro
    by (rule copy_entries_holds[OF d(2)])
  moreover have "(\<exists>ds ro. holds es' ps (NDir ds ro)) \<longleftrightarrow>
      list_all (\<lambda>name. name_str name \<notin> set skip) ps \<and> (\<exists>ds r. holds es ps (NDir ds r))" for ps
    by (rule copy_entries_dirs[OF d(2)])
  moreover have "\<not> holds es ps (NLink t)" if "list_all (\<lambda>name. name_str name \<notin> set skip) ps" for ps t
    using copy_entries_no_link[OF _ d(2) that] by blast
  moreover have "\<exists>b x ds. n = NFile b x True \<or> n = NDir ds True" if "holds es' ps n" for ps n
    by (rule copy_entries_plain[OF that d(2)])
  ultimately show ?thesis using d(1,3) by (intro exI[of _ es] exI[of _ ro] exI[of _ es']) simp
qed

theorem frozen_copy_faithful_witness:
  "\<exists>es'. copy_dir_readonly [''.git''] (\<lambda>_. False) ''s''
       (Some (NDir [(''.git'', NDir [(''x'', NLink None)] False), (''e'', NDir [] False), (''a'', NFile ''b'' True False)] False))
       = Inr (NDir es' True)
     \<and> holds es' [''a''] (NFile ''b'' True True) \<and> \<not> holds es' [''a''] (NFile ''b'' True False) \<and> (\<exists>ds ro. holds es' [''e''] (NDir ds ro))"
proof -
  let ?src = "[(''.git'', NDir [(''x'', NLink None)] False), (''e'', NDir [] False), (''a'', NFile ''b'' True False)]"
  have c: "copy_dir_readonly [''.git''] (\<lambda>_. False) ''s'' (Some (NDir ?src False))
      = Inr (NDir [(''e'', NDir [] True), (''a'', NFile ''b'' True True)] True)"
    by code_simp
  have n: "list_all (\<lambda>name. name_str name \<notin> set [''.git'']) [''e'']" by code_simp
  have h: "holds ?src [''e''] (NDir [] False)" by (auto intro: holds.here)
  from frozen_copy_faithful[OF c] n h
  have "\<not> holds [(''e'', NDir [] True), (''a'', NFile ''b'' True True)] [''a''] (NFile ''b'' True False)"
    "\<exists>ds ro. holds [(''e'', NDir [] True), (''a'', NFile ''b'' True True)] [''e''] (NDir ds ro)"
    unfolding node.inject by (blast, force)
  with c show ?thesis by (auto intro: holds.here)
qed

end
