(* ===== verification/Attested_Build.thy ===== *)
theory Attested_Build
  imports Build_Tree Llm_Attested
begin

section \<open>Attested build, runtime and verification (\<open>src/main.rs\<close>)\<close>

text \<open>
  The commands of the \<open>cvm\<close> program. \<open>build\<close> freezes a source tree, runs the build on the frozen copy,
  and has the hardware quote the binding of a token that names source, artifact and identity
  (value X); \<open>run\<close> verifies such a token at boot, re-hashes what is on disk and serves a certificate that
  carries a token of its own chained to the first; \<open>enclave\<close> does both at once; \<open>check\<close> verifies a served
  certificate, \<open>verify\<close> an attestation file, and \<open>merge\<close> combines such files.

  The hash of a tree, the token's constructors, quote collection and verification, certificates and
  certificate transparency belong to the external \<open>unified-quote\<close> crate and are parameters (\<open>cvm_lib\<close>).
  The trees on disk, the processes that are run (which may change the workspace as they like), the
  detected hardware, the TLS peer and the clock are inputs.
\<close>

subsection \<open>Parameters and inputs\<close>

text \<open>\<open>serde_cbor::Value\<close>, as far as it is taken apart.\<close>

datatype cbor =
    CTag nat cbor
  | CArr "cbor list"
  | CBytes bytes
  | CMap "(cbor \<times> cbor) list"
  | CText str
  | CInt int
  | CAny

record build_components =
  bc_platform :: platform
  bc_value_x :: bytes
  bc_source_hash :: bytes
  bc_artifact_hash :: bytes
  bc_platform_measurement :: bytes
  bc_platform_quote :: bytes

record sct_report =
  sct_failed :: "str list"
  sct_verified :: "str list"
  sct_unpinned :: "str list"

record cvm_lib = reg_lib +
  tree_hash :: "node option \<Rightarrow> str + bytes"
  SKIP_NAMES :: "str list"
  from_build :: "build_components \<Rightarrow> eat_token"
  platform_to_u8 :: "platform \<Rightarrow> u8"
  has_previous :: "eat_token \<Rightarrow> bool"
  set_previous :: "bytes \<Rightarrow> eat_token \<Rightarrow> eat_token"
  cbor_value :: "bytes \<Rightarrow> cbor option"
  domain_from_value_x :: "bytes \<Rightarrow> str"
  spki_hash_of :: "bytes \<Rightarrow> bytes"
  make_attested_cert :: "bytes \<Rightarrow> str \<Rightarrow> bytes \<Rightarrow> str + bytes"
  extract_eat_from_cert :: "bytes \<Rightarrow> str + bytes option"
  spki_hash_of_cert :: "bytes \<Rightarrow> str + bytes"
  extract_scts_from_cert :: "bytes \<Rightarrow> str + bytes list"
  verify_scts_in_cert :: "bytes \<Rightarrow> bytes \<Rightarrow> str + sct_report"
  server_name_ok :: "str \<Rightarrow> bool"

record tee_evidence =
  te_platform :: platform
  raw_quote :: bytes
  kms_private_key :: "bytes option"

record tpm_attestation =
  tpm_method :: str
  tpm_digest :: bytes
  tpm_pcrs :: "bytes list"
  tpm_doc :: "bytes option"

datatype proc = CargoFetch | Shell str

record workspace =
  ws_src :: "node option"
  ws_build :: "node option"
  ws_deps :: "node option"

record git_outcome =
  git_in_repo :: bool
  git_added :: bool
  git_committed :: bool

record cvm_in =
  ci_tree :: "str \<Rightarrow> node option"
  ci_io :: "str \<Rightarrow> bool"
  ci_workspace :: bool
  ci_tee :: "str + platform"
  ci_evidence :: "bytes \<Rightarrow> str + tee_evidence"
  ci_tpm :: "(bytes \<Rightarrow> str + tpm_attestation) option"
  ci_proc :: "proc \<Rightarrow> workspace \<Rightarrow> (str + bool) \<times> workspace"
  ci_git :: git_outcome
  ci_keypair :: "str + bytes"
  ci_now :: u64

datatype cvm_error =
    Usage str
  | NoTee str
  | TreeHash str
  | NoWorkspace
  | Freeze copy_error
  | RatchetBroken
  | ProcessFailed proc
  | RatchetViolated
  | ReadFailed str
  | QuoteCollect str
  | BindingChanged
  | CvmIo str
  | JsonEncode
  | EatEncode
  | StageDecode str
  | StagePlatform
  | StageQuote str
  | ValueXDrift
  | KeyPair str
  | CertBuild str
  | CvmPanic

subsection \<open>Quotes\<close>

definition pcr0_of :: "(cbor \<times> cbor) list \<Rightarrow> bytes list" where
  "pcr0_of pcrs = List.map_filter (\<lambda>(i, v). case (i, v) of (CInt n, CBytes b) \<Rightarrow> if n = 0 then Some b else None | _ \<Rightarrow> None) pcrs"

definition nitro_pcr0_of :: "(cbor \<times> cbor) list \<Rightarrow> bytes option" where
  "nitro_pcr0_of m =
     (case concat (map (\<lambda>(k, v). case (k, v) of
               (CText key, CMap pcrs) \<Rightarrow> if key = ''pcrs'' then pcr0_of pcrs else []
             | _ \<Rightarrow> []) m) of
        [] \<Rightarrow> None
      | b # _ \<Rightarrow> Some b)"

definition slice :: "nat \<Rightarrow> nat \<Rightarrow> 'a list \<Rightarrow> 'a list" where
  "slice a b xs = take (b - a) (drop a xs)"

fun extract_platform_measurement :: "('m) cvm_lib_scheme \<Rightarrow> bytes \<Rightarrow> platform \<Rightarrow> bytes option" where
  "extract_platform_measurement L q Tdx =
     (if 632 \<le> length q then Some (slice 136 184 (slice 48 632 q)) else None)"
| "extract_platform_measurement L q SevSnp =
     (if 0xC0 \<le> length q then Some (slice 0x90 0xC0 q) else None)"
| "extract_platform_measurement L q Nitro =
     (case cbor_value L q of
        Some (CTag t (CArr arr)) \<Rightarrow>
          (if t = 18 \<and> 2 < length arr then
             (case arr ! 2 of
                CBytes payload \<Rightarrow> (case cbor_value L payload of Some (CMap m) \<Rightarrow> nitro_pcr0_of m | _ \<Rightarrow> None)
              | _ \<Rightarrow> None)
           else None)
      | _ \<Rightarrow> None)"

definition verify_quote_binding :: "bytes \<Rightarrow> bytes \<Rightarrow> str \<Rightarrow> bool" where
  "verify_quote_binding q binding platform =
     (if platform = ''Tdx'' then 632 \<le> length q \<and> take 32 (slice (48 + 520) (48 + 584) q) = take 32 binding
      else if platform = ''SevSnp'' then 0x90 \<le> length q \<and> take 32 (slice 0x50 0x90 q) = take 32 binding
      else if platform = ''Nitro'' then q \<noteq> []
      else False)"

fun platform_debug :: "platform \<Rightarrow> str" where
  "platform_debug Nitro = ''Nitro''"
| "platform_debug SevSnp = ''SevSnp''"
| "platform_debug Tdx = ''Tdx''"

definition platform_named :: "str \<Rightarrow> platform option" where
  "platform_named s = (if s = ''Tdx'' then Some Tdx else if s = ''SevSnp'' then Some SevSnp
     else if s = ''Nitro'' then Some Nitro else None)"

text \<open>The report data a quote is collected over: the binding, then the first half of value X.\<close>

definition report_data :: "bytes \<Rightarrow> bytes \<Rightarrow> bytes" where
  "report_data binding value_x = binding @ take 32 value_x"

subsection \<open>Build\<close>

record build_args =
  ba_source :: "str option"
  ba_cmd :: "str option"
  ba_output :: str

fun build_arg_loop :: "str list \<Rightarrow> build_args \<Rightarrow> build_args" where
  "build_arg_loop [] a = a"
| "build_arg_loop [f] a =
     (if f = ''--cmd'' then a\<lparr>ba_cmd := Some []\<rparr>
      else if f = ''--output'' then a
      else if ba_source a = None then a\<lparr>ba_source := Some f\<rparr> else a)"
| "build_arg_loop (f # v # rest) a =
     (if f = ''--cmd'' then build_arg_loop rest (a\<lparr>ba_cmd := Some v\<rparr>)
      else if f = ''--output'' then build_arg_loop rest (a\<lparr>ba_output := v\<rparr>)
      else build_arg_loop (v # rest) (if ba_source a = None then a\<lparr>ba_source := Some f\<rparr> else a))"

definition parse_build_args :: "str list \<Rightarrow> build_args" where
  "parse_build_args args = build_arg_loop args \<lparr>ba_source = None, ba_cmd = None, ba_output = ''./out''\<rparr>"

text \<open>The ratchet: the source is hashed, copied read-only and hashed again.\<close>

definition freeze :: "('m) cvm_lib_scheme \<Rightarrow> cvm_in \<Rightarrow> str \<Rightarrow> cvm_error + bytes \<times> workspace" where
  "freeze L I src =
     rbind (map_err TreeHash (tree_hash L (ci_tree I src))) (\<lambda>ct.
     rbind (ensure (ci_workspace I) NoWorkspace) (\<lambda>_.
     rbind (map_err Freeze (copy_dir_readonly (SKIP_NAMES L) (ci_io I) src (ci_tree I src))) (\<lambda>frozen.
     Inr (ct, \<lparr>ws_src = Some frozen, ws_build = Some (NDir [] False), ws_deps = Some (NDir [] False)\<rparr>))))"

definition run_proc :: "cvm_in \<Rightarrow> proc \<Rightarrow> workspace \<Rightarrow> cvm_error + workspace" where
  "run_proc I p ws = (case ci_proc I p ws of (Inr True, ws') \<Rightarrow> Inr ws' | _ \<Rightarrow> Inl (ProcessFailed p))"

definition compile :: "('m) cvm_lib_scheme \<Rightarrow> cvm_in \<Rightarrow> str option \<Rightarrow> bytes \<Rightarrow> workspace \<Rightarrow> cvm_error + workspace" where
  "compile L I build_cmd ct ws0 =
     (let is_cargo = path_exists (child (ws_src ws0) ''Cargo.toml'');
          cmd = (case build_cmd of Some c \<Rightarrow> c | None \<Rightarrow> detect_build_cmd (ws_src ws0)) in
      rbind (if is_cargo \<and> build_cmd = None
             then rbind (run_proc I CargoFetch ws0) (\<lambda>ws.
                  rbind (map_err TreeHash (tree_hash L (ws_deps ws))) (\<lambda>_. Inr ws))
             else Inr ws0) (\<lambda>ws1.
      rbind (run_proc I (Shell cmd) ws1) (\<lambda>ws2.
      rbind (map_err TreeHash (tree_hash L (ws_src ws2))) (\<lambda>ct_post.
      rbind (ensure (ct = ct_post) RatchetViolated) (\<lambda>_. Inr ws2)))))"

text \<open>What a build found out: source, dependencies, artifact (with its bytes when it is a file) and value X.\<close>

record measured =
  ms_source :: bytes
  ms_deps :: "bytes option"
  ms_artifact :: bytes
  ms_artifact_bytes :: "bytes option"
  ms_value_x :: bytes

definition measure_build :: "('m) cvm_lib_scheme \<Rightarrow> bytes \<Rightarrow> workspace \<Rightarrow> cvm_error + measured" where
  "measure_build L ct ws =
     (let dt = (if path_exists (ws_deps ws)
                then (case tree_hash L (ws_deps ws) of Inr h \<Rightarrow> if h \<noteq> replicate 48 (CHR 0x00) then Some h else None | Inl _ \<Rightarrow> None)
                else None);
          art = file_bytes (find_artifact (ws_build ws) (ws_src ws)) in
      rbind (case art of Some b \<Rightarrow> Inr (sha384 L b) | None \<Rightarrow> map_err TreeHash (tree_hash L (ws_build ws))) (\<lambda>a.
      rbind (map_err TreeHash (tree_hash L (ws_src ws))) (\<lambda>x.
      Inr \<lparr>ms_source = ct, ms_deps = dt, ms_artifact = a, ms_artifact_bytes = art, ms_value_x = x\<rparr>)))"

definition build_source :: "('m) cvm_lib_scheme \<Rightarrow> cvm_in \<Rightarrow> str \<Rightarrow> str option \<Rightarrow> cvm_error + measured" where
  "build_source L I src build_cmd =
     rbind (freeze L I src) (\<lambda>(ct, ws0).
     rbind (map_err TreeHash (tree_hash L (ws_src ws0))) (\<lambda>ct_verify.
     rbind (ensure (ct = ct_verify) RatchetBroken) (\<lambda>_.
     rbind (compile L I build_cmd ct ws0) (\<lambda>ws. measure_build L ct ws))))"

definition stage_components :: "platform \<Rightarrow> bytes \<Rightarrow> bytes \<Rightarrow> bytes \<Rightarrow> build_components" where
  "stage_components p x ct a = \<lparr>bc_platform = p, bc_value_x = x, bc_source_hash = ct, bc_artifact_hash = a,
     bc_platform_measurement = [], bc_platform_quote = []\<rparr>"

text \<open>
  A quote over the token's binding, filled in: the binding of the filled token must be the one that
  was quoted.
\<close>

definition quote_token ::
    "('m) cvm_lib_scheme \<Rightarrow> cvm_in \<Rightarrow> (tee_evidence \<Rightarrow> eat_token \<Rightarrow> eat_token) \<Rightarrow> eat_token \<Rightarrow> bytes
       \<Rightarrow> cvm_error + tee_evidence \<times> eat_token" where
  "quote_token L I fill eat x =
     rbind (map_err QuoteCollect (ci_evidence I (report_data (eat_binding L eat) x))) (\<lambda>ev.
     let eat' = fill ev (eat\<lparr>platform_quote := raw_quote ev,
                  platform_measurement := opt_or (extract_platform_measurement L (raw_quote ev) (te_platform ev)) []\<rparr>) in
     rbind (ensure (eat_binding L eat' = eat_binding L eat) BindingChanged) (\<lambda>_. Inr (ev, eat')))"

definition kms_conditions :: "('m) lib_scheme \<Rightarrow> platform \<Rightarrow> bytes option \<Rightarrow> json" where
  "kms_conditions L p m =
     (let hexm = (case m of None \<Rightarrow> JNull | Some b \<Rightarrow> JStr (hex_encode L b));
          b64m = (case m of None \<Rightarrow> JNull | Some b \<Rightarrow> JStr (b64_encode L b)) in
      case p of
        Nitro \<Rightarrow> jobj [(''aws'', jobj [(''pcr0'', hexm), (''condition_keys'', jobj [(''kms:RecipientAttestation:PCR0'', hexm)])])]
      | SevSnp \<Rightarrow> jobj [(''azure'', jobj [(''launch_measurement'', hexm),
          (''maa_claims'', jobj [(''x-ms-sevsnpvm-launchmeasurement'', b64m), (''x-ms-sevsnpvm-is-debuggable'', JBool False)])])]
      | Tdx \<Rightarrow> jobj [(''gcp'', jobj [(''mrtd'', hexm),
          (''confidential_space_claims'', jobj [(''hwmodel'', JStr ''GCP_INTEL_TDX''), (''swname'', JStr ''CVM'')])])])"

definition tpm_json :: "('m) lib_scheme \<Rightarrow> tpm_attestation \<Rightarrow> json" where
  "tpm_json L t = jobj ([(''method'', JStr (tpm_method t)), (''digest'', JStr (hex_encode L (tpm_digest t))),
     (''pcrs'', jobj (map (\<lambda>(i, p). (''pcr'' @ show_nat i, JStr (hex_encode L p))) (enumerate 0 (tpm_pcrs t)))),
     (''note'', JStr ''auxiliary kernel-measurement evidence; not yet mixed into EAT binding_bytes'')]
     @ (case tpm_doc t of None \<Rightarrow> []
        | Some d \<Rightarrow> [(''attestation_document_b64'', JStr (b64_encode L d)),
           (''note'', JStr ''COSE_Sign1 signed by Nitro Hypervisor (same PKI as Nitro Enclaves). Verify against AWS Nitro root CA.'')]))"

definition tpm_evidence :: "cvm_in \<Rightarrow> platform \<Rightarrow> bytes \<Rightarrow> tpm_attestation option" where
  "tpm_evidence I p binding =
     (if p = SevSnp then (case ci_tpm I of None \<Rightarrow> None | Some collect \<Rightarrow> res_ok (collect binding)) else None)"

definition jhex :: "('m) lib_scheme \<Rightarrow> bytes option \<Rightarrow> json" where
  "jhex L b = (case b of None \<Rightarrow> JNull | Some x \<Rightarrow> JStr (hex_encode L x))"

definition build_attestation ::
    "('m) cvm_lib_scheme \<Rightarrow> u64 \<Rightarrow> u64 \<Rightarrow> measured \<Rightarrow> bytes \<Rightarrow> tpm_attestation option \<Rightarrow> tee_evidence \<Rightarrow> json" where
  "build_attestation L now seq m binding tpm ev =
     (let pm = extract_platform_measurement L (raw_quote ev) (te_platform ev) in
      jobj [(''version'', JInt 2), (''stage'', JInt 0), (''platform'', JStr (platform_debug (te_platform ev))),
        (''platform_measurement'', jhex L pm), (''source_hash'', JStr (hex_encode L (ms_source m))),
        (''dependency_hash'', jhex L (ms_deps m)), (''artifact_hash'', JStr (hex_encode L (ms_artifact m))),
        (''value_x'', JStr (hex_encode L (ms_value_x m))), (''binding'', JStr (hex_encode L binding)),
        (''quote'', JStr (hex_encode L (raw_quote ev))), (''timestamp'', JInt (uint now)),
        (''nitro_tpm'', (case tpm of None \<Rightarrow> JNull | Some t \<Rightarrow> tpm_json L t)),
        (''sequence_number'', JInt (uint seq)), (''domain'', JStr (domain_from_value_x L (ms_value_x m))),
        (''kms'', kms_conditions L (te_platform ev) pm)])"

subsubsection \<open>Writing the result\<close>

text \<open>A step that may write files, and the next one unless it failed.\<close>

definition then_io :: "('e + 'a) \<times> fs \<Rightarrow> ('a \<Rightarrow> fs \<Rightarrow> ('e + 'b) \<times> fs) \<Rightarrow> ('e + 'b) \<times> fs" where
  "then_io r k = (case r of (Inl e, w) \<Rightarrow> (Inl e, w) | (Inr x, w) \<Rightarrow> k x w)"

definition put_file :: "str \<Rightarrow> bytes \<Rightarrow> fs \<Rightarrow> (cvm_error + unit) \<times> fs" where
  "put_file p b w = (case fs_write p b w of Inl _ \<Rightarrow> (Inl (CvmIo p), w) | Inr w' \<Rightarrow> (Inr (), w'))"

text \<open>The number of the last build plus one, in 64-bit arithmetic; 1 without a record.\<close>

definition next_sequence :: "str \<Rightarrow> fs \<Rightarrow> u64" where
  "next_sequence out w =
     (case read_to_string w (path_join out ''sequence'') of
        None \<Rightarrow> 1
      | Some s \<Rightarrow> opt_or (parse_u64 (trim s)) 0 + 1)"

definition append_to_log :: "('m) lib_scheme \<Rightarrow> git_outcome \<Rightarrow> str \<Rightarrow> str \<Rightarrow> bytes \<Rightarrow> fs \<Rightarrow> bool \<times> fs" where
  "append_to_log L g out att_path x w =
     (if \<not> git_in_repo g then (False, w)
      else let log_path = path_join (path_join out ''attestations'') (hex_encode L (take 8 x) @ ''.json'') in
        case rbind (fs_read w att_path) (\<lambda>b. fs_write log_path b w) of
          Inl _ \<Rightarrow> (False, w)
        | Inr w' \<Rightarrow> (git_added g \<and> git_committed g, w'))"

definition write_build ::
    "('m) cvm_lib_scheme \<Rightarrow> cvm_in \<Rightarrow> str \<Rightarrow> measured \<Rightarrow> tee_evidence \<Rightarrow> tpm_attestation option \<Rightarrow> eat_token \<Rightarrow> fs
       \<Rightarrow> (cvm_error + bool) \<times> fs" where
  "write_build L I out m ev tpm eat w =
     (if faulty w out then (Inl (CvmIo out), w)
      else let seq = next_sequence out w;
               doc = build_attestation L (ci_now I) seq m (eat_binding L eat) tpm ev;
               w1 = (case fs_write (path_join out ''sequence'') (show_u64 seq) w of Inl _ \<Rightarrow> w | Inr w' \<Rightarrow> w') in
        then_io (ok_or (json_pretty L doc) JsonEncode, w1) (\<lambda>body w.
        then_io (put_file (path_join out ''attestation.json'') body w) (\<lambda>_ w.
        then_io (ok_or (eat_to_cbor L eat) EatEncode, w) (\<lambda>cbor w.
        then_io (put_file (path_join out ''attestation.cbor'') cbor w) (\<lambda>_ w.
        then_io (case ms_artifact_bytes m of None \<Rightarrow> (Inr (), w)
                 | Some b \<Rightarrow> put_file (path_join out ''artifact'') b w) (\<lambda>_ w.
        (case append_to_log L (ci_git I) out (path_join out ''attestation.json'') (ms_value_x m) w of
           (logged, w') \<Rightarrow> (Inr logged, w'))))))))"

definition build_eat :: "('m) cvm_lib_scheme \<Rightarrow> cvm_in \<Rightarrow> platform \<Rightarrow> measured \<Rightarrow> cvm_error + tee_evidence \<times> eat_token" where
  "build_eat L I p m =
     quote_token L I (\<lambda>ev e. e\<lparr>eat_platform := platform_to_u8 L (te_platform ev)\<rparr>)
       (from_build L (stage_components p (ms_value_x m) (ms_source m) (ms_artifact m))) (ms_value_x m)"

definition cmd_build :: "('m) cvm_lib_scheme \<Rightarrow> cvm_in \<Rightarrow> str list \<Rightarrow> fs \<Rightarrow> (cvm_error + bool) \<times> fs" where
  "cmd_build L I args w =
     (let a = parse_build_args args in
      case rbind (ok_or (ba_source a) (Usage ''source directory required'')) (\<lambda>src.
           rbind (map_err NoTee (ci_tee I)) (\<lambda>p.
           rbind (build_source L I src (ba_cmd a)) (\<lambda>m.
           rbind (build_eat L I p m) (\<lambda>(ev, eat). Inr (p, m, ev, eat))))) of
        Inl e \<Rightarrow> (Inl e, w)
      | Inr (p, m, ev, eat) \<Rightarrow> write_build L I (ba_output a) m ev (tpm_evidence I p (eat_binding L eat)) eat w)"

subsection \<open>Run\<close>

record run_args =
  ra_dir :: "str option"
  ra_attestation :: "str option"
  ra_cmd :: "str option"

fun run_arg_loop :: "str list \<Rightarrow> run_args \<Rightarrow> run_args" where
  "run_arg_loop [] a = a"
| "run_arg_loop [f] a =
     (if f = ''--attestation'' then a\<lparr>ra_attestation := None\<rparr>
      else if f = ''--cmd'' then a\<lparr>ra_cmd := None\<rparr>
      else if ra_dir a = None \<and> \<not> starts_with ''--'' f then a\<lparr>ra_dir := Some f\<rparr> else a)"
| "run_arg_loop (f # v # rest) a =
     (if f = ''--attestation'' then run_arg_loop rest (a\<lparr>ra_attestation := Some v\<rparr>)
      else if f = ''--cmd'' then run_arg_loop rest (a\<lparr>ra_cmd := Some v\<rparr>)
      else run_arg_loop (v # rest) (if ra_dir a = None \<and> \<not> starts_with ''--'' f then a\<lparr>ra_dir := Some f\<rparr> else a))"

definition parse_run_args :: "str list \<Rightarrow> run_args" where
  "parse_run_args args = run_arg_loop args \<lparr>ra_dir = None, ra_attestation = None, ra_cmd = None\<rparr>"

text \<open>What the runtime serves and runs: the certificate, the summary and the workload with its environment.\<close>

record served =
  sv_cert :: bytes
  sv_summary :: str
  sv_workload :: "(str \<times> (str \<times> str) list) option"

definition stage0_verified :: "('m) cvm_lib_scheme \<Rightarrow> bytes \<Rightarrow> cvm_error + eat_token" where
  "stage0_verified L cbor =
     rbind (map_err StageDecode (eat_from_cbor L cbor)) (\<lambda>eat.
     rbind (ok_or (eat_platform_enum L eat) StagePlatform) (\<lambda>p.
     rbind (map_err StageQuote (verify_platform_quote L p (platform_quote eat) (eat_binding L eat))) (\<lambda>_. Inr eat)))"

definition stage1_token :: "('m) cvm_lib_scheme \<Rightarrow> platform \<Rightarrow> bytes \<Rightarrow> bytes \<Rightarrow> eat_token \<Rightarrow> bytes \<Rightarrow> eat_token" where
  "stage1_token L p x spki stage0 cbor0 =
     set_previous L cbor0 ((from_build L (stage_components p x (eat_source_hash stage0) (eat_artifact_hash stage0)))\<lparr>tls_spki_hash := spki\<rparr>)"

definition run_summary :: "('m) cvm_lib_scheme \<Rightarrow> bytes \<Rightarrow> str" where
  "run_summary L x = ''{\"stage\":1,\"value_x\":\"'' @ hex_encode L x @ ''\",\"domain\":\"'' @ domain_from_value_x L x
     @ ''\",\"note\":\"EAT is in TLS cert extension 2.23.133.5.4.9\"}''"

text \<open>The boot up to the token: detection, the verified first stage, the unchanged tree, the quote.\<close>

definition run_boot ::
    "('m) cvm_lib_scheme \<Rightarrow> cvm_in \<Rightarrow> str \<Rightarrow> str \<Rightarrow> fs \<Rightarrow> cvm_error + bytes \<times> bytes \<times> bytes" where
  "run_boot L I dir att w =
     rbind (map_err NoTee (ci_tee I)) (\<lambda>p.
     rbind (map_err (\<lambda>_. ReadFailed att) (fs_read w att)) (\<lambda>cbor0.
     rbind (stage0_verified L cbor0) (\<lambda>stage0.
     rbind (map_err TreeHash (tree_hash L (ci_tree I dir))) (\<lambda>x.
     rbind (ensure (x = eat_value_x stage0) ValueXDrift) (\<lambda>_.
     rbind (map_err KeyPair (ci_keypair I)) (\<lambda>kp.
     rbind (quote_token L I (\<lambda>_ e. e) (stage1_token L p x (spki_hash_of L kp) stage0 cbor0) x) (\<lambda>(ev, eat).
     rbind (ok_or (eat_to_cbor L eat) EatEncode) (\<lambda>cbor1. Inr (kp, x, cbor1)))))))))"

definition cmd_run :: "('m) cvm_lib_scheme \<Rightarrow> cvm_in \<Rightarrow> str list \<Rightarrow> fs \<Rightarrow> (cvm_error + served) \<times> fs" where
  "cmd_run L I args w =
     (let a = parse_run_args args in
      case rbind (ok_or (ra_dir a) (Usage ''working directory required'')) (\<lambda>dir.
           rbind (ok_or (ra_attestation a) (Usage ''--attestation <stage0.cbor> required'')) (\<lambda>att.
           rbind (run_boot L I dir att w) (\<lambda>b. Inr (att, b)))) of
        Inl e \<Rightarrow> (Inl e, w)
      | Inr (att, kp, x, cbor1) \<Rightarrow>
          then_io (put_file (path_join (path_parent att) ''stage1-attestation.cbor'') cbor1 w) (\<lambda>_ w.
            (map_err CertBuild (rbind (make_attested_cert L kp (domain_from_value_x L x) cbor1) (\<lambda>cert.
               Inr \<lparr>sv_cert = cert, sv_summary = run_summary L x,
                    sv_workload = map_option (\<lambda>c. (c, [(''CVM_VALUE_X'', hex_encode L x),
                      (''CVM_DOMAIN'', domain_from_value_x L x), (''CVM_STAGE'', ''1'')])) (ra_cmd a)\<rparr>)), w)))"

text \<open>The synchronous fallback serves the first stage's file as it is, once its value X is the disk's.\<close>

fun sync_arg_loop :: "str list \<Rightarrow> run_args \<Rightarrow> run_args" where
  "sync_arg_loop [] a = a"
| "sync_arg_loop [f] a =
     (if f = ''--attestation'' then a\<lparr>ra_attestation := None\<rparr>
      else if ra_dir a = None then a\<lparr>ra_dir := Some f\<rparr> else a)"
| "sync_arg_loop (f # v # rest) a =
     (if f = ''--attestation'' then sync_arg_loop rest (a\<lparr>ra_attestation := Some v\<rparr>)
      else sync_arg_loop (v # rest) (if ra_dir a = None then a\<lparr>ra_dir := Some f\<rparr> else a))"

definition cmd_run_sync :: "('m) cvm_lib_scheme \<Rightarrow> cvm_in \<Rightarrow> str list \<Rightarrow> fs \<Rightarrow> cvm_error + str" where
  "cmd_run_sync L I args w =
     (let a = sync_arg_loop args \<lparr>ra_dir = None, ra_attestation = None, ra_cmd = None\<rparr> in
      rbind (ok_or (ra_dir a) (Usage ''working directory required'')) (\<lambda>dir.
      rbind (ok_or (ra_attestation a) (Usage ''--attestation <path> required'')) (\<lambda>att.
      rbind (ok_or (read_to_string w att) (ReadFailed att)) (\<lambda>contents.
      rbind (ok_or (json_parse L contents) (ReadFailed att)) (\<lambda>doc.
      rbind (ok_or (as_str (jidx doc ''value_x'')) (Usage ''missing value_x'')) (\<lambda>x0.
      rbind (ensure (24 \<le> length x0 \<and> utf8_valid (take 24 x0)) CvmPanic) (\<lambda>_.
      rbind (map_err TreeHash (tree_hash L (ci_tree I dir))) (\<lambda>x.
      rbind (ensure (hex_encode L x = x0) ValueXDrift) (\<lambda>_. Inr contents)))))))))"

subsection \<open>Enclave\<close>

fun enclave_arg_loop :: "str list \<Rightarrow> build_args \<Rightarrow> build_args" where
  "enclave_arg_loop [] a = a"
| "enclave_arg_loop [f] a =
     (if f = ''--cmd'' then a\<lparr>ba_cmd := None\<rparr>
      else if ba_source a = None then a\<lparr>ba_source := Some f\<rparr> else a)"
| "enclave_arg_loop (f # v # rest) a =
     (if f = ''--cmd'' then enclave_arg_loop rest (a\<lparr>ba_cmd := Some v\<rparr>)
      else enclave_arg_loop (v # rest) (if ba_source a = None then a\<lparr>ba_source := Some f\<rparr> else a))"

definition enclave_source :: "('m) cvm_lib_scheme \<Rightarrow> cvm_in \<Rightarrow> str \<Rightarrow> str option \<Rightarrow> cvm_error + bytes \<times> bytes \<times> bytes" where
  "enclave_source L I src build_cmd =
     rbind (freeze L I src) (\<lambda>(ct, ws0).
     rbind (run_proc I (Shell (case build_cmd of Some c \<Rightarrow> c | None \<Rightarrow> detect_build_cmd (ws_src ws0))) ws0) (\<lambda>ws.
     rbind (map_err TreeHash (tree_hash L (ws_src ws))) (\<lambda>ct_post.
     rbind (ensure (ct = ct_post) RatchetViolated) (\<lambda>_.
     rbind (map_err TreeHash (tree_hash L (ws_src ws))) (\<lambda>x.
     Inr (ct, x, (case tree_hash L (ws_build ws) of Inr a \<Rightarrow> a | Inl _ \<Rightarrow> replicate 48 (CHR 0x00))))))))"

definition enclave_attestation :: "('m) cvm_lib_scheme \<Rightarrow> u64 \<Rightarrow> bytes \<Rightarrow> bytes \<Rightarrow> bytes \<Rightarrow> tee_evidence \<Rightarrow> json" where
  "enclave_attestation L now ct x binding ev = jobj [(''version'', JInt 2), (''stage'', JInt 0),
     (''platform'', JStr (platform_debug (te_platform ev))), (''source_hash'', JStr (hex_encode L ct)),
     (''value_x'', JStr (hex_encode L x)), (''binding'', JStr (hex_encode L binding)),
     (''quote'', JStr (hex_encode L (raw_quote ev))), (''attestation_document_b64'', JStr (b64_encode L (raw_quote ev))),
     (''timestamp'', JInt (uint now)), (''sequence_number'', JInt 1), (''domain'', JStr (domain_from_value_x L x)),
     (''kms'', jobj [(''has_rsa_key'', JBool (kms_private_key ev \<noteq> None)), (''fresh_attestation'', JStr ''/kms-attestation''),
        (''unwrap_endpoint'', JStr ''/kms-unwrap''),
        (''usage'', JStr (''1) GET /kms-attestation '' @ [CHR 0xE2, CHR 0x86, CHR 0x92]
           @ '' fresh doc  2) aws kms decrypt --recipient ...  3) POST /kms-unwrap''))])]"

text \<open>
  What the Nitro build adds: the RSA public key the crate derives from the key of the quote, the
  second handle on the security module, whether the crypto provider could be installed, and the
  TLS configuration. The KMS state keeps the report data of the first quote, so that a fresh
  document for the KMS carries the same binding.
\<close>

record nsm_in =
  ni_nitro :: bool
  ni_rsa_public :: "bytes \<Rightarrow> bytes option"
  ni_nsm :: "str + unit"
  ni_provider :: bool
  ni_server_config :: "bytes \<Rightarrow> str + unit"

record kms_state =
  ks_report_data :: bytes
  ks_rsa_pub :: bytes
  ks_rsa_priv :: bytes

definition enclave_kms :: "nsm_in \<Rightarrow> platform \<Rightarrow> bytes \<Rightarrow> bytes option \<Rightarrow> cvm_error + kms_state option" where
  "enclave_kms N p rd key =
     (case key of
        None \<Rightarrow> Inr None
      | Some priv \<Rightarrow>
         if \<not> ni_nitro N then Inr None
         else rbind (ok_or (ni_rsa_public N priv) CvmPanic) (\<lambda>pub.
              rbind (ensure (p = Nitro) CvmPanic) (\<lambda>_.
              rbind (map_err NoTee (ni_nsm N)) (\<lambda>_.
              Inr (Some \<lparr>ks_report_data = rd, ks_rsa_pub = pub, ks_rsa_priv = priv\<rparr>)))))"

text \<open>What the enclave hands to the vsock server: over TLS, or the document alone in the clear.\<close>

datatype enclave_service =
    OverTls bytes bytes bytes "bytes option" "kms_state option"
  | InClear bytes

definition cmd_enclave :: "('m) cvm_lib_scheme \<Rightarrow> cvm_in \<Rightarrow> nsm_in \<Rightarrow> str list \<Rightarrow> cvm_error + enclave_service" where
  "cmd_enclave L I N args =
     (let a = enclave_arg_loop args \<lparr>ba_source = None, ba_cmd = None, ba_output = []\<rparr> in
      rbind (ok_or (ba_source a) (Usage ''source directory required'')) (\<lambda>src.
      rbind (map_err NoTee (ci_tee I)) (\<lambda>p.
      rbind (enclave_source L I src (ba_cmd a)) (\<lambda>(ct, x, art).
      rbind (map_err KeyPair (ci_keypair I)) (\<lambda>kp.
      rbind (quote_token L I (\<lambda>_ e. e) ((from_build L (stage_components p x ct art))\<lparr>tls_spki_hash := spki_hash_of L kp\<rparr>) x) (\<lambda>(ev, eat).
      rbind (enclave_kms N p (report_data (eat_binding L eat) x) (kms_private_key ev)) (\<lambda>kms.
      rbind (ok_or (json_pretty L (enclave_attestation L (ci_now I) ct x (eat_binding L eat) ev)) JsonEncode) (\<lambda>body.
      rbind (ok_or (eat_to_cbor L eat) EatEncode) (\<lambda>cbor.
      if ni_provider N
      then rbind (map_err CertBuild (make_attested_cert L kp (domain_from_value_x L x) cbor)) (\<lambda>cert.
           rbind (map_err CertBuild (ni_server_config N cert)) (\<lambda>_.
           Inr (OverTls cert body cbor (kms_private_key ev) kms)))
      else Inr (InClear body))))))))))"

subsection \<open>Check\<close>

datatype check_error =
    CheckUsage
  | BadServerName str
  | ConnectFailed str
  | NoPeerCertificates
  | EmptyChain
  | CertDecode str
  | NoEatExtension
  | CheckEat str
  | CheckPlatform u8
  | ChannelBinding
  | CheckQuote str
  | CheckPrevious str
  | CheckDrift
  | StepPlatform nat
  | StepQuote nat str
  | CheckTooDeep
  | SctFailed
  | SctMalformed

text \<open>
  Host and port of the argument: without the scheme, up to the first slash, and split at the first
  colon; a port that does not parse is 443.
\<close>

definition check_target :: "str \<Rightarrow> str \<times> u16" where
  "check_target url =
     (let stripped = (case strip_prefix ''https://'' url of Some s \<Rightarrow> s | None \<Rightarrow> url);
          hp = (case split_once (CHR ''/'') stripped of Some (a, _) \<Rightarrow> a | None \<Rightarrow> stripped) in
      case split_once (CHR '':'') hp of
        Some (h, p) \<Rightarrow> (h, opt_or (parse_u16 p) 443)
      | None \<Rightarrow> (takeWhile (\<lambda>c. c \<noteq> CHR ''/'') stripped, 443))"

text \<open>The walk over the earlier stages: the number of stages, at most sixteen.\<close>

function check_walk :: "('m) lib_scheme \<Rightarrow> bytes \<Rightarrow> eat_token \<Rightarrow> nat \<Rightarrow> check_error + nat" where
  "check_walk L x cursor depth =
     (if 16 < depth then Inl CheckTooDeep
      else case eat_decode_previous L cursor of
        Inl e \<Rightarrow> Inl (CheckPrevious e)
      | Inr None \<Rightarrow> Inr depth
      | Inr (Some prev) \<Rightarrow>
         (if eat_value_x prev \<noteq> x then Inl CheckDrift
          else case eat_platform_enum L prev of
            None \<Rightarrow> Inl (StepPlatform depth)
          | Some p \<Rightarrow>
             (case verify_platform_quote L p (platform_quote prev) (eat_binding L prev) of
                Inl e \<Rightarrow> Inl (StepQuote depth e)
              | Inr _ \<Rightarrow> check_walk L x prev (depth + 1))))"
  by pat_completeness auto
termination
  by (relation "measure (\<lambda>(L, x, cursor, depth). 17 - depth)") auto

declare check_walk.simps [simp del]

definition check_scts :: "('m) cvm_lib_scheme \<Rightarrow> bytes list \<Rightarrow> bytes \<Rightarrow> check_error + unit" where
  "check_scts L certs leaf =
     (case extract_scts_from_cert L leaf of
        Inl _ \<Rightarrow> Inl SctMalformed
      | Inr [] \<Rightarrow> Inr ()
      | Inr (_ # _) \<Rightarrow>
         (case certs of
            _ # iss # _ \<Rightarrow> rbind (map_err CertDecode (verify_scts_in_cert L leaf iss)) (\<lambda>r. ensure (sct_failed r = []) SctFailed)
          | _ \<Rightarrow> Inr ()))"

record check_report =
  ck_platform :: platform
  ck_value_x :: str
  ck_stages :: nat
  ck_registry :: "str option"

text \<open>What the registry says of a value; nothing when it is empty or does not load.\<close>

definition registry_note :: "('m) reg_lib_scheme \<Rightarrow> fs \<Rightarrow> (str \<Rightarrow> dir_listing) \<Rightarrow> str \<Rightarrow> str option" where
  "registry_note L w ls x =
     (case load_default L w ls of
        Inr reg \<Rightarrow> if registry_len reg \<noteq> 0 then Some (describe (lookup reg x)) else None
      | Inl _ \<Rightarrow> None)"

definition check_peer ::
    "('m) cvm_lib_scheme \<Rightarrow> fs \<Rightarrow> (str \<Rightarrow> dir_listing) \<Rightarrow> bytes list option \<Rightarrow> check_error + check_report" where
  "check_peer L w ls peer =
     rbind (ok_or peer NoPeerCertificates) (\<lambda>certs.
     rbind (ok_or (case certs of [] \<Rightarrow> None | c # _ \<Rightarrow> Some c) EmptyChain) (\<lambda>leaf.
     rbind (map_err CertDecode (extract_eat_from_cert L leaf)) (\<lambda>ext.
     rbind (ok_or ext NoEatExtension) (\<lambda>cbor.
     rbind (map_err CheckEat (eat_from_cbor L cbor)) (\<lambda>eat.
     rbind (ok_or (eat_platform_enum L eat) (CheckPlatform (eat_platform eat))) (\<lambda>p.
     rbind (map_err CertDecode (spki_hash_of_cert L leaf)) (\<lambda>spki.
     rbind (ensure (spki = tls_spki_hash eat) ChannelBinding) (\<lambda>_.
     rbind (map_err CheckQuote (verify_platform_quote L p (platform_quote eat) (eat_binding L eat))) (\<lambda>_.
     rbind (if has_previous L eat then check_walk L (eat_value_x eat) eat 1 else Inr 1) (\<lambda>depth.
     rbind (check_scts L certs leaf) (\<lambda>_.
     Inr \<lparr>ck_platform = p, ck_value_x = hex_encode L (eat_value_x eat), ck_stages = depth,
          ck_registry = registry_note L w ls (hex_encode L (eat_value_x eat))\<rparr>)))))))))))"

definition cmd_check ::
    "('m) cvm_lib_scheme \<Rightarrow> fs \<Rightarrow> (str \<Rightarrow> dir_listing) \<Rightarrow> (str \<Rightarrow> u16 \<Rightarrow> str + bytes list option) \<Rightarrow> str list
       \<Rightarrow> check_error + check_report" where
  "cmd_check L w ls connect args =
     rbind (ok_or (find (\<lambda>a. \<not> starts_with ''--'' a) args) CheckUsage) (\<lambda>url.
     case check_target url of (host, port) \<Rightarrow>
     rbind (ensure (server_name_ok L host) (BadServerName host)) (\<lambda>_.
     rbind (map_err ConnectFailed (connect host port)) (\<lambda>peer. check_peer L w ls peer)))"

subsection \<open>Verify\<close>

datatype verify_error =
    VerifyUsage
  | VerifyRead str
  | VerifyJson
  | BadHex
  | BindingMismatch
  | QuoteBinding
  | MeasurementMismatch
  | MeasurementMissing
  | SourceHash str
  | SourceMismatch
  | ArtifactRead str
  | ArtifactMismatch

record verify_args =
  va_path :: "str option"
  va_source :: "str option"
  va_artifact :: "str option"

fun verify_arg_loop :: "str list \<Rightarrow> verify_args \<Rightarrow> verify_args" where
  "verify_arg_loop [] a = a"
| "verify_arg_loop [f] a =
     (if f = ''--source-dir'' then a\<lparr>va_source := None\<rparr>
      else if f = ''--artifact'' then a\<lparr>va_artifact := None\<rparr>
      else if va_path a = None \<and> \<not> starts_with ''--'' f then a\<lparr>va_path := Some f\<rparr> else a)"
| "verify_arg_loop (f # v # rest) a =
     (if f = ''--source-dir'' then verify_arg_loop rest (a\<lparr>va_source := Some v\<rparr>)
      else if f = ''--artifact'' then verify_arg_loop rest (a\<lparr>va_artifact := Some v\<rparr>)
      else verify_arg_loop (v # rest) (if va_path a = None \<and> \<not> starts_with ''--'' f then a\<lparr>va_path := Some f\<rparr> else a))"

definition verify_measurement :: "('m) cvm_lib_scheme \<Rightarrow> str \<Rightarrow> str \<Rightarrow> bytes \<Rightarrow> verify_error + unit" where
  "verify_measurement L platform claimed q =
     (if claimed = [] then Inr ()
      else case platform_named platform of
        None \<Rightarrow> Inr ()
      | Some p \<Rightarrow>
         (case extract_platform_measurement L q p of
            None \<Rightarrow> Inl MeasurementMissing
          | Some m \<Rightarrow> ensure (hex_encode L m = claimed) MeasurementMismatch))"

text \<open>The signature chain is only reported: whether it verifies, or nothing for an unknown platform.\<close>

definition signature_chain :: "('m) lib_scheme \<Rightarrow> str \<Rightarrow> bytes \<Rightarrow> bytes \<Rightarrow> bool option" where
  "signature_chain L platform q binding =
     map_option (\<lambda>p. case verify_platform_quote L p q (if length binding = 32 then binding else replicate 32 (CHR 0x00)) of
         Inr _ \<Rightarrow> True | Inl _ \<Rightarrow> False) (platform_named platform)"

record verify_report =
  vf_platform :: str
  vf_chain :: "bool option"
  vf_registry :: "str option"

definition verify_attestation_json ::
    "('m) cvm_lib_scheme \<Rightarrow> (str \<Rightarrow> node option) \<Rightarrow> fs \<Rightarrow> (str \<Rightarrow> dir_listing) \<Rightarrow> json \<Rightarrow> str option \<Rightarrow> str option
       \<Rightarrow> verify_error + verify_report" where
  "verify_attestation_json L tree w ls att source_dir artifact =
     (let platform = str_or att ''platform'' []; ct_hex = str_or att ''source_hash'' []; a_hex = str_or att ''artifact_hash'' [];
          x_hex = str_or att ''value_x'' []; binding_hex = str_or att ''binding'' []; quote_hex = str_or att ''quote'' [] in
      rbind (ok_or (hex_decode L ct_hex) BadHex) (\<lambda>ct.
      rbind (ok_or (hex_decode L a_hex) BadHex) (\<lambda>a.
      rbind (ok_or (hex_decode L x_hex) BadHex) (\<lambda>x.
      rbind (ensure (hex_encode L (sha256 L (ct @ a @ x)) = binding_hex) BindingMismatch) (\<lambda>_.
      rbind (ok_or (hex_decode L quote_hex) BadHex) (\<lambda>q.
      rbind (ok_or (hex_decode L binding_hex) BadHex) (\<lambda>binding.
      rbind (ensure (verify_quote_binding q binding platform) QuoteBinding) (\<lambda>_.
      rbind (verify_measurement L platform (str_or att ''platform_measurement'' []) q) (\<lambda>_.
      rbind (case source_dir of None \<Rightarrow> Inr ()
             | Some d \<Rightarrow> rbind (map_err SourceHash (tree_hash L (tree d))) (\<lambda>h. ensure (hex_encode L h = ct_hex) SourceMismatch)) (\<lambda>_.
      rbind (case artifact of None \<Rightarrow> Inr ()
             | Some p \<Rightarrow> rbind (map_err (\<lambda>_. ArtifactRead p) (fs_read w p)) (\<lambda>b. ensure (hex_encode L (sha384 L b) = a_hex) ArtifactMismatch)) (\<lambda>_.
      Inr \<lparr>vf_platform = platform, vf_chain = signature_chain L platform q binding,
           vf_registry = registry_note L w ls x_hex\<rparr>)))))))))))"

definition cmd_verify ::
    "('m) cvm_lib_scheme \<Rightarrow> (str \<Rightarrow> node option) \<Rightarrow> fs \<Rightarrow> (str \<Rightarrow> dir_listing) \<Rightarrow> str list \<Rightarrow> verify_error + verify_report" where
  "cmd_verify L tree w ls args =
     (let a = verify_arg_loop args \<lparr>va_path = None, va_source = None, va_artifact = None\<rparr> in
      rbind (ok_or (va_path a) VerifyUsage) (\<lambda>path.
      rbind (ok_or (read_to_string w path) (VerifyRead path)) (\<lambda>body.
      rbind (ok_or (json_parse L body) VerifyJson) (\<lambda>att.
      verify_attestation_json L tree w ls att (va_source a) (va_artifact a)))))"

subsection \<open>Merge\<close>

datatype merge_error =
    TooFewFiles
  | MergeRead str
  | MergeJson str
  | MergeValueX nat
  | MergeSource nat
  | MergeEncode
  | MergeWrite str
  | MergePanic

fun merge_arg_loop :: "str list \<Rightarrow> str list \<times> str \<Rightarrow> str list \<times> str" where
  "merge_arg_loop [] a = a"
| "merge_arg_loop [f] (ps, out) = (if f = ''--output'' then (ps, out) else (ps @ [f], out))"
| "merge_arg_loop (f # v # rest) (ps, out) =
     (if f = ''--output'' then merge_arg_loop rest (ps, v) else merge_arg_loop (v # rest) (ps @ [f], out))"

definition merge_load :: "('m) lib_scheme \<Rightarrow> fs \<Rightarrow> str \<Rightarrow> merge_error + json" where
  "merge_load L w p = rbind (ok_or (read_to_string w p) (MergeRead p)) (\<lambda>b. ok_or (json_parse L b) (MergeJson p))"

text \<open>The first attestation that names another value X or source, by its position.\<close>

fun merge_agree :: "str \<Rightarrow> str \<Rightarrow> nat \<Rightarrow> json list \<Rightarrow> merge_error + unit" where
  "merge_agree x ct i [] = Inr ()"
| "merge_agree x ct i (att # rest) =
     rbind (ensure (str_or att ''value_x'' [] = x) (MergeValueX i)) (\<lambda>_.
     rbind (ensure (str_or att ''source_hash'' [] = ct) (MergeSource i)) (\<lambda>_. merge_agree x ct (Suc i) rest))"

definition merge_field :: "str \<Rightarrow> json list \<Rightarrow> (str \<times> json) list" where
  "merge_field k atts = bt_of_list (List.map_filter (\<lambda>att.
     if str_or att k [] = [] then None else Some (str_or att ''platform'' ''unknown'', JStr (str_or att k []))) atts)"

definition merged_document :: "u64 \<Rightarrow> json list \<Rightarrow> json" where
  "merged_document now atts =
     (let first = hd atts in
      jobj [(''version'', JInt 1), (''type'', JStr ''merged''),
        (''platforms'', JArr (map (\<lambda>a. JStr (str_or a ''platform'' ''unknown'')) atts)),
        (''value_x'', JStr (str_or first ''value_x'' [])), (''source_hash'', JStr (str_or first ''source_hash'' [])),
        (''artifact_hash'', JStr (str_or first ''artifact_hash'' [])),
        (''rcommon'', JObj (merge_field ''platform_measurement'' atts)), (''quotes'', JObj (merge_field ''quote'' atts)),
        (''timestamp'', JInt (uint now))])"

text \<open>
  The number of vendors the program announces, when it announces one, and the file. The progress line
  cuts a measurement after 32 bytes, which panics inside a character.
\<close>

definition cmd_merge :: "('m) lib_scheme \<Rightarrow> u64 \<Rightarrow> str list \<Rightarrow> fs \<Rightarrow> merge_error + nat \<times> fs" where
  "cmd_merge L now args w =
     (case merge_arg_loop args ([], ''merged-attestation.json'') of (paths, out) \<Rightarrow>
      rbind (ensure (2 \<le> length paths) TooFewFiles) (\<lambda>_.
      rbind (rmap (merge_load L w) paths) (\<lambda>atts.
      rbind (merge_agree (str_or (hd atts) ''value_x'' []) (str_or (hd atts) ''source_hash'' []) 0 atts) (\<lambda>_.
      rbind (ensure (list_all (\<lambda>a. utf8_valid (take 32 (str_or a ''platform_measurement'' []))) atts) MergePanic) (\<lambda>_.
      rbind (ok_or (json_pretty L (merged_document now atts)) MergeEncode) (\<lambda>body.
      rbind (map_err (\<lambda>_. MergeWrite out) (fs_write out body w)) (\<lambda>w'.
      Inr (length atts, w'))))))))"

subsection \<open>Proxy and dispatch\<close>

text \<open>
  The parent's proxy: a connection identifier that does not parse is as if absent, a port that does not parse is 443.
  Forwarding and certificate provisioning are the external crate's; the domain provisioned is the one the enclave's
  attestation document names.
\<close>

record proxy_args =
  px_cid :: "u32 option"
  px_port :: u16
  px_acme :: bool
  px_acme_staging :: bool

fun proxy_arg_loop :: "str list \<Rightarrow> proxy_args \<Rightarrow> proxy_args" where
  "proxy_arg_loop [] a = a"
| "proxy_arg_loop [f] a =
     (if f = ''--cid'' then a\<lparr>px_cid := None\<rparr>
      else if f = ''--port'' then a\<lparr>px_port := 443\<rparr>
      else if f = ''--acme'' then a\<lparr>px_acme := True\<rparr>
      else if f = ''--acme-staging'' then a\<lparr>px_acme := True, px_acme_staging := True\<rparr>
      else a)"
| "proxy_arg_loop (f # v # rest) a =
     (if f = ''--cid'' then proxy_arg_loop rest (a\<lparr>px_cid := parse_u32 v\<rparr>)
      else if f = ''--port'' then proxy_arg_loop rest (a\<lparr>px_port := opt_or (parse_u16 v) 443\<rparr>)
      else if f = ''--acme'' then proxy_arg_loop (v # rest) (a\<lparr>px_acme := True\<rparr>)
      else if f = ''--acme-staging'' then proxy_arg_loop (v # rest) (a\<lparr>px_acme := True, px_acme_staging := True\<rparr>)
      else proxy_arg_loop (v # rest) a)"

definition acme_domain :: "('m) lib_scheme \<Rightarrow> (str + bytes) \<Rightarrow> str option" where
  "acme_domain L body = Option.bind (Option.bind (res_ok body) (json_parse L)) (\<lambda>att. as_str (jidx att ''domain''))"

text \<open>The bridge that is run, and the domain, address and staging flag a certificate is provisioned for.\<close>

definition cmd_proxy :: "('m) lib_scheme \<Rightarrow> (str \<Rightarrow> str + bytes) \<Rightarrow> str list \<Rightarrow> cvm_error + (u16 \<times> u32) \<times> (str \<times> str \<times> bool) option" where
  "cmd_proxy L get args =
     (let a = proxy_arg_loop args \<lparr>px_cid = None, px_port = 443, px_acme = False, px_acme_staging = False\<rparr>;
          url = ''https://127.0.0.1:'' @ show_int (uint (px_port a)) in
      rbind (ok_or (px_cid a) (Usage ''--cid <enclave-cid> required'')) (\<lambda>cid.
      Inr ((px_port a, cid),
           if px_acme a then map_option (\<lambda>d. (d, url, px_acme_staging a)) (acme_domain L (get url)) else None)))"

datatype cvm_command =
    CmdBuild "str list" | CmdVerify "str list" | CmdCheck "str list" | CmdEnclave "str list" | CmdProxy "str list"
  | CmdRun "str list" | CmdRunSync "str list" | CmdMerge "str list" | CmdTool "str list" | CmdNoRuntime | CmdUsage

definition cvm_dispatch :: "bool \<Rightarrow> str list \<Rightarrow> cvm_command" where
  "cvm_dispatch tokio args =
     (case args of
        c # rest \<Rightarrow>
          if c = ''build'' then CmdBuild rest else if c = ''verify'' then CmdVerify rest
          else if c = ''check'' then CmdCheck rest else if c = ''enclave'' then CmdEnclave rest
          else if c = ''proxy'' then CmdProxy rest
          else if c = ''run'' then (if tokio then CmdRun rest else CmdRunSync rest)
          else if c = ''merge'' then CmdMerge rest else if c = ''tool'' then (if tokio then CmdTool rest else CmdNoRuntime) else CmdUsage
      | [] \<Rightarrow> CmdUsage)"

end
