(* ===== verification/Attested_Build_Safety.thy ===== *)
theory Attested_Build_Safety
  imports Attested_Build Line_Log
begin

section \<open>What the attestation commands guarantee\<close>

text \<open>
  Properties of the commands of \<open>Attested_Build\<close>: what \<open>check\<close> accepts, and that it is the receipt
  verifier of \<open>src/llm_attested.rs\<close> with a channel binding and a smaller bound; what a successful \<open>build\<close>
  has measured; that what \<open>build\<close> writes boots and what \<open>run\<close> serves checks; and what \<open>verify\<close> accepts.
\<close>

subsection \<open>Verifiers of stage chains\<close>

text \<open>A chain of stages, from the last to the first, each of which passes a test.\<close>

inductive chain_of :: "('a \<Rightarrow> 'e + 'a option) \<Rightarrow> ('a \<Rightarrow> bool) \<Rightarrow> 'a \<Rightarrow> nat \<Rightarrow> bool" for prev ok where
  chain_end: "ok e \<Longrightarrow> prev e = Inr None \<Longrightarrow> chain_of prev ok e (Suc 0)"
| chain_more: "ok e \<Longrightarrow> prev e = Inr (Some p) \<Longrightarrow> chain_of prev ok p k \<Longrightarrow> chain_of prev ok e (Suc k)"

inductive_simps chain_of_simps: "chain_of prev ok e k"

lemma chain_of_pos: "chain_of prev ok e k \<Longrightarrow> 0 < k"
  by (induction rule: chain_of.induct) auto

lemma chain_of_weaken: "chain_of prev ok e k \<Longrightarrow> (\<And>t. ok t \<Longrightarrow> ok' t) \<Longrightarrow> chain_of prev ok' e k"
  by (induction rule: chain_of.induct) (auto intro: chain_of.intros)

text \<open>
  The contract of a verifier that walks a chain and counts its stages: it takes one step at a time, up to
  a bound on the position of a stage. What it accepts is then a chain no longer than the bound allows.
\<close>

locale chain_verifier =
  fixes prev :: "'a \<Rightarrow> 'e + 'a option" and ok :: "'a \<Rightarrow> bool" and walk :: "'a \<Rightarrow> nat \<Rightarrow> nat option" and bound :: nat
  assumes walk_step: "walk e d = Some n \<longleftrightarrow> d \<le> bound \<and> ok e
     \<and> (case prev e of Inl _ \<Rightarrow> False | Inr None \<Rightarrow> n = Suc d | Inr (Some p) \<Rightarrow> walk p (Suc d) = Some n)"
begin

lemma walk_sound: "walk e d = Some n \<Longrightarrow> \<exists>k. chain_of prev ok e k \<and> n = d + k \<and> n \<le> Suc bound"
proof (induction "Suc bound - d" arbitrary: e d)
  case 0
  then show ?case using walk_step[of e d n] by simp
next
  case (Suc m)
  from Suc.prems have s: "d \<le> bound" "ok e" "case prev e of Inl _ \<Rightarrow> False | Inr None \<Rightarrow> n = Suc d | Inr (Some p) \<Rightarrow> walk p (Suc d) = Some n"
    using walk_step[of e d n] by auto
  show ?case
  proof (cases "prev e")
    case (Inr q)
    show ?thesis
    proof (cases q)
      case None
      then show ?thesis using s Inr by (auto intro: chain_of.intros)
    next
      case (Some p)
      with s Inr have w: "walk p (Suc d) = Some n" by simp
      have "m = Suc bound - Suc d" using Suc.hyps(2) by simp
      from Suc.hyps(1)[OF this w] obtain k where "chain_of prev ok p k" "n = Suc d + k" "n \<le> Suc bound" by blast
      then show ?thesis using s(2) Inr Some chain_more[of ok e prev p k] by auto
    qed
  qed (use s in simp)
qed

lemma walk_complete: "chain_of prev ok e k \<Longrightarrow> d + k \<le> Suc bound \<Longrightarrow> walk e d = Some (d + k)"
proof (induction arbitrary: d rule: chain_of.induct)
  case (chain_end e)
  then show ?case using walk_step[of e d "Suc d"] by simp
next
  case (chain_more e p k)
  then show ?case using walk_step[of e d "d + Suc k"] chain_of_pos[OF chain_more.hyps(3)] by simp
qed

lemma walk_iff: "walk e d = Some n \<longleftrightarrow> (\<exists>k. chain_of prev ok e k \<and> n = d + k \<and> n \<le> Suc bound)"
  using walk_sound walk_complete by blast

end

text \<open>One stage for \<open>check\<close>: the leaf's value X, a known platform, a quote that verifies.\<close>

definition stage_verifies :: "('m) lib_scheme \<Rightarrow> bytes \<Rightarrow> eat_token \<Rightarrow> bool" where
  "stage_verifies L x eat \<longleftrightarrow> eat_value_x eat = x
     \<and> (\<exists>p ms. eat_platform_enum L eat = Some p \<and> verify_platform_quote L p (platform_quote eat) (eat_binding L eat) = Inr ms)"

definition walk_of_check :: "('m) lib_scheme \<Rightarrow> bytes \<Rightarrow> eat_token \<Rightarrow> nat \<Rightarrow> nat option" where
  "walk_of_check L x e d = (if stage_verifies L x e then res_ok (check_walk L x e (Suc d)) else None)"

lemma check_walk_step:
  "res_ok (check_walk L x e (Suc d)) = Some n \<longleftrightarrow> d \<le> 15
     \<and> (case eat_decode_previous L e of Inl _ \<Rightarrow> False | Inr None \<Rightarrow> n = Suc d
        | Inr (Some p) \<Rightarrow> stage_verifies L x p \<and> res_ok (check_walk L x p (Suc (Suc d))) = Some n)"
  by (subst check_walk.simps)
    (auto simp: stage_verifies_def res_simps split: sum.splits option.splits if_splits)

interpretation check: chain_verifier "eat_decode_previous L" "stage_verifies L x" "walk_of_check L x" 15
  for L :: "('m) lib_scheme" and x
  by unfold_locales
    (auto simp: walk_of_check_def check_walk_step split: sum.splits option.splits)

definition walk_of_receipt :: "('m) lib_scheme \<Rightarrow> str list \<Rightarrow> bytes \<Rightarrow> eat_token \<Rightarrow> nat \<Rightarrow> nat option" where
  "walk_of_receipt L accepted x e d = map_option (\<lambda>(p, m, b, n). n) (res_ok (verify_eat_chain L e accepted x d))"

interpretation receipt: chain_verifier "eat_decode_previous L" "\<lambda>e. \<exists>p ms. good_stage L accepted x e p ms"
    "walk_of_receipt L accepted x" 16
  for L :: "('m) lib_scheme" and accepted x
proof unfold_locales
  fix e d n
  show "walk_of_receipt L accepted x e d = Some n \<longleftrightarrow> d \<le> 16 \<and> (\<exists>p ms. good_stage L accepted x e p ms)
     \<and> (case eat_decode_previous L e of Inl _ \<Rightarrow> False | Inr None \<Rightarrow> n = Suc d
        | Inr (Some p) \<Rightarrow> walk_of_receipt L accepted x p (Suc d) = Some n)"
  proof (cases "d \<le> 16 \<and> (\<exists>p ms. good_stage L accepted x e p ms)")
    case True
    then obtain p ms where g: "d \<le> 16" "good_stage L accepted x e p ms" by blast
    then show ?thesis
      unfolding walk_of_receipt_def verify_eat_chain_stage[OF g] by (auto split: sum.splits option.splits)
  next
    case False
    then have "verify_eat_chain L e accepted x d \<noteq> Inr r" for r
      using verify_eat_chain_needs_stage by blast
    then show ?thesis using False by (auto simp: walk_of_receipt_def res_simps)
  qed
qed

subsection \<open>What the external crate documents\<close>

text \<open>
  Tokens: decoding gives back what was encoded, the constructor fills in the claims, the platform number
  names the platform, the binding has 32 bytes and leaves out quote and measurement, the earlier stage is the encoded token it was set to. Certificates: the extension is the
  token it was made with, the key is the one it was made for, and a certificate made here has no
  timestamps.
\<close>

definition previous_law :: "('m) cvm_lib_scheme \<Rightarrow> bool" where
  "previous_law L \<longleftrightarrow> (\<forall>e. has_previous L e \<longleftrightarrow> previous_attestation e \<noteq> [])
     \<and> (\<forall>e. eat_decode_previous L e = (if previous_attestation e = [] then Inr None
          else rbind (eat_from_cbor L (previous_attestation e)) (\<lambda>t. Inr (Some t))))
     \<and> (\<forall>e b. set_previous L b e = e\<lparr>previous_attestation := b\<rparr>)"

definition token_law :: "('m) cvm_lib_scheme \<Rightarrow> bool" where
  "token_law L \<longleftrightarrow> (\<forall>e c. eat_to_cbor L e = Some c \<longrightarrow> eat_from_cbor L c = Inr e \<and> c \<noteq> [])
     \<and> (\<forall>c. eat_value_x (from_build L c) = bc_value_x c \<and> eat_platform (from_build L c) = platform_to_u8 L (bc_platform c)
          \<and> eat_source_hash (from_build L c) = bc_source_hash c \<and> eat_artifact_hash (from_build L c) = bc_artifact_hash c
          \<and> previous_attestation (from_build L c) = [])
     \<and> (\<forall>e p. eat_platform e = platform_to_u8 L p \<longrightarrow> eat_platform_enum L e = Some p)
     \<and> (\<forall>e. length (eat_binding L e) = 32)
     \<and> (\<forall>e q m. eat_binding L (e\<lparr>platform_quote := q, platform_measurement := m\<rparr>) = eat_binding L e)"

definition cert_law :: "('m) cvm_lib_scheme \<Rightarrow> bool" where
  "cert_law L \<longleftrightarrow> (\<forall>kp d c cert. make_attested_cert L kp d c = Inr cert \<longrightarrow>
     extract_eat_from_cert L cert = Inr (Some c) \<and> spki_hash_of_cert L cert = Inr (spki_hash_of L kp)
     \<and> extract_scts_from_cert L cert = Inr [])"

text \<open>Genuine hardware: what it quotes verifies for the binding in the report data, on its own platform.\<close>

definition genuine_tee :: "('m) cvm_lib_scheme \<Rightarrow> cvm_in \<Rightarrow> bool" where
  "genuine_tee L I \<longleftrightarrow> (\<forall>rd ev. ci_evidence I rd = Inr ev \<longrightarrow>
     (\<exists>ms. verify_platform_quote L (te_platform ev) (raw_quote ev) (take 32 rd) = Inr ms)
     \<and> ci_tee I = Inr (te_platform ev))"

subsection \<open>Check\<close>

lemma check_walk_from_leaf:
  assumes "previous_law L" "stage_verifies L x eat"
  shows "(if has_previous L eat then check_walk L x eat 1 else Inr 1) = Inr n
     \<longleftrightarrow> chain_of (eat_decode_previous L) (stage_verifies L x) eat n \<and> n \<le> 16"
proof -
  have "(if has_previous L eat then check_walk L x eat 1 else Inr 1) = Inr n \<longleftrightarrow> check_walk L x eat 1 = Inr n"
  proof (cases "has_previous L eat")
    case False
    then have "eat_decode_previous L eat = Inr None" using assms(1) by (simp add: previous_law_def)
    then show ?thesis using False check_walk.simps[of L x eat 1] by simp
  qed simp
  also have "\<dots> \<longleftrightarrow> walk_of_check L x eat 0 = Some n"
    using assms(2) by (simp add: walk_of_check_def res_simps)
  finally show ?thesis by (auto simp: check.walk_iff)
qed

lemma check_peer_iff:
  assumes "previous_law L"
  shows "check_peer L w ls (Some (leaf # rest)) = Inr rep \<longleftrightarrow>
    (\<exists>cbor eat p k. extract_eat_from_cert L leaf = Inr (Some cbor) \<and> eat_from_cbor L cbor = Inr eat
       \<and> eat_platform_enum L eat = Some p \<and> spki_hash_of_cert L leaf = Inr (tls_spki_hash eat)
       \<and> chain_of (eat_decode_previous L) (stage_verifies L (eat_value_x eat)) eat k \<and> k \<le> 16
       \<and> check_scts L (leaf # rest) leaf = Inr ()
       \<and> rep = \<lparr>ck_platform = p, ck_value_x = hex_encode L (eat_value_x eat), ck_stages = k,
            ck_registry = registry_note L w ls (hex_encode L (eat_value_x eat))\<rparr>)"
proof -
  define walk where "walk eat = (if has_previous L eat then check_walk L (eat_value_x eat) eat 1 else Inr 1)" for eat
  have chain_ok: "stage_verifies L x eat" if "chain_of (eat_decode_previous L) (stage_verifies L x) eat k" for x eat k
    using that by (cases rule: chain_of.cases) auto
  define passes where "passes p eat k \<longleftrightarrow>
     (\<exists>ms. verify_platform_quote L p (platform_quote eat) (eat_binding L eat) = Inr ms) \<and> walk eat = Inr k" for p eat k
  have walk: "passes p eat k
      \<longleftrightarrow> chain_of (eat_decode_previous L) (stage_verifies L (eat_value_x eat)) eat k \<and> k \<le> 16"
    if "eat_platform_enum L eat = Some p" for eat p k
  proof -
    have "stage_verifies L (eat_value_x eat) eat
        \<longleftrightarrow> (\<exists>ms. verify_platform_quote L p (platform_quote eat) (eat_binding L eat) = Inr ms)"
      using that by (auto simp: stage_verifies_def)
    then show ?thesis
      using check_walk_from_leaf[OF assms, of "eat_value_x eat" eat k] chain_ok[of "eat_value_x eat" eat k]
      unfolding walk_def passes_def by blast
  qed
  have "check_peer L w ls (Some (leaf # rest)) = Inr rep \<longleftrightarrow>
    (\<exists>cbor eat p k. extract_eat_from_cert L leaf = Inr (Some cbor) \<and> eat_from_cbor L cbor = Inr eat
       \<and> eat_platform_enum L eat = Some p \<and> spki_hash_of_cert L leaf = Inr (tls_spki_hash eat)
       \<and> passes p eat k \<and> check_scts L (leaf # rest) leaf = Inr ()
       \<and> rep = \<lparr>ck_platform = p, ck_value_x = hex_encode L (eat_value_x eat), ck_stages = k,
            ck_registry = registry_note L w ls (hex_encode L (eat_value_x eat))\<rparr>)"
    unfolding check_peer_def passes_def walk_def[symmetric] res_simps ok_or.simps list.case by auto
  then show ?thesis by (simp add: walk cong: conj_cong)
qed

text \<open>
  C8: \<open>cvm check\<close> accepts exactly the attested channels. The peer's chain passes, and the report is this one, exactly when
  the leaf certificate carries a decodable token whose key hash is that of the certificate's own key, from
  which a chain of at most sixteen stages leads to a first one, each with the leaf's value X, a known
  platform and a quote that verifies over the stage's own binding, and the timestamps check.
\<close>

theorem check_accepts_iff:
  assumes "previous_law L"
  shows "check_peer L w ls (Some (leaf # rest)) = Inr rep \<longleftrightarrow>
    (\<exists>cbor eat p k. extract_eat_from_cert L leaf = Inr (Some cbor) \<and> eat_from_cbor L cbor = Inr eat
       \<and> eat_platform_enum L eat = Some p \<and> spki_hash_of_cert L leaf = Inr (tls_spki_hash eat)
       \<and> chain_of (eat_decode_previous L) (stage_verifies L (eat_value_x eat)) eat k \<and> k \<le> 16
       \<and> check_scts L (leaf # rest) leaf = Inr ()
       \<and> rep = \<lparr>ck_platform = p, ck_value_x = hex_encode L (eat_value_x eat), ck_stages = k,
            ck_registry = registry_note L w ls (hex_encode L (eat_value_x eat))\<rparr>)"
  by (rule check_peer_iff[OF assms])

text \<open>
  What the receipt verifier asks of a stage beyond what \<open>cvm check\<close> asks: a quote that is there, and a
  platform the policy accepts.
\<close>

definition stage_admitted :: "('m) lib_scheme \<Rightarrow> str list \<Rightarrow> eat_token \<Rightarrow> bool" where
  "stage_admitted L accepted t \<longleftrightarrow>
     platform_quote t \<noteq> [] \<and> (\<exists>p. eat_platform_enum L t = Some p \<and> platform_is_accepted p accepted)"

lemma good_stage_iff:
  "(\<lambda>e. \<exists>p ms. good_stage L accepted x e p ms) = (\<lambda>e. stage_verifies L x e \<and> stage_admitted L accepted e)"
  by (intro ext) (auto simp: good_stage_def stage_verifies_def stage_admitted_def)

lemma chain_of_conj:
  "chain_of (eat_decode_previous L) (\<lambda>e. ok e \<and> extra e) eat k
     \<longleftrightarrow> chain_of (eat_decode_previous L) ok eat k \<and> (\<forall>t. stage_of L eat t \<longrightarrow> extra t)" (is "?both \<longleftrightarrow> ?split")
proof
  assume both: ?both
  have "extra t" if "stage_of L eat t" for t
    using that both
  proof (induction arbitrary: k rule: stage_of.induct)
    case (stage_self eat)
    then show ?case by (cases rule: chain_of.cases) auto
  next
    case (stage_prev eat prev t)
    from stage_prev.prems stage_prev.hyps(1) obtain j where "chain_of (eat_decode_previous L) (\<lambda>e. ok e \<and> extra e) prev j"
      by (cases rule: chain_of.cases) auto
    then show ?case by (rule stage_prev.IH)
  qed
  moreover have "chain_of (eat_decode_previous L) ok eat k" by (rule chain_of_weaken[OF both]) simp
  ultimately show ?split by blast
next
  assume ?split
  then have "chain_of (eat_decode_previous L) ok eat k" "\<forall>t. stage_of L eat t \<longrightarrow> extra t" by blast+
  then show ?both
  proof (induction rule: chain_of.induct)
    case (chain_more e p k)
    then show ?case by (auto intro: chain_of.chain_more stage_of.intros)
  qed (auto intro: chain_of.chain_end stage_of.intros)
qed

lemma receipt_depth_iff:
  assumes "eat_from_cbor L cbor = Inr eat"
  shows "(\<exists>v. verify_cvm_receipt L cbor accepted prof = Inr v \<and> vr_chain_depth v = k)
      \<longleftrightarrow> chain_of (eat_decode_previous L) (stage_verifies L (eat_value_x eat)) eat k \<and> k \<le> 17
          \<and> (\<forall>t. stage_of L eat t \<longrightarrow> stage_admitted L accepted t)"
proof -
  have "(\<exists>v. verify_cvm_receipt L cbor accepted prof = Inr v \<and> vr_chain_depth v = k)
      \<longleftrightarrow> walk_of_receipt L accepted (eat_value_x eat) eat 0 = Some k"
    using assms by (auto simp: verify_cvm_receipt_def walk_of_receipt_def res_simps split: prod.splits)
  then show ?thesis unfolding receipt.walk_iff good_stage_iff chain_of_conj by auto
qed

lemma chain_platform_known: "chain_of (eat_decode_previous L) (stage_verifies L x) eat k \<Longrightarrow> \<exists>p. eat_platform_enum L eat = Some p"
  by (erule chain_of.cases) (auto simp: stage_verifies_def)

lemma check_peer_accepts:
  assumes "previous_law L" "extract_eat_from_cert L leaf = Inr (Some cbor)" "eat_from_cbor L cbor = Inr eat"
  shows "(\<exists>rep. check_peer L w ls (Some (leaf # rest)) = Inr rep) \<longleftrightarrow>
     spki_hash_of_cert L leaf = Inr (tls_spki_hash eat) \<and> check_scts L (leaf # rest) leaf = Inr ()
     \<and> (\<exists>k. chain_of (eat_decode_previous L) (stage_verifies L (eat_value_x eat)) eat k \<and> k \<le> 16)"
    (is "?check \<longleftrightarrow> ?chain")
proof
  assume ?check
  then show ?chain unfolding check_peer_iff[OF assms(1)] using assms(2,3) by force
next
  assume ?chain
  then obtain k where c: "chain_of (eat_decode_previous L) (stage_verifies L (eat_value_x eat)) eat k" "k \<le> 16" by blast
  obtain p where "eat_platform_enum L eat = Some p" using chain_platform_known[OF c(1)] by blast
  then show ?check unfolding check_peer_iff[OF assms(1)] using assms(2,3) c \<open>?chain\<close> by blast
qed

text \<open>
  C15: how the two verifiers of token chains differ, exactly. For a certificate that carries a token, the receipt
  verifier of the contest protocol accepts the token with at most sixteen stages, the token names the
  certificate's key and the timestamps check, if and only if \<open>cvm check\<close> accepts the certificate and every stage of
  the chain has a quote and runs on a platform the policy accepts. So \<open>cvm check\<close> has no policy on platforms and
  leaves an empty quote to the platform's verifier; the receipt verifier knows no certificate, and takes one stage more.
\<close>

theorem check_agrees_with_receipt:
  assumes "previous_law L" "extract_eat_from_cert L leaf = Inr (Some cbor)" "eat_from_cbor L cbor = Inr eat"
  shows "(\<exists>v. verify_cvm_receipt L cbor accepted prof = Inr v \<and> vr_chain_depth v \<le> 16)
       \<and> spki_hash_of_cert L leaf = Inr (tls_spki_hash eat) \<and> check_scts L (leaf # rest) leaf = Inr ()
     \<longleftrightarrow> (\<exists>rep. check_peer L w ls (Some (leaf # rest)) = Inr rep)
       \<and> (\<forall>t. stage_of L eat t \<longrightarrow> stage_admitted L accepted t)"
proof -
  have "(\<exists>v. verify_cvm_receipt L cbor accepted prof = Inr v \<and> vr_chain_depth v \<le> 16)
      \<longleftrightarrow> (\<exists>k. (\<exists>v. verify_cvm_receipt L cbor accepted prof = Inr v \<and> vr_chain_depth v = k) \<and> k \<le> 16)"
    by blast
  then show ?thesis unfolding receipt_depth_iff[OF assms(3)] check_peer_accepts[OF assms] by auto
qed

subsection \<open>What is written where\<close>

lemma then_io_Inr [res_simps]: "then_io r k = (Inr y, w') \<longleftrightarrow> (\<exists>x w. r = (Inr x, w) \<and> k x w = (Inr y, w'))"
  by (auto simp: then_io_def split: prod.splits sum.splits)

lemma put_file_Inr [res_simps]: "put_file p b w = (Inr u, w') \<longleftrightarrow> fs_write p b w = Inr w'"
  by (auto simp: put_file_def split: sum.splits)

lemma last_path_join: "b \<noteq> [] \<Longrightarrow> last (path_join a b) = last b"
  by (simp add: path_join_def)

lemma fs_read_write_other: "fs_write q b w = Inr w' \<Longrightarrow> last q \<noteq> last p \<Longrightarrow> fs_read w' p = fs_read w p"
  using fs_write_other[of q b w w' p] fs_write_faulty[of q b w w'] by (cases "p = q") (auto simp: fs_read_def)

lemma write_build_token:
  assumes "write_build L I out m ev tpm eat w = (Inr lg, w')"
  shows "\<exists>cbor. eat_to_cbor L eat = Some cbor \<and> fs_read w' (path_join out ''attestation.cbor'') = Inr cbor"
proof -
  obtain cbor w4 w5 where c: "eat_to_cbor L eat = Some cbor" "fs_read w4 (path_join out ''attestation.cbor'') = Inr cbor"
      "(case ms_artifact_bytes m of None \<Rightarrow> (Inr (), w4) | Some b \<Rightarrow> put_file (path_join out ''artifact'') b w4) = (Inr (), w5)"
      "snd (append_to_log L (ci_git I) out (path_join out ''attestation.json'') (ms_value_x m) w5) = w'"
    using assms by (auto simp: write_build_def Let_def res_simps case_prod_beta dest: fs_read_write split: if_splits)
  let ?p = "path_join out ''attestation.cbor''"
  have p: "last ?p = CHR ''r''" by (simp add: last_path_join)
  have "fs_read w5 ?p = fs_read w4 ?p"
    using c(3) fs_read_write_other[of "path_join out ''artifact''" _ w4 w5 ?p] p
    by (auto simp: res_simps last_path_join split: option.splits)
  moreover have "fs_read w' ?p = fs_read w5 ?p"
    using c(4) p fs_read_write_other[of _ _ w5 w' ?p]
    by (auto simp: append_to_log_def Let_def res_simps last_path_join split: if_splits sum.splits)
  ultimately show ?thesis using c(1,2) by auto
qed

text \<open>On a disk without faults a build is written.\<close>

lemma put_file_ok: "faulty w = (\<lambda>_. False) \<Longrightarrow> \<exists>w'. put_file p b w = (Inr (), w') \<and> faulty w' = (\<lambda>_. False)"
  by (simp add: put_file_def fs_write_def)

lemma write_build_available:
  assumes "faulty w = (\<lambda>_. False)" "\<And>d. json_pretty L d = Some body" "eat_to_cbor L eat = Some cbor"
  shows "\<exists>lg w'. write_build L I out m ev tpm eat w = (Inr lg, w') \<and> faulty w' = (\<lambda>_. False)"
proof -
  define w1 where "w1 = (case fs_write (path_join out ''sequence'') (show_u64 (next_sequence out w)) w of Inl _ \<Rightarrow> w | Inr w' \<Rightarrow> w')"
  have "faulty w1 = (\<lambda>_. False)" using assms(1) by (simp add: w1_def fs_write_def)
  then obtain w2 where w2: "put_file (path_join out ''attestation.json'') body w1 = (Inr (), w2)" "faulty w2 = (\<lambda>_. False)"
    using put_file_ok by blast
  obtain w3 where w3: "put_file (path_join out ''attestation.cbor'') cbor w2 = (Inr (), w3)" "faulty w3 = (\<lambda>_. False)"
    using put_file_ok[OF w2(2)] by blast
  obtain w4 where w4: "(case ms_artifact_bytes m of None \<Rightarrow> (Inr (), w3) | Some b \<Rightarrow> put_file (path_join out ''artifact'') b w3) = (Inr (), w4)"
      "faulty w4 = (\<lambda>_. False)"
    using put_file_ok[OF w3(2)] w3(2) by (cases "ms_artifact_bytes m") auto
  obtain lg w5 where w5: "append_to_log L (ci_git I) out (path_join out ''attestation.json'') (ms_value_x m) w4 = (lg, w5)"
    by (rule prod.exhaust)
  then have "faulty w5 = (\<lambda>_. False)"
    using w4(2) by (auto simp: append_to_log_def Let_def res_simps dest: fs_write_faulty split: if_splits sum.splits)
  then show ?thesis
    using assms w2(1) w3(1) w4(1) w5 by (simp add: write_build_def Let_def w1_def[symmetric] then_io_def)
qed

subsection \<open>Tokens and their quotes\<close>

lemma quote_token_verified:
  assumes "token_law L" "genuine_tee L I" "quote_token L I fill eat x = Inr (ev, eat')"
  shows "eat' = fill ev (eat\<lparr>platform_quote := raw_quote ev,
      platform_measurement := opt_or (extract_platform_measurement L (raw_quote ev) (te_platform ev)) []\<rparr>)"
    and "eat_binding L eat' = eat_binding L eat" "ci_evidence I (report_data (eat_binding L eat) x) = Inr ev"
    and "ci_tee I = Inr (te_platform ev)"
    and "\<exists>ms. verify_platform_quote L (te_platform ev) (raw_quote ev) (eat_binding L eat') = Inr ms"
proof -
  show r: "eat' = fill ev (eat\<lparr>platform_quote := raw_quote ev,
      platform_measurement := opt_or (extract_platform_measurement L (raw_quote ev) (te_platform ev)) []\<rparr>)"
    "eat_binding L eat' = eat_binding L eat" "ci_evidence I (report_data (eat_binding L eat) x) = Inr ev"
    using assms(3) by (auto simp: quote_token_def Let_def res_simps)
  have "take 32 (report_data (eat_binding L eat) x) = eat_binding L eat"
    using assms(1) by (simp add: token_law_def report_data_def)
  then show "ci_tee I = Inr (te_platform ev)"
    "\<exists>ms. verify_platform_quote L (te_platform ev) (raw_quote ev) (eat_binding L eat') = Inr ms"
    using assms(2) r(2,3) unfolding genuine_tee_def by metis+
qed

text \<open>The parts of a build that got as far as writing.\<close>

lemma build_source_Inr:
  assumes "build_source L I src c = Inr m"
  obtains ct ws0 ws where "freeze L I src = Inr (ct, ws0)" "compile L I c ct ws0 = Inr ws" "measure_build L ct ws = Inr m"
    "tree_hash L (ci_tree I src) = Inr ct" "tree_hash L (ws_src ws0) = Inr ct" "tree_hash L (ws_src ws) = Inr ct"
    "ms_source m = ct" "ms_value_x m = ct"
proof -
  obtain ct ws0 ws where b: "freeze L I src = Inr (ct, ws0)" "compile L I c ct ws0 = Inr ws" "measure_build L ct ws = Inr m"
      "tree_hash L (ws_src ws0) = Inr ct"
    using assms by (auto simp: build_source_def res_simps)
  moreover have "tree_hash L (ci_tree I src) = Inr ct" using b(1) by (auto simp: freeze_def res_simps)
  moreover have h: "tree_hash L (ws_src ws) = Inr ct" using b(2) by (auto simp: compile_def Let_def res_simps)
  moreover have "ms_source m = ct" "ms_value_x m = ct" using b(3) h by (auto simp: measure_build_def Let_def res_simps)
  ultimately show thesis using that by blast
qed

subsection \<open>Build\<close>

lemma cmd_build_cases:
  assumes "cmd_build L I args w = (r, w')" "w' \<noteq> w \<or> r = Inr lg"
  obtains src p m ev eat where "ba_source (parse_build_args args) = Some src" "ci_tee I = Inr p"
    "build_source L I src (ba_cmd (parse_build_args args)) = Inr m" "build_eat L I p m = Inr (ev, eat)"
    "write_build L I (ba_output (parse_build_args args)) m ev (tpm_evidence I p (eat_binding L eat)) eat w = (r, w')"
proof -
  let ?a = "parse_build_args args"
  have "\<exists>src p m ev eat. ba_source ?a = Some src \<and> ci_tee I = Inr p \<and> build_source L I src (ba_cmd ?a) = Inr m
      \<and> build_eat L I p m = Inr (ev, eat)
      \<and> write_build L I (ba_output ?a) m ev (tpm_evidence I p (eat_binding L eat)) eat w = (r, w')"
  proof (cases "rbind (ok_or (ba_source ?a) (Usage ''source directory required'')) (\<lambda>src.
           rbind (map_err NoTee (ci_tee I)) (\<lambda>p.
           rbind (build_source L I src (ba_cmd ?a)) (\<lambda>m.
           rbind (build_eat L I p m) (\<lambda>(ev, eat). Inr (p, m, ev, eat)))))")
    case (Inl e)
    then show ?thesis using assms by (auto simp: cmd_build_def Let_def)
  next
    case (Inr x)
    then show ?thesis using assms(1) by (auto simp: cmd_build_def Let_def res_simps)
  qed
  then show thesis using that by blast
qed

lemma build_eat_token:
  assumes "token_law L" "build_eat L I p m = Inr (ev, eat)"
  shows "eat_value_x eat = ms_value_x m" "eat_source_hash eat = ms_source m" "eat_artifact_hash eat = ms_artifact m"
    "previous_attestation eat = []" "platform_quote eat = raw_quote ev" "eat_platform eat = platform_to_u8 L (te_platform ev)"
    "ci_evidence I (eat_binding L eat @ take 32 (ms_value_x m)) = Inr ev"
  using assms by (auto simp: build_eat_def quote_token_def Let_def res_simps token_law_def stage_components_def report_data_def)

text \<open>
  C4: nothing is attested, nor any file written, unless the ratchet held. Whenever \<open>cvm build\<close> succeeds or leaves a trace on disk,
  the frozen copy had the hash of the source before the build command ran and still has it after, whatever the command
  did to the workspace; that hash is the source hash and value X of the token, the artifact hash is that of the
  artifact found, and the hardware quoted the token's binding and value X. A success leaves that token, encoded, in
  \<open>attestation.cbor\<close>. The comment that opens \<open>src/main.rs\<close> describes an older build, whose value X is the hash of the
  output files and whose quote binds the hash of source, artifact and value X; the code, and here the theorem, has the
  hash of the frozen source tree and the binding of the token.
\<close>

theorem build_binds_source:
  assumes "token_law L" "cmd_build L I args w = (r, w')" "w' \<noteq> w \<or> r = Inr lg"
  shows "\<exists>src ct ws0 ws m ev eat. ba_source (parse_build_args args) = Some src \<and> tree_hash L (ci_tree I src) = Inr ct
     \<and> freeze L I src = Inr (ct, ws0) \<and> tree_hash L (ws_src ws0) = Inr ct
     \<and> compile L I (ba_cmd (parse_build_args args)) ct ws0 = Inr ws \<and> tree_hash L (ws_src ws) = Inr ct
     \<and> measure_build L ct ws = Inr m \<and> eat_source_hash eat = ct \<and> eat_value_x eat = ct \<and> eat_artifact_hash eat = ms_artifact m
     \<and> ci_evidence I (eat_binding L eat @ take 32 ct) = Inr ev \<and> platform_quote eat = raw_quote ev
     \<and> (r = Inr lg \<longrightarrow> (\<exists>cbor. eat_to_cbor L eat = Some cbor
          \<and> fs_read w' (path_join (ba_output (parse_build_args args)) ''attestation.cbor'') = Inr cbor))"
proof -
  obtain src p m ev eat where b: "ba_source (parse_build_args args) = Some src"
      "build_source L I src (ba_cmd (parse_build_args args)) = Inr m" "build_eat L I p m = Inr (ev, eat)"
      "write_build L I (ba_output (parse_build_args args)) m ev (tpm_evidence I p (eat_binding L eat)) eat w = (r, w')"
    using cmd_build_cases[OF assms(2,3)] by metis
  obtain ct ws0 ws where s: "freeze L I src = Inr (ct, ws0)" "compile L I (ba_cmd (parse_build_args args)) ct ws0 = Inr ws"
      "measure_build L ct ws = Inr m" "tree_hash L (ci_tree I src) = Inr ct" "tree_hash L (ws_src ws0) = Inr ct"
      "tree_hash L (ws_src ws) = Inr ct" "ms_source m = ct" "ms_value_x m = ct"
    by (rule build_source_Inr[OF b(2)])
  note t = build_eat_token[OF assms(1) b(3)]
  have "r = Inr lg \<Longrightarrow> \<exists>cbor. eat_to_cbor L eat = Some cbor
      \<and> fs_read w' (path_join (ba_output (parse_build_args args)) ''attestation.cbor'') = Inr cbor"
    using write_build_token b(4) by metis
  then show ?thesis
    using b(1) s t(1-3,5,7) by (intro exI[of _ src] exI[of _ ct] exI[of _ ws0] exI[of _ ws] exI[of _ m] exI[of _ ev] exI[of _ eat]) simp
qed

subsection \<open>From build to check\<close>

lemma genuine_stage_verifies:
  assumes "token_law L" "eat_platform eat = platform_to_u8 L p" "eat_value_x eat = x"
    "\<exists>ms. verify_platform_quote L p (platform_quote eat) (eat_binding L eat) = Inr ms"
  shows "stage_verifies L x eat" "eat_platform_enum L eat = Some p"
  using assms by (auto simp: stage_verifies_def token_law_def)

lemma built_token_verifies:
  assumes "token_law L" "genuine_tee L I" "build_eat L I p m = Inr (ev, eat)"
  shows "stage_verifies L (ms_value_x m) eat" "eat_platform_enum L eat = Some (te_platform ev)"
proof -
  have v: "\<exists>ms. verify_platform_quote L (te_platform ev) (platform_quote eat) (eat_binding L eat) = Inr ms"
    using quote_token_verified(5)[OF assms(1,2) assms(3)[unfolded build_eat_def]] build_eat_token(5)[OF assms(1,3)] by simp
  show "stage_verifies L (ms_value_x m) eat" "eat_platform_enum L eat = Some (te_platform ev)"
    by (rule genuine_stage_verifies[OF assms(1) build_eat_token(6)[OF assms(1,3)] build_eat_token(1)[OF assms(1,3)] v])+
qed

text \<open>A machine on which a stage can boot: hardware that quotes, a key pair, certificates and a writable place for its token.\<close>

definition bootable :: "('m) cvm_lib_scheme \<Rightarrow> cvm_in \<Rightarrow> str \<Rightarrow> fs \<Rightarrow> bool" where
  "bootable L J att w \<longleftrightarrow> (\<exists>p kp. ci_tee J = Inr p \<and> ci_keypair J = Inr kp
       \<and> (\<forall>rd. \<exists>ev. ci_evidence J rd = Inr ev) \<and> (\<forall>d c. \<exists>cert. make_attested_cert L kp d c = Inr cert))
     \<and> (\<forall>e. \<exists>c. eat_to_cbor L e = Some c) \<and> \<not> faulty w (path_join (path_parent att) ''stage1-attestation.cbor'')"

lemma quote_token_available:
  assumes "token_law L" "\<forall>rd. \<exists>ev. ci_evidence J rd = Inr ev"
  shows "\<exists>ev eat'. quote_token L J (\<lambda>_ e. e) eat x = Inr (ev, eat')"
proof -
  obtain ev where "ci_evidence J (report_data (eat_binding L eat) x) = Inr ev" using assms(2) by blast
  then show ?thesis using assms(1) by (simp add: quote_token_def Let_def token_law_def res_simps ensure_simps)
qed

lemma run_boot_chain:
  assumes "token_law L" "previous_law L" "genuine_tee L J" "run_boot L J dir att w = Inr (kp, x, cbor1)"
    and "fs_read w att = Inr cbor0" "eat_from_cbor L cbor0 = Inr eat0" "cbor0 \<noteq> []"
    and "chain_of (eat_decode_previous L) (stage_verifies L x) eat0 k"
  shows "\<exists>eat1 p. eat_from_cbor L cbor1 = Inr eat1 \<and> eat_value_x eat1 = x \<and> tls_spki_hash eat1 = spki_hash_of L kp
     \<and> eat_platform_enum L eat1 = Some p \<and> chain_of (eat_decode_previous L) (stage_verifies L x) eat1 (Suc k)"
proof -
  obtain p ev eat1 where b: "ci_tee J = Inr p" "quote_token L J (\<lambda>_ e. e) (stage1_token L p x (spki_hash_of L kp) eat0 cbor0) x = Inr (ev, eat1)"
      "eat_to_cbor L eat1 = Some cbor1"
    using assms(4-6) by (auto simp: run_boot_def stage0_verified_def res_simps)
  note q = quote_token_verified[OF assms(1,3) b(2)]
  have p: "te_platform ev = p" using q(4) b(1) by simp
  have f: "eat_value_x eat1 = x" "tls_spki_hash eat1 = spki_hash_of L kp" "previous_attestation eat1 = cbor0"
      "eat_platform eat1 = platform_to_u8 L p" "platform_quote eat1 = raw_quote ev"
    using q(1) assms(1,2) by (simp_all add: stage1_token_def stage_components_def token_law_def previous_law_def)
  have v: "stage_verifies L x eat1" "eat_platform_enum L eat1 = Some p"
    using genuine_stage_verifies[OF assms(1) f(4,1)] q(5) f(5) p by simp_all
  have "eat_decode_previous L eat1 = Inr (Some eat0)"
    using assms(2,6,7) f(3) by (simp add: previous_law_def)
  then have "chain_of (eat_decode_previous L) (stage_verifies L x) eat1 (Suc k)" by (rule chain_more[OF v(1) _ assms(8)])
  moreover have "eat_from_cbor L cbor1 = Inr eat1" using assms(1) b(3) by (simp add: token_law_def)
  ultimately show ?thesis using f(1,2) v(2) by blast
qed

lemma run_boot_available:
  assumes "token_law L" "bootable L J att w" "fs_read w att = Inr cbor0" "stage0_verified L cbor0 = Inr eat0"
    "tree_hash L (ci_tree J dir) = Inr (eat_value_x eat0)"
  shows "\<exists>kp cbor1. run_boot L J dir att w = Inr (kp, eat_value_x eat0, cbor1)
     \<and> (\<forall>d. \<exists>cert. make_attested_cert L kp d cbor1 = Inr cert)"
proof -
  obtain p kp where j: "ci_tee J = Inr p" "ci_keypair J = Inr kp" "\<forall>rd. \<exists>ev. ci_evidence J rd = Inr ev"
      "\<forall>d c. \<exists>cert. make_attested_cert L kp d c = Inr cert" "\<forall>e. \<exists>c. eat_to_cbor L e = Some c"
    using assms(2) by (auto simp: bootable_def)
  obtain ev eat1 where q: "quote_token L J (\<lambda>_ e. e)
      (stage1_token L p (eat_value_x eat0) (spki_hash_of L kp) eat0 cbor0) (eat_value_x eat0) = Inr (ev, eat1)"
    using quote_token_available[OF assms(1) j(3)] by blast
  obtain cbor1 where "eat_to_cbor L eat1 = Some cbor1" using j(5) by blast
  then show ?thesis using assms(3-5) j q by (simp add: run_boot_def ensure_simps)
qed

text \<open>
  C7: what is built boots, and what boots checks. When a build succeeded on genuine hardware and its token is given to
  \<open>cvm run\<close> on a genuine machine that can boot, with a tree on disk that has the hash of the source, then
  the run serves a certificate, and \<open>cvm check\<close> of that certificate succeeds with two stages and the source's hash as value X.
\<close>

theorem built_boots_and_checks:
  assumes "token_law L" "previous_law L" "cert_law L" "genuine_tee L I" "genuine_tee L J"
    and "cmd_build L I args w = (Inr lg, w')" "ba_source (parse_build_args args) = Some src" "tree_hash L (ci_tree I src) = Inr ct"
    and "ra_dir (parse_run_args rargs) = Some dir" "ra_attestation (parse_run_args rargs) = Some att"
      "fs_read v att = fs_read w' (path_join (ba_output (parse_build_args args)) ''attestation.cbor'')"
    and "bootable L J att v" "tree_hash L (ci_tree J dir) = Inr ct"
  shows "\<exists>sv v' rep. cmd_run L J rargs v = (Inr sv, v') \<and> check_peer L u ls (Some [sv_cert sv]) = Inr rep
     \<and> ck_stages rep = 2 \<and> ck_value_x rep = hex_encode L ct"
proof -
  obtain p m ev eat where b: "build_source L I src (ba_cmd (parse_build_args args)) = Inr m" "build_eat L I p m = Inr (ev, eat)"
      "write_build L I (ba_output (parse_build_args args)) m ev (tpm_evidence I p (eat_binding L eat)) eat w = (Inr lg, w')"
    using cmd_build_cases[OF assms(6), of lg] assms(7) by (metis option.inject)
  have x: "ms_value_x m = ct" using build_source_Inr[OF b(1)] assms(8) by (metis sum.inject(2))
  obtain cbor0 where c0: "eat_to_cbor L eat = Some cbor0" "fs_read v att = Inr cbor0"
    using write_build_token[OF b(3)] assms(11) by auto
  have d0: "eat_from_cbor L cbor0 = Inr eat" "cbor0 \<noteq> []" using assms(1) c0(1) by (auto simp: token_law_def)
  note t = build_eat_token[OF assms(1) b(2)] built_token_verifies[OF assms(1,4) b(2)]
  have s0: "stage0_verified L cbor0 = Inr eat"
    using d0(1) t(8,9) by (auto simp: stage0_verified_def stage_verifies_def)
  obtain kp cbor1 where r: "run_boot L J dir att v = Inr (kp, ct, cbor1)" "\<forall>d. \<exists>cert. make_attested_cert L kp d cbor1 = Inr cert"
    using run_boot_available[OF assms(1,12) c0(2) s0, of dir] assms(13) t(1) x by auto
  obtain cert where cert: "make_attested_cert L kp (domain_from_value_x L ct) cbor1 = Inr cert" using r(2) by blast
  have "chain_of (eat_decode_previous L) (stage_verifies L ct) eat (Suc 0)"
    using t(4,8) x assms(2) by (intro chain_end) (simp_all add: previous_law_def)
  from run_boot_chain[OF assms(1,2,5) r(1) c0(2) d0 this] obtain eat1 q where
    e1: "eat_from_cbor L cbor1 = Inr eat1" "eat_value_x eat1 = ct" "tls_spki_hash eat1 = spki_hash_of L kp"
      "eat_platform_enum L eat1 = Some q" "chain_of (eat_decode_previous L) (stage_verifies L ct) eat1 (Suc (Suc 0))"
    by blast
  have sc: "extract_eat_from_cert L cert = Inr (Some cbor1)" "spki_hash_of_cert L cert = Inr (tls_spki_hash eat1)"
      "check_scts L [cert] cert = Inr ()"
    using assms(3) cert e1(3) by (auto simp: cert_law_def check_scts_def)
  have "check_peer L u ls (Some [cert]) = Inr \<lparr>ck_platform = q, ck_value_x = hex_encode L ct, ck_stages = Suc (Suc 0),
      ck_registry = registry_note L u ls (hex_encode L ct)\<rparr>"
    unfolding check_peer_iff[OF assms(2)] using sc e1 by (intro exI[of _ cbor1] exI[of _ eat1] exI[of _ q] exI[of _ "Suc (Suc 0)"]) simp
  moreover obtain v' where "fs_write (path_join (path_parent att) ''stage1-attestation.cbor'') cbor1 v = Inr v'"
    using assms(12) by (auto simp: bootable_def fs_write_def)
  then have "\<exists>sv. cmd_run L J rargs v = (Inr sv, v') \<and> sv_cert sv = cert"
    using assms(9,10) r(1) cert by (simp add: cmd_run_def Let_def then_io_def put_file_def)
  ultimately show ?thesis by fastforce
qed

subsection \<open>Verify and merge\<close>

lemma hex_law_decode: "hex_law L \<Longrightarrow> hex_decode L (hex_encode L b) = Some b"
  by (simp add: hex_law_def)

lemma hex_law_inj: "hex_law L \<Longrightarrow> hex_encode L a = hex_encode L b \<longleftrightarrow> a = b"
  by (metis hex_law_decode option.inject)

text \<open>
  \<open>cvm verify\<close> does not verify what \<open>cvm build\<close> writes. The document of a build carries the token's own binding;
  \<open>verify\<close> expects the hash of source, artifact and value X, so wherever the two differ (as the builder's own comment says they
  do) it stops with a mismatch.
\<close>

theorem verify_rejects_builds:
  assumes "hex_law L" "eat_binding L eat \<noteq> sha256 L (ms_source m @ ms_artifact m @ ms_value_x m)"
  shows "verify_attestation_json L tree w ls (build_attestation L now seq m (eat_binding L eat) tpm ev) source_dir artifact
     = Inl BindingMismatch"
proof -
  let ?d = "build_attestation L now seq m (eat_binding L eat) tpm ev"
  have f: "str_or ?d ''source_hash'' [] = hex_encode L (ms_source m)" "str_or ?d ''artifact_hash'' [] = hex_encode L (ms_artifact m)"
      "str_or ?d ''value_x'' [] = hex_encode L (ms_value_x m)" "str_or ?d ''binding'' [] = hex_encode L (eat_binding L eat)"
    by (simp_all add: build_attestation_def Let_def str_or_jobj opt_or_def)
  show ?thesis
    using assms by (simp add: verify_attestation_json_def Let_def f hex_law_decode hex_law_inj ensure_simps)
qed

text \<open>
  C32: \<open>cvm verify\<close> accepts what no hardware signed. For any hashes and any non-empty bytes, a document that calls them a Nitro
  quote and carries the hash of the hashes as its binding passes, with the signature chain reported as failed.
\<close>

theorem forged_attestation_verifies:
  assumes "hex_law L" "q \<noteq> []" "\<And>b. \<exists>e. verify_platform_quote L Nitro q b = Inl e"
  shows "\<exists>rep. verify_attestation_json L tree w ls
      (jobj [(''platform'', JStr ''Nitro''), (''source_hash'', JStr (hex_encode L ct)), (''artifact_hash'', JStr (hex_encode L a)),
         (''value_x'', JStr (hex_encode L x)), (''binding'', JStr (hex_encode L (sha256 L (ct @ a @ x)))),
         (''quote'', JStr (hex_encode L q))]) None None = Inr rep
     \<and> vf_platform rep = ''Nitro'' \<and> vf_chain rep = Some False"
proof -
  have "signature_chain L ''Nitro'' q b = Some False" for b
  proof -
    obtain e where "verify_platform_quote L Nitro q (if length b = 32 then b else replicate 32 (CHR 0x00)) = Inl e"
      using assms(3) by blast
    then show ?thesis by (simp add: signature_chain_def platform_named_def)
  qed
  then show ?thesis
    using assms(1,2)
    by (simp add: verify_attestation_json_def Let_def str_or_jobj opt_or_def hex_law_decode ensure_simps verify_quote_binding_def
        verify_measurement_def)
qed

text \<open>
  \<open>cvm merge\<close> compares neither artifacts nor platforms. Two attestation files that name the same value X and source are merged and
  announced as two vendors, with the artifact hash of the first, whatever artifacts and platforms they
  name.
\<close>

theorem merge_ignores_artifacts:
  assumes "p \<noteq> ''--output''" "q \<noteq> ''--output''" "merge_load L w p = Inr a" "merge_load L w q = Inr b"
    and "str_or b ''value_x'' [] = str_or a ''value_x'' []" "str_or b ''source_hash'' [] = str_or a ''source_hash'' []"
    and "utf8_valid (take 32 (str_or a ''platform_measurement'' []))" "utf8_valid (take 32 (str_or b ''platform_measurement'' []))"
    and "json_pretty L (merged_document now [a, b]) = Some body" "\<not> faulty w ''merged-attestation.json''"
  shows "\<exists>w'. cmd_merge L now [p, q] w = Inr (2, w') \<and> fs_read w' ''merged-attestation.json'' = Inr body
     \<and> str_or (merged_document now [a, b]) ''artifact_hash'' [] = str_or a ''artifact_hash'' []"
proof -
  obtain w' where w': "fs_write ''merged-attestation.json'' body w = Inr w'" using assms(10) by (simp add: fs_write_def)
  have "cmd_merge L now [p, q] w = Inr (2, w')"
    using assms w' by (simp add: cmd_merge_def ensure_simps)
  moreover have "str_or (merged_document now [a, b]) ''artifact_hash'' [] = str_or a ''artifact_hash'' []"
    by (simp add: merged_document_def Let_def str_or_jobj opt_or_def)
  ultimately show ?thesis using fs_read_write[OF w'] by blast
qed

subsection \<open>A reference machine\<close>

text \<open>
  Tokens and certificates as lines of hexadecimal, a tree's hash from its text, and hardware whose quotes are the binding
  with a tag. It satisfies the laws above.
\<close>

definition ref_eat_fields :: "eat_token \<Rightarrow> bytes list" where
  "ref_eat_fields e = [eat_value_x e, [char_of (unat (eat_platform e))], eat_source_hash e, eat_artifact_hash e, platform_quote e,
     platform_measurement e, tls_spki_hash e, previous_attestation e]"

fun ref_eat_of :: "bytes list \<Rightarrow> eat_token option" where
  "ref_eat_of [x, [p], s, a, q, m, t, pv] = Some \<lparr>eat_value_x = x, eat_platform = of_nat (of_char p), eat_source_hash = s,
     eat_artifact_hash = a, platform_quote = q, platform_measurement = m, tls_spki_hash = t, previous_attestation = pv\<rparr>"
| "ref_eat_of _ = None"

definition ref_eat_encode :: "eat_token \<Rightarrow> bytes" where
  "ref_eat_encode e = concat (map (capture_line ref_lib) (ref_eat_fields e))"

definition ref_eat_decode :: "bytes \<Rightarrow> str + eat_token" where
  "ref_eat_decode c = ok_or (Option.bind (those (map ref_unhex (lines c))) ref_eat_of) ''bad token''"

fun tree_text :: "node \<Rightarrow> bytes" where
  "tree_text (NFile b x ro) = b"
| "tree_text (NDir es ro) = concat (map (\<lambda>(n, t). if n = ''.git'' then [] else n @ tree_text t) es)"
| "tree_text _ = []"

fun ref_platform_byte :: "platform \<Rightarrow> u8" where
  "ref_platform_byte Nitro = 0"
| "ref_platform_byte SevSnp = 1"
| "ref_platform_byte Tdx = 2"

definition ref_from_build :: "build_components \<Rightarrow> eat_token" where
  "ref_from_build c = \<lparr>eat_value_x = bc_value_x c, eat_platform = ref_platform_byte (bc_platform c), eat_source_hash = bc_source_hash c,
     eat_artifact_hash = bc_artifact_hash c, platform_quote = bc_platform_quote c, platform_measurement = bc_platform_measurement c,
     tls_spki_hash = [], previous_attestation = []\<rparr>"

definition ref_cvm :: cvm_lib where
  "ref_cvm = (reg_lib.extend ref_reg (cvm_lib.fields
       (\<lambda>n. case n of None \<Rightarrow> Inl ''no tree'' | Some t \<Rightarrow> Inr (pad 48 (tree_text t)))
       [''.git''] ref_from_build ref_platform_byte (\<lambda>e. previous_attestation e \<noteq> []) (\<lambda>b e. e\<lparr>previous_attestation := b\<rparr>)
       (\<lambda>_. None) (\<lambda>x. take 8 x @ ''.test'') (\<lambda>kp. kp) (\<lambda>kp d c. Inr (capture_line ref_lib kp @ c))
       (\<lambda>cert. Inr (map_option snd (split_once (CHR 0x0A) cert)))
       (\<lambda>cert. ok_or (Option.bind (split_once (CHR 0x0A) cert) (\<lambda>(k, _). ref_unhex k)) ''bad certificate'')
       (\<lambda>_. Inr []) (\<lambda>_ _. Inl ''no issuer'') (\<lambda>_. True)))
     \<lparr>eat_to_cbor := (\<lambda>e. Some (ref_eat_encode e)), eat_from_cbor := ref_eat_decode,
      eat_decode_previous := (\<lambda>e. if previous_attestation e = [] then Inr None
        else rbind (ref_eat_decode (previous_attestation e)) (\<lambda>t. Inr (Some t))),
      verify_platform_quote := (\<lambda>p q b. if q = ''quote'' @ b then Inr [] else Inl ''forged'')\<rparr>"

definition ref_ci :: cvm_in where
  "ref_ci = \<lparr>ci_tree = (\<lambda>_. Some (NDir [(''.git'', NDir [] False), (''Makefile'', NFile ''all:'' False False)] False)), ci_io = (\<lambda>_. False), ci_workspace = True,
     ci_tee = Inr Nitro,
     ci_evidence = (\<lambda>rd. Inr \<lparr>te_platform = Nitro, raw_quote = ''quote'' @ take 32 rd, kms_private_key = None\<rparr>), ci_tpm = None,
     ci_proc = (\<lambda>p ws. (Inr True, ws\<lparr>ws_build := Some (NDir [(''release'', NDir [(''app'', NFile ''bin'' True False)] False)] False)\<rparr>)),
     ci_git = \<lparr>git_in_repo = False, git_added = False, git_committed = False\<rparr>, ci_keypair = Inr ''kp'', ci_now = 7\<rparr>"

lemmas ref_cvm_simps = ref_cvm_def reg_lib.extend_def cvm_lib.fields_def ref_reg_def lib.extend_def reg_lib.fields_def

lemma ref_eat_round_trip: "ref_eat_decode (ref_eat_encode e) = Inr e"
proof -
  have "those (map ref_unhex (map (b64_encode ref_lib) bs)) = Some bs" for bs
    by (induction bs) (simp_all add: ref_lib_def ref_unhex_hex)
  moreover have "lines (ref_eat_encode e) = map (b64_encode ref_lib) (ref_eat_fields e)"
    unfolding ref_eat_encode_def by (rule lines_log[OF ref_lib_b64_law])
  moreover have "unat (eat_platform e) < 256" using unsigned_less[of "eat_platform e"] by simp
  then have "ref_eat_of (ref_eat_fields e) = Some e" by (simp add: ref_eat_fields_def)
  ultimately show ?thesis by (simp add: ref_eat_decode_def)
qed

lemma ref_cvm_laws: "token_law ref_cvm" "previous_law ref_cvm" "cert_law ref_cvm" "hex_law ref_cvm" "genuine_tee ref_cvm ref_ci"
proof -
  have "ref_eat_encode e \<noteq> []" for e by (simp add: ref_eat_encode_def ref_eat_fields_def capture_line_def)
  moreover have "eat_platform_enum ref_lib e = Some p" if "eat_platform e = ref_platform_byte p" for e p
    using that by (cases p) (simp_all add: ref_lib_def)
  ultimately show "token_law ref_cvm"
    by (auto simp: token_law_def ref_cvm_simps ref_eat_round_trip ref_from_build_def) (simp_all add: ref_lib_def length_pad)
  show "previous_law ref_cvm" by (simp add: previous_law_def ref_cvm_simps)
  have "CHR 0x0A \<notin> set (ref_hex kp)" for kp
    using b64_text(2)[OF ref_lib_b64_law, of kp] by (simp add: ref_lib_def)
  then show "cert_law ref_cvm"
    by (simp add: cert_law_def ref_cvm_simps capture_line_def split_once_at ref_lib_def ref_unhex_hex)
  show "hex_law ref_cvm" using ref_lib_hex_law by (simp add: hex_law_def ref_cvm_simps)
  show "genuine_tee ref_cvm ref_ci" by (simp add: genuine_tee_def ref_cvm_simps ref_ci_def)
qed

definition ref_out_fs :: fs where
  "ref_out_fs = \<lparr>files = [], faulty = (\<lambda>_. False)\<rparr>"

lemma ref_hash: "tree_hash ref_cvm (ci_tree ref_ci d) = Inr (pad 48 ''Makefileall:'')"
  by (simp add: ref_cvm_simps ref_ci_def)

definition ref_measured :: measured where
  "ref_measured = \<lparr>ms_source = pad 48 ''Makefileall:'', ms_deps = Some (pad 48 []), ms_artifact = pad 48 ''bin'',
     ms_artifact_bytes = Some ''bin'', ms_value_x = pad 48 ''Makefileall:''\<rparr>"

lemma ref_source_built: "build_source ref_cvm ref_ci ''src'' None = Inr ref_measured"
proof -
  define ws0 where "ws0 = \<lparr>ws_src = Some (NDir [(''Makefile'', NFile ''all:'' False True)] True),
     ws_build = Some (NDir [] False), ws_deps = Some (NDir [] False)\<rparr>"
  define ws where "ws = ws0\<lparr>ws_build := Some (NDir [(''release'', NDir [(''app'', NFile ''bin'' True False)] False)] False)\<rparr>"
  have c: "copy_dir_readonly [''.git''] (\<lambda>_. False) ''src''
      (Some (NDir [(''.git'', NDir [] False), (''Makefile'', NFile ''all:'' False False)] False))
      = Inr (NDir [(''Makefile'', NFile ''all:'' False True)] True)" by code_simp
  have h: "tree_hash ref_cvm (ws_src ws0) = Inr (pad 48 ''Makefileall:'')" "ws_src ws = ws_src ws0" "ws_deps ws = ws_deps ws0"
    by (simp_all add: ref_cvm_simps ws0_def ws_def)
  have f: "freeze ref_cvm ref_ci ''src'' = Inr (pad 48 ''Makefileall:'', ws0)"
    using c by (simp add: freeze_def ref_hash ws0_def) (simp add: ref_cvm_simps ref_ci_def ensure_simps)
  have k: "compile ref_cvm ref_ci None (pad 48 ''Makefileall:'') ws0 = Inr ws"
    using h by (simp add: compile_def Let_def run_proc_def ensure_simps)
      (simp add: ref_ci_def ws_def ws0_def path_exists_def child_def)
  have "file_bytes (find_artifact (ws_build ws) (ws_src ws)) = Some ''bin''"
    unfolding ws_def ws0_def by code_simp
  then have "measure_build ref_cvm (pad 48 ''Makefileall:'') ws = Inr ref_measured"
    using h by (simp add: measure_build_def Let_def ref_measured_def)
      (simp add: ref_cvm_simps ref_lib_def ws0_def path_exists_def pad_def)
  then show ?thesis using f k h(1) by (simp add: build_source_def ensure_simps)
qed

lemma ref_build: "\<exists>lg w'. cmd_build ref_cvm ref_ci [''src''] ref_out_fs = (Inr lg, w') \<and> faulty w' = (\<lambda>_. False)"
proof -
  have a: "parse_build_args [''src''] = \<lparr>ba_source = Some ''src'', ba_cmd = None, ba_output = ''./out''\<rparr>" by code_simp
  have t: "ci_tee ref_ci = Inr Nitro" by (simp add: ref_ci_def)
  have "ci_evidence ref_ci rd = Inr \<lparr>te_platform = Nitro, raw_quote = ''quote'' @ take 32 rd, kms_private_key = None\<rparr>" for rd
    by (simp add: ref_ci_def)
  moreover have "eat_binding ref_cvm e = pad 32 (eat_value_x e)" for e by (simp add: ref_cvm_simps ref_lib_def)
  ultimately obtain ev eat where e: "build_eat ref_cvm ref_ci Nitro ref_measured = Inr (ev, eat)"
    by (simp add: build_eat_def quote_token_def Let_def ensure_simps)
  have "\<exists>lg w'. write_build ref_cvm ref_ci ''./out'' ref_measured ev tpm eat ref_out_fs = (Inr lg, w') \<and> faulty w' = (\<lambda>_. False)" for tpm
    by (rule write_build_available[of _ _ "''{}''"]) (simp_all add: ref_out_fs_def ref_cvm_simps ref_lib_def)
  then show ?thesis unfolding cmd_build_def a Let_def by (simp add: t ref_source_built e)
qed

theorem build_binds_source_witness:
  "\<exists>lg w' cbor eat. cmd_build ref_cvm ref_ci [''src''] ref_out_fs = (Inr lg, w') \<and> fs_read w' ''./out/attestation.cbor'' = Inr cbor
     \<and> eat_to_cbor ref_cvm eat = Some cbor \<and> eat_value_x eat = pad 48 ''Makefileall:''"
proof -
  obtain lg w' where b: "cmd_build ref_cvm ref_ci [''src''] ref_out_fs = (Inr lg, w')" and ok: "faulty w' = (\<lambda>_. False)" using ref_build by blast
  have "ba_output (parse_build_args [''src'']) = ''./out''" by code_simp
  then have "path_join (ba_output (parse_build_args [''src''])) ''attestation.cbor'' = ''./out/attestation.cbor''" by code_simp
  with build_binds_source[OF ref_cvm_laws(1) b, of lg] b show ?thesis unfolding ref_hash by auto
qed

theorem built_boots_and_checks_witness:
  "\<exists>lg w' sv v' rep. cmd_build ref_cvm ref_ci [''src''] ref_out_fs = (Inr lg, w')
     \<and> cmd_run ref_cvm ref_ci [''app'', ''--attestation'', ''./out/attestation.cbor''] w' = (Inr sv, v')
     \<and> check_peer ref_cvm w' (\<lambda>_. NoDir) (Some [sv_cert sv]) = Inr rep \<and> ck_stages rep = 2"
proof -
  obtain lg w' where b: "cmd_build ref_cvm ref_ci [''src''] ref_out_fs = (Inr lg, w')" and ok: "faulty w' = (\<lambda>_. False)" using ref_build by blast
  have a: "ba_source (parse_build_args [''src'']) = Some ''src''"
    "ra_dir (parse_run_args [''app'', ''--attestation'', ''./out/attestation.cbor'']) = Some ''app''"
    "ra_attestation (parse_run_args [''app'', ''--attestation'', ''./out/attestation.cbor'']) = Some ''./out/attestation.cbor''"
    "path_join (ba_output (parse_build_args [''src''])) ''attestation.cbor'' = ''./out/attestation.cbor''"
    by code_simp+
  from ok have "bootable ref_cvm ref_ci ''./out/attestation.cbor'' w'"
    by (simp add: bootable_def ref_ci_def ref_cvm_simps ref_out_fs_def)
  with built_boots_and_checks[OF ref_cvm_laws(1,2,3,5,5) b a(1) ref_hash a(2,3) _ _ ref_hash] a(4) b
  show ?thesis by fastforce
qed

theorem check_accepts_iff_witness:
  "\<not> (\<exists>rep. check_peer ref_cvm ref_out_fs (\<lambda>_. NoDir) (Some [capture_line ref_lib ''kp'' @ ''no token'']) = Inr rep)"
proof -
  have "eat_from_cbor ref_cvm ''no token'' = Inl ''bad token''" by code_simp
  moreover have "extract_eat_from_cert ref_cvm (capture_line ref_lib ''kp'' @ ''no token'') = Inr (Some ''no token'')" by code_simp
  ultimately show ?thesis unfolding check_accepts_iff[OF ref_cvm_laws(2)] by auto
qed

theorem forged_attestation_verifies_witness:
  "\<exists>rep. verify_attestation_json ref_cvm (\<lambda>_. None) ref_out_fs (\<lambda>_. NoDir)
      (jobj [(''platform'', JStr ''Nitro''), (''source_hash'', JStr (hex_encode ref_cvm ''s'')),
         (''artifact_hash'', JStr (hex_encode ref_cvm ''a'')), (''value_x'', JStr (hex_encode ref_cvm ''x'')),
         (''binding'', JStr (hex_encode ref_cvm (sha256 ref_cvm (''s'' @ ''a'' @ ''x'')))),
         (''quote'', JStr (hex_encode ref_cvm ''junk''))]) None None = Inr rep
     \<and> vf_platform rep = ''Nitro'' \<and> vf_chain rep = Some False"
  by (rule forged_attestation_verifies[OF ref_cvm_laws(4)]) (simp_all add: ref_cvm_simps)

end
