(* ===== verification/Enclave_Safety.thy ===== *)
theory Enclave_Safety
  imports Attested_Build_Safety
begin

section \<open>The one-shot enclave (\<open>cvm enclave\<close>)\<close>

text \<open>
  \<open>cmd_enclave\<close> builds, quotes and serves in one process. What it serves over TLS is what
  \<open>cvm check\<close> accepts, and the state it keeps for the KMS belongs to the same token.
\<close>

lemma enclave_source_hash:
  "enclave_source L I src c = Inr (ct, x, art) \<Longrightarrow> tree_hash L (ci_tree I src) = Inr ct \<and> x = ct"
  by (auto simp: enclave_source_def freeze_def res_simps)

lemma enclave_kms_Inr:
  assumes "enclave_kms N p rd key = Inr (Some k)"
  shows "p = Nitro" "ks_report_data k = rd" "key = Some (ks_rsa_priv k)"
  using assms by (auto simp: enclave_kms_def res_simps split: option.splits if_splits)

text \<open>A token that a genuine machine quoted for itself, with nothing before it, checks with one stage.\<close>

lemma single_stage_checks:
  assumes "token_law L" "previous_law L" "cert_law L" "make_attested_cert L kp d cbor = Inr cert" "eat_to_cbor L eat = Some cbor"
    and "stage_verifies L (eat_value_x eat) eat" "eat_platform_enum L eat = Some p" "previous_attestation eat = []"
    and "tls_spki_hash eat = spki_hash_of L kp"
  shows "check_peer L w ls (Some [cert]) = Inr \<lparr>ck_platform = p, ck_value_x = hex_encode L (eat_value_x eat), ck_stages = 1,
      ck_registry = registry_note L w ls (hex_encode L (eat_value_x eat))\<rparr>"
proof -
  have "eat_from_cbor L cbor = Inr eat" using assms(1,5) by (auto simp: token_law_def)
  moreover have "chain_of (eat_decode_previous L) (stage_verifies L (eat_value_x eat)) eat (Suc 0)"
    using assms(2,6,8) by (intro chain_end) (simp_all add: previous_law_def)
  moreover have "extract_eat_from_cert L cert = Inr (Some cbor)" "spki_hash_of_cert L cert = Inr (tls_spki_hash eat)"
      "check_scts L [cert] cert = Inr ()"
    using assms(3,4,9) by (auto simp: cert_law_def check_scts_def)
  ultimately show ?thesis
    unfolding check_peer_iff[OF assms(2)] using assms(7)
    by (intro exI[of _ cbor] exI[of _ eat] exI[of _ p] exI[of _ "Suc 0"]) simp
qed

lemma enclave_checked:
  assumes "token_law L" "previous_law L" "cert_law L" "genuine_tee L I"
    and "cmd_enclave L I N args = Inr (OverTls cert body cbor key kms)"
  shows "\<exists>src ct rep eat. ba_source (enclave_arg_loop args \<lparr>ba_source = None, ba_cmd = None, ba_output = []\<rparr>) = Some src
     \<and> tree_hash L (ci_tree I src) = Inr ct \<and> check_peer L w ls (Some [cert]) = Inr rep
     \<and> ck_stages rep = 1 \<and> ck_value_x rep = hex_encode L ct \<and> eat_from_cbor L cbor = Inr eat \<and> extract_eat_from_cert L cert = Inr (Some cbor)
     \<and> (\<forall>k. kms = Some k \<longrightarrow> ck_platform rep = Nitro \<and> key = Some (ks_rsa_priv k)
          \<and> take 32 (ks_report_data k) = eat_binding L eat)"
proof -
  let ?a = "enclave_arg_loop args \<lparr>ba_source = None, ba_cmd = None, ba_output = []\<rparr>"
  obtain src p ct x art kp ev eat where e: "ci_tee I = Inr p" "enclave_source L I src (ba_cmd ?a) = Inr (ct, x, art)"
      "quote_token L I (\<lambda>_ e. e) ((from_build L (stage_components p x ct art))\<lparr>tls_spki_hash := spki_hash_of L kp\<rparr>) x = Inr (ev, eat)"
      "enclave_kms N p (report_data (eat_binding L eat) x) key = Inr kms" "eat_to_cbor L eat = Some cbor"
      "make_attested_cert L kp (domain_from_value_x L x) cbor = Inr cert"
      "ba_source ?a = Some src"
    using assms(5) by (auto simp: cmd_enclave_def Let_def res_simps split: if_splits)
  note q = quote_token_verified[OF assms(1,4) e(3)]
  note src = enclave_source_hash[OF e(2)]
  have f: "eat_value_x eat = x" "tls_spki_hash eat = spki_hash_of L kp" "previous_attestation eat = []"
      "eat_platform eat = platform_to_u8 L (te_platform ev)" "platform_quote eat = raw_quote ev"
    using q(1,4) e(1) assms(1) by (simp_all add: stage_components_def token_law_def)
  have v: "stage_verifies L (eat_value_x eat) eat" "eat_platform_enum L eat = Some (te_platform ev)"
    using genuine_stage_verifies[OF assms(1) f(4,1)] q(5) f(1,5) by simp_all
  note chk = single_stage_checks[OF assms(1-3) e(6,5) v f(3,2), of w ls]
  have "te_platform ev = p" using q(4) e(1) by simp
  moreover have "take 32 (report_data (eat_binding L eat) x) = eat_binding L eat"
    using assms(1) by (simp add: token_law_def report_data_def)
  moreover have "extract_eat_from_cert L cert = Inr (Some cbor)" using assms(3) e(6) by (auto simp: cert_law_def)
  moreover have "eat_from_cbor L cbor = Inr eat" using assms(1) e(5) by (auto simp: token_law_def)
  ultimately show ?thesis
    using chk src e(7) f(1) enclave_kms_Inr[of N p "report_data (eat_binding L eat) x" key] e(4)
    by (intro exI[of _ src] exI[of _ ct] exI[of _ eat] exI conjI) auto
qed

text \<open>
  C16: what an enclave serves checks. When \<open>cvm enclave\<close> comes up over TLS on genuine hardware,
  \<open>cvm check\<close> of its certificate succeeds with one stage and the hash of the source tree as value X, and
  the token in the certificate is the one it serves; when it holds a key for the KMS, the machine is a Nitro enclave, the key is the one of the
  quote, and the report data it keeps for fresh documents starts with the binding of the token in the
  certificate.
\<close>

theorem enclave_serves_checkable:
  assumes "token_law L" "previous_law L" "cert_law L" "genuine_tee L I"
    and "cmd_enclave L I N args = Inr (OverTls cert body cbor key kms)"
  shows "\<exists>src ct rep eat. ba_source (enclave_arg_loop args \<lparr>ba_source = None, ba_cmd = None, ba_output = []\<rparr>) = Some src
     \<and> tree_hash L (ci_tree I src) = Inr ct \<and> check_peer L w ls (Some [cert]) = Inr rep
     \<and> ck_stages rep = 1 \<and> ck_value_x rep = hex_encode L ct
     \<and> extract_eat_from_cert L cert = Inr (Some cbor) \<and> eat_from_cbor L cbor = Inr eat
     \<and> (\<forall>k. kms = Some k \<longrightarrow> ck_platform rep = Nitro \<and> key = Some (ks_rsa_priv k)
          \<and> take 32 (ks_report_data k) = eat_binding L eat)"
  using enclave_checked[OF assms, of w ls] by blast

text \<open>The reference machine with a KMS key in its quotes.\<close>

definition ref_nsm :: nsm_in where
  "ref_nsm = \<lparr>ni_nitro = True, ni_rsa_public = (\<lambda>k. Some (''pub'' @ k)), ni_nsm = Inr (), ni_provider = True,
     ni_server_config = (\<lambda>_. Inr ())\<rparr>"

definition ref_nitro :: cvm_in where
  "ref_nitro = ref_ci\<lparr>ci_evidence := (\<lambda>rd. Inr \<lparr>te_platform = Nitro, raw_quote = ''quote'' @ take 32 rd, kms_private_key = Some ''rsa''\<rparr>)\<rparr>"

lemma ref_nitro_genuine: "genuine_tee ref_cvm ref_nitro"
  by (simp add: genuine_tee_def ref_cvm_simps ref_nitro_def ref_ci_def)

lemma ref_enclave_source: "\<exists>art. enclave_source ref_cvm ref_nitro ''src'' None = Inr (pad 48 ''Makefileall:'', pad 48 ''Makefileall:'', art)"
proof -
  define ws0 where "ws0 = \<lparr>ws_src = Some (NDir [(''Makefile'', NFile ''all:'' False True)] True),
     ws_build = Some (NDir [] False), ws_deps = Some (NDir [] False)\<rparr>"
  have "copy_dir_readonly [''.git''] (\<lambda>_. False) ''src''
      (Some (NDir [(''.git'', NDir [] False), (''Makefile'', NFile ''all:'' False False)] False))
      = Inr (NDir [(''Makefile'', NFile ''all:'' False True)] True)" by code_simp
  then have f: "freeze ref_cvm ref_nitro ''src'' = Inr (pad 48 ''Makefileall:'', ws0)"
    by (simp add: freeze_def ws0_def ref_nitro_def ref_hash) (simp add: ref_cvm_simps ref_ci_def ensure_simps)
  have h: "tree_hash ref_cvm (ws_src ws0) = Inr (pad 48 ''Makefileall:'')" by (simp add: ref_cvm_simps ws0_def)
  obtain ws where "run_proc ref_nitro (Shell c) ws0 = Inr ws" "ws_src ws = ws_src ws0" for c
    by (simp add: run_proc_def ref_nitro_def ref_ci_def)
  then show ?thesis using f h by (simp add: enclave_source_def ensure_simps)
qed

lemma ref_enclave: "\<exists>cert body cbor k. cmd_enclave ref_cvm ref_nitro ref_nsm [''src''] = Inr (OverTls cert body cbor (Some ''rsa'') (Some k))"
proof -
  have "ci_tee ref_nitro = Inr Nitro" "ci_keypair ref_nitro = Inr ''kp''"
    "ci_evidence ref_nitro rd = Inr \<lparr>te_platform = Nitro, raw_quote = ''quote'' @ take 32 rd, kms_private_key = Some ''rsa''\<rparr>" for rd
    by (simp_all add: ref_nitro_def ref_ci_def)
  moreover have "eat_binding ref_cvm e = pad 32 (eat_value_x e)" "eat_to_cbor ref_cvm e = Some (ref_eat_encode e)"
    "json_pretty ref_cvm j = Some ''{}''" "make_attested_cert ref_cvm kp d c = Inr (capture_line ref_lib kp @ c)" for e j kp d c
    by (simp_all add: ref_cvm_simps ref_lib_def)
  ultimately show ?thesis
    using ref_enclave_source
    by (auto simp: cmd_enclave_def Let_def quote_token_def ensure_simps enclave_kms_def ref_nsm_def)
qed

theorem enclave_serves_checkable_witness:
  "\<exists>cert body cbor k rep. cmd_enclave ref_cvm ref_nitro ref_nsm [''src''] = Inr (OverTls cert body cbor (Some ''rsa'') (Some k))
     \<and> check_peer ref_cvm ref_out_fs (\<lambda>_. NoDir) (Some [cert]) = Inr rep \<and> ck_platform rep = Nitro \<and> ck_stages rep = 1"
proof -
  obtain cert body cbor k where
    c: "cmd_enclave ref_cvm ref_nitro ref_nsm [''src''] = Inr (OverTls cert body cbor (Some ''rsa'') (Some k))"
    using ref_enclave by blast
  from enclave_serves_checkable[OF ref_cvm_laws(1-3) ref_nitro_genuine c, of ref_out_fs "\<lambda>_. NoDir"] c
  show ?thesis by blast
qed

theorem check_agrees_with_receipt_witness:
  "\<exists>cert body cbor key kms v. cmd_enclave ref_cvm ref_nitro ref_nsm [''src''] = Inr (OverTls cert body cbor key kms)
     \<and> verify_cvm_receipt ref_cvm cbor [''nitro''] [] = Inr v \<and> vr_chain_depth v \<le> 16
     \<and> \<not> (\<exists>v. verify_cvm_receipt ref_cvm cbor [''tdx''] [] = Inr v \<and> vr_chain_depth v \<le> 16)"
proof -
  obtain cert body cbor k where
    c: "cmd_enclave ref_cvm ref_nitro ref_nsm [''src''] = Inr (OverTls cert body cbor (Some ''rsa'') (Some k))"
    using ref_enclave by blast
  obtain rep eat where e: "extract_eat_from_cert ref_cvm cert = Inr (Some cbor)" "eat_from_cbor ref_cvm cbor = Inr eat"
    and acc: "check_peer ref_cvm ref_out_fs (\<lambda>_. NoDir) (Some [cert]) = Inr rep" "ck_platform rep = Nitro" "ck_stages rep = 1"
    using enclave_checked[OF ref_cvm_laws(1-3) ref_nitro_genuine c, of ref_out_fs "\<lambda>_. NoDir"] by blast
  have p: "eat_platform_enum ref_cvm eat = Some Nitro"
    and ch: "chain_of (eat_decode_previous ref_cvm) (stage_verifies ref_cvm (eat_value_x eat)) eat (Suc 0)"
    using acc(1)[unfolded check_peer_iff[OF ref_cvm_laws(2)]] acc(2,3) e by auto
  have st: "stage_verifies ref_cvm (eat_value_x eat) eat" "eat_decode_previous ref_cvm eat = Inr None"
    using ch by (auto elim!: chain_of.cases dest: chain_of_pos)
  have only: "stage_of ref_cvm eat t \<longleftrightarrow> t = eat" for t
    using st(2) by (auto intro: stage_of.intros elim: stage_of.cases)
  have "verify_platform_quote ref_cvm q [] b \<noteq> Inr ms" for q b ms by (simp add: ref_cvm_simps)
  then have "platform_quote eat \<noteq> []" using st(1) by (auto simp: stage_verifies_def)
  moreover have "platform_is_accepted Nitro [''nitro'']" "\<not> platform_is_accepted Nitro [''tdx'']" by code_simp+
  ultimately have "stage_admitted ref_cvm [''nitro''] eat" "\<not> stage_admitted ref_cvm [''tdx''] eat"
    using p by (simp_all add: stage_admitted_def)
  then show ?thesis
    using check_agrees_with_receipt[OF ref_cvm_laws(2) e, of "[''nitro'']" "[]" "[]" ref_out_fs "\<lambda>_. NoDir"]
      check_agrees_with_receipt[OF ref_cvm_laws(2) e, of "[''tdx'']" "[]" "[]" ref_out_fs "\<lambda>_. NoDir"] acc(1) c
    unfolding only by blast
qed

end
