(* ===== verification/Llmattest.thy ===== *)
theory Llmattest
  imports Capture_Daemon
begin

section \<open>The participant's command (\<open>src/bin/llmattest.rs\<close>)\<close>

text \<open>
  \<open>llmattest\<close> sets up a participant's machine and reports what it ran: \<open>init\<close> and \<open>start\<close> store the team payload, \<open>start\<close>
  launches the capture daemon, \<open>status\<close> and \<open>doctor\<close> probe what is reachable and name the capture path that will be
  used, \<open>smoke\<close>, \<open>emit\<close>, \<open>notary-import\<close> and the three \<open>run\<close> commands sign a report and post it to the event sink.

  The environment, the file system's existence test, HTTP, the child processes, the clock and random bytes are
  inputs: \<open>la_sys\<close> holds what the operating system answers in a world of type \<open>'w\<close>, which posts and processes change;
  \<open>la_in\<close> the clock readings and random bytes of one command. Killing the daemon on exit and the pauses
  between polls are not modelled.
\<close>

subsection \<open>Inputs and results\<close>

record run_config =
  rc_event_sink_url :: str
  rc_hackathon_id :: str
  rc_team_id :: str
  rc_gateway_id :: str
  rc_manifest_hash :: str
  rc_capture_method :: str
  rc_assurance :: str
  rc_enforcement :: str
  rc_agent_session_id :: str
  rc_signing_seed :: "str option"
  rc_openai_base_url :: "str option"
  rc_openai_api_key :: "str option"
  rc_cvm_url :: "str option"
  rc_local_capture_base_url :: "str option"
  rc_command :: "str list"

record participant_status =
  ps_config_path :: str
  ps_cfg :: participant_config
  ps_bootstrap_ok :: bool
  ps_gateway_ok :: bool
  ps_manifest_ok :: bool
  ps_cvm_ok :: bool
  ps_captured_events :: nat
  ps_cvm_json :: "json option"

record status_args =
  sg_config_path :: str
  sg_watch :: bool
  sg_interval_ms :: u64
  sg_iterations :: "u64 option"

record local_companion_status =
  lc_base_url :: str
  lc_events_path :: str
  lc_pending_events_path :: str
  lc_rate_state_path :: str

text \<open>
  \<open>sys_get\<close> is a GET with its status and text (\<open>None\<close> where the text cannot be read), \<open>sys_post\<close> a POST with the status it is
  answered with, \<open>sys_spawn\<close> whether the daemon could be started, \<open>sys_polls\<close> what the polls within five seconds of its
  start see (an error or whether it has exited, and whether its health route answers), \<open>sys_wait\<close> how it ends,
  \<open>sys_run\<close> a command run to its end with its exit code.
\<close>

record 'w la_sys =
  sys_var :: "str \<Rightarrow> str option"
  sys_exists :: "str \<Rightarrow> bool"
  sys_client :: bool
  sys_cwd :: "str option"
  sys_stdin :: "str option"
  sys_get :: "str \<Rightarrow> 'w \<Rightarrow> (nat \<times> bytes option) option"
  sys_post :: "str \<Rightarrow> bytes \<Rightarrow> 'w \<Rightarrow> (str + nat) \<times> 'w"
  sys_spawn :: "str list \<Rightarrow> 'w \<Rightarrow> nat option \<times> 'w"
  sys_polls :: "'w \<Rightarrow> ((str + bool) \<times> bool) list"
  sys_wait :: "'w \<Rightarrow> str + bool"
  sys_run :: "str list \<Rightarrow> (str \<times> str) list \<Rightarrow> 'w \<Rightarrow> (str + int option) \<times> 'w"

record la_in =
  li_started :: u64
  li_completed :: u64
  li_now :: u64
  li_random :: bytes
  li_key :: bytes

datatype la_error =
    LaUnknown str
  | LaNeedsValue str
  | LaBadNumber str
  | LaRequired str
  | LaRead str
  | LaDecode str
  | LaConfig config_error
  | LaSign llm_error
  | LaEncode llm_error
  | LaPost str
  | LaSink nat
  | LaClient
  | LaNoDir
  | LaStateDir str
  | LaSpawn
  | LaPoll str
  | LaDaemonExited
  | LaDaemonUnhealthy
  | LaNoCommand
  | LaRun str
  | LaExit int
  | LaDoctor

subsection \<open>Arguments and HTTP\<close>

definition parse_i64 :: "str \<Rightarrow> int option" where
  "parse_i64 s =
     (case s of
        [] \<Rightarrow> None
      | c # ds \<Rightarrow>
         if c = CHR ''-'' then (if starts_with ''+'' ds then None else map_option uminus (parse_uint 10 (2 ^ 63 + 1) ds))
         else parse_uint 10 (2 ^ 63) s)"

fun la_find_arg :: "str list \<Rightarrow> str \<Rightarrow> la_error + str option" where
  "la_find_arg [] name = Inr None"
| "la_find_arg (a # rest) name =
     (if a = name then (case rest of [] \<Rightarrow> Inl (LaNeedsValue name) | v # _ \<Rightarrow> Inr (Some v)) else la_find_arg rest name)"

definition get_success :: "('w, 'n) la_sys_scheme \<Rightarrow> 'w \<Rightarrow> str \<Rightarrow> bool" where
  "get_success S w url = (case sys_get S url w of Some (st, _) \<Rightarrow> 200 \<le> st \<and> st < 300 | None \<Rightarrow> False)"

definition get_json_value :: "('m) lib_scheme \<Rightarrow> ('w, 'n) la_sys_scheme \<Rightarrow> 'w \<Rightarrow> str \<Rightarrow> json option" where
  "get_json_value L S w url =
     (case sys_get S url w of
        Some (st, body) \<Rightarrow> if 200 \<le> st \<and> st < 300 then Option.bind body (json_parse L) else None
      | None \<Rightarrow> None)"

definition probe_http :: "('w, 'n) la_sys_scheme \<Rightarrow> 'w \<Rightarrow> str \<Rightarrow> bool" where
  "probe_http S w url = (sys_client S \<and> get_success S w url)"

definition read_text_arg :: "('w, 'n) la_sys_scheme \<Rightarrow> fs \<Rightarrow> str \<Rightarrow> la_error + str" where
  "read_text_arg S d path =
     (if path = ''-'' then ok_or (sys_stdin S) (LaRead ''stdin'') else ok_or (read_to_string d path) (LaRead path))"

definition post_event ::
    "('m) llm_lib_scheme \<Rightarrow> ('w, 'n) la_sys_scheme \<Rightarrow> str \<Rightarrow> contest_event \<Rightarrow> 'w \<Rightarrow> (la_error + unit) \<times> 'w" where
  "post_event L S url e w =
     (case event_to_cbor L e of
        Inl err \<Rightarrow> (Inl (LaEncode err), w)
      | Inr body \<Rightarrow>
         (case sys_post S url body w of
            (Inl err, w') \<Rightarrow> (Inl (LaPost err), w')
          | (Inr st, w') \<Rightarrow> (ensure (200 \<le> st \<and> st < 300) (LaSink st), w')))"

text \<open>\<open>Path::parent\<close>: without trailing and repeated separators; a name alone has the empty parent.\<close>

definition parent_dir :: "str \<Rightarrow> str option" where
  "parent_dir p =
     (let q = trim_end_matches ''/'' p in
      if q = [] then None
      else let d = trim_end_matches ''/'' (path_parent q) in
        Some (if d = [] \<and> starts_with ''/'' q then ''/'' else d))"

subsection \<open>Probes and the capture path\<close>

definition env_truthy :: "str \<Rightarrow> bool" where
  "env_truthy v = (to_ascii_lowercase (trim v) \<notin> set [[], ''0'', ''false'', ''no'', ''off''])"

definition env_probe :: "('w, 'n) la_sys_scheme \<Rightarrow> str \<Rightarrow> str \<Rightarrow> str \<Rightarrow> str \<Rightarrow> str \<Rightarrow> str \<Rightarrow> json" where
  "env_probe S pid label env_name cm as en =
     jobj [(''id'', JStr pid), (''label'', JStr label),
       (''available'', JBool (case sys_var S env_name of Some v \<Rightarrow> env_truthy v | None \<Rightarrow> False)),
       (''capture_method'', JStr cm), (''assurance'', JStr as), (''enforcement'', JStr en),
       (''details'', jobj [(''env'', JStr env_name)])]"

definition tee_evidence_found :: "('w, 'n) la_sys_scheme \<Rightarrow> str list" where
  "tee_evidence_found S =
     List.map_filter (\<lambda>n. case sys_var S n of
         Some p \<Rightarrow> if sys_exists S p then Some (n @ ''='' @ p) else None | None \<Rightarrow> None)
       [''CVM_TEE_QUOTE_PATH'', ''LLM_ATTESTED_TEE_QUOTE_PATH'', ''TDX_REPORT_PATH'', ''SNP_REPORT_PATH'']
     @ filter (sys_exists S) [''/dev/tdx_guest'', ''/dev/sev-guest'', ''/dev/nsm'']"

definition tee_probe :: "('w, 'n) la_sys_scheme \<Rightarrow> json" where
  "tee_probe S =
     jobj [(''id'', JStr ''tee_workspace''), (''label'', JStr ''TEE workspace''),
       (''available'', JBool (tee_evidence_found S \<noteq> [])), (''capture_method'', JStr ''tee_workspace''),
       (''assurance'', JStr ''attested''), (''enforcement'', JStr ''full_tee''),
       (''details'', jobj [(''evidence'', JArr (map JStr (tee_evidence_found S)))])]"

definition local_runtime_probe :: "('w, 'n) la_sys_scheme \<Rightarrow> 'w \<Rightarrow> str \<times> str \<times> str \<times> str \<Rightarrow> json" where
  "local_runtime_probe S w = (\<lambda>(pid, label, env_name, default_url).
     let url = opt_or (sys_var S env_name) default_url in
     jobj [(''id'', JStr pid), (''label'', JStr label), (''available'', JBool (probe_http S w url)),
       (''capture_method'', JStr ''local_proxy''), (''assurance'', JStr ''participant_controlled''),
       (''enforcement'', JStr ''routed''), (''details'', jobj [(''probe_url'', JStr url)])])"

definition local_runtimes :: "(str \<times> str \<times> str \<times> str) list" where
  "local_runtimes =
     [(''ollama'', ''Ollama'', ''LLMATTEST_PROBE_OLLAMA_URL'', ''http://127.0.0.1:11434/api/tags''),
      (''lm_studio'', ''LM Studio'', ''LLMATTEST_PROBE_LM_STUDIO_URL'', ''http://127.0.0.1:1234/v1/models''),
      (''omlx'', ''oMLX'', ''LLMATTEST_PROBE_OMLX_URL'', ''http://127.0.0.1:8000/v1/models''),
      (''mlx_omni_server'', ''MLX Omni Server'', ''LLMATTEST_PROBE_MLX_OMNI_SERVER_URL'', ''http://127.0.0.1:8000/v1/models''),
      (''llama_cpp'', ''llama.cpp server'', ''LLMATTEST_PROBE_LLAMA_CPP_URL'', ''http://127.0.0.1:8080/v1/models''),
      (''vllm'', ''vLLM OpenAI server'', ''LLMATTEST_PROBE_VLLM_URL'', ''http://127.0.0.1:8000/v1/models'')]"

definition gateway_probe :: "participant_status \<Rightarrow> json" where
  "gateway_probe st =
     jobj [(''id'', JStr ''attested_gateway''), (''label'', JStr ''Attested gateway''),
       (''available'', JBool (ps_gateway_ok st \<and> ps_manifest_ok st)), (''capture_method'', JStr ''gateway''),
       (''assurance'', JStr ''attested''), (''enforcement'', JStr ''routed''),
       (''details'', jobj [(''health_url'', JStr (trim_end_matches ''/'' (pc_gateway_base_url (ps_cfg st)) @ ''/healthz'')),
          (''manifest_url'', JStr (pc_gateway_manifest_url (ps_cfg st)))])]"

definition companion_probe :: "local_companion_status \<Rightarrow> json" where
  "companion_probe c =
     jobj [(''id'', JStr ''local_capture_companion''), (''label'', JStr ''Local browser/manual capture companion''),
       (''available'', JBool True), (''capture_method'', JStr ''browser_extension_or_manual''),
       (''assurance'', JStr ''participant_controlled''), (''enforcement'', JStr ''routed''),
       (''details'', jobj [(''base_url'', JStr (lc_base_url c)),
          (''browser_capture_url'', JStr (lc_base_url c @ ''/capture/browser'')),
          (''manual_capture_url'', JStr (lc_base_url c @ ''/capture/manual'')),
          (''events_path'', JStr (lc_events_path c)), (''pending_events_path'', JStr (lc_pending_events_path c)),
          (''rate_state_path'', JStr (lc_rate_state_path c))])]"

definition wrapper_probe :: json where
  "wrapper_probe =
     jobj [(''id'', JStr ''sdk_cli_wrapper''), (''label'', JStr ''SDK and CLI command wrapper''), (''available'', JBool True),
       (''capture_method'', JStr ''sdk_cli_wrapper''), (''assurance'', JStr ''participant_controlled''),
       (''enforcement'', JStr ''routed''), (''details'', jobj [(''wrapper'', JStr ''llmattest start -- <command>'')])]"

definition collect_capability_probes ::
    "('w, 'n) la_sys_scheme \<Rightarrow> 'w \<Rightarrow> participant_status \<Rightarrow> local_companion_status option \<Rightarrow> json list" where
  "collect_capability_probes S w st companion =
     [gateway_probe st] @ (case companion of None \<Rightarrow> [] | Some c \<Rightarrow> [companion_probe c])
     @ [wrapper_probe,
        env_probe S ''managed_workbench'' ''Managed workbench'' ''LLM_ATTESTED_WORKBENCH'' ''strict_workbench'' ''managed'' ''strict_workbench'',
        tee_probe S] @ map (local_runtime_probe S w) local_runtimes"

definition selection_reason :: "str \<Rightarrow> str" where
  "selection_reason i =
     (if i = ''tee_workspace'' then ''TEE evidence was detected on this host''
      else if i = ''attested_gateway'' then ''event gateway health and manifest checks passed''
      else if i = ''managed_workbench'' then ''managed workbench marker was present''
      else if i = ''sdk_cli_wrapper'' then ''a wrapped command was provided to llmattest start''
      else if i = ''local_capture_companion'' then ''local browser/manual capture companion is running''
      else ''first available capture path in policy order'')"

definition preferred_paths :: "bool \<Rightarrow> str list" where
  "preferred_paths command_present =
     [''tee_workspace'', ''attested_gateway'', ''managed_workbench'']
     @ (if command_present then [''sdk_cli_wrapper'', ''local_capture_companion'']
        else [''local_capture_companion'', ''sdk_cli_wrapper''])"

fun first_available :: "json list \<Rightarrow> str list \<Rightarrow> json" where
  "first_available probes [] =
     jobj [(''id'', JStr ''none''), (''available'', JBool False), (''reason'', JStr ''no supported capture path was available''),
       (''user_configurable'', JBool False)]"
| "first_available probes (i # rest) =
     (case find (\<lambda>p. Option.bind (jget p ''id'') as_str = Some i) probes of
        None \<Rightarrow> first_available probes rest
      | Some p \<Rightarrow>
         if opt_or (Option.bind (jget p ''available'') as_bool) False
         then jobj [(''id'', JStr i), (''label'', jidx p ''label''), (''capture_method'', jidx p ''capture_method''),
                (''assurance'', jidx p ''assurance''), (''enforcement'', jidx p ''enforcement''),
                (''reason'', JStr (selection_reason i)), (''user_configurable'', JBool False)]
         else first_available probes rest)"

definition select_capture_path :: "json list \<Rightarrow> bool \<Rightarrow> json" where
  "select_capture_path probes command_present = first_available probes (preferred_paths command_present)"

subsection \<open>The daemon\<close>

definition daemon_state_dir :: "('w, 'n) la_sys_scheme \<Rightarrow> str \<Rightarrow> la_error + str" where
  "daemon_state_dir S config_path =
     (case parent_dir config_path of
        Some d \<Rightarrow> if d \<noteq> [] then Inr d else ok_or (sys_cwd S) LaNoDir
      | None \<Rightarrow> ok_or (sys_cwd S) LaNoDir)"

definition daemon_listen :: "('w, 'n) la_sys_scheme \<Rightarrow> str" where
  "daemon_listen S = opt_or (sys_var S ''LLMATTEST_DAEMON_LISTEN'') ''127.0.0.1:8090''"

definition daemon_paths :: "('w, 'n) la_sys_scheme \<Rightarrow> str \<Rightarrow> local_companion_status" where
  "daemon_paths S state_dir =
     \<lparr>lc_base_url = ''http://'' @ daemon_listen S,
      lc_events_path = opt_or (sys_var S ''LLMATTEST_DAEMON_EVENTS'') (path_join state_dir ''capture-events.cborl''),
      lc_pending_events_path = opt_or (sys_var S ''LLMATTEST_DAEMON_PENDING_EVENTS'') (path_join state_dir ''capture-pending.cborl''),
      lc_rate_state_path = opt_or (sys_var S ''LLMATTEST_DAEMON_RATE_STATE'') (path_join state_dir ''capture-rate-state.json'')\<rparr>"

definition discover_local_companion ::
    "('w, 'n) la_sys_scheme \<Rightarrow> 'w \<Rightarrow> str \<Rightarrow> la_error + local_companion_status option" where
  "discover_local_companion S w config_path =
     (if \<not> probe_http S w (''http://'' @ daemon_listen S @ ''/healthz'') then Inr None
      else rbind (daemon_state_dir S config_path) (\<lambda>d. Inr (Some (daemon_paths S d))))"

text \<open>The arguments the daemon is started with, after its own name.\<close>

definition daemon_args :: "('w, 'n) la_sys_scheme \<Rightarrow> str \<Rightarrow> str option \<Rightarrow> str \<Rightarrow> str list" where
  "daemon_args S config_path seed state_dir =
     (let c = daemon_paths S state_dir in
      [''--listen'', daemon_listen S, ''--config'', config_path, ''--events'', lc_events_path c,
       ''--pending-events'', lc_pending_events_path c, ''--rate-state'', lc_rate_state_path c,
       ''--requests-per-minute'', ''10000'']
      @ (case seed of None \<Rightarrow> [] | Some s \<Rightarrow> [''--signing-seed'', s]))"

fun wait_for_daemon :: "((str + bool) \<times> bool) list \<Rightarrow> la_error + unit" where
  "wait_for_daemon [] = Inl LaDaemonUnhealthy"
| "wait_for_daemon ((Inl e, healthy) # rest) = Inl (LaPoll e)"
| "wait_for_daemon ((Inr exited, healthy) # rest) =
     (if exited then Inl LaDaemonExited else if healthy then Inr () else wait_for_daemon rest)"

definition start_local_daemon ::
    "('w, 'n) la_sys_scheme \<Rightarrow> str \<Rightarrow> str option \<Rightarrow> fs \<Rightarrow> 'w \<Rightarrow> (la_error + nat \<times> local_companion_status) \<times> 'w" where
  "start_local_daemon S config_path seed d w =
     (case daemon_state_dir S config_path of
        Inl e \<Rightarrow> (Inl e, w)
      | Inr dir \<Rightarrow>
         if faulty d dir then (Inl (LaStateDir dir), w)
         else case sys_spawn S (''__capture-daemon'' # daemon_args S config_path seed dir) w of
             (None, w') \<Rightarrow> (Inl LaSpawn, w')
           | (Some pid, w') \<Rightarrow>
              (rbind (ensure (sys_client S) LaClient) (\<lambda>_.
               rbind (wait_for_daemon (sys_polls S w')) (\<lambda>_. Inr (pid, daemon_paths S dir))), w'))"

subsection \<open>Status\<close>

definition status_for_config ::
    "('m) lib_scheme \<Rightarrow> ('w, 'n) la_sys_scheme \<Rightarrow> 'w \<Rightarrow> str \<Rightarrow> participant_config \<Rightarrow> la_error + participant_status" where
  "status_for_config L S w path cfg =
     rbind (ensure (sys_client S) LaClient) (\<lambda>_.
     let cvm = get_json_value L S w (pc_cvm_json_url cfg) in
     Inr \<lparr>ps_config_path = path, ps_cfg = cfg, ps_bootstrap_ok = get_success S w (pc_bootstrap_url cfg),
          ps_gateway_ok = get_success S w (trim_end_matches ''/'' (pc_gateway_base_url cfg) @ ''/healthz''),
          ps_manifest_ok = get_success S w (pc_gateway_manifest_url cfg), ps_cvm_ok = (cvm \<noteq> None),
          ps_captured_events = opt_or (Option.bind (Option.bind (Option.bind cvm (\<lambda>v. jget v ''stats'')) (\<lambda>v. jget v ''captured_events'')) as_u64) 0,
          ps_cvm_json = cvm\<rparr>)"

definition status_for_path ::
    "('m) lib_scheme \<Rightarrow> config_codec \<Rightarrow> ('w, 'n) la_sys_scheme \<Rightarrow> fs \<Rightarrow> 'w \<Rightarrow> str \<Rightarrow> la_error + participant_status" where
  "status_for_path L C S d w path =
     rbind (map_err LaConfig (config_load C d path)) (\<lambda>cfg. status_for_config L S w path cfg)"

text \<open>\<open>v.pointer("/a/b")\<close>.\<close>

definition jptr :: "json \<Rightarrow> str \<Rightarrow> str \<Rightarrow> json option" where
  "jptr v a b = Option.bind (jget v a) (\<lambda>x. jget x b)"

definition jopt :: "json option \<Rightarrow> json" where
  "jopt v = opt_or v JNull"

definition latest_event_document :: "('m) lib_scheme \<Rightarrow> ('w, 'n) la_sys_scheme \<Rightarrow> 'w \<Rightarrow> json option \<Rightarrow> json" where
  "latest_event_document L S w cvm =
     (case cvm of
        None \<Rightarrow> jobj [(''available'', JBool False), (''reason'', JStr ''cvm unavailable'')]
      | Some doc \<Rightarrow>
         (let latest = opt_or (Option.bind (jptr doc ''integrity'' ''latest_event_hash'') as_str) ''sha256:empty'' in
          case Option.bind (jptr doc ''share'' ''receipts_url'') as_str of
            None \<Rightarrow> jobj [(''available'', JBool (latest \<noteq> ''sha256:empty'')), (''event_hash'', JStr latest),
                (''reason'', JStr ''receipts URL unavailable'')]
          | Some url \<Rightarrow>
             (case get_json_value L S w url of
                None \<Rightarrow> jobj [(''available'', JBool (latest \<noteq> ''sha256:empty'')), (''event_hash'', JStr latest),
                    (''receipts_url'', JStr url), (''reason'', JStr ''receipts unavailable'')]
              | Some receipts \<Rightarrow>
                 (case Option.bind (jget receipts ''receipts'') as_array of
                    Some (x # xs) \<Rightarrow>
                      (let r = last (x # xs) in
                       jobj [(''available'', JBool True), (''event_id'', jopt (jget r ''event_id'')), (''kind'', jopt (jget r ''kind'')),
                         (''event_hash'', opt_or (jget r ''event_hash'') (JStr latest)), (''receipts_url'', JStr url)])
                  | _ \<Rightarrow> jobj [(''available'', JBool False), (''event_hash'', JStr latest), (''receipts_url'', JStr url),
                       (''reason'', JStr ''no captured receipts yet'')]))))"

definition action_doc :: "str \<Rightarrow> str \<Rightarrow> str \<Rightarrow> str \<Rightarrow> json" where
  "action_doc severity code message next_step =
     jobj [(''severity'', JStr severity), (''code'', JStr code), (''message'', JStr message), (''next_step'', JStr next_step)]"

definition status_actions :: "participant_status \<Rightarrow> local_companion_status option \<Rightarrow> json list" where
  "status_actions st companion =
     (if \<not> ps_bootstrap_ok st then [action_doc ''error'' ''bootstrap_unreachable'' ''Event bootstrap is unreachable.''
         ''Check the join URL or self-hosted event service URL, then rerun llmattest status.''] else [])
     @ (if \<not> ps_cvm_ok st then [action_doc ''error'' ''cvm_unreachable'' ''The live cvm is unreachable.''
         ''Regenerate the team payload from the join page or verify the event service is online.''] else [])
     @ (if \<not> ps_gateway_ok st \<or> \<not> ps_manifest_ok st then [action_doc ''warning'' ''attested_gateway_unavailable''
         ''The attested gateway path is not currently available.''
         ''Wrapper and local companion capture can still work; organizer-managed attested gateway scoring should wait for gateway health and manifest checks to pass.''] else [])
     @ (if companion = None then [action_doc ''info'' ''local_companion_not_running''
         ''The local browser/manual capture companion is not running.''
         ''Run llmattest start with the team payload before using browser or manual capture paths.''] else [])
     @ (if ps_captured_events st = 0 then [action_doc ''info'' ''no_events_yet''
         ''No captured events are visible on the cvm yet.''
         ''Run llmattest smoke or start an agent through llmattest start.''] else [])"

definition openai_doc :: "participant_config \<Rightarrow> (str \<times> json) list \<Rightarrow> json" where
  "openai_doc cfg extra =
     jobj ([(''OPENAI_BASE_URL'', JStr (openai_base_url cfg)), (''OPENAI_API_KEY'', JStr (pc_team_api_key cfg)),
       (''LLM_ATTESTED_AGENT'', JStr ''your-agent-or-ide-name'')] @ extra)"

definition live_doc :: "participant_status \<Rightarrow> json" where
  "live_doc st =
     (let at = (\<lambda>a b. Option.bind (ps_cvm_json st) (\<lambda>doc. jptr doc a b)) in
      jobj [(''cvm_url'', JStr (pc_cvm_url (ps_cfg st))), (''cvm_json_url'', JStr (pc_cvm_json_url (ps_cfg st))),
        (''proof_url'', jopt (at ''share'' ''proof_url'')), (''receipts_url'', jopt (at ''share'' ''receipts_url'')),
        (''event_count'', opt_or (at ''integrity'' ''event_count'') (JInt (int (ps_captured_events st)))),
        (''latest_event_hash'', jopt (at ''integrity'' ''latest_event_hash''))])"

definition participant_status_document ::
    "('m) lib_scheme \<Rightarrow> ('w, 'n) la_sys_scheme \<Rightarrow> 'w \<Rightarrow> participant_status \<Rightarrow> la_error + json" where
  "participant_status_document L S w st =
     (let ready = (ps_bootstrap_ok st \<and> ps_cvm_ok st); cfg = ps_cfg st in
      rbind (discover_local_companion S w (ps_config_path st)) (\<lambda>companion.
      rbind (ensure (sys_client S) LaClient) (\<lambda>_.
      let probes = collect_capability_probes S w st companion in
      Inr (jobj [(''ready'', JBool ready), (''strict_ready'', JBool (ready \<and> ps_gateway_ok st \<and> ps_manifest_ok st)),
        (''config_path'', JStr (ps_config_path st)), (''event_id'', JStr (pc_event_id cfg)), (''team_id'', JStr (pc_team_id cfg)),
        (''team_name'', JStr (pc_team_name cfg)), (''cvm_url'', JStr (pc_cvm_url cfg)),
        (''captured_events'', JInt (int (ps_captured_events st))),
        (''active_capture_path'', select_capture_path probes False), (''capability_probes'', JArr probes),
        (''latest_event'', latest_event_document L S w (ps_cvm_json st)), (''actions'', JArr (status_actions st companion)),
        (''checks'', jobj [(''bootstrap'', JBool (ps_bootstrap_ok st)), (''gateway_health'', JBool (ps_gateway_ok st)),
           (''gateway_manifest'', JBool (ps_manifest_ok st)), (''cvm'', JBool (ps_cvm_ok st)),
           (''local_companion'', JBool (companion \<noteq> None))]),
        (''live'', live_doc st), (''openai_compatible'', openai_doc cfg [])]))))"

fun status_arg_loop :: "str list \<Rightarrow> status_args \<Rightarrow> la_error + status_args" where
  "status_arg_loop [] a = Inr a"
| "status_arg_loop [f] a =
     (if f = ''--watch'' then Inr (a\<lparr>sg_watch := True\<rparr>)
      else if f \<in> set [''--config'', ''--interval-ms'', ''--iterations''] then Inl (LaNeedsValue f) else Inl (LaUnknown f))"
| "status_arg_loop (f # v # rest) a =
     (if f = ''--watch'' then status_arg_loop (v # rest) (a\<lparr>sg_watch := True\<rparr>)
      else if f = ''--config'' then status_arg_loop rest (a\<lparr>sg_config_path := v\<rparr>)
      else if f = ''--interval-ms''
      then (case parse_u64 v of None \<Rightarrow> Inl (LaBadNumber f) | Some n \<Rightarrow> status_arg_loop rest (a\<lparr>sg_interval_ms := max n 100\<rparr>))
      else if f = ''--iterations''
      then (case parse_u64 v of None \<Rightarrow> Inl (LaBadNumber f) | Some n \<Rightarrow> status_arg_loop rest (a\<lparr>sg_iterations := Some (max n 1)\<rparr>))
      else Inl (LaUnknown f))"

definition parse_status_args :: "('w, 'n) la_sys_scheme \<Rightarrow> str list \<Rightarrow> la_error + status_args" where
  "parse_status_args S args =
     status_arg_loop args \<lparr>sg_config_path = default_path (sys_var S), sg_watch = False, sg_interval_ms = 2000, sg_iterations = None\<rparr>"

text \<open>
  The loop of \<open>status\<close> and \<open>doctor\<close>: the \<open>i\<close>-th round sees the world \<open>obs i\<close>. The documents printed, and how it ended; a
  watch without a number of rounds need not end, which is \<open>None\<close>.
\<close>

partial_function (option) status_loop ::
    "('m) lib_scheme \<Rightarrow> config_codec \<Rightarrow> ('w, 'n) la_sys_scheme \<Rightarrow> fs \<Rightarrow> (nat \<Rightarrow> 'w) \<Rightarrow> bool \<Rightarrow> status_args \<Rightarrow> nat \<Rightarrow> u64 \<Rightarrow> json list
       \<Rightarrow> (json list \<times> (la_error + unit)) option" where
  "status_loop L C S d obs strict a i emitted out =
     (case rbind (status_for_path L C S d (obs i) (sg_config_path a)) (participant_status_document L S (obs i)) of
        Inl e \<Rightarrow> Some (out, Inl e)
      | Inr doc \<Rightarrow>
         if strict \<and> \<not> opt_or (Option.bind (jget doc ''strict_ready'') as_bool) False then Some (out @ [doc], Inl LaDoctor)
         else if \<not> sg_watch a then Some (out @ [doc], Inr ())
         else if (case sg_iterations a of Some n \<Rightarrow> n \<le> sat_add emitted 1 | None \<Rightarrow> False) then Some (out @ [doc], Inr ())
         else status_loop L C S d obs strict a (Suc i) (sat_add emitted 1) (out @ [doc]))"

definition print_status ::
    "('m) lib_scheme \<Rightarrow> config_codec \<Rightarrow> ('w, 'n) la_sys_scheme \<Rightarrow> fs \<Rightarrow> (nat \<Rightarrow> 'w) \<Rightarrow> bool \<Rightarrow> str list \<Rightarrow> (json list \<times> (la_error + unit)) option" where
  "print_status L C S d obs strict args =
     (case parse_status_args S args of
        Inl e \<Rightarrow> Some ([], Inl e)
      | Inr a \<Rightarrow> status_loop L C S d obs strict a 0 0 [])"

subsection \<open>Reports\<close>

definition la_sign ::
    "('m) llm_lib_scheme \<Rightarrow> la_in \<Rightarrow> str option \<Rightarrow> capture_report \<Rightarrow> la_error + contest_event" where
  "la_sign L inp seed r =
     map_err LaSign (report_sign L (li_now inp) (li_random inp) (signing_key_from_seed L (li_key inp) seed) r)"

definition sign_and_post ::
    "('m) llm_lib_scheme \<Rightarrow> ('w, 'n) la_sys_scheme \<Rightarrow> la_in \<Rightarrow> str option \<Rightarrow> str \<Rightarrow> capture_report \<Rightarrow> 'w
       \<Rightarrow> (la_error + contest_event) \<times> 'w" where
  "sign_and_post L S inp seed url r w =
     (case la_sign L inp seed r of
        Inl e \<Rightarrow> (Inl e, w)
      | Inr e \<Rightarrow> (case post_event L S url e w of (Inl err, w') \<Rightarrow> (Inl err, w') | (Inr _, w') \<Rightarrow> (Inr e, w')))"

definition smoke_report :: "la_in \<Rightarrow> participant_config \<Rightarrow> str \<Rightarrow> capture_report" where
  "smoke_report inp cfg config_path =
     \<lparr>cr_kind = ''capture.health'', cr_hackathon_id = pc_event_id cfg, cr_team_id = pc_team_id cfg, cr_gateway_id = ''llmattest'',
      cr_manifest_hash = ZERO_HASH, cr_capture_method = ''setup_smoke'', cr_assurance = ''participant_controlled'', cr_event_index = 0,
      cr_previous_team_event_hash = ZERO_HASH, cr_started_at_ms = li_started inp, cr_completed_at_ms = li_started inp,
      cr_actor = \<lparr>actor_kind = ''participant'', agent_session_id = ''llmattest_smoke''\<rparr>,
      cr_subject = bt_of_list [(''provider'', ''llmattest''), (''api_family'', ''capture-smoke''), (''model'', ''none'')],
      cr_metrics = [], cr_hashes = [],
      cr_evidence = bt_of_list [(''enforcement_mode'', ''setup_smoke''), (''config_path'', config_path), (''smoke_test'', ''true'')]\<rparr>"

definition emit_smoke_event ::
    "('m) llm_lib_scheme \<Rightarrow> ('w, 'n) la_sys_scheme \<Rightarrow> la_in \<Rightarrow> participant_config \<Rightarrow> str \<Rightarrow> str option \<Rightarrow> 'w
       \<Rightarrow> (la_error + contest_event) \<times> 'w" where
  "emit_smoke_event L S inp cfg config_path seed w =
     sign_and_post L S inp seed (pc_event_sink_url cfg) (smoke_report inp cfg config_path) w"

fun smoke_arg_loop :: "str list \<Rightarrow> str \<times> str option \<Rightarrow> la_error + str \<times> str option" where
  "smoke_arg_loop [] a = Inr a"
| "smoke_arg_loop [f] a = (if f \<in> set [''--config'', ''--signing-seed''] then Inl (LaNeedsValue f) else Inl (LaUnknown f))"
| "smoke_arg_loop (f # v # rest) (p, s) =
     (if f = ''--config'' then smoke_arg_loop rest (v, s)
      else if f = ''--signing-seed'' then smoke_arg_loop rest (p, Some v)
      else Inl (LaUnknown f))"

definition smoke_capture ::
    "('m) llm_lib_scheme \<Rightarrow> config_codec \<Rightarrow> ('w, 'n) la_sys_scheme \<Rightarrow> la_in \<Rightarrow> str list \<Rightarrow> fs \<Rightarrow> 'w \<Rightarrow> (la_error + json) \<times> 'w" where
  "smoke_capture L C S inp args d w =
     (case rbind (smoke_arg_loop args (default_path (sys_var S), None)) (\<lambda>(path, seed).
           rbind (map_err LaConfig (config_load C d path)) (\<lambda>cfg. Inr (path, seed, cfg))) of
        Inl e \<Rightarrow> (Inl e, w)
      | Inr (path, seed, cfg) \<Rightarrow>
         (case emit_smoke_event L S inp cfg path seed w of
            (Inl e, w') \<Rightarrow> (Inl e, w')
          | (Inr e, w') \<Rightarrow>
             (rbind (status_for_config L S w' path cfg) (\<lambda>st.
              Inr (jobj [(''accepted'', JBool True), (''event_id'', JStr (event_id e)),
                (''event_hash'', JStr (case event_hash L e of Inr h \<Rightarrow> h | Inl _ \<Rightarrow> ''sha256:unknown'')),
                (''cvm_url'', JStr (pc_cvm_url (ps_cfg st))), (''captured_events'', JInt (int (ps_captured_events st)))])), w')))"

record emit_args =
  em_event_sink_url :: str
  em_report :: "str option"
  em_signing_seed :: "str option"

fun emit_arg_loop :: "str list \<Rightarrow> emit_args \<Rightarrow> la_error + emit_args" where
  "emit_arg_loop [] a = Inr a"
| "emit_arg_loop [f] a =
     (if f \<in> set [''--event-sink-url'', ''--report'', ''--signing-seed''] then Inl (LaNeedsValue f) else Inl (LaUnknown f))"
| "emit_arg_loop (f # v # rest) a =
     (if f = ''--event-sink-url'' then emit_arg_loop rest (a\<lparr>em_event_sink_url := v\<rparr>)
      else if f = ''--report'' then emit_arg_loop rest (a\<lparr>em_report := Some v\<rparr>)
      else if f = ''--signing-seed'' then emit_arg_loop rest (a\<lparr>em_signing_seed := Some v\<rparr>)
      else Inl (LaUnknown f))"

definition emit_report ::
    "('m) cd_lib_scheme \<Rightarrow> ('w, 'n) la_sys_scheme \<Rightarrow> la_in \<Rightarrow> str list \<Rightarrow> fs \<Rightarrow> 'w \<Rightarrow> (la_error + json) \<times> 'w" where
  "emit_report L S inp args d w =
     (case rbind (emit_arg_loop args \<lparr>em_event_sink_url = [], em_report = None, em_signing_seed = None\<rparr>) (\<lambda>a.
           rbind (ensure (em_event_sink_url a \<noteq> []) (LaRequired ''--event-sink-url'')) (\<lambda>_.
           rbind (read_text_arg S d (opt_or (em_report a) ''-'')) (\<lambda>body.
           rbind (ok_or (de_report L body) (LaDecode ''capture report'')) (\<lambda>r. Inr (a, r))))) of
        Inl e \<Rightarrow> (Inl e, w)
      | Inr (a, r) \<Rightarrow>
         (case sign_and_post L S inp (em_signing_seed a) (em_event_sink_url a) r w of
            (Inl e, w') \<Rightarrow> (Inl e, w')
          | (Inr e, w') \<Rightarrow> (Inr (jobj [(''accepted'', JBool True), (''event_id'', JStr (event_id e)),
              (''capture_method'', JStr (capture_method e)), (''assurance'', JStr (assurance e))]), w')))"

subsubsection \<open>Notarized usage\<close>

record notary_args =
  na_event_sink_url :: str
  na_hackathon_id :: str
  na_team_id :: str
  na_provider :: str
  na_target_origin :: str
  na_notary_url :: str
  na_account_scope :: str
  na_proof :: "str option"
  na_claim :: "str option"
  na_signing_seed :: "str option"
  na_total_tokens :: "int option"
  na_llm_calls :: "int option"

definition notary_defaults :: notary_args where
  "notary_defaults = \<lparr>na_event_sink_url = [], na_hackathon_id = ''hk_dev'', na_team_id = ''team_dev'', na_provider = ''provider'',
     na_target_origin = [], na_notary_url = [], na_account_scope = ''participant_selected_account'', na_proof = None, na_claim = None,
     na_signing_seed = None, na_total_tokens = None, na_llm_calls = None\<rparr>"

definition set_notary_flag :: "str \<Rightarrow> str \<Rightarrow> notary_args \<Rightarrow> la_error + notary_args" where
  "set_notary_flag f v a =
     (if f = ''--event-sink-url'' then Inr (a\<lparr>na_event_sink_url := v\<rparr>)
      else if f = ''--hackathon-id'' then Inr (a\<lparr>na_hackathon_id := v\<rparr>)
      else if f = ''--team-id'' then Inr (a\<lparr>na_team_id := v\<rparr>)
      else if f = ''--provider'' then Inr (a\<lparr>na_provider := v\<rparr>)
      else if f = ''--target-origin'' then Inr (a\<lparr>na_target_origin := v\<rparr>)
      else if f = ''--notary-url'' then Inr (a\<lparr>na_notary_url := v\<rparr>)
      else if f = ''--account-scope'' then Inr (a\<lparr>na_account_scope := v\<rparr>)
      else if f = ''--proof'' then Inr (a\<lparr>na_proof := Some v\<rparr>)
      else if f = ''--claim'' then Inr (a\<lparr>na_claim := Some v\<rparr>)
      else if f = ''--total-tokens'' then rbind (ok_or (parse_i64 v) (LaBadNumber f)) (\<lambda>n. Inr (a\<lparr>na_total_tokens := Some n\<rparr>))
      else if f = ''--llm-calls'' then rbind (ok_or (parse_i64 v) (LaBadNumber f)) (\<lambda>n. Inr (a\<lparr>na_llm_calls := Some n\<rparr>))
      else if f = ''--signing-seed'' then Inr (a\<lparr>na_signing_seed := Some v\<rparr>)
      else Inl (LaUnknown f))"

definition notary_flags :: "str list" where
  "notary_flags = [''--event-sink-url'', ''--hackathon-id'', ''--team-id'', ''--provider'', ''--target-origin'', ''--notary-url'',
     ''--account-scope'', ''--proof'', ''--claim'', ''--total-tokens'', ''--llm-calls'', ''--signing-seed'']"

fun notary_arg_loop :: "str list \<Rightarrow> notary_args \<Rightarrow> la_error + notary_args" where
  "notary_arg_loop [] a = Inr a"
| "notary_arg_loop [f] a = (if f \<in> set notary_flags then Inl (LaNeedsValue f) else Inl (LaUnknown f))"
| "notary_arg_loop (f # v # rest) a = rbind (set_notary_flag f v a) (\<lambda>a'. notary_arg_loop rest a')"

definition merge_string_object :: "(str \<times> str) list \<Rightarrow> json option \<Rightarrow> (str \<times> str) list" where
  "merge_string_object out v =
     (case Option.bind v as_object of
        None \<Rightarrow> out
      | Some m \<Rightarrow> bt_extend out (List.map_filter (\<lambda>(k, x). map_option (Pair k) (as_str x)) m))"

definition merge_i64_object :: "(str \<times> int) list \<Rightarrow> json option \<Rightarrow> (str \<times> int) list" where
  "merge_i64_object out v =
     (case Option.bind v as_object of
        None \<Rightarrow> out
      | Some m \<Rightarrow> bt_extend out (List.map_filter (\<lambda>(k, x). map_option (Pair k) (as_i64 x)) m))"

definition insert_opt :: "str \<Rightarrow> 'v option \<Rightarrow> (str \<times> 'v) list \<Rightarrow> (str \<times> 'v) list" where
  "insert_opt k v m = (case v of None \<Rightarrow> m | Some x \<Rightarrow> bt_insert k x m)"

definition nonempty :: "str \<Rightarrow> str option" where
  "nonempty s = (if s = [] then None else Some s)"

text \<open>The claim file: its path, its value and its hash.\<close>

definition load_claim :: "('m) lib_scheme \<Rightarrow> fs \<Rightarrow> str option \<Rightarrow> la_error + (str \<times> json \<times> str) option" where
  "load_claim L d path =
     (case path of
        None \<Rightarrow> Inr None
      | Some p \<Rightarrow>
         rbind (ok_or (read_to_string d p) (LaRead p)) (\<lambda>body.
         rbind (ok_or (json_parse L body) (LaDecode ''notary claim json'')) (\<lambda>v.
         Inr (Some (p, v, sha256_prefixed L body)))))"

definition notary_subject :: "notary_args \<Rightarrow> json option \<Rightarrow> (str \<times> str) list" where
  "notary_subject a claim =
     (let base = insert_opt ''target_origin'' (nonempty (na_target_origin a))
            (bt_of_list [(''provider'', na_provider a), (''api_family'', ''provider_account_usage_snapshot''),
               (''account_scope'', na_account_scope a)]) in
      case claim of
        None \<Rightarrow> base
      | Some c \<Rightarrow> insert_opt ''model'' (Option.bind (jget c ''model'') as_str) (merge_string_object base (jget c ''subject'')))"

definition notary_metrics :: "notary_args \<Rightarrow> json option \<Rightarrow> (str \<times> int) list" where
  "notary_metrics a claim =
     insert_opt ''llm_calls'' (na_llm_calls a) (insert_opt ''total_tokens'' (na_total_tokens a)
       (case claim of None \<Rightarrow> [] | Some c \<Rightarrow> merge_i64_object [] (jget c ''metrics'')))"

definition notary_evidence :: "notary_args \<Rightarrow> str \<Rightarrow> (str \<times> str) option \<Rightarrow> (str \<times> str) list" where
  "notary_evidence a proof_hash claim =
     (let base = insert_opt ''target_origin'' (nonempty (na_target_origin a)) (insert_opt ''notary_url'' (nonempty (na_notary_url a))
            (bt_of_list [(''enforcement_mode'', ''retrospective_proof''), (''notary_protocol'', ''tlsnotary-mpc-tls''),
               (''notary_proof_hash'', proof_hash), (''account_scope'', na_account_scope a),
               (''completeness'', ''provider_account_scoped_not_global''),
               (''limitation'', ''does_not_prove_absence_of_other_accounts_devices_or_providers'')])) in
      case claim of
        None \<Rightarrow> base
      | Some (path, h) \<Rightarrow> bt_insert ''claim_hash'' h (bt_insert ''claim_path'' path base))"

definition notary_report :: "('m) lib_scheme \<Rightarrow> la_in \<Rightarrow> notary_args \<Rightarrow> bytes \<Rightarrow> (str \<times> json \<times> str) option \<Rightarrow> capture_report" where
  "notary_report L inp a proof claim =
     (let ph = sha256_prefixed L proof in
      \<lparr>cr_kind = ''provider.usage_snapshot'', cr_hackathon_id = na_hackathon_id a, cr_team_id = na_team_id a,
       cr_gateway_id = ''tlsnotary_import'', cr_manifest_hash = ZERO_HASH, cr_capture_method = ''provider_tls_notary'',
       cr_assurance = ''participant_controlled'', cr_event_index = 0, cr_previous_team_event_hash = ZERO_HASH,
       cr_started_at_ms = li_started inp, cr_completed_at_ms = li_started inp,
       cr_actor = \<lparr>actor_kind = ''participant'', agent_session_id = ''provider_account_snapshot''\<rparr>,
       cr_subject = notary_subject a (map_option (\<lambda>(_, v, _). v) claim),
       cr_metrics = notary_metrics a (map_option (\<lambda>(_, v, _). v) claim),
       cr_hashes = insert_opt ''provider_usage_claim'' (map_option (\<lambda>(_, _, h). h) claim) (bt_of_list [(''tls_notary_proof'', ph)]),
       cr_evidence = notary_evidence a ph (map_option (\<lambda>(p, _, h). (p, h)) claim)\<rparr>)"

definition import_notary_proof ::
    "('m) llm_lib_scheme \<Rightarrow> ('w, 'n) la_sys_scheme \<Rightarrow> la_in \<Rightarrow> str list \<Rightarrow> fs \<Rightarrow> 'w \<Rightarrow> (la_error + json) \<times> 'w" where
  "import_notary_proof L S inp args d w =
     (case rbind (notary_arg_loop args notary_defaults) (\<lambda>a.
           rbind (ensure (na_event_sink_url a \<noteq> []) (LaRequired ''--event-sink-url'')) (\<lambda>_.
           rbind (ok_or (na_proof a) (LaRequired ''--proof'')) (\<lambda>p.
           rbind (map_err (\<lambda>_. LaRead p) (fs_read d p)) (\<lambda>proof.
           rbind (load_claim L d (na_claim a)) (\<lambda>claim. Inr (a, notary_report L inp a proof claim)))))) of
        Inl e \<Rightarrow> (Inl e, w)
      | Inr (a, r) \<Rightarrow>
         (case sign_and_post L S inp (na_signing_seed a) (na_event_sink_url a) r w of
            (Inl e, w') \<Rightarrow> (Inl e, w')
          | (Inr e, w') \<Rightarrow> (Inr (jobj [(''accepted'', JBool True), (''event_id'', JStr (event_id e)),
              (''capture_method'', JStr (capture_method e)), (''assurance'', JStr (assurance e)),
              (''enforcement'', (case bt_get (evidence e) ''enforcement_mode'' of None \<Rightarrow> JNull | Some s \<Rightarrow> JStr s))]), w')))"

subsection \<open>Running a command\<close>

definition run_config_new :: "str \<Rightarrow> str \<Rightarrow> str \<Rightarrow> run_config" where
  "run_config_new cm as en = \<lparr>rc_event_sink_url = [], rc_hackathon_id = ''hk_dev'', rc_team_id = ''team_dev'', rc_gateway_id = ''llmattest'',
     rc_manifest_hash = ZERO_HASH, rc_capture_method = cm, rc_assurance = as, rc_enforcement = en, rc_agent_session_id = ''agent_cli'',
     rc_signing_seed = None, rc_openai_base_url = None, rc_openai_api_key = None, rc_cvm_url = None,
     rc_local_capture_base_url = None, rc_command = []\<rparr>"

definition apply_participant_config_to_run :: "participant_config \<Rightarrow> run_config \<Rightarrow> run_config" where
  "apply_participant_config_to_run p c = c\<lparr>rc_event_sink_url := pc_event_sink_url p, rc_hackathon_id := pc_event_id p,
     rc_team_id := pc_team_id p, rc_openai_base_url := Some (openai_base_url p), rc_openai_api_key := Some (pc_team_api_key p),
     rc_cvm_url := Some (pc_cvm_url p)\<rparr>"

definition from_participant :: "participant_config \<Rightarrow> str \<Rightarrow> str \<Rightarrow> str \<Rightarrow> run_config" where
  "from_participant p cm as en = apply_participant_config_to_run p (run_config_new cm as en)"

definition run_flags :: "str list" where
  "run_flags = [''--event-sink-url'', ''--config'', ''--hackathon-id'', ''--team-id'', ''--gateway-id'', ''--manifest-hash'',
     ''--capture-method'', ''--assurance'', ''--enforcement'', ''--agent-session-id'', ''--signing-seed'']"

definition set_run_flag :: "str \<Rightarrow> str \<Rightarrow> run_config \<Rightarrow> la_error + run_config" where
  "set_run_flag f v c =
     (if f = ''--event-sink-url'' then Inr (c\<lparr>rc_event_sink_url := v\<rparr>)
      else if f = ''--config'' then Inr c
      else if f = ''--hackathon-id'' then Inr (c\<lparr>rc_hackathon_id := v\<rparr>)
      else if f = ''--team-id'' then Inr (c\<lparr>rc_team_id := v\<rparr>)
      else if f = ''--gateway-id'' then Inr (c\<lparr>rc_gateway_id := v\<rparr>)
      else if f = ''--manifest-hash'' then Inr (c\<lparr>rc_manifest_hash := v\<rparr>)
      else if f = ''--capture-method'' then Inr (c\<lparr>rc_capture_method := v\<rparr>)
      else if f = ''--assurance'' then Inr (c\<lparr>rc_assurance := v\<rparr>)
      else if f = ''--enforcement'' then Inr (c\<lparr>rc_enforcement := v\<rparr>)
      else if f = ''--agent-session-id'' then Inr (c\<lparr>rc_agent_session_id := v\<rparr>)
      else if f = ''--signing-seed'' then Inr (c\<lparr>rc_signing_seed := Some v\<rparr>)
      else Inl (LaUnknown f))"

fun run_loop :: "str list \<Rightarrow> run_config \<Rightarrow> la_error + run_config" where
  "run_loop [] c = Inr c"
| "run_loop [f] c =
     (if f = ''--'' then Inr (c\<lparr>rc_command := []\<rparr>)
      else if f \<in> set run_flags then Inl (LaNeedsValue f) else Inl (LaUnknown f))"
| "run_loop (f # v # rest) c =
     (if f = ''--'' then Inr (c\<lparr>rc_command := v # rest\<rparr>)
      else rbind (set_run_flag f v c) (\<lambda>c'. run_loop rest c'))"

definition parse_run ::
    "config_codec \<Rightarrow> fs \<Rightarrow> str list \<Rightarrow> str \<Rightarrow> str \<Rightarrow> str \<Rightarrow> la_error + run_config" where
  "parse_run C d args cm as en =
     rbind (la_find_arg args ''--config'') (\<lambda>path.
     rbind (case path of
              None \<Rightarrow> Inr (run_config_new cm as en)
            | Some p \<Rightarrow> rbind (map_err LaConfig (config_load C d p)) (\<lambda>pc. Inr (from_participant pc cm as en))) (\<lambda>c0.
     rbind (run_loop args c0) (\<lambda>c.
     rbind (ensure (rc_event_sink_url c \<noteq> []) (LaRequired ''--event-sink-url'')) (\<lambda>_. Inr c))))"

definition env_opt :: "str \<Rightarrow> str option \<Rightarrow> (str \<times> str) list" where
  "env_opt k v = (case v of None \<Rightarrow> [] | Some x \<Rightarrow> [(k, x)])"

definition run_environment :: "run_config \<Rightarrow> (str \<times> str) list" where
  "run_environment c =
     [(''LLM_ATTESTED_TEAM_ID'', rc_team_id c), (''LLM_ATTESTED_AGENT'', rc_agent_session_id c),
      (''LLM_ATTESTED_CAPTURE_METHOD'', rc_capture_method c), (''LLM_ATTESTED_ASSURANCE'', rc_assurance c),
      (''LLM_ATTESTED_ENFORCEMENT'', rc_enforcement c)]
     @ env_opt ''OPENAI_BASE_URL'' (rc_openai_base_url c) @ env_opt ''OPENAI_API_KEY'' (rc_openai_api_key c)
     @ env_opt ''LLM_ATTESTED_CVM_URL'' (rc_cvm_url c)
     @ (case rc_local_capture_base_url c of
          None \<Rightarrow> []
        | Some u \<Rightarrow> [(''LLM_ATTESTED_LOCAL_CAPTURE_URL'', u), (''LLM_ATTESTED_BROWSER_CAPTURE_URL'', u @ ''/capture/browser''),
            (''LLM_ATTESTED_MANUAL_CAPTURE_URL'', u @ ''/capture/manual'')])"

definition run_evidence :: "run_config \<Rightarrow> (str \<times> str) list" where
  "run_evidence c =
     insert_opt ''tee_workspace_required'' (if rc_capture_method c = ''tee_workspace'' then Some ''true'' else None)
       (bt_of_list [(''enforcement_mode'', rc_enforcement c), (''wrapper'', ''llmattest'')])"

definition run_report :: "('m) lib_scheme \<Rightarrow> la_in \<Rightarrow> run_config \<Rightarrow> int option \<Rightarrow> capture_report" where
  "run_report L inp c code =
     \<lparr>cr_kind = ''agent.session'', cr_hackathon_id = rc_hackathon_id c, cr_team_id = rc_team_id c, cr_gateway_id = rc_gateway_id c,
      cr_manifest_hash = rc_manifest_hash c, cr_capture_method = rc_capture_method c, cr_assurance = rc_assurance c,
      cr_event_index = 0, cr_previous_team_event_hash = ZERO_HASH, cr_started_at_ms = li_started inp,
      cr_completed_at_ms = li_completed inp,
      cr_actor = \<lparr>actor_kind = ''agent'', agent_session_id = rc_agent_session_id c\<rparr>,
      cr_subject = bt_of_list [(''command'', hd (rc_command c)),
         (''command_line_hash'', sha256_prefixed L (join [CHR 0x00] (rc_command c)))],
      cr_metrics = bt_of_list [(''exit_code'', opt_or code (- 1)), (''duration_ms'', sint (sat_sub (li_completed inp) (li_started inp)))],
      cr_hashes = [], cr_evidence = run_evidence c\<rparr>"

text \<open>The command's own failure ends the program with its exit code, after the report was taken.\<close>

definition run_command ::
    "('m) llm_lib_scheme \<Rightarrow> ('w, 'n) la_sys_scheme \<Rightarrow> la_in \<Rightarrow> run_config \<Rightarrow> 'w \<Rightarrow> (la_error + unit) \<times> 'w" where
  "run_command L S inp c w =
     (if rc_command c = [] then (Inl LaNoCommand, w)
      else case sys_run S (rc_command c) (run_environment c) w of
          (Inl e, w') \<Rightarrow> (Inl (LaRun e), w')
        | (Inr code, w') \<Rightarrow>
           (case sign_and_post L S inp (rc_signing_seed c) (rc_event_sink_url c) (run_report L inp c code) w' of
              (Inl e, w'') \<Rightarrow> (Inl e, w'')
            | (Inr _, w'') \<Rightarrow> (ensure (code = Some 0) (LaExit (opt_or code 1)), w'')))"

definition run_with ::
    "('m) llm_lib_scheme \<Rightarrow> config_codec \<Rightarrow> ('w, 'n) la_sys_scheme \<Rightarrow> la_in \<Rightarrow> str \<Rightarrow> str \<Rightarrow> str \<Rightarrow> str list \<Rightarrow> fs \<Rightarrow> 'w
       \<Rightarrow> (la_error + unit) \<times> 'w" where
  "run_with L C S inp cm as en args d w =
     (case parse_run C d args cm as en of Inl e \<Rightarrow> (Inl e, w) | Inr c \<Rightarrow> run_command L S inp c w)"

subsection \<open>Setting up\<close>

definition init_value :: "('m) lib_scheme \<Rightarrow> config_codec \<Rightarrow> ('w, 'n) la_sys_scheme \<Rightarrow> str \<Rightarrow> str \<Rightarrow> fs \<Rightarrow> la_error + participant_config \<times> fs" where
  "init_value L C S payload config_path d =
     rbind (read_text_arg S d payload) (\<lambda>body.
     rbind (ok_or (json_parse L body) (LaDecode ''team payload json'')) (\<lambda>v.
     rbind (map_err LaConfig (from_team_payload v)) (\<lambda>cfg.
     rbind (map_err LaConfig (config_save C config_path cfg d)) (\<lambda>d'. Inr (cfg, d')))))"

fun init_arg_loop :: "str list \<Rightarrow> str option \<times> str \<Rightarrow> la_error + str option \<times> str" where
  "init_arg_loop [] a = Inr a"
| "init_arg_loop [f] a =
     (if f \<in> set [''--team-payload'', ''--team-json'', ''--config''] then Inl (LaNeedsValue f) else Inl (LaUnknown f))"
| "init_arg_loop (f # v # rest) (p, c) =
     (if f = ''--team-payload'' \<or> f = ''--team-json'' then init_arg_loop rest (Some v, c)
      else if f = ''--config'' then init_arg_loop rest (p, v)
      else Inl (LaUnknown f))"

definition identity_fields :: "str \<Rightarrow> participant_config \<Rightarrow> (str \<times> json) list" where
  "identity_fields path cfg =
     [(''config_path'', JStr path), (''event_id'', JStr (pc_event_id cfg)), (''team_id'', JStr (pc_team_id cfg)),
      (''team_name'', JStr (pc_team_name cfg)), (''cvm_url'', JStr (pc_cvm_url cfg))]"

definition init_config ::
    "('m) lib_scheme \<Rightarrow> config_codec \<Rightarrow> ('w, 'n) la_sys_scheme \<Rightarrow> str list \<Rightarrow> fs \<Rightarrow> la_error + json \<times> fs" where
  "init_config L C S args d =
     rbind (init_arg_loop args (None, default_path (sys_var S))) (\<lambda>(payload, path).
     rbind (ok_or payload (LaRequired ''--team-payload'')) (\<lambda>p.
     rbind (init_value L C S p path d) (\<lambda>(cfg, d').
     Inr (jobj ((''initialized'', JBool True) # identity_fields path cfg @ [(''openai_compatible'', openai_doc cfg [])]), d'))))"

record start_args =
  st_payload :: "str option"
  st_config :: str
  st_seed :: "str option"
  st_smoke :: bool
  st_command :: "str list"

fun start_arg_loop :: "str list \<Rightarrow> start_args \<Rightarrow> la_error + start_args" where
  "start_arg_loop [] a = Inr a"
| "start_arg_loop [f] a =
     (if f = ''--'' then Inr (a\<lparr>st_command := []\<rparr>)
      else if f = ''--no-smoke'' then Inr (a\<lparr>st_smoke := False\<rparr>)
      else if f \<in> set [''--team-payload'', ''--team-json'', ''--config'', ''--signing-seed''] then Inl (LaNeedsValue f)
      else Inl (LaUnknown f))"
| "start_arg_loop (f # v # rest) a =
     (if f = ''--'' then Inr (a\<lparr>st_command := v # rest\<rparr>)
      else if f = ''--no-smoke'' then start_arg_loop (v # rest) (a\<lparr>st_smoke := False\<rparr>)
      else if f = ''--team-payload'' \<or> f = ''--team-json'' then start_arg_loop rest (a\<lparr>st_payload := Some v\<rparr>)
      else if f = ''--config'' then start_arg_loop rest (a\<lparr>st_config := v\<rparr>)
      else if f = ''--signing-seed'' then start_arg_loop rest (a\<lparr>st_seed := Some v\<rparr>)
      else Inl (LaUnknown f))"

definition start_checks :: "participant_status \<Rightarrow> json" where
  "start_checks st = jobj [(''bootstrap'', JBool (ps_bootstrap_ok st)), (''gateway_health'', JBool (ps_gateway_ok st)),
     (''gateway_manifest'', JBool (ps_manifest_ok st)), (''cvm'', JBool (ps_cvm_ok st)),
     (''captured_events'', JInt (int (ps_captured_events st)))]"

definition start_document ::
    "('w, 'n) la_sys_scheme \<Rightarrow> 'w \<Rightarrow> start_args \<Rightarrow> participant_config \<Rightarrow> nat \<times> local_companion_status \<Rightarrow> participant_status
       \<Rightarrow> participant_status \<Rightarrow> contest_event option \<Rightarrow> json" where
  "start_document S w a cfg dm before after smoke =
     (let probes = collect_capability_probes S w after (Some (snd dm)); base = lc_base_url (snd dm) in
      jobj ((''started'', JBool True) # identity_fields (st_config a) cfg
        @ [(''capture_runtime'', jobj [(''mode'', JStr ''llmattest_start''), (''supervisor'', JStr ''child_process''),
             (''local_daemon'', jobj [(''status'', JStr ''running''), (''pid'', JInt (int (fst dm))), (''base_url'', JStr base),
                (''health_url'', JStr (base @ ''/healthz'')), (''browser_capture_url'', JStr (base @ ''/capture/browser'')),
                (''manual_capture_url'', JStr (base @ ''/capture/manual'')), (''events_path'', JStr (lc_events_path (snd dm))),
                (''pending_events_path'', JStr (lc_pending_events_path (snd dm))),
                (''rate_state_path'', JStr (lc_rate_state_path (snd dm)))])]),
           (''capability_probes'', JArr probes), (''selected_capture_path'', select_capture_path probes (st_command a \<noteq> [])),
           (''checks_before'', start_checks before), (''checks_after'', start_checks after),
           (''smoke_event_id'', (case smoke of None \<Rightarrow> JNull | Some e \<Rightarrow> JStr (event_id e))),
           (''openai_compatible'', openai_doc cfg [(''LLM_ATTESTED_LOCAL_CAPTURE_URL'', JStr base)])]))"

definition start_load ::
    "('m) lib_scheme \<Rightarrow> config_codec \<Rightarrow> ('w, 'n) la_sys_scheme \<Rightarrow> str list \<Rightarrow> fs \<Rightarrow> la_error + start_args \<times> participant_config \<times> fs" where
  "start_load L C S args d =
     rbind (start_arg_loop args \<lparr>st_payload = None, st_config = default_path (sys_var S), st_seed = None, st_smoke = True, st_command = []\<rparr>) (\<lambda>a.
     rbind (case st_payload a of None \<Rightarrow> Inr d | Some p \<Rightarrow> rbind (init_value L C S p (st_config a) d) (\<lambda>(_, d'). Inr d')) (\<lambda>d1.
     rbind (map_err LaConfig (config_load C d1 (st_config a))) (\<lambda>cfg. Inr (a, cfg, d1))))"

text \<open>The wrapped command with the daemon's address, or waiting for the daemon to end.\<close>

definition start_run ::
    "('m) llm_lib_scheme \<Rightarrow> ('w, 'n) la_sys_scheme \<Rightarrow> la_in \<Rightarrow> start_args \<Rightarrow> participant_config \<Rightarrow> str \<Rightarrow> 'w \<Rightarrow> (la_error + unit) \<times> 'w" where
  "start_run L S inp a cfg base w =
     (if st_command a \<noteq> []
      then run_command L S inp ((from_participant cfg ''sdk_cli_wrapper'' ''participant_controlled'' ''routed'')
             \<lparr>rc_signing_seed := st_seed a, rc_local_capture_base_url := Some base, rc_command := st_command a\<rparr>) w
      else (rbind (map_err LaRun (sys_wait S w)) (\<lambda>ok. ensure ok LaDaemonExited), w))"

definition smoke_if ::
    "('m) llm_lib_scheme \<Rightarrow> ('w, 'n) la_sys_scheme \<Rightarrow> la_in \<Rightarrow> start_args \<Rightarrow> participant_config \<Rightarrow> 'w \<Rightarrow> (la_error + contest_event option) \<times> 'w" where
  "smoke_if L S inp a cfg w =
     (if st_smoke a then (case emit_smoke_event L S inp cfg (st_config a) (st_seed a) w of
          (Inl e, w') \<Rightarrow> (Inl e, w') | (Inr e, w') \<Rightarrow> (Inr (Some e), w'))
      else (Inr None, w))"

text \<open>What \<open>start\<close> prints, if it gets so far, and how it ends; \<open>inp\<close> are the inputs of the smoke event, \<open>inp2\<close> of the run.\<close>

definition start_capture ::
    "('m) llm_lib_scheme \<Rightarrow> config_codec \<Rightarrow> ('w, 'n) la_sys_scheme \<Rightarrow> la_in \<Rightarrow> la_in \<Rightarrow> str list \<Rightarrow> fs \<Rightarrow> 'w
       \<Rightarrow> json option \<times> (la_error + unit) \<times> fs \<times> 'w" where
  "start_capture L C S inp inp2 args d w0 =
     (case start_load L C S args d of
        Inl e \<Rightarrow> (None, Inl e, d, w0)
      | Inr (a, cfg, d1) \<Rightarrow>
         (case start_local_daemon S (st_config a) (st_seed a) d1 w0 of
            (Inl e, w1) \<Rightarrow> (None, Inl e, d1, w1)
          | (Inr dm, w1) \<Rightarrow>
             (case status_for_config L S w1 (st_config a) cfg of
                Inl e \<Rightarrow> (None, Inl e, d1, w1)
              | Inr before \<Rightarrow>
                 (case smoke_if L S inp a cfg w1 of
                    (Inl e, w2) \<Rightarrow> (None, Inl e, d1, w2)
                  | (Inr smoke, w2) \<Rightarrow>
                     (case status_for_config L S w2 (st_config a) cfg of
                        Inl e \<Rightarrow> (None, Inl e, d1, w2)
                      | Inr after \<Rightarrow>
                         (case start_run L S inp2 a cfg (lc_base_url (snd dm)) w2 of
                            (r, w3) \<Rightarrow> (Some (start_document S w2 a cfg dm before after smoke), r, d1, w3)))))))"

datatype la_command =
    LaDaemon "str list" | LaStart "str list" | LaInit "str list" | LaStatus bool "str list" | LaSmoke "str list"
  | LaEmit "str list" | LaNotary "str list" | LaRunAs str str str "str list" | LaUsage | LaUnknownCommand str

definition la_dispatch :: "str list \<Rightarrow> la_command" where
  "la_dispatch args =
     (case args of
        [] \<Rightarrow> LaUsage
      | c # rest \<Rightarrow>
         if c = ''__capture-daemon'' then LaDaemon rest else if c = ''start'' then LaStart rest
         else if c = ''init'' then LaInit rest else if c = ''status'' then LaStatus False rest
         else if c = ''doctor'' then LaStatus True rest else if c = ''smoke'' then LaSmoke rest
         else if c = ''emit'' then LaEmit rest else if c = ''notary-import'' then LaNotary rest
         else if c = ''run'' then LaRunAs ''sdk_cli_wrapper'' ''participant_controlled'' ''routed'' rest
         else if c = ''workbench-run'' then LaRunAs ''strict_workbench'' ''managed'' ''strict_workbench'' rest
         else if c = ''tee-run'' then LaRunAs ''tee_workspace'' ''attested'' ''full_tee'' rest
         else if c = ''-h'' \<or> c = ''--help'' then LaUsage else LaUnknownCommand c)"

end
