(* ===== verification/Llmattest_Safety.thy ===== *)
theory Llmattest_Safety
  imports Llmattest Capture_Path
begin

section \<open>What the participant's command guarantees\<close>

text \<open>
  The command against the components it works with: the daemon it starts, the event service that is its sink,
  and the choice of the capture path it announces.
\<close>

subsection \<open>The capture path\<close>

lemma probe_id [simp]:
  "jget (gateway_probe st) ''id'' = Some (JStr ''attested_gateway'')"
  "jget (companion_probe c) ''id'' = Some (JStr ''local_capture_companion'')"
  "jget wrapper_probe ''id'' = Some (JStr ''sdk_cli_wrapper'')"
  "jget (env_probe S i l n cm as en) ''id'' = Some (JStr i)"
  "jget (tee_probe S) ''id'' = Some (JStr ''tee_workspace'')"
  by (simp_all add: gateway_probe_def companion_probe_def wrapper_probe_def env_probe_def tee_probe_def jget_jobj)

lemma probe_available [simp]:
  "jget (gateway_probe st) ''available'' = Some (JBool (ps_gateway_ok st \<and> ps_manifest_ok st))"
  "jget (companion_probe c) ''available'' = Some (JBool True)"
  "jget wrapper_probe ''available'' = Some (JBool True)"
  "jget (env_probe S i l n cm as en) ''available'' = Some (JBool (case sys_var S n of Some v \<Rightarrow> env_truthy v | None \<Rightarrow> False))"
  "jget (tee_probe S) ''available'' = Some (JBool (tee_evidence_found S \<noteq> []))"
  by (simp_all add: gateway_probe_def companion_probe_def wrapper_probe_def env_probe_def tee_probe_def jget_jobj)

lemma probe_assurance [simp]:
  "jidx (gateway_probe st) ''assurance'' = JStr ''attested''"
  "jidx (companion_probe c) ''assurance'' = JStr ''participant_controlled''"
  "jidx wrapper_probe ''assurance'' = JStr ''participant_controlled''"
  "jidx (env_probe S i l n cm as en) ''assurance'' = JStr as"
  "jidx (tee_probe S) ''assurance'' = JStr ''attested''"
  by (simp_all add: gateway_probe_def companion_probe_def wrapper_probe_def env_probe_def tee_probe_def jidx_jobj)

lemma runtime_is_no_companion [simp]:
  "find (\<lambda>p. Option.bind (jget p ''id'') as_str = Some ''local_capture_companion'') (map (local_runtime_probe S w) local_runtimes) = None"
  by (simp add: local_runtimes_def local_runtime_probe_def Let_def jget_jobj)

text \<open>The strongest path that is available, and the assurance it gives.\<close>

definition strongest_path :: "('w, 'n) la_sys_scheme \<Rightarrow> participant_status \<Rightarrow> local_companion_status option \<Rightarrow> bool \<Rightarrow> str \<times> str" where
  "strongest_path S st companion command_present =
     (if tee_evidence_found S \<noteq> [] then (''tee_workspace'', ''attested'')
      else if ps_gateway_ok st \<and> ps_manifest_ok st then (''attested_gateway'', ''attested'')
      else if (case sys_var S ''LLM_ATTESTED_WORKBENCH'' of Some v \<Rightarrow> env_truthy v | None \<Rightarrow> False) then (''managed_workbench'', ''managed'')
      else (if command_present \<or> companion = None then ''sdk_cli_wrapper'' else ''local_capture_companion'', ''participant_controlled''))"

text \<open>
  The capture path \<open>status\<close> and \<open>start\<close> announce is the strongest one available: a TEE wherever its evidence is on
  the host, else the attested gateway when its health and manifest answer, else a managed workbench, and only
  then a path the participant controls, the wrapper for a wrapped command and the running companion without one; its assurance is that
  path's, and there always is one.
\<close>

lemma selected_path_is_strongest:
  "jget (select_capture_path (collect_capability_probes S w st companion) command_present) ''id''
     = Some (JStr (fst (strongest_path S st companion command_present)))
   \<and> jget (select_capture_path (collect_capability_probes S w st companion) command_present) ''assurance''
     = Some (JStr (snd (strongest_path S st companion command_present)))"
  by (cases companion; cases command_present)
     (simp_all add: select_capture_path_def preferred_paths_def collect_capability_probes_def strongest_path_def jget_jobj opt_or_def)

subsection \<open>The daemon\<close>

text \<open>
  C27: the daemon that \<open>start\<close> launches accepts the arguments it is given and works on what \<open>start\<close> announces: it listens at
  the address, writes the event log, the pending file and the limiter's file at the paths, signs with the seed, and
  reports to the sink, event and team of the configuration.
\<close>

theorem started_daemon_is_the_announced_one:
  assumes "config_load C d config_path = Inr pc" and "pc_event_sink_url pc \<noteq> []" and "daemon_listen S \<noteq> ''--config''"
  shows "\<exists>c. cd_parse_args L C d (daemon_args S config_path seed dir) = Inr c
     \<and> ''http://'' @ dc_listen c = lc_base_url (daemon_paths S dir)
     \<and> dc_event_log_path c = lc_events_path (daemon_paths S dir)
     \<and> dc_pending_log_path c = lc_pending_events_path (daemon_paths S dir)
     \<and> dc_rate_state_path c = lc_rate_state_path (daemon_paths S dir)
     \<and> dc_signing_seed c = seed \<and> dc_event_sink_url c = pc_event_sink_url pc
     \<and> dc_hackathon_id c = pc_event_id pc \<and> dc_team_id c = pc_team_id pc \<and> dc_requests_per_minute c = 10000"
proof -
  have n: "parse_u32 ''10000'' = Some 10000" by code_simp
  show ?thesis
    using assms n
    by (cases seed) (simp_all add: cd_parse_args_def daemon_args_def Let_def cd_set_flag_def daemon_paths_def cd_config_default_def)
qed

subsection \<open>Flags\<close>

lemma la_find_arg_skips: "name \<notin> set pre \<Longrightarrow> la_find_arg (pre @ name # v # rest) name = Inr (Some v)"
  by (induction pre) auto

text \<open>
  The search for \<open>--config\<close> does not stop at \<open>--\<close>: a configuration flag of the wrapped command is read as
  the participant's configuration.
\<close>

lemma run_reads_config_of_command:
  assumes "''--config'' \<notin> set pre" "''--config'' \<notin> set xs" "config_load C d f = Inl e"
  shows "parse_run C d (pre @ ''--'' # xs @ ''--config'' # f # ys) cm as en = Inl (LaConfig e)"
proof -
  have "la_find_arg ((pre @ ''--'' # xs) @ ''--config'' # f # ys) ''--config'' = Inr (Some f)"
    using assms by (intro la_find_arg_skips) auto
  then show ?thesis using assms by (simp add: parse_run_def)
qed

lemma run_loop_assurance:
  "run_loop args c = Inr c' \<Longrightarrow> ''--assurance'' \<notin> set args \<Longrightarrow> rc_assurance c' = rc_assurance c"
  by (induction args c rule: run_loop.induct) (auto simp: res_simps set_run_flag_def split: if_splits)

lemma parse_run_assurance:
  assumes "parse_run C d args cm as en = Inr c" "''--assurance'' \<notin> set args"
  shows "rc_assurance c = as"
  using assms run_loop_assurance[OF _ assms(2)]
  by (auto simp: parse_run_def res_simps from_participant_def apply_participant_config_to_run_def run_config_new_def
      split: option.splits)

subsection \<open>The event service as sink\<close>

lemma normalize_frame:
  "cr_assurance (report_normalize now r) = cr_assurance r" "cr_evidence (report_normalize now r) = cr_evidence r"
  by (simp_all add: report_normalize_def Let_def)

lemma signed_report_fields:
  assumes "la_sign L inp seed r = Inr e"
  shows "assurance e = cr_assurance r" "evidence e = cr_evidence r" "ev_version e = 1" "ev_profile e = EVENT_PROFILE"
  using assms
  by (auto simp: la_sign_def report_sign_def event_sign_def event_new_def normalize_frame Let_def res_simps)

lemma run_evidence_unattested: "bt_get (run_evidence c) ''ra_profile'' = None"
  by (auto simp: run_evidence_def insert_opt_def bt_of_list_extend bt_get_extend bt_get_insert)

lemma unattested_rejected:
  assumes "assurance e = ''attested''" "bt_get (evidence e) ''ra_profile'' = None"
  shows "validate_attested_capture_event L http rec e \<noteq> Inr ()"
  using assms by (auto simp: validate_attested_capture_event_def res_simps event_matches_capture_ra_claim_def Let_def)

text \<open>Every post to \<open>url\<close> is answered by the service's handler for events.\<close>

definition es_sink ::
    "('m) es_lib_scheme \<Rightarrow> es_in \<Rightarrow> str \<Rightarrow> str \<Rightarrow> ('g app_state, 'n) la_sys_scheme \<Rightarrow> bool" where
  "es_sink L ei eid url S \<longleftrightarrow> (\<forall>body s. sys_post S url body s
     = (case ingest_event L ei eid \<lparr>req_method = ''POST'', req_path = [], req_headers = [], req_body = body\<rparr> s of
          (r, s') \<Rightarrow> (case r of Inr a \<Rightarrow> Inr (status a) | Inl _ \<Rightarrow> Inl ''connection closed'', s')))"

lemma unattested_post_refused:
  assumes "codec_law L" "es_sink L ei eid url S" "ev_version e = 1" "ev_profile e = EVENT_PROFILE"
    and "assurance e = ''attested''" "bt_get (evidence e) ''ra_profile'' = None"
  shows "fst (post_event L S url e s) \<noteq> Inr () \<and> snd (post_event L S url e s) = s"
proof (cases "event_to_cbor L e")
  case (Inl err)
  then show ?thesis by (simp add: post_event_def)
next
  case (Inr b)
  note rt = event_round_trip[OF assms(1) Inr assms(3,4)]
  let ?req = "\<lparr>req_method = ''POST'', req_path = [], req_headers = [], req_body = b\<rparr>"
  obtain st v where st: "ingest_admit L ei eid ?req (es_store s) = Inl (write_json L st v)" "300 \<le> st"
  proof (cases "bt_get (st_events (es_store s)) eid")
    case None
    then show ?thesis using that rt by (simp add: ingest_admit_def not_found_json_def)
  next
    case (Some rec)
    then show ?thesis using that rt unattested_rejected[OF assms(5,6), of L "ei_fetch ei" rec]
      by (cases "validate_attested_capture_event L (ei_fetch ei) rec e") (auto simp: ingest_admit_def)
  qed
  then have "\<And>a. write_json L st v = Inr a \<Longrightarrow> 300 \<le> status a" by (simp add: write_json_status)
  then show ?thesis using st(1)
    Inr assms(2) by (cases "write_json L st v :: es_error handler_error + http_response") (force simp: post_event_def es_sink_def ingest_event_def)+
qed

text \<open>
  C29: no session that \<open>llmattest tee-run\<close> reports is ever accepted. The report claims attested assurance but carries none of
  the remote-attestation evidence the event service asks of such an event, so that a sink served by the event service
  refuses it, records nothing, and the command fails whatever the wrapped program did.
\<close>

theorem tee_run_never_accepted:
  assumes "codec_law L"
    and "parse_run C d args ''tee_workspace'' ''attested'' ''full_tee'' = Inr c" and "''--assurance'' \<notin> set args"
    and "es_sink L ei eid (rc_event_sink_url c) S"
  shows "fst (run_with L C S inp ''tee_workspace'' ''attested'' ''full_tee'' args d s) \<noteq> Inr ()
     \<and> snd (run_with L C S inp ''tee_workspace'' ''attested'' ''full_tee'' args d s)
       = (if rc_command c = [] then s else snd (sys_run S (rc_command c) (run_environment c) s))"
proof -
  have as: "rc_assurance c = ''attested''" using parse_run_assurance[OF assms(2,3)] .
  have "fst (sign_and_post L S inp seed (rc_event_sink_url c) (run_report L inp c code) s') \<noteq> Inr e
      \<and> snd (sign_and_post L S inp seed (rc_event_sink_url c) (run_report L inp c code) s') = s'" for seed code s' e
  proof (cases "la_sign L inp seed (run_report L inp c code)")
    case (Inr e')
    note f = signed_report_fields[OF Inr]
    have "assurance e' = ''attested''" "bt_get (evidence e') ''ra_profile'' = None"
      using f(1,2) as run_evidence_unattested[of c] by (simp_all add: run_report_def)
    from unattested_post_refused[OF assms(1,4) f(3,4) this, of s'] Inr show ?thesis
      by (auto simp: sign_and_post_def split: prod.splits sum.splits)
  qed (simp add: sign_and_post_def)
  then show ?thesis
    using assms(2) by (auto simp: run_with_def run_command_def split: prod.splits sum.splits) (metis fst_conv snd_conv)+
qed

subsection \<open>Watching\<close>

lemma round_left:
  fixes n e :: u64
  shows "\<not> n \<le> sat_add e 1 \<Longrightarrow> unat (sat_add e 1) = Suc (unat e) \<and> Suc (unat e) < unat n"
    and "n \<le> sat_add e 1 \<Longrightarrow> unat n - unat e \<le> 1"
proof -
  have bound: "unat n < 2 ^ LENGTH(64)" by (rule unsigned_less)
  show "\<not> n \<le> sat_add e 1 \<Longrightarrow> unat (sat_add e 1) = Suc (unat e) \<and> Suc (unat e) < unat n"
    unfolding word_le_nat_alt unat_sat_add using bound by (auto simp: min_def split: if_splits)
  show "n \<le> sat_add e 1 \<Longrightarrow> unat n - unat e \<le> 1"
    unfolding word_le_nat_alt unat_sat_add using bound by (auto simp: min_def split: if_splits)
qed

text \<open>
  A watch with a number of rounds ends, and prints at most that many documents (at least one round is made); when it ends
  well it printed exactly that many. \<open>doctor\<close> ends well only if every document it printed was strictly ready.
\<close>

theorem watch_ends:
  assumes "sg_iterations a = Some n" "sg_watch a"
  shows "\<exists>out r. status_loop L C S d obs strict a i emitted out0 = Some (out0 @ out, r)
     \<and> length out \<le> max 1 (unat n - unat emitted)
     \<and> (r = Inr () \<longrightarrow> length out = max 1 (unat n - unat emitted)
          \<and> (strict \<longrightarrow> (\<forall>doc\<in>set out. opt_or (Option.bind (jget doc ''strict_ready'') as_bool) False)))"
proof (induction "unat n - unat emitted" arbitrary: i emitted out0 rule: less_induct)
  case less
  let ?step = "rbind (status_for_path L C S d (obs i) (sg_config_path a)) (participant_status_document L S (obs i))"
  show ?case
  proof (cases ?step)
    case (Inl e)
    then show ?thesis by (subst status_loop.simps) (auto intro!: exI[of _ "[]"])
  next
    case (Inr doc)
    let ?ready = "opt_or (Option.bind (jget doc ''strict_ready'') as_bool) False"
    consider (bad) "strict" "\<not> ?ready" | (last) "strict \<longrightarrow> ?ready" "n \<le> sat_add emitted 1"
      | (more) "strict \<longrightarrow> ?ready" "\<not> n \<le> sat_add emitted 1" by blast
    then show ?thesis
    proof cases
      case bad
      then show ?thesis using Inr by (subst status_loop.simps) (auto intro!: exI[of _ "[doc]"])
    next
      case last
      then have "unat n - unat emitted \<le> 1" using round_left(2) by blast
      then show ?thesis using Inr last assms by (subst status_loop.simps) (auto intro!: exI[of _ "[doc]"])
    next
      case more
      then have e: "unat (sat_add emitted 1) = Suc (unat emitted)" "Suc (unat emitted) < unat n"
        using round_left(1) by blast+
      then have "unat n - unat (sat_add emitted 1) < unat n - unat emitted" by simp
      from less[OF this, of "Suc i" "out0 @ [doc]"] obtain out r where ih: "status_loop L C S d obs strict a (Suc i) (sat_add emitted 1) (out0 @ [doc]) = Some ((out0 @ [doc]) @ out, r)"
        "length out \<le> max 1 (unat n - Suc (unat emitted))"
        "r = Inr () \<longrightarrow> length out = max 1 (unat n - Suc (unat emitted))
          \<and> (strict \<longrightarrow> (\<forall>doc\<in>set out. opt_or (Option.bind (jget doc ''strict_ready'') as_bool) False))"
        unfolding e(1) by blast
      show ?thesis using Inr more assms ih e
        by (subst status_loop.simps) (auto intro!: exI[of _ "doc # out"])
    qed
  qed
qed

subsection \<open>A reference instance\<close>

definition ref_participant :: participant_config where
  "ref_participant = \<lparr>pc_version = 1, pc_event_id = ''ev'', pc_issuer = ''i'', pc_team_id = ''t'', pc_team_name = ''T'', pc_team_api_key = ''k'',
     pc_gateway_base_url = ''https://g'', pc_event_sink_url = ''https://es'', pc_bootstrap_url = ''https://b'',
     pc_gateway_manifest_url = ''https://m'', pc_cvm_url = ''https://c'', pc_cvm_json_url = ''https://c.json'', pc_cvm_embed_url = [],
     pc_cvm_image_url = [], pc_cvm_proof_url = [], pc_capture_methods = []\<rparr>"

definition ref_codec :: config_codec where
  "ref_codec = \<lparr>ser_config = (\<lambda>_. Some ''cfg''), de_config = (\<lambda>b. if b = ''cfg'' then Some ref_participant else None)\<rparr>"

definition ref_disk :: fs where
  "ref_disk = ref_fs\<lparr>files := [(''/h/c.json'', ''cfg'')]\<rparr>"

lemma ref_config_loads: "config_load ref_codec ref_disk ''/h/c.json'' = Inr ref_participant"
  by (simp add: config_load_def ref_codec_def ref_disk_def ref_fs_def fs_read_def)

definition ref_la_in :: la_in where
  "ref_la_in = \<lparr>li_started = 5, li_completed = 7, li_now = 5, li_random = ''r'', li_key = ''sk''\<rparr>"

text \<open>The sink is the event service; it has no event yet. Its codec knows the event of one session, unsigned and signed.\<close>

definition ref_run :: run_config where
  "ref_run = (from_participant ref_participant ''tee_workspace'' ''attested'' ''full_tee'')\<lparr>rc_command := [''agent'']\<rparr>"

definition ref_session :: contest_event where
  "ref_session = (let r = report_normalize 5 (run_report ref_es ref_la_in ref_run (Some 0)) in
     event_new (random_id ref_es ''r'' ''evt'') (cr_kind r) (cr_hackathon_id r) (cr_team_id r) (cr_gateway_id r) (cr_manifest_hash r)
       (cr_capture_method r) (cr_assurance r) (cr_event_index r) (cr_previous_team_event_hash r) (cr_started_at_ms r)
       (cr_completed_at_ms r) (cr_actor r) (cr_subject r) (cr_metrics r) (cr_hashes r) (cr_evidence r))"

definition ref_session_signed :: contest_event where
  "ref_session_signed = ref_session\<lparr>signature := b64url_encode ref_lib (ed_sign ref_lib ''sk'' ''unsigned'')\<rparr>"

definition ref_la :: es_lib where
  "ref_la = ref_es\<lparr>
     ser_manifest := (\<lambda>_. Inl ''no''),
     ser_event := (\<lambda>e. if e = ref_session then Inr ''unsigned'' else if e = ref_session_signed then Inr ''signed'' else Inl ''no''),
     de_event := (\<lambda>b. if b = ''unsigned'' then Inr ref_session else if b = ''signed'' then Inr ref_session_signed else Inl ''no'')\<rparr>"

lemma ref_la_codec: "codec_law ref_la"
  by (auto simp: codec_law_def ref_la_def split: if_splits)

definition ref_sys_la :: "nat app_state la_sys" where
  "ref_sys_la = \<lparr>sys_var = (\<lambda>_. None), sys_exists = (\<lambda>_. False), sys_client = True, sys_cwd = Some ''/w'', sys_stdin = None,
     sys_get = (\<lambda>_ _. Some (200, Some ''{}'')),
     sys_post = (\<lambda>url body s. case ingest_event ref_la ref_es_in ''ev'' \<lparr>req_method = ''POST'', req_path = [], req_headers = [], req_body = body\<rparr> s of
        (r, s') \<Rightarrow> (case r of Inr a \<Rightarrow> Inr (status a) | Inl _ \<Rightarrow> Inl ''connection closed'', s')),
     sys_spawn = (\<lambda>_ s. (Some 42, s)), sys_polls = (\<lambda>_. [(Inr False, True)]), sys_wait = (\<lambda>_. Inr True),
     sys_run = (\<lambda>_ _ s. (Inr (Some 0), s))\<rparr>"

lemma ref_sink: "es_sink ref_la ref_es_in ''ev'' url ref_sys_la"
  by (simp add: es_sink_def ref_sys_la_def)

lemma ref_parse_run:
  "parse_run ref_codec ref_disk [''--config'', ''/h/c.json'', ''--'', ''agent''] ''tee_workspace'' ''attested'' ''full_tee'' = Inr ref_run"
  by (simp add: parse_run_def ref_config_loads set_run_flag_def ref_run_def from_participant_def apply_participant_config_to_run_def
      ref_participant_def)

lemma ref_session_signs: "\<exists>e. la_sign ref_la ref_la_in None (run_report ref_la ref_la_in ref_run (Some 0)) = Inr e \<and> event_to_cbor ref_la e = Inr ''signed''"
proof -
  have h: "sha256_prefixed ref_la = sha256_prefixed ref_es" "random_id ref_la = random_id ref_es"
    "b64url_encode ref_la = b64url_encode ref_lib" "ed_sign ref_la = ed_sign ref_lib"
    by (rule ext, simp add: sha256_prefixed_def random_id_def ref_la_def ref_es_def llm_lib.extend_def es_lib.fields_def ref_llm_def lib.extend_def llm_lib.fields_def)+
  then have r: "run_report ref_la ref_la_in ref_run (Some 0) = run_report ref_es ref_la_in ref_run (Some 0)"
    by (simp add: run_report_def)
  have "ref_session\<lparr>signature := []\<rparr> = ref_session" by (simp add: ref_session_def event_new_def Let_def)
  moreover have "ref_session_signed \<noteq> ref_session"
  proof
    assume "ref_session_signed = ref_session"
    then have "signature ref_session_signed = signature ref_session" by simp
    then show False
      by (simp add: ref_session_signed_def ref_session_def event_new_def Let_def) (simp add: ref_lib_def pad_def)
  qed
  ultimately have s: "event_sign ref_la ''sk'' ref_session = Inr ref_session_signed" "event_to_cbor ref_la ref_session_signed = Inr ''signed''"
    by (simp_all add: event_sign_def signing_bytes_def event_to_cbor_def h ref_session_signed_def[symmetric]) (simp_all add: ref_la_def ref_session_signed_def)
  have "li_now ref_la_in = 5" "li_random ref_la_in = ''r''" "signing_key_from_seed ref_la (li_key ref_la_in) None = ''sk''"
    by (simp_all add: ref_la_in_def signing_key_from_seed_def)
  then have "la_sign ref_la ref_la_in None (run_report ref_la ref_la_in ref_run (Some 0)) = map_err LaSign (event_sign ref_la ''sk'' ref_session)"
    by (simp add: la_sign_def report_sign_def r h ref_session_def Let_def)
  then show ?thesis using s by simp
qed

text \<open>Witnesses.\<close>

theorem tee_run_never_accepted_witness:
  "fst (run_with ref_la ref_codec ref_sys_la ref_la_in ''tee_workspace'' ''attested'' ''full_tee''
       [''--config'', ''/h/c.json'', ''--'', ''agent''] ref_disk ref_es_state) \<noteq> Inr ()
   \<and> (\<exists>e. la_sign ref_la ref_la_in None (run_report ref_la ref_la_in ref_run (Some 0)) = Inr e \<and> event_to_cbor ref_la e = Inr ''signed'')"
  using tee_run_never_accepted[OF ref_la_codec ref_parse_run _ ref_sink, of ref_la_in ref_es_state] ref_session_signs by simp

theorem started_daemon_is_the_announced_one_witness:
  "\<exists>c. cd_parse_args ref_la ref_codec ref_disk (daemon_args ref_sys_la ''/h/c.json'' (Some ''seed'') ''/h'') = Inr c
     \<and> dc_event_log_path c = ''/h/capture-events.cborl'' \<and> dc_signing_seed c = Some ''seed'' \<and> dc_event_sink_url c = ''https://es''"
proof -
  have "daemon_listen ref_sys_la \<noteq> ''--config''" "pc_event_sink_url ref_participant = ''https://es''"
    "lc_events_path (daemon_paths ref_sys_la ''/h'') = ''/h/capture-events.cborl''"
    by (simp_all add: daemon_listen_def ref_sys_la_def opt_or_def ref_participant_def daemon_paths_def path_join_def starts_with_def)
  then show ?thesis
    using started_daemon_is_the_announced_one[OF ref_config_loads, of ref_sys_la ref_la "Some ''seed''" "''/h''"] by fastforce
qed

end
