(* ===== verification/Spec2Isabelle.thy ===== *)
theory Spec2Isabelle
  imports Serving Tool_Agent_Safety Capture_Path Event_Documents Registry Enclave_Safety Llmattest_Safety
begin

text \<open>
  Verification of the Rust workspace \<open>cvm-agent\<close>: attested builds and runtimes, a contest protocol for LLM usage whose
  events are signed and attested, the services that capture and show them, and a gate that sends mail against one-time tokens.

  \<^bold>\<open>The program.\<close> \<open>cvm\<close> (\<open>src/main.rs\<close>) builds a source tree inside a TEE, has the hardware quote a token that names
  source, artifact and identity, boots from such a token with a chained one, and checks what others built. An LLM gateway
  (\<open>src/bin/llm-gateway.rs\<close>) that runs under such an identity proxies model calls of teams and posts a signed event per call to an event service
  (\<open>src/bin/llm-event-service.rs\<close>), which keeps events, teams and captures and renders them as documents and pages. Participants
  report through \<open>llmattest\<close> (\<open>src/bin/llmattest.rs\<close>) and its capture daemon (\<open>src/bin/llm-capture-daemon.rs\<close>). The services share the protocol
  (\<open>src/llm_attested.rs\<close>, \<open>src/llm_capture.rs\<close>), the HTTP layer (\<open>src/http_service.rs\<close>) and the rate limiter
  (\<open>src/llm_attested_net.rs\<close>). The tool gate (\<open>src/bin/tool-gate.rs\<close>, \<open>src/tool_gate/\<close>) admits mail by tokens that an agent
  mints with \<open>cvm tool\<close> (\<open>src/cmd_tool.rs\<close>). A registry (\<open>src/registry.rs\<close>) says which identities are approved.

  \<^bold>\<open>Library.\<close>
  \<^item> \<open>Prelude\<close>: results (\<open>rbind\<close>, \<open>ensure\<close>, \<open>map_err\<close>; collection \<open>res_simps\<close>), saturating words, Rust's string functions on bytes
    (\<open>str\<close> is UTF-8 bytes; collection \<open>str_simps\<close>), parsing and printing of integers.
  \<^item> \<open>Containers\<close>: \<open>BTreeMap\<close> as an ordered association list (locale \<open>ordered_map\<close>, interpreted as \<open>bt\<close>), stable sorting by a comparator
    (locale \<open>total_cmp\<close>, interpreted for both scoreboards).
  \<^item> \<open>External\<close>: JSON values, attestation tokens, files, and the record \<open>lib\<close> of third-party functions with their laws and a reference instance.
  \<^item> \<open>Text_Codec\<close>, \<open>Line_Log\<close>: UTF-8, percent and HTML coding; base64 lines of a log file.

  \<^bold>\<open>Components.\<close>
  \<^item> \<open>Llm_Attested_Net\<close>: \<open>ServiceRateLimiter\<close> with buckets, backoff, pruning and persistence. A refusal outlives any traffic and a restart; the
    backoff schedule stays within its bounds in 64-bit arithmetic.
  \<^item> \<open>Http_Service\<close>: requests, responses, CORS and the limited handler; locale \<open>rate_limited_service\<close>, interpreted for the gateway, the
    event service and the daemon, carries what every limited service guarantees.
  \<^item> \<open>Http_Server\<close>: the server around the handlers (\<open>serve_hyper\<close>, \<open>serve_connection\<close>, TLS set-up) as a step relation \<open>serves\<close> over the accept loop,
    the connection permits, the connections with their handshakes and the handlers in progress. A handler is a sequence of sections that
    hold a lock and of waits for answers from outside, which may never arrive; sections of different connections alternate freely. Permits
    bound the connections in every reachable state, a client CA guards the handler, and silent peers can stop the server. Locale \<open>sectioned_service\<close> lifts what each section keeps to every reachable state; it is interpreted for the
    event service (twice) and the gateway.
  \<^item> \<open>Llm_Attested\<close>: manifests, events, signatures, the CVM receipt chain, capture claims, scoreboards. A receipt verifies exactly for a good chain;
    a claim is only built from a verified receipt the manifest pins; signed events verify; the scoreboard is the sorted sums.
  \<^item> \<open>Llm_Capture\<close>: capture reports and the participant's configuration.
  \<^item> \<open>Gateway\<close>, \<open>Gateway_Log\<close>: the gateway's requests, usage accounting and events, and over any run of requests the log as one
    signed hash chain per team. \<open>Gateway_Concurrency\<close>: the same for a gateway that serves interleaved requests.
  \<^item> \<open>Event_Service\<close>, \<open>Event_Pages\<close>, \<open>Event_Routes\<close>: store, documents, captures with validation, pages and images, routes, start-up.
    \<open>Event_Service_Safety\<close>: what was answered is recorded, durable, read back and confined to the service's files, and attested captures are verified.
    \<open>Event_Concurrency\<close>: captures stay recorded, and the store keeps its shape, when requests interleave and peers go away in the middle.
    \<open>Event_Documents\<close>: the documents agree with each other and with the log, and pages keep their templates' markup.
  \<^item> \<open>Capture_Path\<close>: gateway and event service together: what an attested gateway posts is accepted.
  \<^item> \<open>Capture_Daemon\<close>: local reports, the pending queue and its replay, with requests served in the middle of a replay (\<open>cd_exec\<close>): what was accepted
    between replays is kept, what is queued during one can be lost. \<open>Daemon_Replay\<close>: the loop that replays it, what it delivers and what blocks it.
  \<^item> \<open>Serving\<close>: the configurations the four services hand to the server, and the tool gate from its flags to its connections.
  \<^item> \<open>Llmattest\<close>, \<open>Llmattest_Safety\<close>: the participant's command with the daemon it starts and the event service as its sink.
  \<^item> \<open>Tool_Gate\<close>, \<open>Tool_Gate_Safety\<close>: the gate as handlers and as an interleaving of the phases between its awaits; one mail per capability is an
    invariant of every reachable state, and the sequential handler is a run of that relation. \<open>Tool_Agent\<close>, \<open>Tool_Agent_Safety\<close>: minting, and that a minted
    token passes the gate it was minted through.
  \<^item> \<open>Registry\<close>: loading, sidecars, signatures and identities, glob matching.
  \<^item> \<open>Build_Tree\<close>, \<open>Attested_Build\<close>, \<open>Attested_Build_Safety\<close>: file trees and the read-only copy; \<open>build\<close>, \<open>run\<close>, \<open>enclave\<close>, \<open>check\<close>,
    \<open>verify\<close>, \<open>merge\<close>, \<open>proxy\<close>; \<open>Enclave_Safety\<close>: what a one-shot enclave serves passes \<open>check\<close>. Locale \<open>chain_verifier\<close> is the walk over a chain of stages, interpreted for \<open>cvm check\<close> and for the receipt verifier
    of the protocol, which gives exactly where they differ.

  \<^bold>\<open>State and effects.\<close> A handler takes and returns the state of its service, a record of the source's fields extended with the disk; what a
  handler reads from the clock, random bytes and the network is an input record. A remote party whose answers depend on earlier calls
  is a world that calls thread (tool gate, agent, \<open>llmattest\<close>). Errors are values of a datatype per component, one constructor per exit of the
  source. Each handler exists as one function, and where the source awaits between two locks also in sections: the tool gate's phases,
  the daemon's replay (\<open>replay_around\<close>), and the event service's and the gateway's tasks, whose uninterrupted runs are the functions
  (\<open>run_es_task\<close>, \<open>run_gateway_handler\<close>). A run of the server is a list of events: what peers do,
  which section runs next, and which awaited answer arrives; a wait whose answer never arrives is a run without that event.

  \<^bold>\<open>Parameters and laws.\<close> Third-party code is a field of \<open>lib\<close> or of a record that extends it. Properties that rely on it say so by name:
  decoding inverts encoding (\<open>hex_law\<close>, \<open>b64_law\<close>, \<open>codec_law\<close>, \<open>store_law\<close>), signatures verify (\<open>sig_law\<close>), a redeemer accepts a nonce once
  (\<open>redeemer_law\<close>), tokens and challenges survive their headers and verify under their issuer's key (\<open>pass_law\<close>), attestation tokens, certificates and
  hardware behave as documented (\<open>previous_law\<close>, \<open>token_law\<close>, \<open>cert_law\<close>, \<open>genuine_tee\<close>). Every property with a hypothesis has a witness on a concrete instance.

  \<^bold>\<open>Bounds and loops.\<close> No definition uses fuel. Loops are structural recursion or have a measure; \<open>check_walk\<close> ends by its bound of 16 stages and
  \<open>verify_eat_chain\<close> by its bound of 17. \<open>status_loop\<close>, which may run forever, is a partial function whose value is \<open>None\<close> then; \<open>watch_ends\<close> shows when it is not.
  Counters keep their width: 64-bit sequence numbers wrap, rounds and counts saturate, token sums wrap as \<open>i64\<close>.

  \<^bold>\<open>Not modelled.\<close> The crates behind \<open>net\<close>, \<open>tee\<close>, \<open>quote\<close>, \<open>eat\<close> and \<open>value_x\<close> (re-exports of an external crate) with the vsock servers, certificate
  provisioning and the parent's byte bridge; the inside of Hyper, Tokio and Rustls (a handshake is a predicate, HTTP/1 framing is not there);
  lengths of timeouts and pauses; log lines and usage texts; the killing of the daemon when \<open>llmattest\<close> ends; and the tests. \<open>make_attested_cert\<close> stands for building and installing the certificate, \<open>ci_workspace\<close> for creating the
  temporary directories of a build. The \<open>nitro\<close> feature is taken as enabled, which is its default.
\<close>

end
